(* ===== verification/GoStrings.thy ===== *)
theory GoStrings
  imports GoUnicode
begin

text \<open>
  The functions of Go's \<open>strings\<close> and \<open>strconv\<close> packages that the code calls, on byte strings,
  with the facts about them that the components share.
\<close>

subsection \<open>Prefixes, suffixes, substrings\<close>

definition HasPrefix :: "string \<Rightarrow> string \<Rightarrow> bool" where
  [go_defs]: "HasPrefix s p = prefix p s"

definition HasSuffix :: "string \<Rightarrow> string \<Rightarrow> bool" where
  [go_defs]: "HasSuffix s p = suffix p s"

fun Contains :: "string \<Rightarrow> string \<Rightarrow> bool" where
  "Contains [] sub = (sub = [])"
| "Contains (c # s) sub = (prefix sub (c # s) \<or> Contains s sub)"

definition TrimPrefix :: "string \<Rightarrow> string \<Rightarrow> string" where
  [go_defs]: "TrimPrefix s p = (if prefix p s then drop (length p) s else s)"

definition TrimSuffix :: "string \<Rightarrow> string \<Rightarrow> string" where
  [go_defs]: "TrimSuffix s p = (if suffix p s then take (length s - length p) s else s)"

lemma Contains_append: "Contains (xs @ sub @ ys) sub"
proof (induction xs)
  case Nil
  have "prefix sub (sub @ ys)" by simp
  then show ?case by (cases "sub @ ys") (auto simp del: prefix_append)
qed simp

lemma Contains_iff: "Contains s sub \<longleftrightarrow> (\<exists>xs ys. s = xs @ sub @ ys)"
proof
  show "Contains s sub \<Longrightarrow> \<exists>xs ys. s = xs @ sub @ ys"
  proof (induction s)
    case (Cons c s)
    then consider "prefix sub (c # s)" | "Contains s sub" by auto
    then show ?case
    proof cases
      case 1
      then show ?thesis by (metis append_Nil prefixE)
    next
      case 2
      with Cons.IH show ?thesis by (metis append_Cons)
    qed
  qed simp
qed (auto simp: Contains_append)

subsection \<open>Splitting, joining, replacing\<close>

text \<open>\<open>strings.Split\<close> with a separator of one byte.\<close>

fun Split :: "string \<Rightarrow> char \<Rightarrow> string list" where
  "Split [] c = [[]]"
| "Split (x # xs) c =
     (if x = c then [] # Split xs c
      else case Split xs c of [] \<Rightarrow> [[x]] | y # ys \<Rightarrow> (x # y) # ys)"

text \<open>\<open>strings.SplitN(s, c, 2)\<close>: the two sides of the first \<open>c\<close>, or \<open>s\<close> alone.\<close>

definition SplitN2 :: "string \<Rightarrow> char \<Rightarrow> string list" where
  [go_defs]: "SplitN2 s c =
     (if c \<in> set s then [takeWhile (\<lambda>x. x \<noteq> c) s, tl (dropWhile (\<lambda>x. x \<noteq> c) s)] else [s])"

fun Join :: "string list \<Rightarrow> string \<Rightarrow> string" where
  "Join [] sep = []"
| "Join [s] sep = s"
| "Join (s # t # ss) sep = s @ sep @ Join (t # ss) sep"

text \<open>\<open>strings.ReplaceAll\<close> for a non-empty \<open>old\<close> (the code never passes an empty one).\<close>

function ReplaceAll :: "string \<Rightarrow> string \<Rightarrow> string \<Rightarrow> string" where
  "ReplaceAll [] old new = []"
| "ReplaceAll (c # s) old new =
     (if old \<noteq> [] \<and> prefix old (c # s) then new @ ReplaceAll (drop (length old) (c # s)) old new
      else c # ReplaceAll s old new)"
  by pat_completeness auto
termination
  by (relation "measure (\<lambda>(s, _, _). length s)") auto

lemma Split_nonempty [simp]: "Split s c \<noteq> []"
  by (induction s) (auto split: list.splits)

lemma Split_no_sep: "x \<in> set (Split s c) \<Longrightarrow> c \<notin> set x"
  by (induction s arbitrary: x) (auto split: if_splits list.splits)

lemma Split_single: "c \<notin> set s \<Longrightarrow> Split s c = [s]"
  by (induction s) auto

lemma Split_append_sep: "c \<notin> set x \<Longrightarrow> Split (x @ c # s) c = x # Split s c"
  by (induction x) auto

lemma Split_set: "x \<in> set (Split s c) \<Longrightarrow> set x \<subseteq> set s"
proof (induction s arbitrary: x)
  case (Cons a s)
  obtain y ys where y: "Split s c = y # ys" by (cases "Split s c") auto
  with Cons.IH have "set y \<subseteq> set s" and "\<And>z. z \<in> set ys \<Longrightarrow> set z \<subseteq> set s" by auto
  with Cons.prems y show ?case by (fastforce split: if_splits)
qed simp

lemma Join_Cons: "ss \<noteq> [] \<Longrightarrow> Join (s # ss) sep = s @ sep @ Join ss sep"
  by (cases ss) auto

lemma Join_append:
  "ss \<noteq> [] \<Longrightarrow> ts \<noteq> [] \<Longrightarrow> Join (ss @ ts) sep = Join ss sep @ sep @ Join ts sep"
proof (induction ss)
  case (Cons s ss)
  then show ?case by (cases "ss = []") (simp_all add: Join_Cons)
qed simp

lemma Split_Join:
  "ss \<noteq> [] \<Longrightarrow> (\<And>s. s \<in> set ss \<Longrightarrow> c \<notin> set s) \<Longrightarrow> Split (Join ss [c]) c = ss"
proof (induction ss)
  case (Cons s ss)
  then show ?case
    by (cases "ss = []") (auto simp: Split_single Join_Cons Split_append_sep)
qed simp

lemma Join_Split: "Join (Split s c) [c] = s"
proof (induction s)
  case (Cons x s)
  obtain y ys where y: "Split s c = y # ys" by (cases "Split s c") auto
  with Cons show ?case by (cases ys) (auto simp: Join_Cons)
qed simp

lemma Split_append_split: "Split (x @ c # s) c = Split x c @ Split s c"
proof (induction x)
  case (Cons a x)
  obtain y ys where "Split x c = y # ys" by (cases "Split x c") auto
  with Cons show ?case by simp
qed simp

lemma ReplaceAll_id: "\<not> Contains s old \<Longrightarrow> ReplaceAll s old new = s"
  by (induction s old new rule: ReplaceAll.induct) auto

lemma ReplaceAll_char: "ReplaceAll s [a] [b] = map (\<lambda>c. if c = a then b else c) s"
  by (induction s) auto

lemma ReplaceAll_removes: "a \<notin> set new \<Longrightarrow> a \<notin> set (ReplaceAll s [a] new)"
  by (induction s) auto

lemma set_ReplaceAll: "set (ReplaceAll s old new) \<subseteq> set s \<union> set new"
proof (induction s old new rule: ReplaceAll.induct)
  case (2 c s old new)
  show ?case
  proof (cases "old \<noteq> [] \<and> prefix old (c # s)")
    case True
    have "set (drop (length old) (c # s)) \<subseteq> set (c # s)" by (rule set_drop_subset)
    with 2 True show ?thesis by auto
  next
    case False
    with 2 show ?thesis by auto
  qed
qed simp

subsection \<open>White space\<close>

text \<open>
  The UTF-8 encodings of the runes \<open>unicode.IsSpace\<close> accepts.  \<open>strings.TrimSpace\<close> drops them from
  the left end, then from the right end.
\<close>

definition spaces :: "string list" where
  "spaces =
    [[CHR 0x09], [CHR 0x0A], [CHR 0x0B], [CHR 0x0C], [CHR 0x0D], [CHR 0x20],
     [CHR 0xC2, CHR 0x85], [CHR 0xC2, CHR 0xA0], [CHR 0xE1, CHR 0x9A, CHR 0x80],
     [CHR 0xE2, CHR 0x80, CHR 0x80], [CHR 0xE2, CHR 0x80, CHR 0x81],
     [CHR 0xE2, CHR 0x80, CHR 0x82], [CHR 0xE2, CHR 0x80, CHR 0x83],
     [CHR 0xE2, CHR 0x80, CHR 0x84], [CHR 0xE2, CHR 0x80, CHR 0x85],
     [CHR 0xE2, CHR 0x80, CHR 0x86], [CHR 0xE2, CHR 0x80, CHR 0x87],
     [CHR 0xE2, CHR 0x80, CHR 0x88], [CHR 0xE2, CHR 0x80, CHR 0x89],
     [CHR 0xE2, CHR 0x80, CHR 0x8A], [CHR 0xE2, CHR 0x80, CHR 0xA8],
     [CHR 0xE2, CHR 0x80, CHR 0xA9], [CHR 0xE2, CHR 0x80, CHR 0xAF],
     [CHR 0xE2, CHR 0x81, CHR 0x9F], [CHR 0xE3, CHR 0x80, CHR 0x80]]"

text \<open>Drop the given patterns from the left end as long as one of them is there.\<close>

function drop_any :: "string list \<Rightarrow> string \<Rightarrow> string" where
  "drop_any ps s =
     (case find (\<lambda>p. p \<noteq> [] \<and> prefix p s) ps of
        None \<Rightarrow> s
      | Some p \<Rightarrow> drop_any ps (drop (length p) s))"
  by pat_completeness auto
termination
  by (relation "measure (\<lambda>(_, s). length s)") (auto simp: find_Some_iff prefix_def)

declare drop_any.simps [simp del]

definition TrimSpace :: "string \<Rightarrow> string" where
  "TrimSpace s = rev (drop_any (map rev spaces) (rev (drop_any spaces s)))"

lemma drop_any_suffix: "suffix (drop_any ps s) s"
proof (induction ps s rule: drop_any.induct)
  case (1 ps s)
  show ?case
  proof (cases "find (\<lambda>p. p \<noteq> [] \<and> prefix p s) ps")
    case None
    then show ?thesis by (subst drop_any.simps) simp
  next
    case (Some p)
    with 1 have "suffix (drop_any ps (drop (length p) s)) (drop (length p) s)" by blast
    with Some show ?thesis
      by (subst drop_any.simps) (auto intro: suffix_order.trans suffix_drop)
  qed
qed

lemma drop_any_stop: "(\<And>p. p \<in> set ps \<Longrightarrow> p \<noteq> [] \<Longrightarrow> \<not> prefix p s) \<Longrightarrow> drop_any ps s = s"
  by (subst drop_any.simps) (auto simp: find_None_iff split: option.splits dest!: find_Some_iff [THEN iffD1])

lemma drop_any_done: "p \<in> set ps \<Longrightarrow> p \<noteq> [] \<Longrightarrow> \<not> prefix p (drop_any ps s)"
proof (induction ps s rule: drop_any.induct)
  case (1 ps s)
  show ?case
  proof (cases "find (\<lambda>p. p \<noteq> [] \<and> prefix p s) ps")
    case None
    with "1.prems" show ?thesis
      by (simp add: drop_any.simps [of ps s]) (auto simp: find_None_iff)
  next
    case (Some q)
    with 1 have "\<not> prefix p (drop_any ps (drop (length q) s))" by blast
    with Some show ?thesis by (subst drop_any.simps) simp
  qed
qed

lemma drop_any_idem [simp]: "drop_any ps (drop_any ps s) = drop_any ps s"
  by (rule drop_any_stop) (simp add: drop_any_done)

lemma set_TrimSpace: "set (TrimSpace s) \<subseteq> set s"
proof -
  have "set (TrimSpace s) \<subseteq> set (drop_any spaces s)"
    using set_mono_suffix [OF drop_any_suffix [of "map rev spaces" "rev (drop_any spaces s)"]]
    by (simp add: TrimSpace_def)
  also have "\<dots> \<subseteq> set s" by (rule set_mono_suffix [OF drop_any_suffix])
  finally show ?thesis .
qed

lemma TrimSpace_prefix: "prefix (TrimSpace s) (drop_any spaces s)"
  using drop_any_suffix [of "map rev spaces" "rev (drop_any spaces s)"]
  by (simp add: TrimSpace_def suffix_to_prefix)

lemma TrimSpace_idem [simp]: "TrimSpace (TrimSpace s) = TrimSpace s"
proof -
  have "drop_any spaces (TrimSpace s) = TrimSpace s"
  proof (rule drop_any_stop)
    fix p assume "p \<in> set spaces" "p \<noteq> []"
    then have "\<not> prefix p (drop_any spaces s)" by (rule drop_any_done)
    then show "\<not> prefix p (TrimSpace s)"
      using TrimSpace_prefix prefix_order.trans by blast
  qed
  then show ?thesis by (simp add: TrimSpace_def)
qed

text \<open>A string of bytes that are neither white space nor part of such an encoding stays as it is.\<close>

definition solid :: "char \<Rightarrow> bool" where
  "solid c \<longleftrightarrow> 33 \<le> byte c \<and> byte c < 128"

lemma solid_spaces: "p \<in> set spaces \<Longrightarrow> c \<in> set p \<Longrightarrow> \<not> solid c"
  by (auto simp: spaces_def solid_def byte_def)

lemma spaces_nonempty: "p \<in> set spaces \<Longrightarrow> p \<noteq> []"
  by (auto simp: spaces_def)

lemma TrimSpace_solid: "(\<And>c. c \<in> set s \<Longrightarrow> solid c) \<Longrightarrow> TrimSpace s = s"
proof -
  assume s: "\<And>c. c \<in> set s \<Longrightarrow> solid c"
  have none: "\<not> prefix p s" if "p \<in> set spaces" for p
  proof
    assume "prefix p s"
    obtain c where "c \<in> set p" using spaces_nonempty [OF \<open>p \<in> set spaces\<close>] by (cases p) auto
    with \<open>prefix p s\<close> have "c \<in> set s" using set_mono_prefix by blast
    with s solid_spaces [OF that \<open>c \<in> set p\<close>] show False by blast
  qed
  have none': "\<not> prefix (rev p) (rev s)" if "p \<in> set spaces" for p
  proof
    assume "prefix (rev p) (rev s)"
    obtain c where "c \<in> set p" using spaces_nonempty [OF \<open>p \<in> set spaces\<close>] by (cases p) auto
    with \<open>prefix (rev p) (rev s)\<close> have "c \<in> set s" using set_mono_prefix by fastforce
    with s solid_spaces [OF that \<open>c \<in> set p\<close>] show False by blast
  qed
  have l: "drop_any spaces s = s" by (rule drop_any_stop) (rule none)
  have r: "drop_any (map rev spaces) (rev s) = rev s" by (rule drop_any_stop) (auto simp: none')
  show ?thesis by (simp add: TrimSpace_def l r)
qed

text \<open>\<open>strings.Trim(s, cutset)\<close> for a cutset of one ASCII byte.\<close>

text \<open>\<open>strings.Fields\<close>: the maximal runs without white space.\<close>

definition space_at :: "string \<Rightarrow> bool" where
  "space_at s \<longleftrightarrow> (\<exists>p\<in>set spaces. prefix p s)"

fun word_at :: "string \<Rightarrow> string \<times> string" where
  "word_at [] = ([], [])"
| "word_at (c # s) = (if space_at (c # s) then ([], c # s) else (c # fst (word_at s), snd (word_at s)))"

lemma length_word_at: "length (snd (word_at s)) \<le> length s"
  by (induction s) auto

lemma length_drop_any: "length (drop_any ps s) \<le> length s"
  using drop_any_suffix suffix_length_le by blast

function Fields :: "string \<Rightarrow> string list" where
  "Fields s =
     (case drop_any spaces s of
        [] \<Rightarrow> []
      | c # t \<Rightarrow> (c # fst (word_at t)) # Fields (snd (word_at t)))"
  by pat_completeness auto
termination
proof (relation "measure length")
  fix s t :: string and c
  assume "drop_any spaces s = c # t"
  then have "length t < length s" using length_drop_any [of spaces s] by simp
  then show "(snd (word_at t), s) \<in> measure length"
    using length_word_at [of t] by simp
qed simp

declare Fields.simps [simp del]

definition TrimChar :: "string \<Rightarrow> char \<Rightarrow> string" where
  [go_defs]: "TrimChar s c = rev (dropWhile (\<lambda>x. x = c) (rev (dropWhile (\<lambda>x. x = c) s)))"

subsection \<open>Letter case\<close>

definition is_upper :: "char \<Rightarrow> bool" where
  "is_upper c \<longleftrightarrow> 65 \<le> byte c \<and> byte c \<le> 90"

text \<open>Adding 32 to an upper-case ASCII letter sets bit 5.\<close>

definition lower_byte :: "char \<Rightarrow> char" where
  "lower_byte c =
     (if is_upper c then (case c of Char b0 b1 b2 b3 b4 _ b6 b7 \<Rightarrow> Char b0 b1 b2 b3 b4 True b6 b7)
      else c)"

lemma byte_lower_byte: "byte (lower_byte c) = (if is_upper c then byte c + 32 else byte c)"
  by (cases c) (auto simp: lower_byte_def is_upper_def byte_def split: if_splits)

definition ToLower :: "string \<Rightarrow> string" where
  "ToLower s =
     (if (\<forall>c\<in>set s. byte c < 128) then map lower_byte s
      else map char_of (concat (map (encode_rune \<circ> lower_rune) (runes (map byte s)))))"

text \<open>
  \<open>strings.EqualFold\<close> against an ASCII constant whose letters have no fold partner outside ASCII
  (the code compares with \<open>bearer\<close> and \<open>n/a\<close> only).
\<close>

definition EqualFold :: "string \<Rightarrow> string \<Rightarrow> bool" where
  [go_defs]: "EqualFold s t = (map lower_byte s = map lower_byte t)"

lemma lower_byte_fix: "\<not> is_upper c \<Longrightarrow> lower_byte c = c"
  by (simp add: lower_byte_def)

lemma lower_byte_not_upper: "\<not> is_upper (lower_byte c)"
  by (auto simp: is_upper_def byte_lower_byte)

lemma ToLower_fix:
  "(\<And>c. c \<in> set s \<Longrightarrow> byte c < 128 \<and> \<not> is_upper c) \<Longrightarrow> ToLower s = s"
  by (auto simp: ToLower_def lower_byte_fix intro!: map_idI)

lemma ToLower_not_upper: "c \<in> set (ToLower s) \<Longrightarrow> \<not> is_upper c"
proof (cases "\<forall>c\<in>set s. byte c < 128")
  case True
  then show "c \<in> set (ToLower s) \<Longrightarrow> \<not> is_upper c"
    by (auto simp: ToLower_def lower_byte_not_upper)
next
  case False
  assume "c \<in> set (ToLower s)"
  moreover from False have "ToLower s =
      map char_of (concat (map (encode_rune \<circ> lower_rune) (runes (map byte s))))"
    unfolding ToLower_def by (rule if_not_P)
  ultimately obtain r b where b: "b \<in> set (encode_rune (lower_rune r))" "c = char_of b"
    by auto
  have "byte c = b mod 256" using b(2) by (simp add: byte_def)
  moreover have "b < 256"
    using b(1) by (auto simp: encode_rune_def split: if_splits)
  ultimately have "byte c = b" by simp
  then show "\<not> is_upper c"
    using b(1) encode_rune_upper [OF b(1)] lower_rune_not_upper [of r]
    by (auto simp: is_upper_def)
qed

lemma ToLower_Nil [simp]: "ToLower [] = []"
  by (simp add: ToLower_def)

subsection \<open>Numbers\<close>

definition is_digit :: "char \<Rightarrow> bool" where
  "is_digit c \<longleftrightarrow> 48 \<le> byte c \<and> byte c \<le> 57"

definition digits_val :: "string \<Rightarrow> int" where
  "digits_val s = foldl (\<lambda>n c. 10 * n + (int (byte c) - 48)) 0 s"

text \<open>\<open>strconv.Atoi\<close>: an optional sign and at least one digit, the value within 64 bits.\<close>

definition Atoi :: "string \<Rightarrow> int option" where
  "Atoi s =
     (let neg = prefix ''-'' s;
          ds = (if prefix ''-'' s \<or> prefix ''+'' s then tl s else s);
          n = (if neg then - digits_val ds else digits_val ds)
      in if ds \<noteq> [] \<and> (\<forall>c\<in>set ds. is_digit c) \<and> - (2 ^ 63) \<le> n \<and> n < 2 ^ 63 then Some n else None)"

definition ParseBool :: "string \<Rightarrow> bool option" where
  "ParseBool s =
     (if s \<in> set [''1'', ''t'', ''T'', ''TRUE'', ''true'', ''True''] then Some True
      else if s \<in> set [''0'', ''f'', ''F'', ''FALSE'', ''false'', ''False''] then Some False
      else None)"

fun show_nat :: "nat \<Rightarrow> string" where
  "show_nat n = (if n < 10 then [''0123456789'' ! n] else show_nat (n div 10) @ [''0123456789'' ! (n mod 10)])"

declare show_nat.simps [simp del]

text \<open>\<open>strconv.Itoa\<close>, and the verb \<open>%d\<close>.\<close>

definition Itoa :: "int \<Rightarrow> string" where
  "Itoa n = (if n < 0 then ''-'' @ show_nat (nat (- n)) else show_nat (nat n))"

lemma Atoi_bounds: "Atoi s = Some n \<Longrightarrow> - (2 ^ 63) \<le> n \<and> n < 2 ^ 63"
  by (auto simp: Atoi_def Let_def split: if_splits)

lemma TrimSpace_ends:
  assumes "solid a" "solid b"
  shows "TrimSpace (a # m @ [b]) = a # m @ [b]"
proof -
  have first: "\<not> prefix p (c # s)" if "p \<in> set spaces" "p \<noteq> []" "solid c" for p c s
    using solid_spaces [OF that(1), of c] that by (cases p) auto
  have last: "\<not> prefix p (c # s)" if p: "p \<in> set (map rev spaces)" "p \<noteq> []" "solid c" for p c s
  proof
    assume "prefix p (c # s)"
    then have "c \<in> set p" using p(2) by (cases p) auto
    moreover obtain p' where "p' \<in> set spaces" "p = rev p'" using p(1) by auto
    ultimately show False using solid_spaces [of p' c] p(3) by simp
  qed
  have "drop_any spaces (a # m @ [b]) = a # m @ [b]" by (rule drop_any_stop) (use first assms(1) in blast)
  moreover have "drop_any (map rev spaces) (b # rev m @ [a]) = b # rev m @ [a]"
    by (rule drop_any_stop) (use last assms(2) in blast)
  ultimately show ?thesis by (simp add: TrimSpace_def)
qed

end
