(* ===== verification/GoPath.thy ===== *)
theory GoPath
  imports GoStrings
begin

text \<open>
  Go's \<open>path.Clean\<close>, \<open>filepath.Join\<close>, \<open>filepath.Dir\<close> and \<open>filepath.Abs\<close> on Linux (where \<open>path\<close>
  and \<open>path/filepath\<close> agree), and the facts that relate a cleaned path to its components.
\<close>

subsection \<open>Cleaning\<close>

text \<open>
  Components are taken from the left; \<open>st\<close> holds, last first, the components kept so far.  A
  \<open>..\<close> drops the last one, is dropped itself at a root, and is kept at the start of a relative path.
\<close>

fun clean_segs :: "bool \<Rightarrow> string list \<Rightarrow> string list \<Rightarrow> string list" where
  "clean_segs rooted st [] = rev st"
| "clean_segs rooted st (s # ss) =
     (if s = [] \<or> s = ''.'' then clean_segs rooted st ss
      else if s = ''..'' then
        (case st of
           [] \<Rightarrow> clean_segs rooted (if rooted then [] else [''..'']) ss
         | t # ts \<Rightarrow> clean_segs rooted (if t = ''..'' then s # st else ts) ss)
      else clean_segs rooted (s # st) ss)"

definition slash :: char where
  [go_defs]: "slash = CHR ''/''"

definition IsAbs :: "string \<Rightarrow> bool" where
  "IsAbs p = prefix [slash] p"

text \<open>The components of a path, lexically resolved.\<close>

definition segs :: "string \<Rightarrow> string list" where
  "segs p = clean_segs (IsAbs p) [] (Split p slash)"

definition abs_path :: "string list \<Rightarrow> string" where
  "abs_path ss = slash # Join ss [slash]"

definition Clean :: "string \<Rightarrow> string" where
  "Clean p =
     (if p = [] then ''.''
      else if IsAbs p then abs_path (segs p)
      else if segs p = [] then ''.'' else Join (segs p) [slash])"

definition PathJoin :: "string list \<Rightarrow> string" where
  "PathJoin es =
     (case dropWhile (\<lambda>e. e = []) es of [] \<Rightarrow> [] | fs \<Rightarrow> Clean (Join fs [slash]))"

text \<open>\<open>filepath.Dir\<close>: what stands up to the last slash, cleaned.\<close>

definition Dir_of :: "string \<Rightarrow> string" where
  "Dir_of p = Clean (rev (dropWhile (\<lambda>c. c \<noteq> slash) (rev p)))"

definition Abs :: "string \<Rightarrow> string \<Rightarrow> string" where
  "Abs cwd p = (if IsAbs p then Clean p else PathJoin [cwd, p])"

subsection \<open>Components\<close>

text \<open>A component that names an entry of a directory.\<close>

definition good_seg :: "string \<Rightarrow> bool" where
  "good_seg s \<longleftrightarrow> s \<noteq> [] \<and> s \<noteq> ''.'' \<and> s \<noteq> ''..'' \<and> slash \<notin> set s"

lemma clean_segs_good:
  "list_all good_seg ss \<Longrightarrow> clean_segs rooted st ss = rev st @ ss"
  by (induction ss arbitrary: st) (auto simp: good_seg_def)

lemma clean_segs_append:
  "clean_segs rooted st (xs @ ys) = clean_segs rooted (rev (clean_segs rooted st xs)) ys"
  by (induction rooted st xs rule: clean_segs.induct) (auto split: list.splits)

lemma clean_segs_rooted_good:
  "list_all good_seg st \<Longrightarrow> (\<And>s. s \<in> set ss \<Longrightarrow> slash \<notin> set s) \<Longrightarrow> list_all good_seg (clean_segs True st ss)"
proof (induction ss arbitrary: st)
  case (Cons s ss)
  then show ?case by (cases st) (auto simp: good_seg_def)
qed (simp add: list_all_rev)

lemma segs_good: "IsAbs p \<Longrightarrow> list_all good_seg (segs p)"
  unfolding segs_def by (simp add: clean_segs_rooted_good Split_no_sep)

lemma Split_Cons_sep: "Split (c # s) c = [] # Split s c"
  by simp

lemma segs_abs: "segs (slash # p) = clean_segs True [] (Split p slash)"
  by (simp add: segs_def IsAbs_def)

lemma abs_path_inj_simp [simp]: "IsAbs (abs_path ss)"
  by (simp add: abs_path_def IsAbs_def)

lemma good_segs_no_slash: "list_all good_seg ss \<Longrightarrow> s \<in> set ss \<Longrightarrow> slash \<notin> set s"
  by (auto simp: list_all_iff good_seg_def)

lemma segs_abs_path [simp]:
  assumes "list_all good_seg ss" shows "segs (abs_path ss) = ss"
proof (cases "ss = []")
  case True
  then show ?thesis by (simp add: abs_path_def segs_abs)
next
  case False
  with assms have "Split (Join ss [slash]) slash = ss"
    by (auto intro: Split_Join dest: good_segs_no_slash)
  with assms show ?thesis by (simp add: abs_path_def segs_abs clean_segs_good)
qed

lemma Clean_abs: "IsAbs p \<Longrightarrow> Clean p = abs_path (segs p)"
  by (auto simp: Clean_def IsAbs_def)

lemma Clean_abs_path [simp]: "list_all good_seg ss \<Longrightarrow> Clean (abs_path ss) = abs_path ss"
  by (simp add: Clean_abs)

lemma IsAbs_Clean: "IsAbs p \<Longrightarrow> IsAbs (Clean p)"
  by (simp add: Clean_abs)

lemma segs_Clean: "IsAbs p \<Longrightarrow> segs (Clean p) = segs p"
  by (simp add: Clean_abs segs_good)

lemma Clean_idem: "IsAbs p \<Longrightarrow> Clean (Clean p) = Clean p"
  by (simp add: Clean_abs segs_good)

text \<open>Joining an absolute path with a relative one appends the components.\<close>

lemma IsAbs_not_Nil: "IsAbs p \<Longrightarrow> p \<noteq> []"
  by (auto simp: IsAbs_def)

lemma PathJoin_abs:
  assumes "IsAbs root" and "ss \<noteq> []" and "list_all good_seg ss"
  shows "PathJoin [root, Join ss [slash]] = abs_path (segs root @ ss)"
proof -
  have abs: "IsAbs (root @ slash # Join ss [slash])"
    using assms(1) by (auto simp: IsAbs_def prefix_def)
  have "Split (Join ss [slash]) slash = ss"
    using assms(2,3) by (auto intro: Split_Join dest: good_segs_no_slash)
  then have "segs (root @ slash # Join ss [slash]) = segs root @ ss"
    using assms abs by (simp add: segs_def Split_append_split clean_segs_append clean_segs_good)
  moreover have "PathJoin [root, Join ss [slash]] = Clean (root @ slash # Join ss [slash])"
    using IsAbs_not_Nil [OF assms(1)] by (simp add: PathJoin_def)
  ultimately show ?thesis using abs by (simp add: Clean_abs)
qed

lemma PathJoin_abs_name:
  "IsAbs dir \<Longrightarrow> good_seg name \<Longrightarrow> PathJoin [dir, name] = abs_path (segs dir @ [name])"
  using PathJoin_abs [of dir "[name]"] by simp

lemma PathJoin_abs_empty: "IsAbs dir \<Longrightarrow> PathJoin [dir, []] = abs_path (segs dir)"
proof -
  assume d: "IsAbs dir"
  then have "IsAbs (dir @ [slash])" by (auto simp: IsAbs_def prefix_def)
  moreover from d this have "segs (dir @ [slash]) = segs dir"
    by (simp add: segs_def Split_append_split clean_segs_append)
  ultimately show ?thesis
    using IsAbs_not_Nil [OF d] by (simp add: PathJoin_def Clean_abs)
qed

text \<open>Cleaned absolute paths are equal, or one below the other, as their components are.\<close>

lemma abs_path_eq_iff:
  "list_all good_seg ss \<Longrightarrow> list_all good_seg ts \<Longrightarrow> abs_path ss = abs_path ts \<longleftrightarrow> ss = ts"
  by (metis segs_abs_path)

lemma prefix_abs_path_iff:
  assumes "list_all good_seg ss" "list_all good_seg ts" "ss \<noteq> []"
  shows "prefix (abs_path ss @ [slash]) (abs_path ts) \<longleftrightarrow> strict_prefix ss ts"
proof
  assume "prefix (abs_path ss @ [slash]) (abs_path ts)"
  then obtain r where "abs_path ts = abs_path ss @ slash # r" by (auto simp: prefix_def)
  then have "Join ts [slash] = Join ss [slash] @ slash # r" by (simp add: abs_path_def)
  then have "Split (Join ts [slash]) slash = Split (Join ss [slash]) slash @ Split r slash"
    by (simp add: Split_append_split)
  moreover from this have "ts \<noteq> []" using assms(1,3)
    by (auto simp: Split_Join good_segs_no_slash Cons_eq_append_conv)
  ultimately have "ts = ss @ Split r slash"
    using assms good_segs_no_slash by (simp add: Split_Join)
  then show "strict_prefix ss ts" by (simp add: strict_prefix_def)
next
  assume "strict_prefix ss ts"
  then obtain us where "ts = ss @ us" "us \<noteq> []" by (auto simp: strict_prefix_def prefix_def)
  with assms(3) show "prefix (abs_path ss @ [slash]) (abs_path ts)"
    by (simp add: abs_path_def Join_append)
qed

end
