(* ===== verification/GoErrors.thy ===== *)
theory GoErrors
  imports GoPath
begin

text \<open>
  Error values.  Each package's error variables are a datatype of their own; \<open>sentinel\<close> joins them,
  since \<open>errors.Is\<close> compares such variables by identity (two packages' errors with the same text
  differ).  An \<open>error\<close> is a sentinel, a fresh \<open>errors.New\<close>, an error of the operating system
  (\<open>PathError\<close>, \<open>LinkError\<close>), text that another program or library produced, or one of these
  wrapped by \<open>fmt.Errorf\<close> with \<open>%w\<close>.
\<close>

subsection \<open>The packages' error variables\<close>

datatype store_err = ErrNotFound | ErrConflict

datatype jobs_err = ErrNotStarted | ErrStopped

datatype sites_err =
    ErrInvalidDomain | ErrInvalidRoot | ErrInvalidRuntime | ErrInvalidFile | ErrContentTooLong
  | ErrInvalidPath | ErrInvalidBase64 | ErrFileTooLarge | ErrNotDirectory | ErrDirNotEmpty

datatype auth_err = ErrInvalidCredentials | ErrUnauthorized | ErrInvalidPassword

datatype password_err = ErrWeakPassword

datatype ssl_err = SslErrInvalidDomain | SslErrInvalidEmail

datatype db_err = ErrInvalidDatabaseName | ErrInvalidUsername | DbErrInvalidPassword | ErrInvalidHost

datatype backup_err = ErrInvalidBackupPath

datatype updater_err = ErrDisabled | ErrAlreadyRunning | ErrCooldown | ErrInvalidConfig

datatype ctx_err = Canceled | DeadlineExceeded

datatype sentinel =
    StoreE store_err | JobsE jobs_err | SitesE sites_err | AuthE auth_err | PasswordE password_err
  | SslE ssl_err | DbE db_err | BackupE backup_err | UpdaterE updater_err | CtxE ctx_err

fun sentinel_text :: "sentinel \<Rightarrow> string" where
  "sentinel_text (StoreE ErrNotFound) = ''not found''"
| "sentinel_text (StoreE ErrConflict) = ''conflict''"
| "sentinel_text (JobsE ErrNotStarted) = ''job service not started''"
| "sentinel_text (JobsE ErrStopped) = ''job service stopped''"
| "sentinel_text (SitesE ErrInvalidDomain) = ''invalid domain''"
| "sentinel_text (SitesE ErrInvalidRoot) = ''invalid root_path''"
| "sentinel_text (SitesE ErrInvalidRuntime) = ''invalid runtime''"
| "sentinel_text (SitesE ErrInvalidFile) = ''invalid file''"
| "sentinel_text (SitesE ErrContentTooLong) = ''content too long''"
| "sentinel_text (SitesE ErrInvalidPath) = ''invalid path''"
| "sentinel_text (SitesE ErrInvalidBase64) = ''invalid base64 content''"
| "sentinel_text (SitesE ErrFileTooLarge) = ''file too large''"
| "sentinel_text (SitesE ErrNotDirectory) = ''path is not a directory''"
| "sentinel_text (SitesE ErrDirNotEmpty) = ''directory is not empty''"
| "sentinel_text (AuthE ErrInvalidCredentials) = ''invalid credentials''"
| "sentinel_text (AuthE ErrUnauthorized) = ''unauthorized''"
| "sentinel_text (AuthE ErrInvalidPassword) = ''invalid current password''"
| "sentinel_text (PasswordE ErrWeakPassword) = ''password must be at least 8 characters''"
| "sentinel_text (SslE SslErrInvalidDomain) = ''invalid domain''"
| "sentinel_text (SslE SslErrInvalidEmail) = ''invalid email''"
| "sentinel_text (DbE ErrInvalidDatabaseName) = ''invalid database name''"
| "sentinel_text (DbE ErrInvalidUsername) = ''invalid database username''"
| "sentinel_text (DbE DbErrInvalidPassword) = ''invalid database password''"
| "sentinel_text (DbE ErrInvalidHost) = ''invalid database host''"
| "sentinel_text (BackupE ErrInvalidBackupPath) = ''invalid backup path''"
| "sentinel_text (UpdaterE ErrDisabled) = ''panel updater is disabled''"
| "sentinel_text (UpdaterE ErrAlreadyRunning) = ''panel updater is already running''"
| "sentinel_text (UpdaterE ErrCooldown) = ''panel updater cooldown is active''"
| "sentinel_text (UpdaterE ErrInvalidConfig) = ''invalid panel updater config''"
| "sentinel_text (CtxE Canceled) = ''context canceled''"
| "sentinel_text (CtxE DeadlineExceeded) = ''context deadline exceeded''"

subsection \<open>Errors\<close>

datatype errno =
  ENOENT | EEXIST | ENOTDIR | EISDIR | ENOTEMPTY | EACCES | EPERM | EIO | ELOOP | ENOSPC | EINVAL | EBUSY

fun errno_text :: "errno \<Rightarrow> string" where
  "errno_text ENOENT = ''no such file or directory''"
| "errno_text EEXIST = ''file exists''"
| "errno_text ENOTDIR = ''not a directory''"
| "errno_text EISDIR = ''is a directory''"
| "errno_text ENOTEMPTY = ''directory not empty''"
| "errno_text EACCES = ''permission denied''"
| "errno_text EPERM = ''operation not permitted''"
| "errno_text EIO = ''input/output error''"
| "errno_text ELOOP = ''too many levels of symbolic links''"
| "errno_text ENOSPC = ''no space left on device''"
| "errno_text EINVAL = ''invalid argument''"
| "errno_text EBUSY = ''device or resource busy''"

datatype error =
    Sentinel sentinel
  | NewError string
  | PathError string string errno
  | LinkError string string string errno
  | Foreign string
  | Errorf string error string

abbreviation storeE :: "store_err \<Rightarrow> error" where "storeE e \<equiv> Sentinel (StoreE e)"
abbreviation jobsE :: "jobs_err \<Rightarrow> error" where "jobsE e \<equiv> Sentinel (JobsE e)"
abbreviation sitesE :: "sites_err \<Rightarrow> error" where "sitesE e \<equiv> Sentinel (SitesE e)"
abbreviation authE :: "auth_err \<Rightarrow> error" where "authE e \<equiv> Sentinel (AuthE e)"
abbreviation passwordE :: "password_err \<Rightarrow> error" where "passwordE e \<equiv> Sentinel (PasswordE e)"
abbreviation sslE :: "ssl_err \<Rightarrow> error" where "sslE e \<equiv> Sentinel (SslE e)"
abbreviation dbE :: "db_err \<Rightarrow> error" where "dbE e \<equiv> Sentinel (DbE e)"
abbreviation backupE :: "backup_err \<Rightarrow> error" where "backupE e \<equiv> Sentinel (BackupE e)"
abbreviation updaterE :: "updater_err \<Rightarrow> error" where "updaterE e \<equiv> Sentinel (UpdaterE e)"
abbreviation ctxE :: "ctx_err \<Rightarrow> error" where "ctxE e \<equiv> Sentinel (CtxE e)"

text \<open>The \<open>Error\<close> method.\<close>

fun Error_text :: "error \<Rightarrow> string" where
  "Error_text (Sentinel s) = sentinel_text s"
| "Error_text (NewError m) = m"
| "Error_text (PathError op_name p e) = op_name @ '' '' @ p @ '': '' @ errno_text e"
| "Error_text (LinkError op_name a b e) = op_name @ '' '' @ a @ '' '' @ b @ '': '' @ errno_text e"
| "Error_text (Foreign m) = m"
| "Error_text (Errorf pre e post) = pre @ Error_text e @ post"

text \<open>\<open>errors.Is\<close> against a sentinel, and against \<open>os.ErrNotExist\<close>, \<open>os.ErrExist\<close>, \<open>os.ErrPermission\<close>.\<close>

fun errors_Is :: "error \<Rightarrow> sentinel \<Rightarrow> bool" where
  "errors_Is (Sentinel s) t = (s = t)"
| "errors_Is (Errorf _ e _) t = errors_Is e t"
| "errors_Is _ t = False"

fun error_errno :: "error \<Rightarrow> errno option" where
  "error_errno (PathError _ _ e) = Some e"
| "error_errno (LinkError _ _ _ e) = Some e"
| "error_errno (Errorf _ e _) = error_errno e"
| "error_errno _ = None"

definition Is_NotExist :: "error \<Rightarrow> bool" where
  "Is_NotExist e \<longleftrightarrow> error_errno e = Some ENOENT"

definition Is_Exist :: "error \<Rightarrow> bool" where
  "Is_Exist e \<longleftrightarrow> error_errno e \<in> {Some EEXIST, Some ENOTEMPTY}"

definition Is_Permission :: "error \<Rightarrow> bool" where
  "Is_Permission e \<longleftrightarrow> error_errno e \<in> {Some EACCES, Some EPERM}"

end
