(* ===== verification/GoOS.thy ===== *)
theory GoOS
  imports GoErrors
begin

text \<open>
  The world the program runs in, as explicit state: a file system, and the sources of whatever the
  environment decides.  The file system maps absolute component lists to nodes.  The environment is
  any stream of faults (the errno, if any, with which the \<open>n\<close>-th system call fails), of lengths of
  short writes, of clock readings, of random bytes, and of outcomes of the commands the program runs.
  A theorem over all values of these fields holds in every environment.
\<close>

subsection \<open>State\<close>

datatype node = File string | Directory | Symlink string

type_synonym fs = "(string list \<times> node) list"

text \<open>What running a command yields: its output, the error of a failing command, the files after it.\<close>

type_synonym command_outcome = "string \<times> error option \<times> fs"

record os =
  os_fs :: fs
  os_cwd :: "string list"
  os_calls :: nat
  os_fault :: "nat \<Rightarrow> errno option"
  os_short :: "nat \<Rightarrow> nat"
  os_ticks :: nat
  os_clock :: "nat \<Rightarrow> int"
  os_draws :: nat
  os_entropy :: "nat \<Rightarrow> nat \<Rightarrow> error + string"
  os_cmds :: "string list list"
  os_exec :: "nat \<Rightarrow> string list \<Rightarrow> fs \<Rightarrow> command_outcome"

definition fs_get :: "fs \<Rightarrow> string list \<Rightarrow> node option" where
  "fs_get m q = (if q = [] then Some Directory else mget m q)"

definition fs_children :: "fs \<Rightarrow> string list \<Rightarrow> (string \<times> node) list" where
  "fs_children m q =
     sort_key fst (map (\<lambda>(p, n). (last p, n)) (filter (\<lambda>(p, n). p \<noteq> [] \<and> butlast p = q) m))"

definition fs_drop_tree :: "string list \<Rightarrow> fs \<Rightarrow> fs" where
  "fs_drop_tree q m = filter (\<lambda>(p, n). \<not> prefix q p) m"

text \<open>Start a system call: take the next fault.\<close>

definition sys :: "'a os_scheme \<Rightarrow> errno option \<times> 'a os_scheme" where
  "sys w = (os_fault w (os_calls w), w\<lparr>os_calls := Suc (os_calls w)\<rparr>)"

subsection \<open>Path resolution\<close>

text \<open>
  The kernel's walk over the components: symbolic links are followed, the last one only when \<open>follow\<close>
  is set, and at most \<open>n\<close> of them (40 on Linux); \<open>..\<close> goes to the parent of what was reached.  The
  result is the location of the last component, which need not exist.
\<close>

function (sequential) walk :: "nat \<Rightarrow> fs \<Rightarrow> bool \<Rightarrow> string list \<Rightarrow> string list \<Rightarrow> errno + string list" where
  "walk n m follow at [] = Inr at"
| "walk n m follow at (c # cs) =
     (if c = [] \<or> c = ''.'' then walk n m follow at cs
      else if c = ''..'' then walk n m follow (butlast at) cs
      else case fs_get m (at @ [c]) of
        None \<Rightarrow> if cs = [] then Inr (at @ [c]) else Inl ENOENT
      | Some Directory \<Rightarrow> walk n m follow (at @ [c]) cs
      | Some (File _) \<Rightarrow> if cs = [] then Inr (at @ [c]) else Inl ENOTDIR
      | Some (Symlink t) \<Rightarrow>
          if cs = [] \<and> \<not> follow then Inr (at @ [c])
          else (case n of
                  0 \<Rightarrow> Inl ELOOP
                | Suc n' \<Rightarrow> walk n' m follow (if IsAbs t then [] else at) (Split t slash @ cs)))"
  by pat_completeness auto
termination
  by (relation "measures [\<lambda>(n, _, _, _, _). n, \<lambda>(_, _, _, _, cs). length cs]") auto

declare walk.simps(2) [simp del]

definition resolve :: "bool \<Rightarrow> string \<Rightarrow> 'a os_scheme \<Rightarrow> errno + string list" where
  "resolve follow p w =
     (if p = [] then Inl ENOENT
      else walk 40 (os_fs w) follow [] ((if IsAbs p then [] else os_cwd w) @ Split p slash))"

definition look :: "bool \<Rightarrow> string \<Rightarrow> 'a os_scheme \<Rightarrow> errno + node" where
  "look follow p w =
     (case resolve follow p w of
        Inl e \<Rightarrow> Inl e
      | Inr q \<Rightarrow> (case fs_get (os_fs w) q of None \<Rightarrow> Inl ENOENT | Some n \<Rightarrow> Inr n))"

subsection \<open>Reading\<close>

definition Stat :: "string \<Rightarrow> 'a os_scheme \<Rightarrow> (error + node) \<times> 'a os_scheme" where
  "Stat p w =
     (case sys w of
        (Some e, w) \<Rightarrow> (Inl (PathError ''stat'' p e), w)
      | (None, w) \<Rightarrow> (map_sum (PathError ''stat'' p) id (look True p w), w))"

definition Lstat :: "string \<Rightarrow> 'a os_scheme \<Rightarrow> (error + node) \<times> 'a os_scheme" where
  "Lstat p w =
     (case sys w of
        (Some e, w) \<Rightarrow> (Inl (PathError ''lstat'' p e), w)
      | (None, w) \<Rightarrow> (map_sum (PathError ''lstat'' p) id (look False p w), w))"

definition ReadFile :: "string \<Rightarrow> 'a os_scheme \<Rightarrow> (error + string) \<times> 'a os_scheme" where
  "ReadFile p w =
     (case sys w of
        (Some e, w) \<Rightarrow> (Inl (PathError ''open'' p e), w)
      | (None, w) \<Rightarrow>
          (case look True p w of
             Inl e \<Rightarrow> Inl (PathError ''open'' p e)
           | Inr (File c) \<Rightarrow> Inr c
           | Inr _ \<Rightarrow> Inl (PathError ''read'' p EISDIR), w))"

definition Readlink :: "string \<Rightarrow> 'a os_scheme \<Rightarrow> (error + string) \<times> 'a os_scheme" where
  "Readlink p w =
     (case sys w of
        (Some e, w) \<Rightarrow> (Inl (PathError ''readlink'' p e), w)
      | (None, w) \<Rightarrow>
          (case look False p w of
             Inl e \<Rightarrow> Inl (PathError ''readlink'' p e)
           | Inr (Symlink t) \<Rightarrow> Inr t
           | Inr _ \<Rightarrow> Inl (PathError ''readlink'' p EINVAL), w))"

definition ReadDir :: "string \<Rightarrow> 'a os_scheme \<Rightarrow> (error + (string \<times> node) list) \<times> 'a os_scheme" where
  "ReadDir p w =
     (case sys w of
        (Some e, w) \<Rightarrow> (Inl (PathError ''open'' p e), w)
      | (None, w) \<Rightarrow>
          (case resolve True p w of
             Inl e \<Rightarrow> Inl (PathError ''open'' p e)
           | Inr q \<Rightarrow>
               (case fs_get (os_fs w) q of
                  None \<Rightarrow> Inl (PathError ''open'' p ENOENT)
                | Some Directory \<Rightarrow> Inr (fs_children (os_fs w) q)
                | Some _ \<Rightarrow> Inl (PathError ''readdirent'' p ENOTDIR)), w))"

subsection \<open>Writing\<close>

definition fs_store :: "string list \<Rightarrow> node \<Rightarrow> 'a os_scheme \<Rightarrow> 'a os_scheme" where
  "fs_store q n w = w\<lparr>os_fs := mput q n (os_fs w)\<rparr>"

text \<open>
  \<open>write(2)\<close> to an open file at \<open>q\<close>: a failing write leaves a prefix of the data behind.
\<close>

definition write_at :: "string \<Rightarrow> string list \<Rightarrow> string \<Rightarrow> 'a os_scheme \<Rightarrow> error option \<times> 'a os_scheme" where
  "write_at p q data w =
     (case sys w of
        (Some e, w) \<Rightarrow> (Some (PathError ''write'' p e), fs_store q (File (take (os_short w (os_calls w)) data)) w)
      | (None, w) \<Rightarrow> (None, fs_store q (File data) w))"

text \<open>\<open>os.WriteFile\<close>: open with truncation, then write.\<close>

definition WriteFile :: "string \<Rightarrow> string \<Rightarrow> 'a os_scheme \<Rightarrow> error option \<times> 'a os_scheme" where
  "WriteFile p data w =
     (case sys w of
        (Some e, w) \<Rightarrow> (Some (PathError ''open'' p e), w)
      | (None, w) \<Rightarrow>
          (case resolve True p w of
             Inl e \<Rightarrow> (Some (PathError ''open'' p e), w)
           | Inr q \<Rightarrow>
               if fs_get (os_fs w) q = Some Directory then (Some (PathError ''open'' p EISDIR), w)
               else write_at p q data (fs_store q (File []) w)))"

text \<open>\<open>os.OpenFile\<close> with \<open>O_CREATE|O_TRUNC\<close>: the location of the file, now empty.\<close>

definition OpenTruncate :: "string \<Rightarrow> 'a os_scheme \<Rightarrow> (error + string list) \<times> 'a os_scheme" where
  "OpenTruncate p w =
     (case sys w of
        (Some e, w) \<Rightarrow> (Inl (PathError ''open'' p e), w)
      | (None, w) \<Rightarrow>
          (case resolve True p w of
             Inl e \<Rightarrow> (Inl (PathError ''open'' p e), w)
           | Inr q \<Rightarrow>
               if fs_get (os_fs w) q = Some Directory then (Inl (PathError ''open'' p EISDIR), w)
               else (Inr q, fs_store q (File []) w)))"

text \<open>\<open>os.OpenFile\<close> with \<open>O_CREATE|O_EXCL\<close>, followed by a write.\<close>

definition WriteNewFile :: "string \<Rightarrow> string \<Rightarrow> 'a os_scheme \<Rightarrow> error option \<times> 'a os_scheme" where
  "WriteNewFile p data w =
     (case sys w of
        (Some e, w) \<Rightarrow> (Some (PathError ''open'' p e), w)
      | (None, w) \<Rightarrow>
          (case resolve False p w of
             Inl e \<Rightarrow> (Some (PathError ''open'' p e), w)
           | Inr q \<Rightarrow>
               if fs_get (os_fs w) q \<noteq> None then (Some (PathError ''open'' p EEXIST), w)
               else write_at p q data (fs_store q (File []) w)))"

definition Remove :: "string \<Rightarrow> 'a os_scheme \<Rightarrow> error option \<times> 'a os_scheme" where
  "Remove p w =
     (case sys w of
        (Some e, w) \<Rightarrow> (Some (PathError ''remove'' p e), w)
      | (None, w) \<Rightarrow>
          (case resolve False p w of
             Inl e \<Rightarrow> (Some (PathError ''remove'' p e), w)
           | Inr q \<Rightarrow>
               (case fs_get (os_fs w) q of
                  None \<Rightarrow> (Some (PathError ''remove'' p ENOENT), w)
                | Some n \<Rightarrow>
                    if q = [] then (Some (PathError ''remove'' p EBUSY), w)
                    else if n = Directory \<and> fs_children (os_fs w) q \<noteq> []
                    then (Some (PathError ''remove'' p ENOTEMPTY), w)
                    else (None, w\<lparr>os_fs := mdel q (os_fs w)\<rparr>))))"

definition RemoveAll :: "string \<Rightarrow> 'a os_scheme \<Rightarrow> error option \<times> 'a os_scheme" where
  "RemoveAll p w =
     (case sys w of
        (Some e, w) \<Rightarrow> (Some (PathError ''unlinkat'' p e), w)
      | (None, w) \<Rightarrow>
          (case resolve False p w of
             Inl e \<Rightarrow> (if e = ENOENT then None else Some (PathError ''unlinkat'' p e), w)
           | Inr q \<Rightarrow> (None, w\<lparr>os_fs := fs_drop_tree q (os_fs w)\<rparr>)))"

text \<open>
  \<open>os.Rename\<close>.  The program renames only files it has just written; a directory in the place of
  either name is an error.
\<close>

definition Rename :: "string \<Rightarrow> string \<Rightarrow> 'a os_scheme \<Rightarrow> error option \<times> 'a os_scheme" where
  "Rename a b w =
     (case sys w of
        (Some e, w) \<Rightarrow> (Some (LinkError ''rename'' a b e), w)
      | (None, w) \<Rightarrow>
          (case (resolve False a w, resolve False b w) of
             (Inl e, _) \<Rightarrow> (Some (LinkError ''rename'' a b e), w)
           | (_, Inl e) \<Rightarrow> (Some (LinkError ''rename'' a b e), w)
           | (Inr qa, Inr qb) \<Rightarrow>
               (case fs_get (os_fs w) qa of
                  None \<Rightarrow> (Some (LinkError ''rename'' a b ENOENT), w)
                | Some n \<Rightarrow>
                    if fs_get (os_fs w) qb = Some Directory then (Some (LinkError ''rename'' a b EEXIST), w)
                    else if n = Directory then (Some (LinkError ''rename'' a b ENOTDIR), w)
                    else (None, w\<lparr>os_fs := mput qb n (if qa = qb then os_fs w else mdel qa (os_fs w))\<rparr>))))"

definition SymlinkAt :: "string \<Rightarrow> string \<Rightarrow> 'a os_scheme \<Rightarrow> error option \<times> 'a os_scheme" where
  "SymlinkAt target link w =
     (case sys w of
        (Some e, w) \<Rightarrow> (Some (LinkError ''symlink'' target link e), w)
      | (None, w) \<Rightarrow>
          (case resolve False link w of
             Inl e \<Rightarrow> (Some (LinkError ''symlink'' target link e), w)
           | Inr q \<Rightarrow>
               if fs_get (os_fs w) q \<noteq> None then (Some (LinkError ''symlink'' target link EEXIST), w)
               else (None, fs_store q (Symlink target) w)))"

text \<open>\<open>os.MkdirAll\<close>: make each missing directory on the way, from the top.\<close>

fun mkdir_each :: "string \<Rightarrow> string list list \<Rightarrow> 'a os_scheme \<Rightarrow> error option \<times> 'a os_scheme" where
  "mkdir_each p [] w = (None, w)"
| "mkdir_each p (cs # css) w =
     (case walk 40 (os_fs w) True [] cs of
        Inl e \<Rightarrow> (Some (PathError ''mkdir'' p e), w)
      | Inr q \<Rightarrow>
          (case fs_get (os_fs w) q of
             Some Directory \<Rightarrow> mkdir_each p css w
           | Some _ \<Rightarrow> (Some (PathError ''mkdir'' p ENOTDIR), w)
           | None \<Rightarrow>
               (case sys w of
                  (Some e, w) \<Rightarrow> (Some (PathError ''mkdir'' p e), w)
                | (None, w) \<Rightarrow> mkdir_each p css (fs_store q Directory w))))"

definition MkdirAll :: "string \<Rightarrow> 'a os_scheme \<Rightarrow> error option \<times> 'a os_scheme" where
  "MkdirAll p w =
     (if p = [] then (Some (PathError ''mkdir'' p ENOENT), w)
      else mkdir_each p (prefixes ((if IsAbs p then [] else os_cwd w) @ Split p slash)) w)"

subsection \<open>Clock, randomness, commands\<close>

definition time_Now :: "'a os_scheme \<Rightarrow> int \<times> 'a os_scheme" where
  "time_Now w = (os_clock w (os_ticks w), w\<lparr>os_ticks := Suc (os_ticks w)\<rparr>)"

definition rand_Read :: "nat \<Rightarrow> 'a os_scheme \<Rightarrow> (error + string) \<times> 'a os_scheme" where
  "rand_Read n w = (os_entropy w (os_draws w) n, w\<lparr>os_draws := Suc (os_draws w)\<rparr>)"

text \<open>\<open>exec.CommandContext(...).CombinedOutput()\<close>\<close>

definition CombinedOutput :: "string list \<Rightarrow> 'a os_scheme \<Rightarrow> (string \<times> error option) \<times> 'a os_scheme" where
  "CombinedOutput argv w =
     (case os_exec w (length (os_cmds w)) argv (os_fs w) of
        (out, e, m) \<Rightarrow> ((out, e), w\<lparr>os_cmds := os_cmds w @ [argv], os_fs := m\<rparr>))"

subsection \<open>What the operations leave alone\<close>

text \<open>
  A state that extends \<open>os\<close> with the program's own data keeps that data through every operation on
  the operating system, and the streams of the environment never change.
\<close>

definition same_rest :: "'a os_scheme \<Rightarrow> 'a os_scheme \<Rightarrow> bool" where
  "same_rest w w' \<longleftrightarrow> os.more w' = os.more w \<and> os_fault w' = os_fault w \<and> os_short w' = os_short w
     \<and> os_clock w' = os_clock w \<and> os_entropy w' = os_entropy w \<and> os_exec w' = os_exec w
     \<and> os_cwd w' = os_cwd w"

definition env_of where
  "env_of w = (os.more w, os_fault w, os_short w, os_clock w, os_entropy w, os_exec w, os_cwd w)"

lemma same_rest_env_of: "same_rest w w' \<longleftrightarrow> env_of w' = env_of w"
  by (auto simp: same_rest_def env_of_def)

lemma same_rest_refl [simp]: "same_rest w w"
  by (simp add: same_rest_def)

lemma same_rest_trans: "same_rest w w' \<Longrightarrow> same_rest w' w'' \<Longrightarrow> same_rest w w''"
  by (simp add: same_rest_def)

lemma same_rest_update [simp]:
  "same_rest w (w'\<lparr>os_calls := n\<rparr>) = same_rest w w'"
  "same_rest w (w'\<lparr>os_fs := m\<rparr>) = same_rest w w'"
  "same_rest w (w'\<lparr>os_ticks := n\<rparr>) = same_rest w w'"
  "same_rest w (w'\<lparr>os_draws := n\<rparr>) = same_rest w w'"
  "same_rest w (w'\<lparr>os_cmds := cs\<rparr>) = same_rest w w'"
  "same_rest w (fs_store q nd w') = same_rest w w'"
  by (simp_all add: same_rest_def fs_store_def)

lemma sys_rest [os_frame]: "same_rest w (snd (sys w))"
  by (simp add: sys_def)

lemma Stat_rest [os_frame]: "same_rest w (snd (Stat p w))"
  by (simp add: Stat_def sys_def split: sum.split option.split node.split prod.split)

lemma Lstat_rest [os_frame]: "same_rest w (snd (Lstat p w))"
  by (simp add: Lstat_def sys_def split: sum.split option.split node.split prod.split)

lemma ReadFile_rest [os_frame]: "same_rest w (snd (ReadFile p w))"
  by (simp add: ReadFile_def sys_def split: sum.split option.split node.split prod.split)

lemma Readlink_rest [os_frame]: "same_rest w (snd (Readlink p w))"
  by (simp add: Readlink_def sys_def split: sum.split option.split node.split prod.split)

lemma ReadDir_rest [os_frame]: "same_rest w (snd (ReadDir p w))"
  by (simp add: ReadDir_def sys_def split: sum.split option.split node.split prod.split)

lemma write_at_rest [os_frame]: "same_rest w (snd (write_at p q data w))"
  by (simp add: write_at_def sys_def split: sum.split option.split node.split prod.split)

lemma WriteFile_rest [os_frame]: "same_rest w (snd (WriteFile p data w))"
  by (simp add: WriteFile_def write_at_def sys_def split: sum.split option.split)

lemma OpenTruncate_rest [os_frame]: "same_rest w (snd (OpenTruncate p w))"
  by (simp add: OpenTruncate_def sys_def split: sum.split option.split)

lemma WriteNewFile_rest [os_frame]: "same_rest w (snd (WriteNewFile p data w))"
  by (simp add: WriteNewFile_def write_at_def sys_def split: sum.split option.split)

lemma Remove_rest [os_frame]: "same_rest w (snd (Remove p w))"
  by (simp add: Remove_def sys_def split: sum.split option.split node.split prod.split)

lemma RemoveAll_rest [os_frame]: "same_rest w (snd (RemoveAll p w))"
  by (simp add: RemoveAll_def sys_def split: sum.split option.split node.split prod.split)

lemma Rename_rest [os_frame]: "same_rest w (snd (Rename a b w))"
  by (simp add: Rename_def sys_def split: sum.split option.split node.split prod.split)

lemma SymlinkAt_rest [os_frame]: "same_rest w (snd (SymlinkAt t l w))"
  by (simp add: SymlinkAt_def sys_def split: sum.split option.split node.split prod.split)

lemma mkdir_each_rest [os_frame]: "same_rest w (snd (mkdir_each p css w))"
proof (induction css arbitrary: w)
  case (Cons cs css)
  have "same_rest w (snd (mkdir_each p css (fs_store q Directory (w\<lparr>os_calls := n\<rparr>))))" for q n
    by (rule same_rest_trans [OF _ Cons.IH]) simp
  with Cons.IH show ?case by (simp add: sys_def split: sum.split option.split node.split)
qed simp

lemma MkdirAll_rest [os_frame]: "same_rest w (snd (MkdirAll p w))"
  by (simp add: MkdirAll_def mkdir_each_rest)

lemma rand_Read_rest [os_frame]: "same_rest w (snd (rand_Read n w))"
  by (simp add: rand_Read_def sys_def split: sum.split option.split node.split prod.split)

lemma time_Now_rest [os_frame]: "same_rest w (snd (time_Now  w))"
  by (simp add: time_Now_def sys_def split: sum.split option.split node.split prod.split)

lemma CombinedOutput_rest [os_frame]: "same_rest w (snd (CombinedOutput argv w))"
  by (simp add: CombinedOutput_def sys_def split: sum.split option.split node.split prod.split)

subsection \<open>Resolution in plain directories\<close>

text \<open>
  \<open>plain_dir m ds\<close>: every directory on the way to \<open>ds\<close> is a real directory, no symbolic link.  There
  the kernel's walk ends where the components say.
\<close>

definition plain_dir :: "fs \<Rightarrow> string list \<Rightarrow> bool" where
  "plain_dir m ds \<longleftrightarrow> list_all good_seg ds \<and> list_all (\<lambda>q. fs_get m q = Some Directory) (prefixes ds)"

lemma plain_dirD: "plain_dir m ds \<Longrightarrow> prefix q ds \<Longrightarrow> fs_get m q = Some Directory"
  by (simp add: plain_dir_def list_all_iff)

lemma plain_dir_good: "plain_dir m ds \<Longrightarrow> list_all good_seg ds"
  by (simp add: plain_dir_def)

lemma walk_skip: "c = [] \<or> c = ''.'' \<Longrightarrow> walk n m follow at (c # cs) = walk n m follow at cs"
  by (simp add: walk.simps(2))

lemma walk_dirs:
  "list_all good_seg xs \<Longrightarrow> (\<And>q. prefix q xs \<Longrightarrow> q \<noteq> [] \<Longrightarrow> fs_get m (at @ q) = Some Directory) \<Longrightarrow>
    walk n m follow at (xs @ ys) = walk n m follow (at @ xs) ys"
proof (induction xs arbitrary: at)
  case (Cons x xs)
  have "fs_get m (at @ [x]) = Some Directory" using Cons.prems(2) [of "[x]"] by simp
  moreover have "walk n m follow (at @ [x]) (xs @ ys) = walk n m follow ((at @ [x]) @ xs) ys"
  proof (rule Cons.IH)
    fix q assume "prefix q xs" "q \<noteq> []"
    then show "fs_get m ((at @ [x]) @ q) = Some Directory" using Cons.prems(2) [of "x # q"] by simp
  qed (use Cons.prems in simp)
  ultimately show ?case using Cons.prems(1) by (simp add: walk.simps(2) good_seg_def)
qed simp

lemma resolve_entry:
  assumes "plain_dir (os_fs w) ds" "good_seg c"
    and "\<not> follow \<or> (\<forall>t. fs_get (os_fs w) (ds @ [c]) \<noteq> Some (Symlink t))"
  shows "resolve follow (abs_path (ds @ [c])) w = Inr (ds @ [c])"
proof -
  have g: "list_all good_seg (ds @ [c])" using assms(1,2) by (simp add: plain_dir_def)
  have "Split (abs_path (ds @ [c])) slash = [] # ds @ [c]"
    using Split_Join [of "ds @ [c]" slash] good_segs_no_slash [OF g] by (simp add: abs_path_def)
  then have "resolve follow (abs_path (ds @ [c])) w = walk 40 (os_fs w) follow [] (ds @ [c])"
    by (simp add: resolve_def walk_skip) (simp add: abs_path_def)
  also have "\<dots> = walk 40 (os_fs w) follow ds [c]"
    using walk_dirs [of ds "os_fs w" "[]" 40 follow "[c]"] assms(1)
    by (simp add: plain_dir_def list_all_iff)
  also have "\<dots> = Inr (ds @ [c])"
    using assms(2,3) by (auto simp: walk.simps(2) good_seg_def split: option.split node.split)
  finally show ?thesis .
qed

lemma resolve_entry_nofollow:
  "plain_dir (os_fs w) ds \<Longrightarrow> good_seg c \<Longrightarrow> resolve False (abs_path (ds @ [c])) w = Inr (ds @ [c])"
  by (rule resolve_entry) auto

lemma abs_path_append: "abs_path (ds @ [c]) @ x = abs_path (ds @ [c @ x])"
  by (cases "ds = []") (simp_all add: abs_path_def Join_append)

lemma fs_get_put: "q \<noteq> [] \<Longrightarrow> fs_get (mput q n m) p = (if p = q then Some n else fs_get m p)"
  by (simp add: fs_get_def)

lemma fs_get_del: "q \<noteq> [] \<Longrightarrow> fs_get (mdel q m) p = (if p = q then None else fs_get m p)"
  by (simp add: fs_get_def)

lemma plain_dir_cong:
  "plain_dir m ds \<Longrightarrow> (\<And>q. prefix q ds \<Longrightarrow> fs_get m' q = fs_get m q) \<Longrightarrow> plain_dir m' ds"
  by (simp add: plain_dir_def list_all_iff)

lemma plain_dir_put_below:
  "plain_dir m ds \<Longrightarrow> plain_dir (mput (ds @ c # cs) n m) ds"
  by (erule plain_dir_cong) (auto simp: fs_get_put prefix_def)

lemma plain_dir_del_below:
  "plain_dir m ds \<Longrightarrow> plain_dir (mdel (ds @ c # cs) m) ds"
  by (erule plain_dir_cong) (auto simp: fs_get_del prefix_def)

lemma good_seg_append: "good_seg c \<Longrightarrow> slash \<notin> set x \<Longrightarrow> 2 \<le> length x \<Longrightarrow> good_seg (c @ x)"
  by (cases c; cases x; cases "tl c") (auto simp: good_seg_def)

text \<open>\<open>WriteFile\<close> and \<open>Rename\<close> on entries of a plain directory.\<close>

lemma WriteFile_entry:
  assumes "plain_dir (os_fs w) ds" "good_seg c" "\<And>t. fs_get (os_fs w) (ds @ [c]) \<noteq> Some (Symlink t)"
    and "WriteFile (abs_path (ds @ [c])) data w = (e, w')"
  shows "q \<noteq> ds @ [c] \<Longrightarrow> fs_get (os_fs w') q = fs_get (os_fs w) q"
    and "e = None \<Longrightarrow> fs_get (os_fs w') (ds @ [c]) = Some (File data)"
proof -
  have "resolve True (abs_path (ds @ [c])) w1 = Inr (ds @ [c])" if "os_fs w1 = os_fs w" for w1 :: "'a os_scheme"
    using resolve_entry [of w1 ds c True] assms(1-3) that by simp
  then show "q \<noteq> ds @ [c] \<Longrightarrow> fs_get (os_fs w') q = fs_get (os_fs w) q"
    and "e = None \<Longrightarrow> fs_get (os_fs w') (ds @ [c]) = Some (File data)"
    using assms(4)
    by (auto simp: WriteFile_def write_at_def sys_def fs_store_def fs_get_put
        split: option.splits if_splits)
qed

lemma Rename_entry:
  assumes "plain_dir (os_fs w) ds" "good_seg a" "good_seg b" "a \<noteq> b"
    and "Rename (abs_path (ds @ [a])) (abs_path (ds @ [b])) w = (e, w')"
  shows "e \<noteq> None \<Longrightarrow> os_fs w' = os_fs w"
    and "e = None \<Longrightarrow> fs_get (os_fs w') (ds @ [b]) = fs_get (os_fs w) (ds @ [a])
      \<and> fs_get (os_fs w') (ds @ [a]) = None"
    and "q \<noteq> ds @ [a] \<Longrightarrow> q \<noteq> ds @ [b] \<Longrightarrow> fs_get (os_fs w') q = fs_get (os_fs w) q"
proof -
  have "resolve False (abs_path (ds @ [x])) w1 = Inr (ds @ [x])"
    if "os_fs w1 = os_fs w" "x \<in> {a, b}" for w1 :: "'a os_scheme" and x
    using resolve_entry [of w1 ds x False] assms(1-3) that by auto
  then show "e \<noteq> None \<Longrightarrow> os_fs w' = os_fs w"
    and "e = None \<Longrightarrow> fs_get (os_fs w') (ds @ [b]) = fs_get (os_fs w) (ds @ [a])
      \<and> fs_get (os_fs w') (ds @ [a]) = None"
    and "q \<noteq> ds @ [a] \<Longrightarrow> q \<noteq> ds @ [b] \<Longrightarrow> fs_get (os_fs w') q = fs_get (os_fs w) q"
    using assms(4,5)
    by (auto simp: Rename_def sys_def fs_get_put fs_get_del split: option.splits if_splits)
qed

text \<open>When they succeed.\<close>

lemma WriteFile_entry_ok:
  assumes "plain_dir (os_fs w) ds" "good_seg c" "\<And>t. fs_get (os_fs w) (ds @ [c]) \<noteq> Some (Symlink t)"
    and "fs_get (os_fs w) (ds @ [c]) \<noteq> Some Directory"
    and "WriteFile (abs_path (ds @ [c])) data w = (e, w')"
  shows "e = None \<longleftrightarrow> os_fault w (os_calls w) = None \<and> os_fault w (Suc (os_calls w)) = None"
    and "e = None \<Longrightarrow> os_calls w' = Suc (Suc (os_calls w))"
proof -
  have "resolve True (abs_path (ds @ [c])) w1 = Inr (ds @ [c])" if "os_fs w1 = os_fs w" for w1 :: "'a os_scheme"
    using resolve_entry [of w1 ds c True] assms(1-3) that by simp
  then show "e = None \<longleftrightarrow> os_fault w (os_calls w) = None \<and> os_fault w (Suc (os_calls w)) = None"
    and "e = None \<Longrightarrow> os_calls w' = Suc (Suc (os_calls w))"
    using assms(4,5)
    by (auto simp: WriteFile_def write_at_def sys_def fs_store_def split: option.splits if_splits)
qed

lemma Rename_entry_ok:
  assumes "plain_dir (os_fs w) ds" "good_seg a" "good_seg b"
    and "fs_get (os_fs w) (ds @ [a]) = Some (File x)" "fs_get (os_fs w) (ds @ [b]) \<noteq> Some Directory"
    and "Rename (abs_path (ds @ [a])) (abs_path (ds @ [b])) w = (e, w')"
  shows "e = None \<longleftrightarrow> os_fault w (os_calls w) = None"
proof -
  have "resolve False (abs_path (ds @ [x])) w1 = Inr (ds @ [x])"
    if "os_fs w1 = os_fs w" "x \<in> {a, b}" for w1 :: "'a os_scheme" and x
    using resolve_entry [of w1 ds x False] assms(1-3) that by auto
  then show ?thesis
    using assms(4-6) by (auto simp: Rename_def sys_def split: option.splits if_splits)
qed

text \<open>The operations of this theory change nothing of the records that extend it.\<close>

lemma os_env:
  "Stat p w = (r1, w') \<Longrightarrow> env_of w' = env_of w"
  "Lstat p w = (r1, w') \<Longrightarrow> env_of w' = env_of w"
  "ReadFile p w = (r2, w') \<Longrightarrow> env_of w' = env_of w"
  "Readlink p w = (r2, w') \<Longrightarrow> env_of w' = env_of w"
  "WriteFile p data w = (r3, w') \<Longrightarrow> env_of w' = env_of w"
  "WriteNewFile p data w = (r3, w') \<Longrightarrow> env_of w' = env_of w"
  "Remove p w = (r3, w') \<Longrightarrow> env_of w' = env_of w"
  "Rename p q w = (r3, w') \<Longrightarrow> env_of w' = env_of w"
  "SymlinkAt p q w = (r3, w') \<Longrightarrow> env_of w' = env_of w"
  "MkdirAll p w = (r3, w') \<Longrightarrow> env_of w' = env_of w"
  "CombinedOutput argv w = (r4, w') \<Longrightarrow> env_of w' = env_of w"
  using os_frame by (metis same_rest_env_of snd_conv)+

subsection \<open>The environment through the operations, for results given as pairs\<close>

lemma os_env2:
  "RemoveAll p w = (r3, w') \<Longrightarrow> env_of w' = env_of w"
  "ReadDir p w = (r4, w') \<Longrightarrow> env_of w' = env_of w"
  "OpenTruncate p w = (r5, w') \<Longrightarrow> env_of w' = env_of w"
  "write_at p q x w = (r3, w') \<Longrightarrow> env_of w' = env_of w"
  "time_Now w = (r7, w') \<Longrightarrow> env_of w' = env_of w"
  "sys w = (r8, w') \<Longrightarrow> env_of w' = env_of w"
  using os_frame by (metis same_rest_env_of snd_conv)+

text \<open>A host on which every command succeeds without output.\<close>

definition quiet_host :: os where
  "quiet_host = \<lparr>os_fs = [], os_cwd = [], os_calls = 0, os_fault = (\<lambda>_. None), os_short = (\<lambda>_. 0), os_ticks = 0,
     os_clock = int, os_draws = 0, os_entropy = (\<lambda>_ k. Inr (replicate k CHR 0x00)), os_cmds = [],
     os_exec = (\<lambda>_ _ m. ([], None, m))\<rparr>"

end
