(* ===== verification/Store.thy ===== *)
theory Store
  imports GoOS
begin

text \<open>
  \<open>internal/store/store.go\<close>: the entities the panel keeps and the constants for roles, statuses and
  job types.  A \<open>time.Time\<close> is an integer, the nanoseconds since the Unix epoch; a \<open>*time.Time\<close> is
  an option.
\<close>

subsection \<open>Constants\<close>

definition RoleAdmin :: string where "RoleAdmin = ''admin''"
definition RoleUser :: string where "RoleUser = ''user''"

definition SiteStatusProvisioning :: string where "SiteStatusProvisioning = ''provisioning''"
definition SiteStatusActive :: string where "SiteStatusActive = ''active''"
definition SiteStatusFailed :: string where "SiteStatusFailed = ''failed''"
definition SiteStatusDeleting :: string where "SiteStatusDeleting = ''deleting''"

definition JobStatusQueued :: string where "JobStatusQueued = ''queued''"
definition JobStatusRunning :: string where "JobStatusRunning = ''running''"
definition JobStatusSuccess :: string where "JobStatusSuccess = ''success''"
definition JobStatusFailed :: string where "JobStatusFailed = ''failed''"

definition JobTypeProvisionSite :: string where "JobTypeProvisionSite = ''provision_site''"
definition JobTypeDeprovisionSite :: string where "JobTypeDeprovisionSite = ''deprovision_site''"

lemmas site_status_defs =
  SiteStatusProvisioning_def SiteStatusActive_def SiteStatusFailed_def SiteStatusDeleting_def

lemmas job_status_defs =
  JobStatusQueued_def JobStatusRunning_def JobStatusSuccess_def JobStatusFailed_def

lemmas job_type_defs = JobTypeProvisionSite_def JobTypeDeprovisionSite_def

subsection \<open>Entities\<close>

record User =
  user_ID :: string
  user_Username :: string
  user_PasswordHash :: string
  user_Role :: string
  user_IsActive :: bool
  user_CreatedAt :: int
  user_UpdatedAt :: int

record Session =
  session_TokenHash :: string
  session_UserID :: string
  session_ExpiresAt :: int
  session_CreatedAt :: int

record Site =
  site_ID :: string
  site_Domain :: string
  site_RootPath :: string
  site_Runtime :: string
  site_Status :: string
  site_CreatedBy :: string
  site_CreatedAt :: int
  site_UpdatedAt :: int

record Job =
  job_ID :: string
  job_Type :: string
  job_Status :: string
  job_Payload :: string
  job_Error :: string
  job_StartedAt :: "int option"
  job_FinishedAt :: "int option"
  job_CreatedAt :: int
  job_TriggeredBy :: string

record AuditLog =
  log_ID :: int
  log_ActorUser :: string
  log_Action :: string
  log_TargetType :: string
  log_TargetID :: string
  log_Metadata :: string
  log_CreatedAt :: int

subsection \<open>A table with a unique secondary index\<close>

text \<open>
  Users are looked up by lower-case name and sites by lower-case domain through an index that maps
  that key to the entity's ID.  The interface of such a table: \<open>ident\<close> and \<open>key\<close> read an entity's ID
  and its key, and \<open>touch\<close> is an update of the entity that changes neither.  \<open>table_ok\<close> says the index
  is exactly the inverse of \<open>key\<close> over the table.
\<close>

definition table_ok ::
  "('v \<Rightarrow> string) \<Rightarrow> ('v \<Rightarrow> string) \<Rightarrow> (string, 'v) gomap \<Rightarrow> (string, string) gomap \<Rightarrow> bool" where
  "table_ok ident key tbl idx \<longleftrightarrow>
     mwf tbl \<and> mwf idx
     \<and> (\<forall>i v. mget tbl i = Some v \<longrightarrow> ident v = i)
     \<and> (\<forall>k i. mget idx k = Some i \<longleftrightarrow> (\<exists>v. mget tbl i = Some v \<and> key v = k))"

lemma table_okI:
  assumes "mwf tbl" "mwf idx" "\<And>i v. mget tbl i = Some v \<Longrightarrow> ident v = i"
    and "\<And>k i. mget idx k = Some i \<longleftrightarrow> (\<exists>v. mget tbl i = Some v \<and> key v = k)"
  shows "table_ok ident key tbl idx"
  using assms by (simp add: table_ok_def)

lemma table_okD:
  assumes "table_ok ident key tbl idx"
  shows "mwf tbl" "mwf idx" "\<And>i v. mget tbl i = Some v \<Longrightarrow> ident v = i"
    and "\<And>k i. mget idx k = Some i \<longleftrightarrow> (\<exists>v. mget tbl i = Some v \<and> key v = k)"
  using assms unfolding table_ok_def by blast+

locale indexed_table =
  fixes ident :: "'v \<Rightarrow> string"
    and key :: "'v \<Rightarrow> string"
    and touch :: "'p \<Rightarrow> 'v \<Rightarrow> 'v"
  assumes touch_ident: "ident (touch x v) = ident v"
    and touch_key: "key (touch x v) = key v"
begin

lemma empty_ok: "table_ok ident key [] []"
  by (simp add: table_ok_def)

text \<open>The index finds a key exactly when a scan of the whole table would.\<close>

lemma index_scan:
  assumes "table_ok ident key tbl idx"
  shows "mget idx k \<noteq> None \<longleftrightarrow> (\<exists>v\<in>set (mvals tbl). key v = k)"
proof
  assume "mget idx k \<noteq> None"
  then obtain i v where "mget tbl i = Some v" "key v = k" using table_okD(4) [OF assms] by blast
  then show "\<exists>v\<in>set (mvals tbl). key v = k" by (blast dest: mget_in_vals)
next
  assume "\<exists>v\<in>set (mvals tbl). key v = k"
  then obtain v i where "mget tbl i = Some v" "key v = k"
    using in_vals_mget [OF table_okD(1) [OF assms]] by blast
  then show "mget idx k \<noteq> None" using table_okD(4) [OF assms] by blast
qed

lemma key_unique:
  assumes "table_ok ident key tbl idx" "mget tbl i = Some v" "mget tbl j = Some u" "key v = key u"
  shows "i = j"
proof -
  have "mget idx (key v) = Some i" using table_okD(4) [OF assms(1)] assms(2) by blast
  moreover have "mget idx (key u) = Some j" using table_okD(4) [OF assms(1)] assms(3) by blast
  ultimately show ?thesis using assms(4) by simp
qed

lemma insert_ok:
  assumes ok: "table_ok ident key tbl idx" and new: "mget tbl (ident v) = None"
    and free: "mget idx (key v) = None"
  shows "table_ok ident key (mput (ident v) v tbl) (mput (key v) (ident v) idx)"
proof (rule table_okI)
  fix k i
  have other: "key u \<noteq> key v" if "mget tbl i = Some u" for i u
    using table_okD(4) [OF ok, of "key v"] free that by auto
  show "mget (mput (key v) (ident v) idx) k = Some i \<longleftrightarrow>
      (\<exists>u. mget (mput (ident v) v tbl) i = Some u \<and> key u = k)"
    using table_okD(4) [OF ok, of k i] other new by (cases "k = key v"; cases "i = ident v") auto
next
  fix i u assume "mget (mput (ident v) v tbl) i = Some u"
  then show "ident u = i" using table_okD(3) [OF ok] by (cases "i = ident v") auto
qed (use table_okD [OF ok] in simp_all)

lemma touch_ok:
  assumes ok: "table_ok ident key tbl idx" and v: "mget tbl i = Some v"
  shows "table_ok ident key (mput i (touch x v) tbl) idx"
proof (rule table_okI)
  fix k j
  show "mget idx k = Some j \<longleftrightarrow> (\<exists>u. mget (mput i (touch x v) tbl) j = Some u \<and> key u = k)"
    using table_okD(4) [OF ok, of k j] v by (cases "j = i") (auto simp: touch_key)
next
  fix j u assume "mget (mput i (touch x v) tbl) j = Some u"
  then show "ident u = j" using table_okD(3) [OF ok] v
    by (cases "j = i") (auto simp: touch_ident)
qed (use table_okD [OF ok] in simp_all)

lemma delete_ok:
  assumes ok: "table_ok ident key tbl idx" and v: "mget tbl i = Some v"
  shows "table_ok ident key (mdel i tbl) (mdel (key v) idx)"
proof (rule table_okI)
  fix k j
  show "mget (mdel (key v) idx) k = Some j \<longleftrightarrow> (\<exists>u. mget (mdel i tbl) j = Some u \<and> key u = k)"
  proof (cases "k = key v")
    case True
    then show ?thesis using key_unique [OF ok v] by auto
  next
    case False
    then show ?thesis using table_okD(4) [OF ok, of k j] v by (cases "j = i") auto
  qed
next
  fix j u assume "mget (mdel i tbl) j = Some u"
  then show "ident u = j" using table_okD(3) [OF ok] by (cases "j = i") auto
qed (use table_okD [OF ok] in simp_all)

text \<open>Rebuilding the index from a table whose keys are distinct.\<close>

lemma rebuild_ok:
  assumes "mwf tbl" "\<And>i v. mget tbl i = Some v \<Longrightarrow> ident v = i"
    and "distinct (map (\<lambda>(i, v). key v) tbl)"
  shows "table_ok ident key tbl (fold (\<lambda>(i, v) idx. mput (key v) i idx) tbl [])"
proof -
  have wf: "mwf idx \<Longrightarrow> mwf (fold (\<lambda>(i, v) idx. mput (key v) i idx) xs idx)" for xs idx
    by (induction xs arbitrary: idx) auto
  have get: "distinct (map (\<lambda>(i, v). key v) xs) \<Longrightarrow>
      mget (fold (\<lambda>(i, v) idx. mput (key v) i idx) xs idx) k = Some j \<longleftrightarrow>
        ((\<exists>v. (j, v) \<in> set xs \<and> key v = k)
         \<or> (\<nexists>i v. (i, v) \<in> set xs \<and> key v = k) \<and> mget idx k = Some j)" for xs idx k j
  proof (induction xs arbitrary: idx)
    case (Cons x xs)
    obtain i v where x: "x = (i, v)" by (cases x)
    from Cons.prems x have "key v' \<noteq> key v" if "(i', v') \<in> set xs" for i' v'
      using that by (force simp: image_iff)
    with Cons x show ?case by (cases "k = key v") auto
  qed simp
  show ?thesis
  proof (rule table_okI)
    fix k i
    show "mget (fold (\<lambda>(i, v) idx. mput (key v) i idx) tbl []) k = Some i \<longleftrightarrow>
        (\<exists>v. mget tbl i = Some v \<and> key v = k)"
      using get [OF assms(3), of "[]" k i] map_of_eq_Some_iff [OF assms(1)] by auto
  qed (use assms wf [of "[]" tbl] in auto)
qed

lemma keys_distinct:
  assumes ok: "table_ok ident key tbl idx"
  shows "distinct (map (\<lambda>(i, v). key v) tbl)"
proof -
  have "(i, v) = (j, u)" if "(i, v) \<in> set tbl" "(j, u) \<in> set tbl" "key v = key u" for i v j u
  proof -
    from that table_okD(1) [OF ok] have "mget tbl i = Some v" "mget tbl j = Some u"
      by (auto intro: map_of_is_SomeI)
    with key_unique [OF ok _ _ that(3)] show ?thesis by force
  qed
  then have "inj_on (\<lambda>(i, v). key v) (set tbl)" by (auto simp: inj_on_def)
  moreover have "distinct tbl" using table_okD(1) [OF ok] by (simp add: distinct_map)
  ultimately show ?thesis by (simp add: distinct_map)
qed

lemma rebuild_same:
  assumes ok: "table_ok ident key tbl idx"
  shows "mget (fold (\<lambda>(i, v) idx. mput (key v) i idx) tbl []) = mget idx"
proof
  fix k
  have "table_ok ident key tbl (fold (\<lambda>(i, v) idx. mput (key v) i idx) tbl [])"
    using table_okD [OF ok] keys_distinct [OF ok] by (intro rebuild_ok) auto
  from table_okD(4) [OF this, of k] table_okD(4) [OF ok, of k]
  show "mget (fold (\<lambda>(i, v) idx. mput (key v) i idx) tbl []) k = mget idx k"
    by (metis not_None_eq)
qed

end

end
