(* ===== verification/FileDB.thy ===== *)
theory FileDB
  imports Store
begin

text \<open>
  \<open>internal/store/filedb/repository.go\<close>: the state repository, an in-memory snapshot that is written
  to a JSON file after every change.  The repository's state extends the operating system's, so each
  operation is a function from a state to its result and the new state; the mutex makes each one
  atomic.  \<open>json.MarshalIndent\<close> and \<open>json.Unmarshal\<close> on the snapshot's type are the fields
  \<open>rp_marshal\<close> and \<open>rp_unmarshal\<close> of the environment.
\<close>

subsection \<open>State\<close>

record snapshot =
  SchemaVersion :: int
  Users :: "(string, User) gomap"
  Sessions :: "(string, Session) gomap"
  Sites :: "(string, Site) gomap"
  Jobs :: "(string, Job) gomap"
  AuditLogs :: "AuditLog list"
  AuditSequence :: int
  UsernameIndex :: "(string, string) gomap"
  DomainIndex :: "(string, string) gomap"

text \<open>What \<open>json.Unmarshal\<close> yields: a map or slice that the document lacks is nil.\<close>

record decoded =
  d_SchemaVersion :: int
  d_Users :: "(string, User) gomap option"
  d_Sessions :: "(string, Session) gomap option"
  d_Sites :: "(string, Site) gomap option"
  d_Jobs :: "(string, Job) gomap option"
  d_AuditLogs :: "AuditLog list option"
  d_AuditSequence :: int
  d_UsernameIndex :: "(string, string) gomap option"
  d_DomainIndex :: "(string, string) gomap option"

record repo = os +
  rp_path :: string
  rp_data :: snapshot
  rp_marshal :: "snapshot \<Rightarrow> error + string"
  rp_unmarshal :: "string \<Rightarrow> error + decoded"

definition schemaVersion :: int where
  "schemaVersion = 1"

definition newSnapshot :: snapshot where
  "newSnapshot = \<lparr>SchemaVersion = schemaVersion, Users = [], Sessions = [], Sites = [], Jobs = [],
     AuditLogs = [], AuditSequence = 0, UsernameIndex = [], DomainIndex = []\<rparr>"

abbreviation upd_data :: "(snapshot \<Rightarrow> snapshot) \<Rightarrow> 'a repo_scheme \<Rightarrow> 'a repo_scheme" where
  "upd_data f w \<equiv> w\<lparr>rp_data := f (rp_data w)\<rparr>"

subsection \<open>Loading and saving\<close>

definition tmp_path :: "'a repo_scheme \<Rightarrow> string" where
  "tmp_path w = rp_path w @ ''.tmp''"

definition repo_save :: "'a repo_scheme \<Rightarrow> error option \<times> 'a repo_scheme" where
  "repo_save w =
     (case rp_marshal w (rp_data w) of
        Inl e \<Rightarrow> (Some (Errorf ''encode state: '' e []), w)
      | Inr raw \<Rightarrow>
          (case WriteFile (tmp_path w) raw w of
             (Some e, w) \<Rightarrow> (Some (Errorf ''write tmp state: '' e []), w)
           | (None, w) \<Rightarrow>
               (case Rename (tmp_path w) (rp_path w) w of
                  (Some e, w) \<Rightarrow> (Some (Errorf ''replace state: '' e []), w)
                | (None, w) \<Rightarrow> (None, w))))"

definition rebuildIndexes :: "snapshot \<Rightarrow> snapshot" where
  "rebuildIndexes d = d\<lparr>
     UsernameIndex := fold (\<lambda>(i, u) idx. mput (ToLower (user_Username u)) i idx) (Users d) [],
     DomainIndex := fold (\<lambda>(i, s) idx. mput (ToLower (site_Domain s)) i idx) (Sites d) []\<rparr>"

definition nil_default :: "decoded \<Rightarrow> snapshot" where
  "nil_default d = \<lparr>SchemaVersion = d_SchemaVersion d,
     Users = (case d_Users d of None \<Rightarrow> [] | Some m \<Rightarrow> m),
     Sessions = (case d_Sessions d of None \<Rightarrow> [] | Some m \<Rightarrow> m),
     Sites = (case d_Sites d of None \<Rightarrow> [] | Some m \<Rightarrow> m),
     Jobs = (case d_Jobs d of None \<Rightarrow> [] | Some m \<Rightarrow> m),
     AuditLogs = (case d_AuditLogs d of None \<Rightarrow> [] | Some m \<Rightarrow> m),
     AuditSequence = d_AuditSequence d,
     UsernameIndex = (case d_UsernameIndex d of None \<Rightarrow> [] | Some m \<Rightarrow> m),
     DomainIndex = (case d_DomainIndex d of None \<Rightarrow> [] | Some m \<Rightarrow> m)\<rparr>"

definition repo_load :: "'a repo_scheme \<Rightarrow> error option \<times> 'a repo_scheme" where
  "repo_load w =
     (case ReadFile (rp_path w) w of
        (Inl e, w) \<Rightarrow>
          if Is_NotExist e then repo_save w else (Some (Errorf ''read state: '' e []), w)
      | (Inr raw, w) \<Rightarrow>
          (case rp_unmarshal w raw of
             Inl e \<Rightarrow> (Some (Errorf ''decode state: '' e []), w)
           | Inr snap \<Rightarrow>
               if d_SchemaVersion snap \<noteq> schemaVersion
               then (Some (NewError (''unsupported schema version: '' @ Itoa (d_SchemaVersion snap))), w)
               else (None, w\<lparr>rp_data := rebuildIndexes (nil_default snap)\<rparr>)))"

definition repo_New :: "string \<Rightarrow> 'a repo_scheme \<Rightarrow> error option \<times> 'a repo_scheme" where
  "repo_New path w =
     (if path = [] then (Some (NewError ''empty path''), w)
      else case MkdirAll (Dir_of path) w of
        (Some e, w) \<Rightarrow> (Some (Errorf ''mkdir data dir: '' e []), w)
      | (None, w) \<Rightarrow> repo_load (w\<lparr>rp_path := path, rp_data := newSnapshot\<rparr>))"

definition repo_Migrate :: "'a repo_scheme \<Rightarrow> error option \<times> 'a repo_scheme" where
  [repo_defs]: "repo_Migrate w =
     repo_save (if SchemaVersion (rp_data w) = 0
                then upd_data (\<lambda>d. d\<lparr>SchemaVersion := schemaVersion\<rparr>) w else w)"

definition repo_Close :: "'a repo_scheme \<Rightarrow> error option \<times> 'a repo_scheme" where
  [repo_defs]: "repo_Close w = repo_save w"

subsection \<open>Users and sessions\<close>

definition repo_CountUsers :: "'a repo_scheme \<Rightarrow> nat" where
  [repo_defs]: "repo_CountUsers w = length (Users (rp_data w))"

definition repo_CreateUser :: "User \<Rightarrow> 'a repo_scheme \<Rightarrow> error option \<times> 'a repo_scheme" where
  [repo_defs]: "repo_CreateUser user w =
     (let usernameKey = ToLower (user_Username user) in
      if mget (UsernameIndex (rp_data w)) usernameKey \<noteq> None then (Some (storeE ErrConflict), w)
      else repo_save (upd_data (\<lambda>d. d\<lparr>Users := mput (user_ID user) user (Users d),
             UsernameIndex := mput usernameKey (user_ID user) (UsernameIndex d)\<rparr>) w))"

definition repo_GetUserByID :: "string \<Rightarrow> 'a repo_scheme \<Rightarrow> error + User" where
  [repo_defs]: "repo_GetUserByID i w =
     (case mget (Users (rp_data w)) i of None \<Rightarrow> Inl (storeE ErrNotFound) | Some u \<Rightarrow> Inr u)"

definition repo_GetUserByUsername :: "string \<Rightarrow> 'a repo_scheme \<Rightarrow> error + User" where
  [repo_defs]: "repo_GetUserByUsername username w =
     (case mget (UsernameIndex (rp_data w)) (ToLower username) of
        None \<Rightarrow> Inl (storeE ErrNotFound)
      | Some i \<Rightarrow>
          (case mget (Users (rp_data w)) i of None \<Rightarrow> Inl (storeE ErrNotFound) | Some u \<Rightarrow> Inr u))"

definition set_password :: "string \<times> int \<Rightarrow> User \<Rightarrow> User" where
  "set_password p u = u\<lparr>user_PasswordHash := fst p, user_UpdatedAt := snd p\<rparr>"

definition repo_UpdateUserPassword :: "string \<Rightarrow> string \<Rightarrow> int \<Rightarrow> 'a repo_scheme \<Rightarrow> error option \<times> 'a repo_scheme" where
  [repo_defs]: "repo_UpdateUserPassword i passwordHash updatedAt w =
     (case mget (Users (rp_data w)) i of
        None \<Rightarrow> (Some (storeE ErrNotFound), w)
      | Some user \<Rightarrow>
          repo_save (upd_data (\<lambda>d. d\<lparr>Users := mput i (set_password (passwordHash, updatedAt) user) (Users d)\<rparr>) w))"

definition repo_CreateSession :: "Session \<Rightarrow> 'a repo_scheme \<Rightarrow> error option \<times> 'a repo_scheme" where
  [repo_defs]: "repo_CreateSession s w =
     repo_save (upd_data (\<lambda>d. d\<lparr>Sessions := mput (session_TokenHash s) s (Sessions d)\<rparr>) w)"

definition repo_GetSessionByTokenHash :: "string \<Rightarrow> 'a repo_scheme \<Rightarrow> error + Session" where
  [repo_defs]: "repo_GetSessionByTokenHash h w =
     (case mget (Sessions (rp_data w)) h of None \<Rightarrow> Inl (storeE ErrNotFound) | Some s \<Rightarrow> Inr s)"

definition repo_DeleteSessionByTokenHash :: "string \<Rightarrow> 'a repo_scheme \<Rightarrow> error option \<times> 'a repo_scheme" where
  [repo_defs]: "repo_DeleteSessionByTokenHash h w =
     repo_save (upd_data (\<lambda>d. d\<lparr>Sessions := mdel h (Sessions d)\<rparr>) w)"

subsection \<open>Sites\<close>

definition repo_CreateSite :: "Site \<Rightarrow> 'a repo_scheme \<Rightarrow> error option \<times> 'a repo_scheme" where
  [repo_defs]: "repo_CreateSite site w =
     (let domainKey = ToLower (site_Domain site) in
      if mget (DomainIndex (rp_data w)) domainKey \<noteq> None then (Some (storeE ErrConflict), w)
      else repo_save (upd_data (\<lambda>d. d\<lparr>Sites := mput (site_ID site) site (Sites d),
             DomainIndex := mput domainKey (site_ID site) (DomainIndex d)\<rparr>) w))"

text \<open>
  \<open>sort.Slice\<close> with \<open>After\<close>: latest first.  The sort is not stable; the list's order stands for the
  arbitrary order in which the map is ranged over, so a stable sort of it covers every outcome.
\<close>

definition limited :: "int \<Rightarrow> 'v list \<Rightarrow> 'v list" where
  "limited limit xs = (if 0 < limit \<and> limit < int (length xs) then take (nat limit) xs else xs)"

definition repo_ListSites :: "int \<Rightarrow> 'a repo_scheme \<Rightarrow> Site list" where
  [repo_defs]: "repo_ListSites limit w =
     limited limit (sort_key (\<lambda>s. - site_CreatedAt s) (mvals (Sites (rp_data w))))"

definition repo_GetSiteByID :: "string \<Rightarrow> 'a repo_scheme \<Rightarrow> error + Site" where
  [repo_defs]: "repo_GetSiteByID i w =
     (case mget (Sites (rp_data w)) i of None \<Rightarrow> Inl (storeE ErrNotFound) | Some s \<Rightarrow> Inr s)"

definition set_status :: "string \<times> int \<Rightarrow> Site \<Rightarrow> Site" where
  "set_status p s = s\<lparr>site_Status := fst p, site_UpdatedAt := snd p\<rparr>"

definition repo_UpdateSiteStatus :: "string \<Rightarrow> string \<Rightarrow> 'a repo_scheme \<Rightarrow> error option \<times> 'a repo_scheme" where
  [repo_defs]: "repo_UpdateSiteStatus i status w =
     (case mget (Sites (rp_data w)) i of
        None \<Rightarrow> (Some (storeE ErrNotFound), w)
      | Some site \<Rightarrow>
          (case time_Now w of
             (now, w) \<Rightarrow> repo_save (upd_data (\<lambda>d. d\<lparr>Sites := mput i (set_status (status, now) site) (Sites d)\<rparr>) w)))"

definition repo_DeleteSite :: "string \<Rightarrow> 'a repo_scheme \<Rightarrow> error option \<times> 'a repo_scheme" where
  [repo_defs]: "repo_DeleteSite i w =
     (case mget (Sites (rp_data w)) i of
        None \<Rightarrow> (Some (storeE ErrNotFound), w)
      | Some site \<Rightarrow>
          repo_save (upd_data (\<lambda>d. d\<lparr>DomainIndex := mdel (ToLower (site_Domain site)) (DomainIndex d),
             Sites := mdel i (Sites d)\<rparr>) w))"

subsection \<open>Jobs\<close>

definition repo_CreateJob :: "Job \<Rightarrow> 'a repo_scheme \<Rightarrow> error option \<times> 'a repo_scheme" where
  [repo_defs]: "repo_CreateJob job w =
     repo_save (upd_data (\<lambda>d. d\<lparr>Jobs := mput (job_ID job) job (Jobs d)\<rparr>) w)"

definition repo_ListJobs :: "int \<Rightarrow> 'a repo_scheme \<Rightarrow> Job list" where
  [repo_defs]: "repo_ListJobs limit w =
     limited limit (sort_key (\<lambda>j. - job_CreatedAt j) (mvals (Jobs (rp_data w))))"

definition repo_GetJobByID :: "string \<Rightarrow> 'a repo_scheme \<Rightarrow> error + Job" where
  [repo_defs]: "repo_GetJobByID i w =
     (case mget (Jobs (rp_data w)) i of None \<Rightarrow> Inl (storeE ErrNotFound) | Some j \<Rightarrow> Inr j)"

definition repo_UpdateJob ::
  "string \<Rightarrow> string \<Rightarrow> string \<Rightarrow> int option \<Rightarrow> int option \<Rightarrow> 'a repo_scheme \<Rightarrow> error option \<times> 'a repo_scheme" where
  [repo_defs]: "repo_UpdateJob i status errorMsg startedAt finishedAt w =
     (case mget (Jobs (rp_data w)) i of
        None \<Rightarrow> (Some (storeE ErrNotFound), w)
      | Some job \<Rightarrow>
          repo_save (upd_data (\<lambda>d. d\<lparr>Jobs := mput i (job\<lparr>job_Status := status, job_Error := errorMsg,
             job_StartedAt := startedAt, job_FinishedAt := finishedAt\<rparr>) (Jobs d)\<rparr>) w))"

subsection \<open>Audit log\<close>

definition repo_CreateAuditLog :: "AuditLog \<Rightarrow> 'a repo_scheme \<Rightarrow> error option \<times> 'a repo_scheme" where
  [repo_defs]: "repo_CreateAuditLog entry w =
     (let n = wrap64 (AuditSequence (rp_data w) + 1) in
      repo_save (upd_data (\<lambda>d. d\<lparr>AuditSequence := n, AuditLogs := AuditLogs d @ [entry\<lparr>log_ID := n\<rparr>]\<rparr>) w))"

definition repo_ListAuditLogs :: "int \<Rightarrow> 'a repo_scheme \<Rightarrow> AuditLog list" where
  [repo_defs]: "repo_ListAuditLogs limit w =
     (let logs = AuditLogs (rp_data w);
          size = int (length logs);
          n = (if limit \<le> 0 \<or> limit > size then size else limit)
      in take (nat n) (rev logs))"

subsection \<open>What saving leaves alone\<close>

lemma same_rest_repo:
  assumes "same_rest w w'"
  shows "rp_path w' = rp_path w" "rp_data w' = rp_data w" "rp_marshal w' = rp_marshal w"
    "rp_unmarshal w' = rp_unmarshal w" "repo.more w' = repo.more w"
  using assms by (cases w; cases w'; simp add: same_rest_def)+

lemma repo_save_rest [repo_frame]: "same_rest w (snd (repo_save w))"
proof (cases "rp_marshal w (rp_data w)")
  case (Inr raw)
  obtain e1 w1 where w1: "WriteFile (tmp_path w) raw w = (e1, w1)" by fastforce
  obtain e2 w2 where w2: "Rename (tmp_path w1) (rp_path w1) w1 = (e2, w2)" by fastforce
  have "same_rest w w1" using WriteFile_rest [of w "tmp_path w" raw] w1 by simp
  moreover have "same_rest w1 w2" using Rename_rest [of w1 "tmp_path w1" "rp_path w1"] w2 by simp
  ultimately show ?thesis
    using Inr w1 w2 by (auto simp: repo_save_def split: option.split intro: same_rest_trans)
qed (simp add: repo_save_def)

lemmas repo_save_frame [simp] = same_rest_repo [OF repo_save_rest]

lemma time_Now_data [simp]:
  "rp_data (snd (time_Now w)) = rp_data w" "repo.more (snd (time_Now w)) = repo.more w"
  by (simp_all add: time_Now_def)

subsection \<open>What each operation does to the data\<close>

text \<open>The in-memory change happens whether or not the file can be written.\<close>

lemma repo_CreateUser_data [repo_frame]:
  "rp_data (snd (repo_CreateUser u w)) =
     (if mget (UsernameIndex (rp_data w)) (ToLower (user_Username u)) \<noteq> None then rp_data w
      else (rp_data w)\<lparr>Users := mput (user_ID u) u (Users (rp_data w)),
             UsernameIndex := mput (ToLower (user_Username u)) (user_ID u) (UsernameIndex (rp_data w))\<rparr>)"
  by (simp add: repo_CreateUser_def Let_def)

lemma repo_UpdateUserPassword_data [repo_frame]:
  "rp_data (snd (repo_UpdateUserPassword i h t w)) =
     (case mget (Users (rp_data w)) i of None \<Rightarrow> rp_data w
      | Some u \<Rightarrow> (rp_data w)\<lparr>Users := mput i (set_password (h, t) u) (Users (rp_data w))\<rparr>)"
  by (simp add: repo_UpdateUserPassword_def split: option.split)

lemma repo_CreateSession_data [repo_frame]:
  "rp_data (snd (repo_CreateSession s w)) =
     (rp_data w)\<lparr>Sessions := mput (session_TokenHash s) s (Sessions (rp_data w))\<rparr>"
  by (simp add: repo_CreateSession_def)

lemma repo_DeleteSession_data [repo_frame]:
  "rp_data (snd (repo_DeleteSessionByTokenHash h w)) =
     (rp_data w)\<lparr>Sessions := mdel h (Sessions (rp_data w))\<rparr>"
  by (simp add: repo_DeleteSessionByTokenHash_def)

lemma repo_CreateSite_data [repo_frame]:
  "rp_data (snd (repo_CreateSite s w)) =
     (if mget (DomainIndex (rp_data w)) (ToLower (site_Domain s)) \<noteq> None then rp_data w
      else (rp_data w)\<lparr>Sites := mput (site_ID s) s (Sites (rp_data w)),
             DomainIndex := mput (ToLower (site_Domain s)) (site_ID s) (DomainIndex (rp_data w))\<rparr>)"
  by (simp add: repo_CreateSite_def Let_def)

lemma repo_UpdateSiteStatus_data [repo_frame]:
  "rp_data (snd (repo_UpdateSiteStatus i st w)) =
     (case mget (Sites (rp_data w)) i of None \<Rightarrow> rp_data w
      | Some s \<Rightarrow> (rp_data w)\<lparr>Sites := mput i (set_status (st, fst (time_Now w)) s) (Sites (rp_data w))\<rparr>)"
  by (simp add: repo_UpdateSiteStatus_def time_Now_def split: option.split prod.split)

lemma repo_DeleteSite_data [repo_frame]:
  "rp_data (snd (repo_DeleteSite i w)) =
     (case mget (Sites (rp_data w)) i of None \<Rightarrow> rp_data w
      | Some s \<Rightarrow> (rp_data w)\<lparr>DomainIndex := mdel (ToLower (site_Domain s)) (DomainIndex (rp_data w)),
                   Sites := mdel i (Sites (rp_data w))\<rparr>)"
  by (simp add: repo_DeleteSite_def split: option.split)

lemma repo_CreateJob_data [repo_frame]:
  "rp_data (snd (repo_CreateJob j w)) = (rp_data w)\<lparr>Jobs := mput (job_ID j) j (Jobs (rp_data w))\<rparr>"
  by (simp add: repo_CreateJob_def)

lemma repo_UpdateJob_data [repo_frame]:
  "rp_data (snd (repo_UpdateJob i st er sa fa w)) =
     (case mget (Jobs (rp_data w)) i of None \<Rightarrow> rp_data w
      | Some j \<Rightarrow> (rp_data w)\<lparr>Jobs := mput i (j\<lparr>job_Status := st, job_Error := er,
             job_StartedAt := sa, job_FinishedAt := fa\<rparr>) (Jobs (rp_data w))\<rparr>)"
  by (simp add: repo_UpdateJob_def split: option.split)

lemma repo_CreateAuditLog_data [repo_frame]:
  "rp_data (snd (repo_CreateAuditLog e w)) =
     (rp_data w)\<lparr>AuditSequence := wrap64 (AuditSequence (rp_data w) + 1),
       AuditLogs := AuditLogs (rp_data w) @ [e\<lparr>log_ID := wrap64 (AuditSequence (rp_data w) + 1)\<rparr>]\<rparr>"
  by (simp add: repo_CreateAuditLog_def Let_def)

lemma repo_Migrate_data [repo_frame]:
  "rp_data (snd (repo_Migrate w)) =
     (if SchemaVersion (rp_data w) = 0 then (rp_data w)\<lparr>SchemaVersion := schemaVersion\<rparr> else rp_data w)"
  by (simp add: repo_Migrate_def)

lemma repo_Close_data [repo_frame]: "rp_data (snd (repo_Close w)) = rp_data w"
  by (simp add: repo_Close_def)

subsection \<open>The environment through the operations\<close>

text \<open>
  \<open>same_env w w'\<close>: the two states differ at most in the files, in the positions of the environment's
  streams and in the snapshot.  Every operation keeps the rest, in particular what a state that
  extends the repository's adds.
\<close>

definition same_env :: "'a repo_scheme \<Rightarrow> 'a repo_scheme \<Rightarrow> bool" where
  "same_env w w' \<longleftrightarrow> same_rest w (w'\<lparr>rp_data := rp_data w\<rparr>)"

lemma same_envD:
  assumes "same_env w w'"
  shows "rp_path w' = rp_path w" "rp_marshal w' = rp_marshal w" "rp_unmarshal w' = rp_unmarshal w"
    "repo.more w' = repo.more w" "os_clock w' = os_clock w" "os_entropy w' = os_entropy w"
    "os_exec w' = os_exec w" "os_fault w' = os_fault w" "os_cwd w' = os_cwd w" "os_short w' = os_short w"
  using assms same_rest_repo [of w "w'\<lparr>rp_data := rp_data w\<rparr>"]
  by (simp_all add: same_env_def) (simp_all add: same_rest_def)

lemma same_rest_env: "same_rest w w' \<Longrightarrow> same_env w w'"
  by (cases w; cases w'; simp add: same_env_def same_rest_def)

lemma same_env_refl [simp]: "same_env w w"
  by (simp add: same_rest_env)

lemma same_env_trans: "same_env w w' \<Longrightarrow> same_env w' w'' \<Longrightarrow> same_env w w''"
  by (cases w; cases w'; cases w''; simp add: same_env_def same_rest_def)

lemma same_env_data [simp]: "same_env w (w'\<lparr>rp_data := d\<rparr>) = same_env w w'"
  by (simp add: same_env_def)

lemma repo_save_env: "same_env w (snd (repo_save w))"
  by (rule same_rest_env [OF repo_save_rest])

lemma repo_save_upd_env: "same_env w w' \<Longrightarrow> same_env w (snd (repo_save (w'\<lparr>rp_data := d\<rparr>)))"
  by (rule same_env_trans [OF _ repo_save_env]) simp

lemma time_Now_env: "same_env w (snd (time_Now w))"
  by (rule same_rest_env [OF time_Now_rest])

lemma repo_env [repo_frame]:
  "same_env w (snd (repo_CreateUser u w))"
  "same_env w (snd (repo_UpdateUserPassword i h t w))"
  "same_env w (snd (repo_CreateSession s w))"
  "same_env w (snd (repo_DeleteSessionByTokenHash h w))"
  "same_env w (snd (repo_CreateSite st w))"
  "same_env w (snd (repo_UpdateSiteStatus i status w))"
  "same_env w (snd (repo_DeleteSite i w))"
  "same_env w (snd (repo_CreateJob j w))"
  "same_env w (snd (repo_UpdateJob i status er sa fa w))"
  "same_env w (snd (repo_CreateAuditLog e w))"
  "same_env w (snd (repo_Migrate w))"
  "same_env w (snd (repo_Close w))"
  using time_Now_env [of w]
  by (auto simp: repo_defs Let_def repo_save_env intro: repo_save_upd_env same_env_trans
      split: option.split prod.split)

subsection \<open>The invariant\<close>

interpretation users: indexed_table user_ID "\<lambda>u. ToLower (user_Username u)" set_password
  by unfold_locales (simp_all add: set_password_def)

interpretation sites: indexed_table site_ID "\<lambda>s. ToLower (site_Domain s)" set_status
  by unfold_locales (simp_all add: set_status_def)

definition users_ok :: "snapshot \<Rightarrow> bool" where
  "users_ok d \<longleftrightarrow> table_ok user_ID (\<lambda>u. ToLower (user_Username u)) (Users d) (UsernameIndex d)"

definition sites_ok :: "snapshot \<Rightarrow> bool" where
  "sites_ok d \<longleftrightarrow> table_ok site_ID (\<lambda>s. ToLower (site_Domain s)) (Sites d) (DomainIndex d)"

definition jobs_ok :: "snapshot \<Rightarrow> bool" where
  "jobs_ok d \<longleftrightarrow> mwf (Jobs d) \<and> (\<forall>i j. mget (Jobs d) i = Some j \<longrightarrow> job_ID j = i)"

definition sessions_ok :: "snapshot \<Rightarrow> bool" where
  "sessions_ok d \<longleftrightarrow> mwf (Sessions d) \<and> (\<forall>h s. mget (Sessions d) h = Some s \<longrightarrow> session_TokenHash s = h)"

text \<open>The audit log's IDs count from one, without a gap.\<close>

definition audit_ok :: "snapshot \<Rightarrow> bool" where
  "audit_ok d \<longleftrightarrow> map log_ID (AuditLogs d) = map int [1..<Suc (length (AuditLogs d))]
     \<and> AuditSequence d = int (length (AuditLogs d))"

definition data_ok :: "snapshot \<Rightarrow> bool" where
  "data_ok d \<longleftrightarrow> users_ok d \<and> sites_ok d \<and> jobs_ok d \<and> sessions_ok d \<and> audit_ok d"

lemma newSnapshot_ok: "data_ok newSnapshot"
  by (simp add: data_ok_def newSnapshot_def users_ok_def sites_ok_def jobs_ok_def sessions_ok_def
      audit_ok_def users.empty_ok sites.empty_ok)

text \<open>Every change of the repository, with the freshness of new IDs as \<open>idgen\<close> gives it.\<close>

inductive repo_step :: "'a repo_scheme \<Rightarrow> 'a repo_scheme \<Rightarrow> bool" where
  CreateUser: "mget (Users (rp_data w)) (user_ID u) = None \<Longrightarrow> repo_step w (snd (repo_CreateUser u w))"
| UpdatePassword: "repo_step w (snd (repo_UpdateUserPassword i h t w))"
| CreateSession: "repo_step w (snd (repo_CreateSession s w))"
| DeleteSession: "repo_step w (snd (repo_DeleteSessionByTokenHash h w))"
| CreateSite: "mget (Sites (rp_data w)) (site_ID st) = None \<Longrightarrow> repo_step w (snd (repo_CreateSite st w))"
| UpdateSiteStatus: "repo_step w (snd (repo_UpdateSiteStatus i status w))"
| DeleteSite: "repo_step w (snd (repo_DeleteSite i w))"
| CreateJob: "repo_step w (snd (repo_CreateJob j w))"
| UpdateJob: "repo_step w (snd (repo_UpdateJob i status er sa fa w))"
| CreateAuditLog: "length (AuditLogs (rp_data w)) < 2 ^ 63 - 1 \<Longrightarrow> repo_step w (snd (repo_CreateAuditLog e w))"
| Migrate: "repo_step w (snd (repo_Migrate w))"
| Close: "repo_step w (snd (repo_Close w))"

lemma mput_keeps_ident:
  "(\<forall>i v. mget m i = Some v \<longrightarrow> ident v = i) \<Longrightarrow> ident v' = i' \<Longrightarrow>
    mget (mput i' v' m) i = Some v \<Longrightarrow> ident v = i"
  by (auto split: if_splits)

lemma audit_ok_append:
  assumes "audit_ok d" "length (AuditLogs d) < 2 ^ 63 - 1"
  shows "audit_ok (d\<lparr>AuditSequence := wrap64 (AuditSequence d + 1),
    AuditLogs := AuditLogs d @ [e\<lparr>log_ID := wrap64 (AuditSequence d + 1)\<rparr>]\<rparr>)"
proof -
  have "wrap64 (AuditSequence d + 1) = int (length (AuditLogs d)) + 1"
    using assms by (simp add: audit_ok_def wrap64_id)
  with assms(1) show ?thesis by (simp add: audit_ok_def)
qed

lemma repo_step_data_ok: "repo_step w w' \<Longrightarrow> data_ok (rp_data w) \<Longrightarrow> data_ok (rp_data w')"
proof (induction rule: repo_step.induct)
  case (CreateUser w u)
  then show ?case
    using users.insert_ok [of "Users (rp_data w)" "UsernameIndex (rp_data w)" u]
    by (auto simp: repo_frame data_ok_def users_ok_def sites_ok_def jobs_ok_def sessions_ok_def audit_ok_def)
next
  case (UpdatePassword w i h t)
  then show ?case
    using users.touch_ok [of "Users (rp_data w)" "UsernameIndex (rp_data w)" i _ "(h, t)"]
    by (auto simp: repo_frame data_ok_def users_ok_def sites_ok_def jobs_ok_def sessions_ok_def audit_ok_def
        split: option.split)
next
  case (CreateSite w st)
  then show ?case
    using sites.insert_ok [of "Sites (rp_data w)" "DomainIndex (rp_data w)" st]
    by (auto simp: repo_frame data_ok_def users_ok_def sites_ok_def jobs_ok_def sessions_ok_def audit_ok_def)
next
  case (UpdateSiteStatus w i status)
  then show ?case
    using sites.touch_ok [of "Sites (rp_data w)" "DomainIndex (rp_data w)" i _ "(status, fst (time_Now w))"]
    by (auto simp: repo_frame data_ok_def users_ok_def sites_ok_def jobs_ok_def sessions_ok_def audit_ok_def
        split: option.split)
next
  case (DeleteSite w i)
  then show ?case
    using sites.delete_ok [of "Sites (rp_data w)" "DomainIndex (rp_data w)" i]
    by (auto simp: repo_frame data_ok_def users_ok_def sites_ok_def jobs_ok_def sessions_ok_def audit_ok_def
        split: option.split)
next
  case (CreateAuditLog w e)
  then show ?case
    using audit_ok_append [of "rp_data w" e]
    by (simp add: repo_frame data_ok_def users_ok_def sites_ok_def jobs_ok_def sessions_ok_def)
next
  case (UpdateJob w i status er sa fa)
  then show ?case
    by (auto simp: repo_frame data_ok_def users_ok_def sites_ok_def jobs_ok_def sessions_ok_def audit_ok_def
        split: option.split if_splits)
qed (auto simp: repo_frame data_ok_def users_ok_def sites_ok_def jobs_ok_def sessions_ok_def audit_ok_def
        split: option.split if_splits)

subsection \<open>Saving is atomic\<close>

lemma repo_save_entry:
  assumes dir: "plain_dir (os_fs w) ds" and c: "good_seg c" and path: "rp_path w = abs_path (ds @ [c])"
    and enc: "rp_marshal w (rp_data w) = Inr raw"
    and tmp: "\<And>t. fs_get (os_fs w) (ds @ [c @ ''.tmp'']) \<noteq> Some (Symlink t)"
    and run: "repo_save w = (e, w')"
  shows "fs_get (os_fs w') (ds @ [c]) = (if e = None then Some (File raw) else fs_get (os_fs w) (ds @ [c]))"
    and "q \<noteq> ds @ [c] \<Longrightarrow> q \<noteq> ds @ [c @ ''.tmp''] \<Longrightarrow> fs_get (os_fs w') q = fs_get (os_fs w) q"
proof -
  let ?t = "c @ ''.tmp''"
  have t: "good_seg ?t" and tc: "?t \<noteq> c" using c by (auto intro: good_seg_append simp: slash_def)
  have tp: "tmp_path w = abs_path (ds @ [?t])" by (simp add: tmp_path_def path abs_path_append)
  obtain e1 w1 where w1: "WriteFile (tmp_path w) raw w = (e1, w1)" by fastforce
  have rest: "rp_path w1 = rp_path w" "tmp_path w1 = tmp_path w"
    using same_rest_repo [OF WriteFile_rest [of w "tmp_path w" raw]] w1 by (simp_all add: tmp_path_def)
  note wr = WriteFile_entry [OF dir t tmp w1 [unfolded tp]]
  have dir1: "plain_dir (os_fs w1) ds"
    using dir by (rule plain_dir_cong) (auto intro: wr(1) simp: prefix_def)
  obtain e2 w2 where w2: "Rename (tmp_path w1) (rp_path w1) w1 = (e2, w2)" by fastforce
  note rn = Rename_entry [OF dir1 t c tc w2 [unfolded rest tp path]]
  have alt: "e1 \<noteq> None \<and> e \<noteq> None \<and> w' = w1 \<or> e1 = None \<and> w' = w2 \<and> (e = None \<longleftrightarrow> e2 = None)"
    using run enc w1 w2 by (auto simp: repo_save_def split: option.splits)
  then show "fs_get (os_fs w') (ds @ [c]) = (if e = None then Some (File raw) else fs_get (os_fs w) (ds @ [c]))"
    using alt wr rn tc by auto
  show "q \<noteq> ds @ [c] \<Longrightarrow> q \<noteq> ds @ [?t] \<Longrightarrow> fs_get (os_fs w') q = fs_get (os_fs w) q"
    using alt wr(1) rn(3) by auto
qed

subsection \<open>Restarting\<close>

definition to_decoded :: "snapshot \<Rightarrow> decoded" where
  "to_decoded d = \<lparr>d_SchemaVersion = SchemaVersion d, d_Users = Some (Users d),
     d_Sessions = Some (Sessions d), d_Sites = Some (Sites d), d_Jobs = Some (Jobs d),
     d_AuditLogs = Some (AuditLogs d), d_AuditSequence = AuditSequence d,
     d_UsernameIndex = Some (UsernameIndex d), d_DomainIndex = Some (DomainIndex d)\<rparr>"

lemma nil_default_to_decoded: "nil_default (to_decoded d) = d"
  by (simp add: nil_default_def to_decoded_def)

text \<open>Equal up to the internal order of the two indexes.\<close>

definition same_data :: "snapshot \<Rightarrow> snapshot \<Rightarrow> bool" where
  "same_data d d' \<longleftrightarrow>
     d'\<lparr>UsernameIndex := [], DomainIndex := []\<rparr> = d\<lparr>UsernameIndex := [], DomainIndex := []\<rparr>
     \<and> mget (UsernameIndex d') = mget (UsernameIndex d) \<and> mget (DomainIndex d') = mget (DomainIndex d)"

lemma rebuildIndexes_same:
  assumes "users_ok d" "sites_ok d" shows "same_data d (rebuildIndexes d)"
proof -
  have u: "mget (fold (\<lambda>(i, u) idx. mput (ToLower (user_Username u)) i idx) (Users d) []) = mget (UsernameIndex d)"
    using users.rebuild_same assms(1) by (simp add: users_ok_def)
  have s: "mget (fold (\<lambda>(i, s) idx. mput (ToLower (site_Domain s)) i idx) (Sites d) []) = mget (DomainIndex d)"
    using sites.rebuild_same assms(2) by (simp add: sites_ok_def)
  show ?thesis by (simp add: same_data_def rebuildIndexes_def u s)
qed

subsection \<open>Listing\<close>

lemma limited_split: "\<exists>rest. xs = limited limit xs @ rest"
  by (cases "0 < limit \<and> limit < int (length xs)") (auto simp: limited_def intro: append_take_drop_id [symmetric])

lemma length_limited: "length (limited limit xs) = (if 0 < limit then min (nat limit) (length xs) else length xs)"
  by (auto simp: limited_def)

lemma limited_newest:
  "\<exists>rest. mset (mvals m) = mset (limited limit (sort_key (\<lambda>v. - t v) (mvals m))) + mset rest
     \<and> sorted_wrt (\<lambda>a b. t b \<le> t a) (limited limit (sort_key (\<lambda>v. - t v) (mvals m)))
     \<and> (\<forall>a\<in>set (limited limit (sort_key (\<lambda>v. - t v) (mvals m))). \<forall>b\<in>set rest. t b \<le> (t a :: int))"
proof -
  let ?s = "sort_key (\<lambda>v. - t v) (mvals m)"
  obtain rest where rest: "?s = limited limit ?s @ rest" using limited_split by blast
  have m: "mset (mvals m) = mset (limited limit ?s) + mset rest"
    using arg_cong [OF rest, of mset] by (simp only: mset_append mset_sort)
  have "sorted (map (\<lambda>v. - t v) ?s)" by simp
  then have "sorted_wrt (\<lambda>a b. t b \<le> t a) ?s" by (simp add: sorted_map)
  then have "sorted_wrt (\<lambda>a b. t b \<le> t a) (limited limit ?s @ rest)" using rest by simp
  with m show ?thesis by (auto simp: sorted_wrt_append)
qed

lemma repo_save_succeeds:
  assumes dir: "plain_dir (os_fs w) ds" and c: "good_seg c" and path: "rp_path w = abs_path (ds @ [c])"
    and enc: "rp_marshal w (rp_data w) = Inr raw"
    and tmp: "\<And>t. fs_get (os_fs w) (ds @ [c @ ''.tmp'']) \<noteq> Some (Symlink t)"
    and no_dir: "fs_get (os_fs w) (ds @ [c]) \<noteq> Some Directory"
      "fs_get (os_fs w) (ds @ [c @ ''.tmp'']) \<noteq> Some Directory"
  shows "fst (repo_save w) = None \<longleftrightarrow>
    os_fault w (os_calls w) = None \<and> os_fault w (Suc (os_calls w)) = None
    \<and> os_fault w (Suc (Suc (os_calls w))) = None"
proof -
  let ?t = "c @ ''.tmp''"
  have t: "good_seg ?t" and tc: "ds @ [c] \<noteq> ds @ [?t]" using c by (auto intro: good_seg_append simp: slash_def)
  have tp: "tmp_path w = abs_path (ds @ [?t])" by (simp add: tmp_path_def path abs_path_append)
  obtain e1 w1 where w1: "WriteFile (tmp_path w) raw w = (e1, w1)" by fastforce
  have rest: "same_rest w w1" using WriteFile_rest [of w "tmp_path w" raw] w1 by simp
  note keep = same_rest_repo [OF rest]
  have keep': "os_fault w1 = os_fault w" "tmp_path w1 = tmp_path w"
    using rest keep by (simp_all add: same_rest_def tmp_path_def)
  note wr = WriteFile_entry [OF dir t tmp w1 [unfolded tp]]
  note wk = WriteFile_entry_ok [OF dir t tmp no_dir(2) w1 [unfolded tp]]
  show ?thesis
  proof (cases "e1 = None")
    case True
    obtain e2 w2 where w2: "Rename (tmp_path w1) (rp_path w1) w1 = (e2, w2)" by fastforce
    have dir1: "plain_dir (os_fs w1) ds"
      using dir by (rule plain_dir_cong) (auto intro: wr(1) simp: prefix_def)
    have f1: "fs_get (os_fs w1) (ds @ [?t]) = Some (File raw)" using wr(2) True by simp
    have nd: "fs_get (os_fs w1) (ds @ [c]) \<noteq> Some Directory" using wr(1) [OF tc] no_dir(1) by simp
    have "e2 = None \<longleftrightarrow> os_fault w1 (os_calls w1) = None"
      by (rule Rename_entry_ok [OF dir1 t c f1 nd w2 [unfolded keep' tp keep path]])
    then show ?thesis
      using True wk w1 w2 enc keep' by (auto simp: repo_save_def split: option.splits)
  next
    case False
    then show ?thesis using wk w1 enc by (auto simp: repo_save_def)
  qed
qed

subsection \<open>Properties\<close>

text \<open>A repository in \<open>/srv\<close> with nothing failing, at which the properties are exercised.\<close>

definition sample_repo :: repo where
  "sample_repo = \<lparr>os_fs = [([''srv''], Directory)], os_cwd = [], os_calls = 0, os_fault = (\<lambda>_. None),
     os_short = (\<lambda>_. 0), os_ticks = 0, os_clock = int, os_draws = 0,
     os_entropy = (\<lambda>_ k. Inr (replicate k CHR 0x00)), os_cmds = [], os_exec = (\<lambda>_ _ m. ([], None, m)),
     rp_path = ''/srv/state.json'', rp_data = newSnapshot, rp_marshal = (\<lambda>_. Inr ''state''),
     rp_unmarshal = (\<lambda>_. Inr (to_decoded newSnapshot))\<rparr>"

definition sample_site :: Site where
  "sample_site = \<lparr>site_ID = ''site-1'', site_Domain = ''example.com'', site_RootPath = ''/var/www/example'',
     site_Runtime = ''php'', site_Status = ''provisioning'', site_CreatedBy = ''usr-1'',
     site_CreatedAt = 5, site_UpdatedAt = 5\<rparr>"

definition sample_user :: User where
  "sample_user = \<lparr>user_ID = ''usr-1'', user_Username = ''Admin'', user_PasswordHash = ''$2a$12$h'',
     user_Role = ''admin'', user_IsActive = True, user_CreatedAt = 5, user_UpdatedAt = 5\<rparr>"

lemmas sample_defs = sample_repo_def sample_site_def sample_user_def newSnapshot_def

text \<open>
  C1: starting from an empty repository, after any sequence of repository operations (whatever the
  faults of the file system), every table is keyed by its entities' IDs, the user-name and domain
  indexes are exactly the inverses of the lower-cased names over the tables, so no two users share a
  name and no two sites a domain, and the audit log is numbered from one without a gap.
\<close>

theorem repo_reachable_data_ok:
  assumes "rp_data w = newSnapshot" and "repo_step\<^sup>*\<^sup>* w w'"
  shows "data_ok (rp_data w')"
  using assms(2)
proof (induction rule: rtranclp_induct)
  case base
  show ?case by (simp add: assms(1) newSnapshot_ok)
next
  case (step y z)
  then show ?case by (blast intro: repo_step_data_ok)
qed

lemma repo_reachable_data_ok_witness:
  "rp_data sample_repo = newSnapshot
   \<and> repo_step\<^sup>*\<^sup>* sample_repo (snd (repo_CreateSite sample_site sample_repo))
   \<and> data_ok (rp_data (snd (repo_CreateSite sample_site sample_repo)))"
proof -
  have init: "rp_data sample_repo = newSnapshot" by (simp add: sample_repo_def)
  have "repo_step sample_repo (snd (repo_CreateSite sample_site sample_repo))"
    by (rule repo_step.CreateSite) (simp add: sample_defs)
  then have steps: "repo_step\<^sup>*\<^sup>* sample_repo (snd (repo_CreateSite sample_site sample_repo))" by blast
  from init steps repo_reachable_data_ok [OF init steps] show ?thesis by blast
qed

text \<open>The abstract contract of \<open>CreateSite\<close>: a set of sites with pairwise different domains.\<close>

definition spec_create_site :: "Site \<Rightarrow> (string \<Rightarrow> Site option) \<Rightarrow> bool \<times> (string \<Rightarrow> Site option)" where
  "spec_create_site s a =
     (if \<exists>t\<in>ran a. ToLower (site_Domain t) = ToLower (site_Domain s) then (True, a)
      else (False, a(site_ID s \<mapsto> s)))"

text \<open>
  C35: \<open>CreateSite\<close>, which consults only the domain index, refines the contract that looks at every
  site: it reports a conflict exactly when some stored site has the same domain up to letter case,
  and otherwise (also when the state file cannot be written) the site is in the table.
\<close>

theorem repo_CreateSite_refines:
  assumes "sites_ok (rp_data w)"
  shows "(fst (repo_CreateSite s w) = Some (storeE ErrConflict),
          mget (Sites (rp_data (snd (repo_CreateSite s w)))))
         = spec_create_site s (mget (Sites (rp_data w)))"
proof -
  let ?d = "rp_data w" and ?k = "ToLower (site_Domain s)"
  have ok: "table_ok site_ID (\<lambda>s. ToLower (site_Domain s)) (Sites ?d) (DomainIndex ?d)"
    using assms by (simp add: sites_ok_def)
  have scan: "(\<exists>t\<in>ran (mget (Sites ?d)). ToLower (site_Domain t) = ?k) \<longleftrightarrow> mget (DomainIndex ?d) ?k \<noteq> None"
    using table_okD(4) [OF ok, of ?k] by (auto simp: ran_def)
  have "fst (repo_save w') \<noteq> Some (storeE ErrConflict)" for w' :: "'a repo_scheme"
    by (auto simp: repo_save_def split: sum.split prod.split option.split)
  then show ?thesis
    by (auto simp: spec_create_site_def scan repo_CreateSite_data repo_CreateSite_def Let_def fun_eq_iff)
qed

lemma repo_CreateSite_refines_witness:
  "fst (repo_CreateSite sample_site (snd (repo_CreateSite sample_site sample_repo)))
     = Some (storeE ErrConflict)"
proof -
  let ?w = "snd (repo_CreateSite sample_site sample_repo)"
  have ok: "sites_ok (rp_data ?w)"
    using repo_step_data_ok [OF repo_step.CreateSite [of sample_repo sample_site]] newSnapshot_ok
    by (simp add: sample_repo_def newSnapshot_def data_ok_def)
  have "sample_site \<in> ran (mget (Sites (rp_data ?w)))"
    by (simp add: repo_CreateSite_data sample_repo_def newSnapshot_def ran_def)
  then have "fst (spec_create_site sample_site (mget (Sites (rp_data ?w))))"
    by (auto simp: spec_create_site_def)
  with repo_CreateSite_refines [OF ok, of sample_site] show ?thesis by (metis fst_conv)
qed

text \<open>
  Looking a user up by name through the index finds exactly the stored user whose name agrees up
  to letter case.
\<close>

lemma repo_GetUserByUsername_scan:
  assumes "users_ok (rp_data w)"
  shows "repo_GetUserByUsername n w = Inr u \<longleftrightarrow>
    u \<in> set (mvals (Users (rp_data w))) \<and> ToLower (user_Username u) = ToLower n"
proof -
  let ?d = "rp_data w"
  have ok: "table_ok user_ID (\<lambda>u. ToLower (user_Username u)) (Users ?d) (UsernameIndex ?d)"
    using assms by (simp add: users_ok_def)
  have "repo_GetUserByUsername n w = Inr u \<longleftrightarrow>
      (\<exists>i. mget (UsernameIndex ?d) (ToLower n) = Some i \<and> mget (Users ?d) i = Some u)"
    by (auto simp: repo_GetUserByUsername_def split: option.split)
  also have "\<dots> \<longleftrightarrow> (\<exists>i. mget (Users ?d) i = Some u) \<and> ToLower (user_Username u) = ToLower n"
    unfolding table_okD(4) [OF ok] by auto
  also have "(\<exists>i. mget (Users ?d) i = Some u) \<longleftrightarrow> u \<in> set (mvals (Users ?d))"
    using in_vals_mget [OF table_okD(1) [OF ok], of u] mget_in_vals [of "Users ?d" _ u] by blast
  finally show ?thesis .
qed

lemma repo_GetUserByUsername_scan_witness:
  "repo_GetUserByUsername ''ADMIN'' (snd (repo_CreateUser sample_user sample_repo)) = Inr sample_user"
proof -
  have ok: "users_ok (rp_data (snd (repo_CreateUser sample_user sample_repo)))"
    using repo_step_data_ok [OF repo_step.CreateUser [of sample_repo sample_user]] newSnapshot_ok
    by (simp add: sample_repo_def newSnapshot_def data_ok_def)
  have "ToLower (user_Username sample_user) = ToLower ''ADMIN''"
    by (simp add: sample_user_def ToLower_def byte_def lower_byte_def is_upper_def)
  moreover have "sample_user \<in> set (mvals (Users (rp_data (snd (repo_CreateUser sample_user sample_repo)))))"
    by (simp add: repo_CreateUser_data sample_repo_def newSnapshot_def)
  ultimately show ?thesis using repo_GetUserByUsername_scan [OF ok] by blast
qed

text \<open>
  C18: saving is atomic under every schedule of system-call failures and short writes (a crash is the
  schedule in which everything after some call fails).  When the state file lies in a plain directory
  and neither it nor its \<open>.tmp\<close> sibling is a directory, nor the sibling a symbolic link: \<open>save\<close>
  succeeds exactly when none of its three system calls fails; on success the file holds the complete
  new encoding, on an error what it had before; and apart from the \<open>.tmp\<close> file nothing else changes.
\<close>

theorem repo_save_atomic:
  assumes "plain_dir (os_fs w) ds" "good_seg c" "rp_path w = abs_path (ds @ [c])"
    and "rp_marshal w (rp_data w) = Inr raw"
    and "\<And>t. fs_get (os_fs w) (ds @ [c @ ''.tmp'']) \<noteq> Some (Symlink t)"
    and "fs_get (os_fs w) (ds @ [c]) \<noteq> Some Directory"
    and "fs_get (os_fs w) (ds @ [c @ ''.tmp'']) \<noteq> Some Directory"
  shows "(fst (repo_save w) = None \<longleftrightarrow> (\<forall>k\<in>{0, 1, 2}. os_fault w (os_calls w + k) = None))
    \<and> fs_get (os_fs (snd (repo_save w))) (ds @ [c]) =
        (if fst (repo_save w) = None then Some (File raw) else fs_get (os_fs w) (ds @ [c]))
    \<and> (\<forall>q. q \<notin> {ds @ [c], ds @ [c @ ''.tmp'']} \<longrightarrow>
          fs_get (os_fs (snd (repo_save w))) q = fs_get (os_fs w) q)"
  using repo_save_entry [OF assms(1-5) prod.collapse [symmetric]] repo_save_succeeds [OF assms]
  by simp

lemma sample_repo_dir:
  "os_fs w = os_fs sample_repo \<Longrightarrow> plain_dir (os_fs w) [''srv'']"
  "good_seg ''state.json''"
  "rp_path w = rp_path sample_repo \<Longrightarrow> rp_path w = abs_path ([''srv''] @ [''state.json''])"
  "os_fs w = os_fs sample_repo \<Longrightarrow> q \<noteq> [] \<Longrightarrow> fs_get (os_fs w) ([''srv''] @ q) = None"
  by (simp_all add: sample_repo_def plain_dir_def good_seg_def slash_def fs_get_def abs_path_def)

lemma sample_save_ok:
  assumes "os_fs w = os_fs sample_repo" "rp_path w = rp_path sample_repo" "rp_marshal w = rp_marshal sample_repo"
    and "os_fault w = (\<lambda>_. None)"
  shows "fst (repo_save w) = None"
proof -
  have no: "fs_get (os_fs w) ([''srv''] @ [c]) \<noteq> Some n" for c n
    using sample_repo_dir(4) [OF assms(1), of "[c]"] by simp
  have enc: "rp_marshal w (rp_data w) = Inr ''state''" using assms(3) by (simp add: sample_repo_def)
  show ?thesis
    using repo_save_succeeds [OF sample_repo_dir(1) [OF assms(1)] sample_repo_dir(2) sample_repo_dir(3) [OF assms(2)]
        enc no no no] assms(4)
    by simp
qed

lemma repo_save_atomic_witness:
  "fs_get (os_fs (snd (repo_save sample_repo))) [''srv'', ''state.json''] = Some (File ''state'')
   \<and> fs_get (os_fs (snd (repo_save (sample_repo\<lparr>os_fault := \<lambda>n. if n = 2 then Some EIO else None\<rparr>))))
        [''srv'', ''state.json''] = None"
proof -
  let ?f = "sample_repo\<lparr>os_fault := \<lambda>n. if n = 2 then Some EIO else None\<rparr>"
  have enc: "rp_marshal w (rp_data w) = Inr ''state''" if "rp_marshal w = rp_marshal sample_repo" for w :: repo
    using that by (simp add: sample_repo_def)
  note a = repo_save_atomic [OF sample_repo_dir(1) sample_repo_dir(2) sample_repo_dir(3) enc]
  have fl: "os_calls sample_repo = 0" "os_fault sample_repo = (\<lambda>_. None)" "rp_path ?f = rp_path sample_repo"
    "os_calls ?f = 0" "os_fault ?f = (\<lambda>n. if n = 2 then Some EIO else None)" "os_fs ?f = os_fs sample_repo"
    "rp_marshal ?f = rp_marshal sample_repo"
    by (simp_all add: sample_repo_def)
  have no: "fs_get (os_fs sample_repo) ([''srv''] @ [c]) \<noteq> Some n" for c n
    using sample_repo_dir(4) [of sample_repo "[c]"] by simp
  note b = a [of sample_repo, OF refl refl refl no no no] a [of ?f, OF fl(6,3,7) no [folded fl(6)] no [folded fl(6)] no [folded fl(6)]]
  have 1: "fst (repo_save sample_repo) = None" using b(1) fl(1,2) by simp
  have 2: "fst (repo_save ?f) \<noteq> None" using b(2) unfolding fl(4,5) by auto
  show ?thesis using b 1 2 no [of "''state.json''"] unfolding fl(6) by auto
qed

text \<open>
  C17: a restart loses nothing.  If \<open>save\<close> succeeded, then loading the file in a later process (whose
  read of the file does not fail, and for which \<open>json.Unmarshal\<close> recovers what \<open>json.MarshalIndent\<close>
  wrote) yields the same users, sessions, sites, jobs and audit log, and rebuilt indexes that answer
  every lookup as the old ones did.
\<close>

theorem repo_restart_roundtrip:
  assumes "plain_dir (os_fs w) ds" "good_seg c" "rp_path w = abs_path (ds @ [c])"
    and "\<And>t. fs_get (os_fs w) (ds @ [c @ ''.tmp'']) \<noteq> Some (Symlink t)"
    and enc: "rp_marshal w (rp_data w) = Inr raw"
    and dec: "rp_unmarshal w raw = Inr (to_decoded (rp_data w))"
    and ok: "data_ok (rp_data w)" "SchemaVersion (rp_data w) = schemaVersion"
    and saved: "repo_save w = (None, w1)"
    and up: "os_fault w (os_calls w1) = None"
  shows "\<exists>w2. repo_load (w1\<lparr>rp_data := newSnapshot\<rparr>) = (None, w2) \<and> same_data (rp_data w) (rp_data w2)"
proof -
  have f: "fs_get (os_fs w1) (ds @ [c]) = Some (File raw)"
    using repo_save_entry(1) [OF assms(1-3) enc assms(4) saved] by simp
  have "q \<noteq> ds @ [c] \<Longrightarrow> q \<noteq> ds @ [c @ ''.tmp''] \<Longrightarrow> fs_get (os_fs w1) q = fs_get (os_fs w) q" for q
    by (rule repo_save_entry(2) [OF assms(1-3) enc assms(4) saved])
  note frame = this
  have dir: "plain_dir (os_fs w1) ds"
  proof (rule plain_dir_cong [OF assms(1)])
    fix q assume "prefix q ds"
    then have "length q \<le> length ds" by (rule prefix_length_le)
    then show "fs_get (os_fs w1) q = fs_get (os_fs w) q" by (intro frame) auto
  qed
  have rest: "same_rest w w1" using repo_save_rest [of w] saved by simp
  note keep = same_rest_repo [OF rest]
  have fault: "os_fault w1 = os_fault w" using rest by (simp add: same_rest_def)
  let ?w = "w1\<lparr>rp_data := newSnapshot\<rparr>"
  have "resolve True (abs_path (ds @ [c])) (?w\<lparr>os_calls := n\<rparr>) = Inr (ds @ [c])" for n
    using resolve_entry [of "?w\<lparr>os_calls := n\<rparr>" ds c True] dir f assms(2) by simp
  then have "ReadFile (rp_path ?w) ?w = (Inr raw, ?w\<lparr>os_calls := Suc (os_calls w1)\<rparr>)"
    using f up fault keep(1) assms(3) by (simp add: ReadFile_def sys_def look_def)
  moreover have "d_SchemaVersion (to_decoded (rp_data w)) = schemaVersion"
    using ok(2) by (simp add: to_decoded_def)
  ultimately show ?thesis
    using keep dec rebuildIndexes_same [of "rp_data w"] ok(1)
    by (simp add: repo_load_def nil_default_to_decoded data_ok_def)
qed

lemma repo_restart_roundtrip_witness:
  "\<exists>w2. repo_load ((snd (repo_save sample_repo))\<lparr>rp_data := newSnapshot\<rparr>) = (None, w2)
     \<and> same_data newSnapshot (rp_data w2)"
proof -
  have no: "fs_get (os_fs sample_repo) ([''srv''] @ [c]) \<noteq> Some n" for c n
    using sample_repo_dir(4) [of sample_repo "[c]"] by simp
  have e: "rp_marshal sample_repo (rp_data sample_repo) = Inr ''state''"
    "rp_unmarshal sample_repo ''state'' = Inr (to_decoded (rp_data sample_repo))"
    "rp_data sample_repo = newSnapshot" "os_fault sample_repo = (\<lambda>_. None)"
    by (simp_all add: sample_repo_def)
  have "fst (repo_save sample_repo) = None"
    using repo_save_succeeds [OF sample_repo_dir(1) [OF refl] sample_repo_dir(2) sample_repo_dir(3) [OF refl] e(1) no no no]
    by (simp add: e)
  then have "repo_save sample_repo = (None, snd (repo_save sample_repo))" by (simp add: prod_eq_iff)
  from repo_restart_roundtrip [OF sample_repo_dir(1) [OF refl] sample_repo_dir(2) sample_repo_dir(3) [OF refl] no
      e(1) e(2) _ _ this]
  show ?thesis using newSnapshot_ok by (simp add: e) (simp add: newSnapshot_def)
qed

text \<open>
  \<open>ListSites\<close> returns stored sites, newest first, as many as there are up to a positive limit, and
  no site it leaves out is newer than one it returns.
\<close>

lemma repo_ListSites_newest:
  "\<exists>rest. mset (mvals (Sites (rp_data w))) = mset (repo_ListSites limit w) + mset rest
     \<and> sorted_wrt (\<lambda>a b. site_CreatedAt b \<le> site_CreatedAt a) (repo_ListSites limit w)
     \<and> (\<forall>a\<in>set (repo_ListSites limit w). \<forall>b\<in>set rest. site_CreatedAt b \<le> site_CreatedAt a)
     \<and> length (repo_ListSites limit w) =
         (if 0 < limit then min (nat limit) (length (Sites (rp_data w))) else length (Sites (rp_data w)))"
  using limited_newest [of "Sites (rp_data w)" limit site_CreatedAt]
  by (simp only: repo_ListSites_def length_limited length_sort length_map) blast

lemma repo_ListSites_newest_witness:
  "length (repo_ListSites 1 (sample_repo\<lparr>rp_data := newSnapshot\<lparr>Sites := [(''a'', sample_site), (''b'', sample_site)]\<rparr>\<rparr>)) = 1"
  using repo_ListSites_newest [of "sample_repo\<lparr>rp_data := newSnapshot\<lparr>Sites := [(''a'', sample_site), (''b'', sample_site)]\<rparr>\<rparr>" 1]
  by auto

text \<open>
  The audit trail is append-only and its listing runs backwards from the latest entry: on a sound
  snapshot \<open>ListAuditLogs\<close> returns the IDs \<open>n\<close>, \<open>n - 1\<close>, \<open>\<dots>\<close> of the last entries, at most \<open>limit\<close> of
  them when the limit is positive, and every entry when it is not.
\<close>

lemma repo_ListAuditLogs_ids:
  assumes "audit_ok (rp_data w)"
  shows "map log_ID (repo_ListAuditLogs limit w) =
    (let n = length (AuditLogs (rp_data w)); k = (if 0 < limit then min (nat limit) n else n)
     in rev (map int [Suc n - k..<Suc n]))"
proof -
  let ?l = "AuditLogs (rp_data w)"
  define k where "k = (if 0 < limit then min (nat limit) (length ?l) else length ?l)"
  have "repo_ListAuditLogs limit w = take k (rev ?l)"
    by (auto simp: repo_ListAuditLogs_def Let_def k_def min_def)
  then have "map log_ID (repo_ListAuditLogs limit w) = take k (rev (map log_ID ?l))"
    by (simp add: take_map rev_map)
  also have "\<dots> = take k (rev (map int [1..<Suc (length ?l)]))"
    using assms by (simp only: audit_ok_def)
  also have "\<dots> = rev (drop (length ?l - k) (map int [1..<Suc (length ?l)]))"
    by (simp add: take_rev)
  also have "drop (length ?l - k) (map int [1..<Suc (length ?l)]) = map int [Suc (length ?l) - k..<Suc (length ?l)]"
  proof -
    have "k \<le> length ?l" by (simp add: k_def)
    then show ?thesis by (simp only: drop_map drop_upt) (simp add: Suc_diff_le)
  qed
  finally show ?thesis by (simp add: Let_def k_def)
qed

definition sample_log :: AuditLog where
  "sample_log = \<lparr>log_ID = 0, log_ActorUser = ''usr-1'', log_Action = ''auth.login'', log_TargetType = ''session'',
     log_TargetID = [], log_Metadata = ''{}'', log_CreatedAt = 5\<rparr>"

lemma repo_ListAuditLogs_ids_witness:
  "map log_ID (repo_ListAuditLogs 1 (snd (repo_CreateAuditLog sample_log
     (snd (repo_CreateAuditLog sample_log sample_repo))))) = [2]"
proof -
  let ?w1 = "snd (repo_CreateAuditLog sample_log sample_repo)"
  let ?w2 = "snd (repo_CreateAuditLog sample_log ?w1)"
  have d: "rp_data sample_repo = newSnapshot" by (simp add: sample_repo_def)
  have "audit_ok (rp_data ?w1)"
    using audit_ok_append [of newSnapshot sample_log] newSnapshot_ok
    by (simp add: repo_CreateAuditLog_data d data_ok_def) (simp add: newSnapshot_def)
  then have "audit_ok (rp_data ?w2)"
    using audit_ok_append [of "rp_data ?w1" sample_log]
    by (simp add: repo_CreateAuditLog_data d newSnapshot_def)
  from repo_ListAuditLogs_ids [OF this, of 1] show ?thesis
    by (simp add: repo_CreateAuditLog_data d newSnapshot_def Let_def numeral_2_eq_2)
qed

end
