(* ===== verification/GoEncoding.thy ===== *)
theory GoEncoding
  imports GoOS
begin

text \<open>
  The encodings of Go's standard library that the program uses: \<open>encoding/hex\<close>, \<open>encoding/base64\<close>
  (\<open>RawURLEncoding\<close> for tokens, \<open>StdEncoding\<close> for file contents) and \<open>crypto/sha256\<close> on 32-bit words.
\<close>

unbundle bit_operations_syntax

subsection \<open>Hexadecimal\<close>

definition hex_digits :: string where
  "hex_digits = ''0123456789abcdef''"

definition hex_digit :: "nat \<Rightarrow> char" where
  "hex_digit n = hex_digits ! n"

definition Hex :: "string \<Rightarrow> string" where
  "Hex s = concat (map (\<lambda>c. [hex_digit (byte c div 16), hex_digit (byte c mod 16)]) s)"

lemma byte_less: "byte c < 256"
  by (simp add: byte_def)

lemma length_hex_digits [simp]: "length hex_digits = 16"
  by (simp add: hex_digits_def)

lemma hex_digit_in: "n < 16 \<Longrightarrow> hex_digit n \<in> set hex_digits"
  unfolding hex_digit_def by (rule nth_mem) simp

lemma byte_div_less: "byte c div 16 < 16"
  using byte_less [of c] by (simp add: less_mult_imp_div_less)

lemma length_Hex [simp]: "length (Hex s) = 2 * length s"
  by (induction s) (simp_all add: Hex_def)

lemma set_Hex: "set (Hex s) \<subseteq> set hex_digits"
  by (auto simp: Hex_def intro!: hex_digit_in byte_div_less)

lemma hex_digit_inj: "m < 16 \<Longrightarrow> n < 16 \<Longrightarrow> hex_digit m = hex_digit n \<longleftrightarrow> m = n"
  unfolding hex_digit_def by (rule nth_eq_iff_index_eq) (simp_all add: hex_digits_def)

lemma hex_byte_inj:
  "hex_digit (byte c div 16) = hex_digit (byte d div 16) \<and> hex_digit (byte c mod 16) = hex_digit (byte d mod 16)
    \<longleftrightarrow> c = d"
proof -
  have "byte c div 16 = byte d div 16 \<and> byte c mod 16 = byte d mod 16 \<longleftrightarrow> byte c = byte d"
    by (metis div_mult_mod_eq)
  moreover have "byte c = byte d \<longleftrightarrow> c = d" by (simp add: byte_def)
  ultimately show ?thesis using hex_digit_inj [OF byte_div_less byte_div_less] hex_digit_inj by simp
qed

lemma Hex_inj: "Hex s = Hex t \<longleftrightarrow> s = t"
proof (induction s arbitrary: t)
  case (Cons c s)
  then show ?case by (cases t) (use hex_byte_inj in \<open>auto simp: Hex_def\<close>)
next
  case Nil
  then show ?case by (cases t) (auto simp: Hex_def)
qed

subsection \<open>Base64\<close>

definition std_alphabet :: string where
  "std_alphabet = ''ABCDEFGHIJKLMNOPQRSTUVWXYZabcdefghijklmnopqrstuvwxyz0123456789+/''"

definition url_alphabet :: string where
  "url_alphabet = ''ABCDEFGHIJKLMNOPQRSTUVWXYZabcdefghijklmnopqrstuvwxyz0123456789-_''"

fun b64_encode :: "string \<Rightarrow> string \<Rightarrow> string \<Rightarrow> string" where
  "b64_encode alpha pad (a # b # c # s) =
     [alpha ! (byte a div 4), alpha ! (byte a mod 4 * 16 + byte b div 16),
      alpha ! (byte b mod 16 * 4 + byte c div 64), alpha ! (byte c mod 64)] @ b64_encode alpha pad s"
| "b64_encode alpha pad [a, b] =
     [alpha ! (byte a div 4), alpha ! (byte a mod 4 * 16 + byte b div 16), alpha ! (byte b mod 16 * 4)] @ pad"
| "b64_encode alpha pad [a] = [alpha ! (byte a div 4), alpha ! (byte a mod 4 * 16)] @ pad @ pad"
| "b64_encode alpha pad [] = []"

definition RawURL_EncodeToString :: "string \<Rightarrow> string" where
  "RawURL_EncodeToString = b64_encode url_alphabet []"

definition Std_EncodeToString :: "string \<Rightarrow> string" where
  "Std_EncodeToString = b64_encode std_alphabet ''=''"

definition b64_val :: "char \<Rightarrow> nat option" where
  "b64_val c = map_of (zip std_alphabet [0..<64]) c"

definition unbyte :: "nat \<Rightarrow> char" where
  "unbyte n = char_of n"

text \<open>\<open>StdEncoding\<close> is not strict: the unused bits of a padded group may be anything.\<close>

fun b64_decode :: "string \<Rightarrow> string option" where
  "b64_decode [] = Some []"
| "b64_decode (a # b # c # d # s) =
     (case (b64_val a, b64_val b, b64_val c, b64_val d) of
        (Some w, Some x, Some y, Some z) \<Rightarrow>
          map_option (\<lambda>r. unbyte (w * 4 + x div 16) # unbyte (x mod 16 * 16 + y div 4) # unbyte (y mod 4 * 64 + z) # r)
            (b64_decode s)
      | (Some w, Some x, Some y, None) \<Rightarrow>
          if d = CHR ''='' \<and> s = [] then Some [unbyte (w * 4 + x div 16), unbyte (x mod 16 * 16 + y div 4)] else None
      | (Some w, Some x, None, None) \<Rightarrow>
          if c = CHR ''='' \<and> d = CHR ''='' \<and> s = [] then Some [unbyte (w * 4 + x div 16)] else None
      | _ \<Rightarrow> None)"
| "b64_decode _ = None"

text \<open>The decoder skips carriage returns and newlines.\<close>

definition Std_DecodeString :: "string \<Rightarrow> string option" where
  "Std_DecodeString s = b64_decode (filter (\<lambda>c. c \<noteq> CHR 0x0A \<and> c \<noteq> CHR 0x0D) s)"

lemma length_alphabets [simp]: "length std_alphabet = 64" "length url_alphabet = 64"
  by (simp_all add: std_alphabet_def url_alphabet_def)

lemma b64_val_std [simp]: "n < 64 \<Longrightarrow> b64_val (std_alphabet ! n) = Some n"
proof -
  assume "n < 64"
  moreover have "distinct std_alphabet" by (simp add: std_alphabet_def)
  ultimately show ?thesis
    using map_of_zip_nth [of std_alphabet "[0..<64]" n] by (simp add: b64_val_def)
qed

lemma b64_val_pad [simp]: "b64_val CHR ''='' = None"
  unfolding b64_val_def by (subst map_of_zip_is_None) (simp_all add: std_alphabet_def)

lemma unbyte_byte [simp]: "unbyte (byte c) = c"
  by (simp add: unbyte_def byte_def)

lemma div_mod_add:
  "q < k \<Longrightarrow> (x * k + q) div k = (x::nat)" "q < k \<Longrightarrow> (x * k + q) mod k = (q::nat)"
  by simp_all

lemma byte_parts:
  "byte c div 4 < 64" "byte c div 16 < 16" "byte c div 64 < 4"
  "byte c mod 4 < 4" "byte c mod 16 < 16" "byte c mod 64 < 64"
  using byte_less [of c] by (simp_all add: less_mult_imp_div_less)

lemma parts_less:
  "x < 4 \<Longrightarrow> y < 16 \<Longrightarrow> x * 16 + y < (64::nat)" "x < 16 \<Longrightarrow> y < 4 \<Longrightarrow> x * 4 + y < (64::nat)"
  "x < 4 \<Longrightarrow> x * 16 < (64::nat)" "x < 16 \<Longrightarrow> x * 4 < (64::nat)"
  by simp_all

lemmas six_bits =
  byte_parts(1) parts_less(1) [OF byte_parts(4) byte_parts(2)] parts_less(2) [OF byte_parts(5) byte_parts(3)]
  byte_parts(6) parts_less(3) [OF byte_parts(4)] parts_less(4) [OF byte_parts(5)]

lemma eight_bits:
  "byte a div 4 * 4 + (byte a mod 4 * 16 + byte b div 16) div 16 = byte a"
  "(byte a mod 4 * 16 + byte b div 16) mod 16 * 16 + (byte b mod 16 * 4 + byte c div 64) div 4 = byte b"
  "(byte b mod 16 * 4 + byte c div 64) mod 4 * 64 + byte c mod 64 = byte c"
  "byte a div 4 * 4 + byte a mod 4 * 16 div 16 = byte a"
  "(byte a mod 4 * 16 + byte b div 16) mod 16 * 16 + byte b mod 16 * 4 div 4 = byte b"
  using div_mod_add [OF byte_parts(2)] div_mod_add [OF byte_parts(3)] by simp_all

lemma b64_decode_full:
  "w < 64 \<Longrightarrow> x < 64 \<Longrightarrow> y < 64 \<Longrightarrow> z < 64 \<Longrightarrow>
    b64_decode (std_alphabet ! w # std_alphabet ! x # std_alphabet ! y # std_alphabet ! z # s) =
      map_option (\<lambda>r. unbyte (w * 4 + x div 16) # unbyte (x mod 16 * 16 + y div 4) # unbyte (y mod 4 * 64 + z) # r)
        (b64_decode s)"
  "w < 64 \<Longrightarrow> x < 64 \<Longrightarrow> y < 64 \<Longrightarrow>
    b64_decode [std_alphabet ! w, std_alphabet ! x, std_alphabet ! y, CHR ''=''] =
      Some [unbyte (w * 4 + x div 16), unbyte (x mod 16 * 16 + y div 4)]"
  "w < 64 \<Longrightarrow> x < 64 \<Longrightarrow>
    b64_decode [std_alphabet ! w, std_alphabet ! x, CHR ''='', CHR ''=''] = Some [unbyte (w * 4 + x div 16)]"
  by simp_all

lemma b64_roundtrip: "b64_decode (b64_encode std_alphabet ''='' s) = Some s"
proof (induction std_alphabet "''=''" s rule: b64_encode.induct)
  case (1 a b c s)
  from 1 show ?case
    unfolding b64_encode.simps append.simps
    by (subst b64_decode_full(1)) (simp_all only: six_bits eight_bits unbyte_byte option.map)
next
  case (2 a b)
  show ?case
    unfolding b64_encode.simps append.simps
    by (subst b64_decode_full(2)) (simp_all only: six_bits eight_bits unbyte_byte)
next
  case (3 a)
  show ?case
    unfolding b64_encode.simps append.simps
    by (subst b64_decode_full(3)) (simp_all only: six_bits eight_bits unbyte_byte)
qed simp

lemma set_b64_encode: "length alpha = 64 \<Longrightarrow> set (b64_encode alpha pad s) \<subseteq> set alpha \<union> set pad"
  by (induction alpha pad s rule: b64_encode.induct) (auto intro!: nth_mem six_bits)

lemma Std_roundtrip: "Std_DecodeString (Std_EncodeToString s) = Some s"
proof -
  have "CHR 0x0A \<notin> set std_alphabet \<union> set ''=''" "CHR 0x0D \<notin> set std_alphabet \<union> set ''=''"
    by (simp_all add: std_alphabet_def)
  then have "filter (\<lambda>c. c \<noteq> CHR 0x0A \<and> c \<noteq> CHR 0x0D) (Std_EncodeToString s) = Std_EncodeToString s"
    using set_b64_encode [of std_alphabet "''=''" s]
    unfolding Std_EncodeToString_def by (intro filter_True) auto
  then show ?thesis by (simp add: Std_DecodeString_def) (simp add: Std_EncodeToString_def b64_roundtrip)
qed

lemma length_RawURL: "length (RawURL_EncodeToString s) = (length s * 4 + 2) div 3"
  unfolding RawURL_EncodeToString_def
  by (induction url_alphabet "[] :: string" s rule: b64_encode.induct) simp_all

lemma set_RawURL: "set (RawURL_EncodeToString s) \<subseteq> set url_alphabet"
  using set_b64_encode [of url_alphabet "[]" s] by (simp add: RawURL_EncodeToString_def)

subsection \<open>SHA-256\<close>

type_synonym word32 = "32 word"

text \<open>The constants of the standard, eight words to a row.\<close>

definition sha_row :: "int \<Rightarrow> word32 list" where
  "sha_row n = map (\<lambda>i. of_int (n div 2 ^ (32 * i))) (rev [0..<8])"

definition sha_K :: "word32 list" where
  "sha_K = concat (map sha_row
    [0x428a2f9871374491b5c0fbcfe9b5dba53956c25b59f111f1923f82a4ab1c5ed5,
     0xd807aa9812835b01243185be550c7dc372be5d7480deb1fe9bdc06a7c19bf174,
     0xe49b69c1efbe47860fc19dc6240ca1cc2de92c6f4a7484aa5cb0a9dc76f988da,
     0x983e5152a831c66db00327c8bf597fc7c6e00bf3d5a7914706ca635114292967,
     0x27b70a852e1b21384d2c6dfc53380d13650a7354766a0abb81c2c92e92722c85,
     0xa2bfe8a1a81a664bc24b8b70c76c51a3d192e819d6990624f40e3585106aa070,
     0x19a4c1161e376c082748774c34b0bcb5391c0cb34ed8aa4a5b9cca4f682e6ff3,
     0x748f82ee78a5636f84c878148cc7020890befffaa4506cebbef9a3f7c67178f2])"

definition sha_H0 :: "word32 list" where
  "sha_H0 = sha_row 0x6a09e667bb67ae853c6ef372a54ff53a510e527f9b05688c1f83d9ab5be0cd19"

definition be_word :: "string \<Rightarrow> word32" where
  "be_word cs = fold (\<lambda>c w. push_bit 8 w OR of_nat (byte c)) cs 0"

definition be_bytes :: "nat \<Rightarrow> nat \<Rightarrow> string" where
  "be_bytes k n = map (\<lambda>i. unbyte (n div 256 ^ i mod 256)) (rev [0..<k])"

definition sha_pad :: "string \<Rightarrow> string" where
  "sha_pad m = m @ [CHR 0x80] @ replicate ((119 - length m mod 64) mod 64) (CHR 0x00) @ be_bytes 8 (8 * length m)"

fun chunks :: "nat \<Rightarrow> nat \<Rightarrow> 'a list \<Rightarrow> 'a list list" where
  "chunks 0 n xs = []"
| "chunks (Suc k) n xs = take n xs # chunks k n (drop n xs)"

definition sha_sigma :: "nat \<Rightarrow> nat \<Rightarrow> nat \<Rightarrow> word32 \<Rightarrow> word32" where
  "sha_sigma a b c x = word_rotr a x XOR word_rotr b x XOR drop_bit c x"

definition sha_Sigma :: "nat \<Rightarrow> nat \<Rightarrow> nat \<Rightarrow> word32 \<Rightarrow> word32" where
  "sha_Sigma a b c x = word_rotr a x XOR word_rotr b x XOR word_rotr c x"

text \<open>The message schedule, latest word first.\<close>

fun sha_extend :: "nat \<Rightarrow> word32 list \<Rightarrow> word32 list" where
  "sha_extend 0 ws = ws"
| "sha_extend (Suc k) ws =
     sha_extend k ((sha_sigma 17 19 10 (ws ! 1) + ws ! 6 + sha_sigma 7 18 3 (ws ! 14) + ws ! 15) # ws)"

fun sha_round :: "word32 list \<Rightarrow> word32 \<times> word32 \<Rightarrow> word32 list" where
  "sha_round [a, b, c, d, e, f, g, h] (k, w) =
     (let t1 = h + sha_Sigma 6 11 25 e + ((e AND f) XOR (NOT e AND g)) + k + w;
          t2 = sha_Sigma 2 13 22 a + ((a AND b) XOR (a AND c) XOR (b AND c))
      in [t1 + t2, a, b, c, d + t1, e, f, g])"
| "sha_round st _ = st"

definition sha_block :: "string \<Rightarrow> word32 list \<Rightarrow> word32 list" where
  "sha_block blk st =
     (let ws = rev (sha_extend 48 (rev (map be_word (chunks 16 4 blk))))
      in map2 (+) st (fold (\<lambda>kw s. sha_round s kw) (zip sha_K ws) st))"

definition Sum256 :: "string \<Rightarrow> string" where
  "Sum256 m =
     (let p = sha_pad m
      in concat (map (\<lambda>w. be_bytes 4 (unat w)) (fold sha_block (chunks (length p div 64) 64 p) sha_H0)))"

end
