(* ===== verification/GoJSON.thy ===== *)
theory GoJSON
  imports GoEncoding
begin

text \<open>
  The part of \<open>encoding/json\<close> the program uses: encoding a value (maps with sorted keys, strings
  escaped as \<open>json.Marshal\<close> does), parsing a document, and reading a \<open>map[string]string\<close> from it.
  Numbers are kept as their literals.  The text of a decoding error is not modelled.
\<close>

datatype json = JNull | JBool bool | JNum string | JStr string | JArr "json list" | JObj "(string \<times> json) list"

subsection \<open>Encoding\<close>

definition backslash :: char where "backslash = CHR 0x5C"
definition quotation :: char where "quotation = CHR 0x22"

definition u_escape :: "nat \<Rightarrow> string" where
  "u_escape n = [backslash, CHR ''u'', hex_digit (n div 4096 mod 16), hex_digit (n div 256 mod 16),
     hex_digit (n div 16 mod 16), hex_digit (n mod 16)]"

definition escape_ascii :: "char \<Rightarrow> string" where
  "escape_ascii c =
     (if c = quotation \<or> c = backslash then [backslash, c]
      else if byte c = 8 then [backslash, CHR ''b'']
      else if byte c = 12 then [backslash, CHR ''f'']
      else if byte c = 10 then [backslash, CHR ''n'']
      else if byte c = 13 then [backslash, CHR ''r'']
      else if byte c = 9 then [backslash, CHR ''t'']
      else if byte c < 32 \<or> c \<in> set ''<>&'' then u_escape (byte c)
      else [c])"

lemma decode_rune_drop:
  "(r, k) = decode_rune (byte c # map byte s) \<Longrightarrow> length (drop k (c # s)) < Suc (length s)"
  using decode_rune_width [of "byte c # map byte s"] by (cases k) (auto simp: prod_eq_iff)

function quote_body :: "string \<Rightarrow> string" where
  "quote_body s =
     (case s of
        [] \<Rightarrow> []
      | c # t \<Rightarrow>
          if byte c < 128 then escape_ascii c @ quote_body t
          else (case decode_rune (map byte s) of (r, k) \<Rightarrow>
            if r = 65533 \<and> k = 1 then u_escape 65533 @ quote_body t
            else (if r = 8232 \<or> r = 8233 then u_escape r else take k s) @ quote_body (drop k s)))"
  by pat_completeness auto
termination
  by (relation "measure length") (auto dest: decode_rune_drop simp del: length_drop)

declare quote_body.simps [simp del]

definition Quote :: "string \<Rightarrow> string" where
  "Quote s = [quotation] @ quote_body s @ [quotation]"

fun Marshal :: "json \<Rightarrow> string" where
  "Marshal JNull = ''null''"
| "Marshal (JBool b) = (if b then ''true'' else ''false'')"
| "Marshal (JNum n) = n"
| "Marshal (JStr s) = Quote s"
| "Marshal (JArr xs) = ''['' @ Join (map Marshal xs) '','' @ '']''"
| "Marshal (JObj kvs) = ''{'' @ Join (map (\<lambda>(k, v). Quote k @ '':'' @ Marshal v) kvs) '','' @ ''}''"

text \<open>A Go map is encoded with its keys sorted.\<close>

definition JMap :: "(string \<times> json) list \<Rightarrow> json" where
  "JMap m = JObj (sort_key fst m)"

subsection \<open>Parsing\<close>

fun skip_ws :: "string \<Rightarrow> string" where
  "skip_ws (c # s) = (if byte c \<in> {32, 9, 10, 13} then skip_ws s else c # s)"
| "skip_ws [] = []"

definition hex_val :: "char \<Rightarrow> nat option" where
  "hex_val c =
     (if 48 \<le> byte c \<and> byte c \<le> 57 then Some (byte c - 48)
      else if 97 \<le> byte c \<and> byte c \<le> 102 then Some (byte c - 87)
      else if 65 \<le> byte c \<and> byte c \<le> 70 then Some (byte c - 55)
      else None)"

fun hex4 :: "string \<Rightarrow> (nat \<times> string) option" where
  "hex4 (a # b # c # d # s) =
     (case (hex_val a, hex_val b, hex_val c, hex_val d) of
        (Some w, Some x, Some y, Some z) \<Rightarrow> Some (w * 4096 + x * 256 + y * 16 + z, s)
      | _ \<Rightarrow> None)"
| "hex4 _ = None"

definition rune_string :: "nat \<Rightarrow> string" where
  "rune_string r = map unbyte (encode_rune r)"

text \<open>After \<open>backslash u\<close>: a surrogate pair is joined, a lone surrogate is U+FFFD.\<close>

definition unicode_escape :: "string \<Rightarrow> (string \<times> string) option" where
  "unicode_escape s =
     (case hex4 s of
        None \<Rightarrow> None
      | Some (r, t) \<Rightarrow>
          if 55296 \<le> r \<and> r < 56320 then
            (case t of
               b # u # t' \<Rightarrow>
                 if b = backslash \<and> u = CHR ''u'' then
                   (case hex4 t' of
                      Some (r', t'') \<Rightarrow>
                        if 56320 \<le> r' \<and> r' < 57344
                        then Some (rune_string ((r - 55296) * 1024 + (r' - 56320) + 65536), t'')
                        else Some (rune_string 65533, t)
                    | None \<Rightarrow> Some (rune_string 65533, t))
                 else Some (rune_string 65533, t)
             | _ \<Rightarrow> Some (rune_string 65533, t))
          else Some (rune_string r, t))"

definition simple_escape :: "char \<Rightarrow> char option" where
  "simple_escape c =
     map_of [(quotation, quotation), (backslash, backslash), (CHR ''/'', CHR ''/''), (CHR ''b'', CHR 0x08),
       (CHR ''f'', CHR 0x0C), (CHR ''n'', CHR 0x0A), (CHR ''r'', CHR 0x0D), (CHR ''t'', CHR 0x09)] c"

text \<open>The body of a string literal up to its closing quotation mark; \<open>n\<close> bounds its length.\<close>

fun parse_body :: "nat \<Rightarrow> string \<Rightarrow> (string \<times> string) option" where
  "parse_body (Suc n) (c # s) =
     (if c = quotation then Some ([], s)
      else if c = backslash then
        (case s of
           [] \<Rightarrow> None
         | e # t \<Rightarrow>
             if e = CHR ''u'' then
               (case unicode_escape t of
                  None \<Rightarrow> None
                | Some (r, t) \<Rightarrow> map_option (\<lambda>(x, rest). (r @ x, rest)) (parse_body n t))
             else
               (case simple_escape e of
                  None \<Rightarrow> None
                | Some d \<Rightarrow> map_option (\<lambda>(x, rest). (d # x, rest)) (parse_body n t)))
      else if byte c < 32 then None
      else if byte c < 128 then map_option (\<lambda>(x, rest). (c # x, rest)) (parse_body n s)
      else (case decode_rune (map byte (c # s)) of (r, k) \<Rightarrow>
        if r = 65533 \<and> k = 1 then map_option (\<lambda>(x, rest). (rune_string 65533 @ x, rest)) (parse_body n s)
        else map_option (\<lambda>(x, rest). (take k (c # s) @ x, rest)) (parse_body n (drop k (c # s)))))"
| "parse_body _ _ = None"

definition parse_string :: "string \<Rightarrow> (string \<times> string) option" where
  "parse_string s = parse_body (length s) s"

definition take_digits :: "string \<Rightarrow> string \<times> string" where
  "take_digits s = (takeWhile is_digit s, dropWhile is_digit s)"

definition parse_number :: "string \<Rightarrow> (string \<times> string) option" where
  "parse_number s =
     (let (sign, s) = (case s of c # t \<Rightarrow> if c = CHR ''-'' then ([c], t) else ([], s) | [] \<Rightarrow> ([], s));
          (digits, s) = (case s of c # t \<Rightarrow> if c = CHR ''0'' then ([c], t) else take_digits s | [] \<Rightarrow> ([], []));
          (frac, s, ok_f) = (case s of
              c # t \<Rightarrow> if c = CHR ''.'' then (c # fst (take_digits t), snd (take_digits t), fst (take_digits t) \<noteq> [])
                      else ([], s, True)
            | [] \<Rightarrow> ([], [], True));
          (expo, s, ok_e) = (case s of
              c # t \<Rightarrow>
                if c \<in> set ''eE'' then
                  (let (sg, t) = (case t of d # u \<Rightarrow> if d \<in> set ''+-'' then ([d], u) else ([], t) | [] \<Rightarrow> ([], [])) in
                   (c # sg @ fst (take_digits t), snd (take_digits t), fst (take_digits t) \<noteq> []))
                else ([], s, True)
            | [] \<Rightarrow> ([], [], True))
      in if digits \<noteq> [] \<and> ok_f \<and> ok_e then Some (sign @ digits @ frac @ expo, s) else None)"

definition expect :: "string \<Rightarrow> json \<Rightarrow> string \<Rightarrow> (json \<times> string) option" where
  "expect w v s = (if prefix w s then Some (v, drop (length w) s) else None)"

fun parse_value :: "nat \<Rightarrow> string \<Rightarrow> (json \<times> string) option"
and parse_elements :: "nat \<Rightarrow> string \<Rightarrow> (json list \<times> string) option"
and parse_members :: "nat \<Rightarrow> string \<Rightarrow> ((string \<times> json) list \<times> string) option"
where
  "parse_value 0 s = None"
| "parse_value (Suc n) s =
     (case skip_ws s of
        [] \<Rightarrow> None
      | c # t \<Rightarrow>
          if c = quotation then map_option (\<lambda>(x, r). (JStr x, r)) (parse_string t)
          else if c = CHR ''{'' then
            (case skip_ws t of
               d # r \<Rightarrow> if d = CHR ''}'' then Some (JObj [], r)
                        else map_option (\<lambda>(m, r). (JObj m, r)) (parse_members n t)
             | [] \<Rightarrow> None)
          else if c = CHR ''['' then
            (case skip_ws t of
               d # r \<Rightarrow> if d = CHR '']'' then Some (JArr [], r)
                        else map_option (\<lambda>(m, r). (JArr m, r)) (parse_elements n t)
             | [] \<Rightarrow> None)
          else if c = CHR ''t'' then expect ''true'' (JBool True) (c # t)
          else if c = CHR ''f'' then expect ''false'' (JBool False) (c # t)
          else if c = CHR ''n'' then expect ''null'' JNull (c # t)
          else map_option (\<lambda>(x, r). (JNum x, r)) (parse_number (c # t)))"
| "parse_elements 0 s = None"
| "parse_elements (Suc n) s =
     (case parse_value n s of
        None \<Rightarrow> None
      | Some (v, r) \<Rightarrow>
          (case skip_ws r of
             [] \<Rightarrow> None
           | d # r \<Rightarrow>
               if d = CHR '','' then map_option (\<lambda>(vs, r). (v # vs, r)) (parse_elements n r)
               else if d = CHR '']'' then Some ([v], r) else None))"
| "parse_members 0 s = None"
| "parse_members (Suc n) s =
     (case skip_ws s of
        [] \<Rightarrow> None
      | c # t \<Rightarrow>
          if c \<noteq> quotation then None
          else (case parse_string t of
             None \<Rightarrow> None
           | Some (k, r) \<Rightarrow>
               (case skip_ws r of
                  [] \<Rightarrow> None
                | d # r \<Rightarrow>
                    if d \<noteq> CHR '':'' then None
                    else (case parse_value n r of
                       None \<Rightarrow> None
                     | Some (v, r) \<Rightarrow>
                         (case skip_ws r of
                            [] \<Rightarrow> None
                          | e # r \<Rightarrow>
                              if e = CHR '','' then map_option (\<lambda>(m, r). ((k, v) # m, r)) (parse_members n r)
                              else if e = CHR ''}'' then Some ([(k, v)], r) else None)))))"

text \<open>
  A whole document.  Every recursive call has read a character, so a fuel above the length is enough.
\<close>

definition Parse :: "string \<Rightarrow> json option" where
  "Parse s =
     (case parse_value (Suc (length s)) s of
        Some (v, r) \<Rightarrow> if skip_ws r = [] then Some v else None
      | None \<Rightarrow> None)"

text \<open>
  \<open>json.Unmarshal\<close> into a \<open>map[string]string\<close>: of two members with one name the last counts, \<open>null\<close>
  is the empty string, any other kind of value is an error.
\<close>

fun string_members :: "(string \<times> json) list \<Rightarrow> (string, string) gomap \<Rightarrow> (string, string) gomap option" where
  "string_members [] m = Some m"
| "string_members ((k, v) # kvs) m =
     (case v of
        JStr s \<Rightarrow> string_members kvs (mput k s m)
      | JNull \<Rightarrow> string_members kvs (mput k [] m)
      | _ \<Rightarrow> None)"

definition Unmarshal_strings :: "string \<Rightarrow> (string, string) gomap option" where
  "Unmarshal_strings doc =
     (case Parse doc of
        Some (JObj kvs) \<Rightarrow> string_members kvs []
      | Some JNull \<Rightarrow> Some []
      | _ \<Rightarrow> None)"

subsection \<open>Round trip\<close>

lemma hex_val_digit [simp]: "n < 16 \<Longrightarrow> hex_val (hex_digit n) = Some n"
proof -
  assume "n < 16"
  then have "n \<in> set [0..<16]" by simp
  moreover have "list_all (\<lambda>n. hex_val (hex_digit n) = Some n) [0..<16]"
    by (simp add: upt_rec hex_val_def hex_digit_def hex_digits_def byte_def)
  ultimately show ?thesis unfolding list_all_iff by blast
qed

lemma hex4_small: "n < 128 \<Longrightarrow>
    hex4 (hex_digit (n div 4096 mod 16) # hex_digit (n div 256 mod 16) # hex_digit (n div 16 mod 16) #
      hex_digit (n mod 16) # s) = Some (n, s)"
proof -
  assume n: "n < 128"
  then have "n div 4096 = 0" "n div 256 = 0" "n div 16 < 16" by simp_all
  then show ?thesis by simp
qed

lemma byte_eq_iff: "byte c = byte d \<longleftrightarrow> c = d"
  by (simp add: byte_def)

lemma blank_escapes:
  "escape_ascii CHR 0x08 = [backslash, CHR ''b'']" "simple_escape CHR ''b'' = Some CHR 0x08"
  "escape_ascii CHR 0x09 = [backslash, CHR ''t'']" "simple_escape CHR ''t'' = Some CHR 0x09"
  "escape_ascii CHR 0x0A = [backslash, CHR ''n'']" "simple_escape CHR ''n'' = Some CHR 0x0A"
  "escape_ascii CHR 0x0C = [backslash, CHR ''f'']" "simple_escape CHR ''f'' = Some CHR 0x0C"
  "escape_ascii CHR 0x0D = [backslash, CHR ''r'']" "simple_escape CHR ''r'' = Some CHR 0x0D"
  by (simp_all add: escape_ascii_def simple_escape_def byte_def quotation_def backslash_def)

lemma parse_escaped:
  assumes "byte c < 128"
  shows "parse_body (Suc n) (escape_ascii c @ t) = map_option (\<lambda>(x, rest). (c # x, rest)) (parse_body n t)"
proof -
  have uq: "CHR ''u'' \<noteq> quotation" "backslash \<noteq> quotation" "quotation \<noteq> CHR ''u''" "backslash \<noteq> CHR ''u''"
    by (simp_all add: quotation_def backslash_def)
  consider (quote) "c = quotation \<or> c = backslash" | (blank) "byte c \<in> {8, 9, 10, 12, 13}"
    | (hex) "c \<noteq> quotation" "c \<noteq> backslash" "byte c \<notin> {8, 9, 10, 12, 13}" "byte c < 32 \<or> c \<in> set ''<>&''"
    | (plain) "c \<noteq> quotation" "c \<noteq> backslash" "\<not> byte c < 32" "c \<notin> set ''<>&''"
    by blast
  then show ?thesis
  proof cases
    case quote
    then show ?thesis
      by (auto simp: escape_ascii_def simple_escape_def uq)
  next
    case blank
    then have "byte c \<in> byte ` {CHR 0x08, CHR 0x09, CHR 0x0A, CHR 0x0C, CHR 0x0D}" by (simp add: byte_def)
    then have "c \<in> {CHR 0x08, CHR 0x09, CHR 0x0A, CHR 0x0C, CHR 0x0D}" by (auto simp: byte_eq_iff)
    then show ?thesis by (auto simp: blank_escapes uq)
  next
    case hex
    then have "escape_ascii c = u_escape (byte c)" by (auto simp: escape_ascii_def)
    moreover have "unicode_escape (hex_digit (byte c div 4096 mod 16) # hex_digit (byte c div 256 mod 16) #
        hex_digit (byte c div 16 mod 16) # hex_digit (byte c mod 16) # t) = Some ([c], t)"
      using assms unfolding unicode_escape_def hex4_small [OF assms]
      by (simp add: rune_string_def encode_rune_def)
    ultimately show ?thesis by (simp add: u_escape_def uq)
  next
    case plain
    then have "escape_ascii c = [c]" by (auto simp: escape_ascii_def)
    with plain assms show ?thesis by simp
  qed
qed

definition ascii :: "string \<Rightarrow> bool" where
  "ascii s \<longleftrightarrow> list_all (\<lambda>c. byte c < 128) s"

lemma quote_body_ascii:
  "quote_body [] = []" "byte c < 128 \<Longrightarrow> quote_body (c # s) = escape_ascii c @ quote_body s"
  by (simp_all add: quote_body.simps)

lemma parse_body_quoted:
  "ascii s \<Longrightarrow> length s < n \<Longrightarrow> parse_body n (quote_body s @ quotation # rest) = Some (s, rest)"
proof (induction s arbitrary: n)
  case Nil
  then show ?case by (cases n) (simp_all add: quote_body_ascii)
next
  case (Cons c s)
  then obtain m where "n = Suc m" by (cases n) auto
  with Cons show ?case
    by (simp add: ascii_def quote_body_ascii parse_escaped del: parse_body.simps)
qed

lemma length_escape: "0 < length (escape_ascii c)"
  by (simp add: escape_ascii_def u_escape_def)

lemma length_quote_body: "ascii s \<Longrightarrow> length s \<le> length (quote_body s)"
proof (induction s)
  case (Cons c s)
  then have "length s \<le> length (quote_body s)" "quote_body (c # s) = escape_ascii c @ quote_body s"
    by (simp_all add: ascii_def quote_body_ascii)
  then show ?case using length_escape [of c] by (simp del: length_greater_0_conv)
qed simp

lemma parse_string_quoted:
  "ascii s \<Longrightarrow> parse_string (quote_body s @ quotation # rest) = Some (s, rest)"
  unfolding parse_string_def
  using length_quote_body [of s] by (intro parse_body_quoted) simp_all

text \<open>A payload with one entry is read back as it was.\<close>

lemma Unmarshal_single:
  assumes "ascii k" "ascii v"
  shows "Unmarshal_strings (Marshal (JMap [(k, JStr v)])) = Some [(k, v)]"
proof -
  let ?m = "quote_body k @ quotation # CHR '':'' # quotation # quote_body v @ [quotation, CHR ''}'']"
  let ?doc = "CHR ''{'' # quotation # ?m"
  have doc: "Marshal (JMap [(k, JStr v)]) = ?doc" by (simp add: JMap_def Quote_def)
  have q: "byte quotation \<notin> {32, 9, 10, 13}" "quotation \<noteq> CHR ''}''" "quotation \<noteq> CHR '':''"
    "CHR ''{'' \<noteq> quotation"
    by (simp_all add: quotation_def byte_def)
  have ws: "skip_ws (quotation # s) = quotation # s" for s using q by simp
  have pu: "skip_ws (c # s) = c # s" if "c \<in> {CHR '':'', CHR ''}'', CHR ''{''}" for c s
    using that by (auto simp: byte_def)
  note reads = ws pu parse_string_quoted [OF assms(1)] parse_string_quoted [OF assms(2)]
  have val: "parse_value (Suc n) (quotation # quote_body v @ quotation # rest) = Some (JStr v, rest)" for n rest
    by (subst parse_value.simps) (simp add: reads del: skip_ws.simps)
  have mem: "parse_members (Suc (Suc n)) (quotation # ?m) = Some ([(k, JStr v)], [])" for n
    by (subst parse_members.simps) (simp add: reads val del: skip_ws.simps parse_value.simps)
  have "parse_value (Suc (Suc (Suc n))) ?doc = Some (JObj [(k, JStr v)], [])" for n
    using q by (subst parse_value.simps) (simp add: reads mem del: skip_ws.simps parse_members.simps parse_value.simps)
  moreover obtain n where "Suc (length ?doc) = Suc (Suc (Suc n))" by simp
  ultimately have "Parse ?doc = Some (JObj [(k, JStr v)])"
    unfolding Parse_def by (simp del: parse_value.simps)
  then show ?thesis by (simp add: doc Unmarshal_strings_def)
qed

subsection \<open>Reading back what was written\<close>

lemma decode_rune_take:
  assumes "decode_rune bs = (r, k)" "bs \<noteq> []" "\<not> (r = 65533 \<and> k = 1)"
  shows "k \<le> length bs \<and> decode_rune (take k bs @ xs) = (r, k)"
  using assms
  by (cases bs; cases "tl bs"; cases "tl (tl bs)"; cases "tl (tl (tl bs))")
    (auto simp: decode_rune.simps(2) split: if_splits)

lemma hex4_u_escape:
  assumes "n < 65536"
  shows "hex4 (hex_digit (n div 4096 mod 16) # hex_digit (n div 256 mod 16) # hex_digit (n div 16 mod 16) #
      hex_digit (n mod 16) # s) = Some (n, s)"
proof -
  have "n div 4096 mod 16 * 4096 + n div 256 mod 16 * 256 + n div 16 mod 16 * 16 + n mod 16 = n"
  proof -
    have "n div 256 = n div 16 div 16" "n div 4096 = n div 16 div 16 div 16" by (simp_all flip: div_mult2_eq)
    moreover have "n div 16 div 16 div 16 < 16" using assms by (simp add: less_mult_imp_div_less)
    moreover have "n = n div 16 * 16 + n mod 16" "n div 16 = n div 16 div 16 * 16 + n div 16 mod 16"
      "n div 16 div 16 = n div 16 div 16 div 16 * 16 + n div 16 div 16 mod 16" by simp_all
    ultimately show ?thesis by (simp only: mod_less)
  qed
  then show ?thesis
    by (simp only: hex4.simps hex_val_digit mod_less_divisor zero_less_numeral prod.case option.case)
qed

lemma length_u_escape [simp]: "length (u_escape n) = 6"
  by (simp add: u_escape_def)

lemma parse_u_escape:
  assumes "n < 55296 \<or> n = 65533"
  shows "parse_body (Suc m) (u_escape n @ t) = map_option (\<lambda>(x, rest). (rune_string n @ x, rest)) (parse_body m t)"
proof -
  have n: "n < 65536" using assms by auto
  have uq: "CHR ''u'' \<noteq> quotation" "backslash \<noteq> quotation" by (simp_all add: quotation_def backslash_def)
  have "unicode_escape (hex_digit (n div 4096 mod 16) # hex_digit (n div 256 mod 16) #
        hex_digit (n div 16 mod 16) # hex_digit (n mod 16) # t) = Some (rune_string n, t)"
    using assms unfolding unicode_escape_def hex4_u_escape [OF n] by auto
  then show ?thesis by (simp add: u_escape_def uq)
qed

text \<open>A quoted string is always read to its end; what is read is the string itself if it is ASCII.\<close>

lemma parse_body_any:
  "\<exists>s'. \<forall>n rest. length (quote_body s) < n \<longrightarrow> parse_body n (quote_body s @ quotation # rest) = Some (s', rest)"
proof (induction s rule: quote_body.induct)
  case (1 s)
  show ?case
  proof (cases s)
    case Nil
    have "parse_body n (quotation # rest) = Some ([], rest)" if "0 < n" for n rest
      using that by (cases n) auto
    with Nil show ?thesis by (intro exI [of _ "[]"]) (simp add: quote_body_ascii)
  next
    case (Cons c t)
    show ?thesis
    proof (cases "byte c < 128")
      case True
      obtain t' where t': "\<And>n rest. length (quote_body t) < n \<Longrightarrow> parse_body n (quote_body t @ quotation # rest) = Some (t', rest)"
        using "1.IH"(1) [OF Cons True] by blast
      have "parse_body n (quote_body s @ quotation # rest) = Some (c # t', rest)"
        if "length (quote_body s) < n" for n rest
        using that length_escape [of c] Cons True t' [of "n - 1" rest]
        by (cases n) (simp_all add: quote_body_ascii parse_escaped del: parse_body.simps length_greater_0_conv)
      then show ?thesis by blast
    next
      case False
      obtain r k where rk: "decode_rune (map byte s) = (r, k)" by fastforce
      have k: "0 < k" using decode_rune_width [of "map byte s"] rk Cons by simp
      show ?thesis
      proof (cases "r = 65533 \<and> k = 1")
        case True
        obtain t' where t': "\<And>n rest. length (quote_body t) < n \<Longrightarrow> parse_body n (quote_body t @ quotation # rest) = Some (t', rest)"
          using "1.IH"(2) [OF Cons False rk [symmetric] True] by blast
        have q: "quote_body s = u_escape 65533 @ quote_body t"
          using Cons False rk True by (subst quote_body.simps) simp
        have "parse_body n (quote_body s @ quotation # rest) = Some (rune_string 65533 @ t', rest)"
          if "length (quote_body s) < n" for n rest
          using that t' [of "n - 1" rest] unfolding q
          by (cases n) (simp_all add: parse_u_escape del: parse_body.simps)
        then show ?thesis by blast
      next
        case nbad: False
        let ?d = "drop k s"
        obtain t' where t': "\<And>n rest. length (quote_body ?d) < n \<Longrightarrow> parse_body n (quote_body ?d @ quotation # rest) = Some (t', rest)"
          using "1.IH"(3) [OF Cons False rk [symmetric] nbad] by blast
        show ?thesis
        proof (cases "r = 8232 \<or> r = 8233")
          case True
          then have q: "quote_body s = u_escape r @ quote_body ?d"
            using Cons False rk nbad by (subst quote_body.simps) auto
          have r: "r < 55296 \<or> r = 65533" using True by auto
          have "parse_body n (quote_body s @ quotation # rest) = Some (rune_string r @ t', rest)"
            if "length (quote_body s) < n" for n rest
            using that t' [of "n - 1" rest] parse_u_escape [OF r] unfolding q
            by (cases n) (simp_all del: parse_body.simps)
          then show ?thesis by blast
        next
          case plain: False
          have q: "quote_body s = take k s @ quote_body ?d"
            using Cons False rk nbad plain by (subst quote_body.simps) auto
          have kl: "k \<le> length s" using decode_rune_take [OF rk _ nbad] Cons by simp
          have "map byte s \<noteq> []" using Cons by simp
          then have dec: "decode_rune (map byte (take k s @ x)) = (r, k)" for x
            using decode_rune_take [OF rk _ nbad, of "map byte x"] by (simp add: take_map)
          have hd: "take k s = c # take (k - 1) t" using Cons k by (cases k) auto
          have nc: "c \<noteq> quotation" "c \<noteq> backslash" "\<not> byte c < 32"
            using False by (auto simp: quotation_def backslash_def byte_def)
          have step: "parse_body (Suc m) (take k s @ x) = map_option (\<lambda>(y, rest). (take k s @ y, rest)) (parse_body m x)" for m x
          proof -
            have "take k (take k s @ x) = take k s" "drop k (take k s @ x) = x" using kl by simp_all
            then show ?thesis
              using dec [of x] nc False nbad unfolding hd by (auto simp del: map_append)
          qed
          have "parse_body n (quote_body s @ quotation # rest) = Some (take k s @ t', rest)"
            if "length (quote_body s) < n" for n rest
            using that t' [of "n - 1" rest] k kl step unfolding q
            by (cases n) (simp_all del: parse_body.simps)
          then show ?thesis by blast
        qed
      qed
    qed
  qed
qed

definition json_reads :: "string \<Rightarrow> string \<Rightarrow> bool" where
  "json_reads s s' \<longleftrightarrow> (\<forall>rest. parse_string (quote_body s @ quotation # rest) = Some (s', rest))"

lemma json_reads_any: "\<exists>s'. json_reads s s'"
  using parse_body_any [of s] by (auto simp: json_reads_def parse_string_def)

lemma json_reads_ascii: "ascii s \<Longrightarrow> json_reads s s"
  by (simp add: json_reads_def parse_string_quoted)

text \<open>An object of strings: every member is read, and the ASCII ones as they were written.\<close>

lemma parse_members_strings:
  "kvs \<noteq> [] \<Longrightarrow> \<forall>(k, v, v')\<in>set kvs. ascii k \<and> json_reads v v' \<Longrightarrow> length kvs < n \<Longrightarrow>
    parse_members n (Join (map (\<lambda>(k, v, v'). Quote k @ '':'' @ Quote v) kvs) '','' @ CHR ''}'' # rest) =
      Some (map (\<lambda>(k, v, v'). (k, JStr v')) kvs, rest)"
proof (induction kvs arbitrary: n)
  case (Cons kv kvs)
  obtain k v v' where kv: "kv = (k, v, v')" by (cases kv)
  from Cons.prems kv have k: "ascii k" and v: "json_reads v v'" by auto
  have q: "byte quotation \<notin> {32, 9, 10, 13}" by (simp add: quotation_def byte_def)
  have ws: "skip_ws (quotation # s) = quotation # s" for s using q by simp
  have pu: "skip_ws (c # s) = c # s" if "c \<in> {CHR '':'', CHR ''}'', CHR '',''}" for c s
    using that by (auto simp: byte_def)
  have val: "parse_value (Suc m) (quotation # quote_body v @ quotation # r) = Some (JStr v', r)" for m r
    using v by (subst parse_value.simps) (simp add: ws json_reads_def del: skip_ws.simps)
  obtain m where m: "n = Suc (Suc m)" using Cons.prems(3) by (cases n; cases "n - 1") auto
  show ?case
  proof (cases "kvs = []")
    case True
    then show ?thesis
      unfolding m by (subst parse_members.simps)
        (simp add: kv Quote_def ws pu val parse_string_quoted [OF k] del: skip_ws.simps parse_value.simps)
  next
    case False
    let ?js = "Join (map (\<lambda>(k, v, v'). Quote k @ '':'' @ Quote v) kvs) '',''"
    have IH: "parse_members (Suc m) (?js @ CHR ''}'' # rest) = Some (map (\<lambda>(k, v, v'). (k, JStr v')) kvs, rest)"
      using Cons.prems m False by (intro Cons.IH) auto
    have "Join (map (\<lambda>(k, v, v'). Quote k @ '':'' @ Quote v) (kv # kvs)) '','' =
        quotation # quote_body k @ quotation # CHR '':'' # quotation # quote_body v @ quotation # CHR '','' # ?js"
      using False by (simp add: kv Join_Cons Quote_def)
    with IH show ?thesis
      unfolding m by (subst parse_members.simps)
        (simp add: kv ws pu val parse_string_quoted [OF k] del: skip_ws.simps parse_value.simps parse_members.simps)
  qed
qed simp

lemma length_Join: "length ss \<le> Suc (length (Join ss [c]))"
  by (induction ss "[c]" rule: Join.induct) auto

lemma Unmarshal_strings_written:
  assumes "kvs \<noteq> []" "\<forall>(k, v, v')\<in>set kvs. ascii k \<and> json_reads v v'"
  shows "Unmarshal_strings (Marshal (JObj (map (\<lambda>(k, v, v'). (k, JStr v)) kvs))) =
    string_members (map (\<lambda>(k, v, v'). (k, JStr v')) kvs) []"
proof -
  let ?js = "Join (map (\<lambda>(k, v, v'). Quote k @ '':'' @ Quote v) kvs) '',''"
  have doc: "Marshal (JObj (map (\<lambda>(k, v, v'). (k, JStr v)) kvs)) = CHR ''{'' # ?js @ ''}''"
    by (simp add: case_prod_unfold comp_def)
  obtain k v v' kvs' where kvs: "kvs = (k, v, v') # kvs'" using assms(1) by (cases kvs) auto
  obtain t where hd: "?js = quotation # t"
    by (cases "kvs' = []") (simp_all add: kvs Quote_def Join_Cons)
  have q: "byte quotation \<notin> {32, 9, 10, 13}" "quotation \<noteq> CHR ''}''" "CHR ''{'' \<noteq> quotation"
    by (simp_all add: quotation_def byte_def)
  have ws: "skip_ws (quotation # s) = quotation # s" for s using q by simp
  have br: "skip_ws (CHR ''{'' # s) = CHR ''{'' # s" for s by (simp add: byte_def)
  have "length kvs < length (CHR ''{'' # ?js @ ''}'')"
    using length_Join [of "map (\<lambda>(k, v, v'). Quote k @ '':'' @ Quote v) kvs" "CHR '',''"] by simp
  note mem = parse_members_strings [OF assms this, of "[]", unfolded hd, unfolded append_Cons append_Nil]
  have "parse_value (Suc (length (CHR ''{'' # quotation # t @ ''}''))) (CHR ''{'' # quotation # t @ ''}'') =
      Some (JObj (map (\<lambda>(k, v, v'). (k, JStr v')) kvs), [])"
    using q by (subst parse_value.simps)
      (simp only: br ws list.case if_False if_True refl mem option.map prod.case simp_thms)
  then have "Parse (CHR ''{'' # quotation # t @ ''}'') = Some (JObj (map (\<lambda>(k, v, v'). (k, JStr v')) kvs))"
    by (simp add: Parse_def del: parse_value.simps)
  then have "Parse (CHR ''{'' # ?js @ ''}'') = Some (JObj (map (\<lambda>(k, v, v'). (k, JStr v')) kvs))"
    by (subst hd) simp
  then show ?thesis by (simp only: doc Unmarshal_strings_def option.case json.case)
qed

text \<open>What a lookup in the members that were read gives.\<close>

lemma string_members_get:
  "distinct (map fst kvs) \<Longrightarrow>
    string_members (map (\<lambda>(k, v). (k, JStr v)) kvs) m = Some m' \<Longrightarrow>
    mget m' k = (case mget kvs k of Some v \<Rightarrow> Some v | None \<Rightarrow> mget m k)"
proof (induction kvs arbitrary: m)
  case (Cons kv kvs)
  obtain a b where kv: "kv = (a, b)" by (cases kv)
  have "mget kvs a = None" using Cons.prems(1) kv by (simp add: map_of_eq_None_iff)
  with Cons kv show ?case by (auto split: option.split)
qed simp

lemma string_members_total: "\<exists>m'. string_members (map (\<lambda>(k, v). (k, JStr v)) kvs) m = Some m'"
  by (induction kvs arbitrary: m) auto

lemma Unmarshal_written_get:
  assumes "distinct (map fst kvs)" "kvs \<noteq> []" "\<forall>(k, v)\<in>set kvs. ascii k" "mget kvs k = Some v" "ascii v"
  shows "\<exists>m. Unmarshal_strings (Marshal (JObj (map (\<lambda>(k, v). (k, JStr v)) kvs))) = Some m \<and> mget m k = Some v"
proof -
  define r where "r v = (if ascii v then v else (SOME v'. json_reads v v'))" for v
  have r: "json_reads v (r v)" for v
    using json_reads_ascii [of v] someI_ex [OF json_reads_any [of v]] by (simp add: r_def)
  let ?kvs = "map (\<lambda>(k, v). (k, v, r v)) kvs"
  let ?read = "map (\<lambda>(k, v). (k, r v)) kvs"
  have maps: "map (\<lambda>(k, v, v'). (k, JStr v)) ?kvs = map (\<lambda>(k, v). (k, JStr v)) kvs"
    "map (\<lambda>(k, v, v'). (k, JStr v')) ?kvs = map (\<lambda>(k, v). (k, JStr v)) ?read"
    by (simp_all add: case_prod_unfold comp_def)
  have "?kvs \<noteq> []" "\<forall>(k, v, v')\<in>set ?kvs. ascii k \<and> json_reads v v'" using assms(2,3) r by auto
  note un = Unmarshal_strings_written [OF this, unfolded maps]
  obtain m where m: "string_members (map (\<lambda>(k, v). (k, JStr v)) ?read) [] = Some m"
    using string_members_total by blast
  have "distinct (map fst ?read)" using assms(1) by (simp add: case_prod_unfold comp_def)
  from string_members_get [OF this m, of k] have "mget m k = Some v"
    using assms(4,5) map_of_map [of r kvs] by (simp add: r_def)
  with un m show ?thesis by metis
qed

end
