(* ===== verification/IdGen.thy ===== *)
theory IdGen
  imports GoJSON
begin

text \<open>
  \<open>internal/idgen/idgen.go\<close>: identifiers made of a prefix, the clock in nanoseconds and six random
  bytes in hexadecimal.
\<close>

definition idgen_New :: "string \<Rightarrow> 'a os_scheme \<Rightarrow> (error + string) \<times> 'a os_scheme" where
  "idgen_New pre w =
     (case rand_Read 6 w of
        (Inl e, w) \<Rightarrow> (Inl e, w)
      | (Inr b, w) \<Rightarrow>
          (case time_Now w of
             (now, w) \<Rightarrow> (Inr (pre @ ''_'' @ Itoa (wrap64 now) @ ''_'' @ Hex b), w)))"

lemma idgen_New_rest [os_frame]: "same_rest w (snd (idgen_New pre w))"
  by (simp add: idgen_New_def rand_Read_def time_Now_def split: sum.split)

lemma digit_nth: "n < 10 \<Longrightarrow> is_digit (''0123456789'' ! n)"
proof -
  assume "n < 10"
  then have "''0123456789'' ! n \<in> set ''0123456789''" by (intro nth_mem) simp
  then show ?thesis by (auto simp: is_digit_def byte_def)
qed

lemma set_show_nat: "c \<in> set (show_nat n) \<Longrightarrow> is_digit c"
proof (induction n rule: show_nat.induct)
  case (1 n)
  from 1(2) show ?case
    by (subst (asm) show_nat.simps) (use 1(1) digit_nth in \<open>auto split: if_splits\<close>)
qed

lemma set_Itoa: "c \<in> set (Itoa n) \<Longrightarrow> is_digit c \<or> c = CHR ''-''"
  by (auto simp: Itoa_def dest: set_show_nat split: if_splits)

text \<open>An identifier is its prefix followed by digits, hexadecimal digits, dashes and underscores.\<close>

definition id_char :: "char \<Rightarrow> bool" where
  "id_char c \<longleftrightarrow> is_digit c \<or> c \<in> set hex_digits \<or> c = CHR ''-'' \<or> c = CHR ''_''"

lemma idgen_New_shape:
  assumes "fst (idgen_New pre w) = Inr i"
  shows "\<exists>t. i = pre @ ''_'' @ t \<and> list_all id_char t"
proof -
  from assms obtain now b where "i = pre @ ''_'' @ Itoa (wrap64 now) @ ''_'' @ Hex b"
    by (auto simp: idgen_New_def split: sum.splits prod.splits)
  moreover have "list_all id_char (Itoa (wrap64 now) @ ''_'' @ Hex b)"
    using set_Hex [of b] set_Itoa [of _ "wrap64 now"] by (auto simp: list_all_iff id_char_def)
  ultimately show ?thesis by blast
qed

lemma id_char_ascii: "id_char c \<Longrightarrow> byte c < 128"
  by (auto simp: id_char_def is_digit_def hex_digits_def byte_def)

lemma idgen_New_ascii: "fst (idgen_New pre w) = Inr i \<Longrightarrow> ascii pre \<Longrightarrow> ascii i"
  by (drule idgen_New_shape) (auto simp: ascii_def list_all_iff id_char_ascii, simp add: byte_def)

lemma idgen_New_not_Nil: "fst (idgen_New pre w) = Inr i \<Longrightarrow> i \<noteq> []"
  by (drule idgen_New_shape) auto

end
