(* ===== verification/Jobs.thy ===== *)
theory Jobs
  imports FileDB IdGen
begin

text \<open>
  \<open>internal/jobs/service.go\<close>: the job queue and its single worker.  The state extends the repository's
  by the channel (capacity 256), the flags the mutex guards and the worker's context.  \<open>handleJob\<close> is
  given twice: as the function the code is, and as the steps of the worker between which other
  goroutines may use the repository; the two agree when nobody interferes.
\<close>

subsection \<open>State\<close>

record jobs = repo +
  jq_queue :: "string list"
  jq_started :: bool
  jq_stopped :: bool
  jq_cancelled :: bool
  jq_json_error :: "string \<Rightarrow> error"

text \<open>The interface \<open>SiteProvisioner\<close>: provisioning and removing a site.\<close>

type_synonym 'w site_provisioner = "(Site \<Rightarrow> 'w \<Rightarrow> error option \<times> 'w) \<times> (Site \<Rightarrow> 'w \<Rightarrow> error option \<times> 'w)"

definition queue_capacity :: nat where
  "queue_capacity = 256"

definition jobs_Start :: "'a jobs_scheme \<Rightarrow> 'a jobs_scheme" where
  "jobs_Start w = (if jq_started w then w else w\<lparr>jq_started := True\<rparr>)"

text \<open>
  \<open>Stop\<close>: the flags, then the wait for the worker.  \<open>exited\<close> says whether the worker has returned (or
  was never started), \<open>done\<close> whether the caller's context is done, \<open>pick\<close> which ready branch the
  \<open>select\<close> takes; the outer \<open>None\<close> is a call that still waits.
\<close>

definition jobs_Stop ::
  "bool \<Rightarrow> ctx_err option \<Rightarrow> bool \<Rightarrow> 'a jobs_scheme \<Rightarrow> error option option \<times> 'a jobs_scheme" where
  "jobs_Stop exited done pick w =
     (if jq_stopped w then (Some None, w)
      else (if exited \<and> (done = None \<or> pick) then Some None
            else (case done of Some e \<Rightarrow> Some (Some (ctxE e)) | None \<Rightarrow> None),
            w\<lparr>jq_stopped := True, jq_cancelled := jq_started w\<rparr>))"

text \<open>The \<open>select\<close> at the end of \<open>Enqueue\<close>.\<close>

definition send_or_done :: "ctx_err option \<Rightarrow> bool \<Rightarrow> Job \<Rightarrow> 'a jobs_scheme \<Rightarrow> (error + Job) option \<times> 'a jobs_scheme" where
  "send_or_done done pick job w =
     (if length (jq_queue w) < queue_capacity \<and> (done = None \<or> pick)
      then (Some (Inr job), w\<lparr>jq_queue := jq_queue w @ [job_ID job]\<rparr>)
      else (case done of Some e \<Rightarrow> (Some (Inl (ctxE e)), w) | None \<Rightarrow> (None, w)))"

definition new_job :: "string \<Rightarrow> string \<Rightarrow> (string \<times> string) list \<Rightarrow> string \<Rightarrow> int \<Rightarrow> Job" where
  "new_job triggeredBy jobType payload jobID now =
     \<lparr>job_ID = jobID, job_Type = jobType, job_Status = JobStatusQueued,
      job_Payload = Marshal (JMap (map (\<lambda>(k, v). (k, JStr v)) payload)), job_Error = [],
      job_StartedAt = None, job_FinishedAt = None, job_CreatedAt = now, job_TriggeredBy = triggeredBy\<rparr>"

definition jobs_Enqueue ::
  "ctx_err option \<Rightarrow> bool \<Rightarrow> string \<Rightarrow> string \<Rightarrow> (string \<times> string) list \<Rightarrow> 'a jobs_scheme \<Rightarrow>
    (error + Job) option \<times> 'a jobs_scheme" where
  "jobs_Enqueue done pick triggeredBy jobType payload w =
     (if \<not> jq_started w then (Some (Inl (jobsE ErrNotStarted)), w)
      else if jq_stopped w then (Some (Inl (jobsE ErrStopped)), w)
      else case idgen_New ''job'' w of
        (Inl e, w) \<Rightarrow> (Some (Inl e), w)
      | (Inr jobID, w) \<Rightarrow>
          (case time_Now w of
             (now, w) \<Rightarrow>
               (case repo_CreateJob (new_job triggeredBy jobType payload jobID now) w of
                  (Some e, w) \<Rightarrow> (Some (Inl e), w)
                | (None, w) \<Rightarrow> send_or_done done pick (new_job triggeredBy jobType payload jobID now) w)))"

definition jobs_List :: "int \<Rightarrow> 'a jobs_scheme \<Rightarrow> Job list" where
  "jobs_List limit w = repo_ListJobs limit w"

definition jobs_Get :: "string \<Rightarrow> 'a jobs_scheme \<Rightarrow> error + Job" where
  "jobs_Get i w = repo_GetJobByID i w"

subsection \<open>Running a job\<close>

text \<open>The common beginning of \<open>runProvisionSite\<close> and \<open>runDeprovisionSite\<close>: the site the payload names.\<close>

definition payload_site :: "Job \<Rightarrow> 'a jobs_scheme \<Rightarrow> error + Site" where
  "payload_site job w =
     (case Unmarshal_strings (job_Payload job) of
        None \<Rightarrow> Inl (Errorf ''decode payload: '' (jq_json_error w (job_Payload job)) [])
      | Some m \<Rightarrow>
          (let siteID = (case mget m ''site_id'' of None \<Rightarrow> [] | Some i \<Rightarrow> i) in
           if siteID = [] then Inl (NewError ''missing site_id in payload'')
           else (case repo_GetSiteByID siteID w of
              Inl e \<Rightarrow> Inl (Errorf ''load site: '' e [])
            | Inr site \<Rightarrow> Inr site)))"

definition jobs_runProvisionSite ::
  "'a jobs_scheme site_provisioner option \<Rightarrow> Job \<Rightarrow> 'a jobs_scheme \<Rightarrow> error option \<times> 'a jobs_scheme" where
  "jobs_runProvisionSite sp job w =
     (case sp of
        None \<Rightarrow> (Some (NewError ''site provisioner is not configured''), w)
      | Some (provision, _) \<Rightarrow>
          (case payload_site job w of
             Inl e \<Rightarrow> (Some e, w)
           | Inr site \<Rightarrow>
               (case provision site w of
                  (Some e, w) \<Rightarrow> (Some e, snd (repo_UpdateSiteStatus (site_ID site) SiteStatusFailed w))
                | (None, w) \<Rightarrow>
                    (case repo_UpdateSiteStatus (site_ID site) SiteStatusActive w of
                       (Some e, w) \<Rightarrow> (Some (Errorf ''update site status: '' e []), w)
                     | (None, w) \<Rightarrow> (None, w)))))"

definition jobs_runDeprovisionSite ::
  "'a jobs_scheme site_provisioner option \<Rightarrow> Job \<Rightarrow> 'a jobs_scheme \<Rightarrow> error option \<times> 'a jobs_scheme" where
  "jobs_runDeprovisionSite sp job w =
     (case sp of
        None \<Rightarrow> (Some (NewError ''site provisioner is not configured''), w)
      | Some (_, deprovision) \<Rightarrow>
          (case payload_site job w of
             Inl e \<Rightarrow> (Some e, w)
           | Inr site \<Rightarrow>
               (case deprovision site w of
                  (Some e, w) \<Rightarrow> (Some e, snd (repo_UpdateSiteStatus (site_ID site) SiteStatusFailed w))
                | (None, w) \<Rightarrow>
                    (case repo_DeleteSite (site_ID site) w of
                       (Some e, w) \<Rightarrow> (Some (Errorf ''delete site metadata: '' e []), w)
                     | (None, w) \<Rightarrow> (None, w)))))"

definition jobs_runByType ::
  "'a jobs_scheme site_provisioner option \<Rightarrow> Job \<Rightarrow> 'a jobs_scheme \<Rightarrow> error option \<times> 'a jobs_scheme" where
  "jobs_runByType sp job w =
     (if job_Type job = JobTypeProvisionSite then jobs_runProvisionSite sp job w
      else if job_Type job = JobTypeDeprovisionSite then jobs_runDeprovisionSite sp job w
      else (Some (NewError (''unsupported job type: '' @ job_Type job)), w))"

definition jobs_handleJob ::
  "'a jobs_scheme site_provisioner option \<Rightarrow> string \<Rightarrow> 'a jobs_scheme \<Rightarrow> 'a jobs_scheme" where
  "jobs_handleJob sp jobID w =
     (case repo_GetJobByID jobID w of
        Inl e \<Rightarrow> w
      | Inr job \<Rightarrow>
          (case time_Now w of
             (startedAt, w) \<Rightarrow>
               (case repo_UpdateJob (job_ID job) JobStatusRunning [] (Some startedAt) None w of
                  (Some e, w) \<Rightarrow> w
                | (None, w) \<Rightarrow>
                    (case jobs_runByType sp job w of
                       (runErr, w) \<Rightarrow>
                         (case time_Now w of
                            (finishedAt, w) \<Rightarrow>
                              (case runErr of
                                 Some e \<Rightarrow> snd (repo_UpdateJob (job_ID job) JobStatusFailed (Error_text e)
                                             (Some startedAt) (Some finishedAt) w)
                               | None \<Rightarrow> snd (repo_UpdateJob (job_ID job) JobStatusSuccess []
                                             (Some startedAt) (Some finishedAt) w)))))))"

subsection \<open>The worker, step by step\<close>

text \<open>
  Where the worker is: not started, waiting in its \<open>select\<close>, returned, or inside \<open>handleJob\<close> between
  two uses of shared state.
\<close>

datatype work =
    Unstarted | Waiting | Exited
  | Load string
  | Begin Job
  | Run Job int
  | Act Job int Site
  | Settle Job int Site "error option"
  | Finish Job int "error option"

fun work_step :: "'a jobs_scheme site_provisioner option \<Rightarrow> work \<times> 'a jobs_scheme \<Rightarrow> work \<times> 'a jobs_scheme" where
  "work_step sp (Load i, w) =
     (case repo_GetJobByID i w of Inl _ \<Rightarrow> (Waiting, w) | Inr job \<Rightarrow> (Begin job, w))"
| "work_step sp (Begin job, w) =
     (case time_Now w of
        (startedAt, w) \<Rightarrow>
          (case repo_UpdateJob (job_ID job) JobStatusRunning [] (Some startedAt) None w of
             (Some _, w) \<Rightarrow> (Waiting, w)
           | (None, w) \<Rightarrow> (Run job startedAt, w)))"
| "work_step sp (Run job t, w) =
     (if job_Type job = JobTypeProvisionSite \<or> job_Type job = JobTypeDeprovisionSite then
        (if sp = None then (Finish job t (Some (NewError ''site provisioner is not configured'')), w)
         else (case payload_site job w of
            Inl e \<Rightarrow> (Finish job t (Some e), w)
          | Inr site \<Rightarrow> (Act job t site, w)))
      else (Finish job t (Some (NewError (''unsupported job type: '' @ job_Type job))), w))"
| "work_step sp (Act job t site, w) =
     (case sp of
        None \<Rightarrow> (Waiting, w)
      | Some (provision, deprovision) \<Rightarrow>
          (case (if job_Type job = JobTypeProvisionSite then provision else deprovision) site w of
             (e, w) \<Rightarrow> (Settle job t site e, w)))"
| "work_step sp (Settle job t site (Some e), w) =
     (Finish job t (Some e), snd (repo_UpdateSiteStatus (site_ID site) SiteStatusFailed w))"
| "work_step sp (Settle job t site None, w) =
     (if job_Type job = JobTypeProvisionSite then
        (case repo_UpdateSiteStatus (site_ID site) SiteStatusActive w of
           (e, w) \<Rightarrow> (Finish job t (map_option (\<lambda>e. Errorf ''update site status: '' e []) e), w))
      else
        (case repo_DeleteSite (site_ID site) w of
           (e, w) \<Rightarrow> (Finish job t (map_option (\<lambda>e. Errorf ''delete site metadata: '' e []) e), w)))"
| "work_step sp (Finish job t e, w) =
     (case time_Now w of
        (finishedAt, w) \<Rightarrow>
          (Waiting, snd (repo_UpdateJob (job_ID job)
             (if e = None then JobStatusSuccess else JobStatusFailed)
             (case e of None \<Rightarrow> [] | Some e \<Rightarrow> Error_text e) (Some t) (Some finishedAt) w)))"
| "work_step sp (k, w) = (k, w)"

subsection \<open>The steps compose to the function\<close>

lemma step_Run:
  "\<exists>n\<le>3. (work_step sp ^^ n) (Run job t, w) = (Finish job t (fst (jobs_runByType sp job w)), snd (jobs_runByType sp job w))"
proof -
  define r where "r = (Finish job t (fst (jobs_runByType sp job w)), snd (jobs_runByType sp job w))"
  have types: "JobTypeProvisionSite \<noteq> JobTypeDeprovisionSite" by (simp add: job_type_defs)
  have "work_step sp (Run job t, w) = r \<or> (work_step sp ^^ 3) (Run job t, w) = r"
  proof (cases "job_Type job = JobTypeProvisionSite \<or> job_Type job = JobTypeDeprovisionSite")
    case False
    then show ?thesis by (simp add: r_def jobs_runByType_def)
  next
    case ty: True
    show ?thesis
    proof (cases sp)
      case None
      with ty types show ?thesis
        by (auto simp: r_def jobs_runByType_def jobs_runProvisionSite_def jobs_runDeprovisionSite_def)
    next
      case (Some pd)
      obtain p d where pd: "pd = (p, d)" by (cases pd)
      show ?thesis
      proof (cases "payload_site job w")
        case (Inl e)
        with ty types Some pd show ?thesis
          by (auto simp: r_def jobs_runByType_def jobs_runProvisionSite_def jobs_runDeprovisionSite_def)
      next
        case (Inr site)
        obtain e w1 where act: "(if job_Type job = JobTypeProvisionSite then p else d) site w = (e, w1)" by fastforce
        have "(work_step sp ^^ 3) (Run job t, w) = work_step sp (Settle job t site e, w1)"
          using ty Some pd Inr act by (simp add: numeral_3_eq_3)
        also have "\<dots> = r"
          using ty types Some pd Inr act
          by (cases e) (auto simp: r_def jobs_runByType_def jobs_runProvisionSite_def jobs_runDeprovisionSite_def
              split: prod.split option.split)
        finally show ?thesis by simp
      qed
    qed
  qed
  then have "(work_step sp ^^ 1) (Run job t, w) = r \<or> (work_step sp ^^ 3) (Run job t, w) = r" by simp
  then show ?thesis
    unfolding r_def by (metis one_le_numeral order_refl)
qed

lemma work_step_Waiting [simp]: "(work_step sp ^^ n) (Waiting, w) = (Waiting, w)"
  by (induction n) simp_all

lemma funpow_finish:
  assumes "(work_step sp ^^ m) s = (Waiting, w)" "m \<le> n"
  shows "(work_step sp ^^ n) s = (Waiting, w)"
proof -
  have "(work_step sp ^^ n) s = (work_step sp ^^ (n - m)) ((work_step sp ^^ m) s)"
    using assms(2) by (metis funpow_add le_add_diff_inverse2 comp_apply)
  then show ?thesis by (simp add: assms(1))
qed

lemma handleJob_steps:
  "\<exists>n\<le>6. (work_step sp ^^ n) (Load i, w) = (Waiting, jobs_handleJob sp i w)"
proof (cases "repo_GetJobByID i w")
  case (Inl e)
  then have "(work_step sp ^^ 1) (Load i, w) = (Waiting, jobs_handleJob sp i w)"
    by (simp add: jobs_handleJob_def)
  then show ?thesis by (metis one_le_numeral)
next
  case (Inr job)
  obtain t w1 where w1: "time_Now w = (t, w1)" by fastforce
  obtain e w2 where w2: "repo_UpdateJob (job_ID job) JobStatusRunning [] (Some t) None w1 = (e, w2)" by fastforce
  show ?thesis
  proof (cases e)
    case (Some x)
    then have "(work_step sp ^^ 2) (Load i, w) = (Waiting, jobs_handleJob sp i w)"
      using Inr w1 w2 by (simp add: numeral_2_eq_2 jobs_handleJob_def)
    then show ?thesis by (intro exI [of _ 2]) (simp del: funpow.simps)
  next
    case None
    let ?r = "jobs_runByType sp job w2"
    obtain x w3 where r: "?r = (x, w3)" by fastforce
    obtain n where n: "n \<le> 3" "(work_step sp ^^ n) (Run job t, w2) = (Finish job t (fst ?r), snd ?r)"
      using step_Run by blast
    have "(work_step sp ^^ (Suc n + 2)) (Load i, w) = work_step sp ((work_step sp ^^ n) ((work_step sp ^^ 2) (Load i, w)))"
      by (simp only: funpow_add comp_apply funpow.simps)
    also have "(work_step sp ^^ 2) (Load i, w) = (Run job t, w2)"
      using Inr w1 w2 None by (simp add: numeral_2_eq_2)
    also have "work_step sp ((work_step sp ^^ n) (Run job t, w2)) = (Waiting, jobs_handleJob sp i w)"
      using Inr w1 w2 None
      by (cases x) (simp_all add: n(2) r jobs_handleJob_def split: prod.split)
    finally show ?thesis using n(1) by (intro exI [of _ "Suc n + 2"]) simp
  qed
qed



subsection \<open>The whole system\<close>

text \<open>What every provisioner promises: it works on the operating system only.\<close>

locale site_provisioner =
  fixes provision deprovision :: "Site \<Rightarrow> 'a jobs_scheme \<Rightarrow> error option \<times> 'a jobs_scheme"
  assumes provision_rest: "same_rest w (snd (provision site w))"
    and deprovision_rest: "same_rest w (snd (deprovision site w))"

text \<open>
  The goroutines together.  The state is the worker's place, the jobs whose \<open>Enqueue\<close> waits in its
  \<open>select\<close>, and the shared state; other services change the repository without touching jobs.
\<close>

inductive jobs_system ::
  "'a jobs_scheme site_provisioner option \<Rightarrow> work \<times> Job list \<times> 'a jobs_scheme \<Rightarrow> work \<times> Job list \<times> 'a jobs_scheme \<Rightarrow> bool"
  for sp where
  Client: "repo_step w w' \<Longrightarrow> Jobs (rp_data w') = Jobs (rp_data w) \<Longrightarrow> jobs_system sp (k, ps, w) (k, ps, w')"
| Create: "jq_started w \<Longrightarrow> \<not> jq_stopped w \<Longrightarrow> idgen_New ''job'' w = (Inr i, w1) \<Longrightarrow>
    mget (Jobs (rp_data w)) i = None \<Longrightarrow> time_Now w1 = (now, w2) \<Longrightarrow>
    repo_CreateJob (new_job who ty pl i now) w2 = (e, w3) \<Longrightarrow>
    jobs_system sp (k, ps, w) (k, if e = None then new_job who ty pl i now # ps else ps, w3)"
| Send: "j \<in> set ps \<Longrightarrow> send_or_done done pick j w = (Some r, w') \<Longrightarrow>
    jobs_system sp (k, ps, w) (k, remove1 j ps, w')"
| Receive: "jq_queue w = i # q \<Longrightarrow> jobs_system sp (Waiting, ps, w) (Load i, ps, w\<lparr>jq_queue := q\<rparr>)"
| Work: "work_step sp (k, w) = (k', w') \<Longrightarrow> jobs_system sp (k, ps, w) (k', ps, w')"
| Start: "\<not> jq_started w \<Longrightarrow> jobs_system sp (Unstarted, ps, w) (Waiting, ps, jobs_Start w)"
| Stop: "jobs_Stop exited done pick w = (r, w') \<Longrightarrow> jobs_system sp (k, ps, w) (k, ps, w')"
| Quit: "jq_cancelled w \<Longrightarrow> jobs_system sp (Waiting, ps, w) (Exited, ps, w)"

subsection \<open>The life of a job\<close>

text \<open>Which fields go with which status.\<close>

definition job_life :: "Job \<Rightarrow> bool" where
  "job_life j \<longleftrightarrow>
     job_Status j = JobStatusQueued \<and> job_Error j = [] \<and> job_StartedAt j = None \<and> job_FinishedAt j = None
   \<or> job_Status j = JobStatusRunning \<and> job_Error j = [] \<and> job_StartedAt j \<noteq> None \<and> job_FinishedAt j = None
   \<or> job_Status j = JobStatusSuccess \<and> job_Error j = [] \<and> job_StartedAt j \<noteq> None \<and> job_FinishedAt j \<noteq> None
   \<or> job_Status j = JobStatusFailed \<and> job_StartedAt j \<noteq> None \<and> job_FinishedAt j \<noteq> None"

definition start_job :: "int \<Rightarrow> Job \<Rightarrow> Job" where
  "start_job t j = j\<lparr>job_Status := JobStatusRunning, job_StartedAt := Some t\<rparr>"

definition end_job :: "int \<Rightarrow> string option \<Rightarrow> Job \<Rightarrow> Job" where
  "end_job t e j =
     (case e of
        None \<Rightarrow> j\<lparr>job_Status := JobStatusSuccess, job_FinishedAt := Some t\<rparr>
      | Some m \<Rightarrow> j\<lparr>job_Status := JobStatusFailed, job_Error := m, job_FinishedAt := Some t\<rparr>)"

text \<open>One step of a job's life: it appears, queued; a queued one starts; a running one ends.\<close>

definition job_moves :: "Job option \<Rightarrow> Job option \<Rightarrow> bool" where
  "job_moves a b \<longleftrightarrow>
     a = b
   \<or> (\<exists>j. a = None \<and> b = Some j \<and> job_Status j = JobStatusQueued)
   \<or> (\<exists>j t. a = Some j \<and> job_Status j = JobStatusQueued \<and> b = Some (start_job t j))
   \<or> (\<exists>j t e. a = Some j \<and> job_Status j = JobStatusRunning \<and> b = Some (end_job t e j))"

fun loading :: "work \<Rightarrow> string list" where
  "loading (Load i) = [i]"
| "loading (Begin j) = [job_ID j]"
| "loading _ = []"

fun running :: "work \<Rightarrow> (string \<times> int) option" where
  "running (Run j t) = Some (job_ID j, t)"
| "running (Act j t _) = Some (job_ID j, t)"
| "running (Settle j t _ _) = Some (job_ID j, t)"
| "running (Finish j t _) = Some (job_ID j, t)"
| "running _ = None"

definition has_status :: "string \<Rightarrow> string \<Rightarrow> (string, Job) gomap \<Rightarrow> bool" where
  "has_status st i m \<longleftrightarrow> (\<exists>j. mget m i = Some j \<and> job_Status j = st)"

definition jobs_sound :: "work \<times> Job list \<times> 'a jobs_scheme \<Rightarrow> bool" where
  "jobs_sound s \<longleftrightarrow> (case s of (k, ps, w) \<Rightarrow>
     jobs_ok (rp_data w) \<and> (\<forall>i j. mget (Jobs (rp_data w)) i = Some j \<longrightarrow> job_life j)
     \<and> distinct (map job_ID ps @ jq_queue w @ loading k)
     \<and> list_all (\<lambda>i. has_status JobStatusQueued i (Jobs (rp_data w))) (map job_ID ps @ jq_queue w @ loading k)
     \<and> (\<forall>i t. running k = Some (i, t) \<longrightarrow>
          (\<exists>j. mget (Jobs (rp_data w)) i = Some j \<and> job_Status j = JobStatusRunning \<and> job_StartedAt j = Some t)))"

lemma jobs_sound_cong:
  assumes "jobs_sound (k, ps, w)" "Jobs (rp_data w') = Jobs (rp_data w)" "jq_queue w' = jq_queue w"
  shows "jobs_sound (k, ps, w')"
  using assms by (simp add: jobs_sound_def jobs_ok_def)

lemma same_env_queue: "same_env w w' \<Longrightarrow> jq_queue w' = jq_queue w"
  by (cases w; cases w'; simp add: same_env_def same_rest_def)

lemma same_env_flags:
  "same_env w w' \<Longrightarrow> jq_started w' = jq_started w \<and> jq_stopped w' = jq_stopped w \<and> jq_cancelled w' = jq_cancelled w"
  by (cases w; cases w'; simp add: same_env_def same_rest_def)

lemma jobs_sound_queued:
  assumes "jobs_sound (k, ps, w)" "i \<in> set (map job_ID ps @ jq_queue w @ loading k)"
  obtains j where "mget (Jobs (rp_data w)) i = Some j" "job_Status j = JobStatusQueued" "job_ID j = i" "job_life j"
  using assms that unfolding jobs_sound_def prod.case list_all_iff has_status_def jobs_ok_def by blast

lemma jobs_sound_put:
  assumes s: "jobs_sound (k, ps, w)" and j': "job_ID j' = i" "job_life j'"
    and fresh: "i \<notin> set (map job_ID ps @ jq_queue w)" and k': "loading k' = []"
    and upd: "Jobs (rp_data w') = mput i j' (Jobs (rp_data w))" "jq_queue w' = jq_queue w"
    and run: "\<And>i' t. running k' = Some (i', t) \<Longrightarrow>
      i' = i \<and> job_Status j' = JobStatusRunning \<and> job_StartedAt j' = Some t"
  shows "jobs_sound (k', ps, w')"
proof -
  have "list_all (\<lambda>i. has_status JobStatusQueued i (mput i0 j' (Jobs (rp_data w)))) xs"
    if "list_all (\<lambda>i. has_status JobStatusQueued i (Jobs (rp_data w))) xs" "i0 \<notin> set xs" for xs i0
    using that by (auto simp: list_all_iff has_status_def)
  then show ?thesis
    using s j' fresh k' run unfolding jobs_sound_def prod.case upd
    by (auto simp: jobs_ok_def upd)
qed

lemma UpdateJob_Jobs:
  "mget (Jobs (rp_data w)) i = Some j \<Longrightarrow>
    Jobs (rp_data (snd (repo_UpdateJob i st er sa fa w))) =
      mput i (j\<lparr>job_Status := st, job_Error := er, job_StartedAt := sa, job_FinishedAt := fa\<rparr>) (Jobs (rp_data w))"
  by (simp add: repo_UpdateJob_data)

lemma status_distinct:
  "JobStatusRunning \<noteq> JobStatusQueued" "JobStatusSuccess \<noteq> JobStatusQueued" "JobStatusFailed \<noteq> JobStatusQueued"
  "JobStatusSuccess \<noteq> JobStatusRunning" "JobStatusFailed \<noteq> JobStatusRunning" "JobStatusSuccess \<noteq> JobStatusFailed"
  by (simp_all add: job_status_defs)

lemma start_job_eq:
  "job_life j \<Longrightarrow> job_Status j = JobStatusQueued \<Longrightarrow>
    j\<lparr>job_Status := JobStatusRunning, job_Error := [], job_StartedAt := Some t, job_FinishedAt := None\<rparr> = start_job t j"
  using status_distinct by (cases j) (auto simp: job_life_def start_job_def)

lemma end_job_eq:
  "job_life j \<Longrightarrow> job_Status j = JobStatusRunning \<Longrightarrow> job_StartedAt j = Some t \<Longrightarrow>
    j\<lparr>job_Status := (if e = None then JobStatusSuccess else JobStatusFailed),
      job_Error := (case e of None \<Rightarrow> [] | Some m \<Rightarrow> m), job_StartedAt := Some t, job_FinishedAt := Some f\<rparr> = end_job f e j"
  using status_distinct by (cases j; cases e) (auto simp: job_life_def end_job_def)

lemma job_life_start: "job_life j \<Longrightarrow> job_Status j = JobStatusQueued \<Longrightarrow> job_life (start_job t j)"
  using status_distinct by (auto simp: job_life_def start_job_def)

lemma job_life_end: "job_life j \<Longrightarrow> job_Status j = JobStatusRunning \<Longrightarrow> job_life (end_job t e j)"
  using status_distinct by (auto simp: job_life_def end_job_def split: option.split)

lemma job_ID_kept [simp]: "job_ID (start_job t j) = job_ID j" "job_ID (end_job t e j) = job_ID j"
  by (simp_all add: start_job_def end_job_def split: option.split)

lemma job_moves_refl [simp]: "job_moves a a"
  by (simp add: job_moves_def)

lemma job_moves_put:
  "mget m i = Some j \<Longrightarrow> job_moves (Some j) (Some j') \<Longrightarrow> job_moves (mget m i') (mget (mput i j' m) i')"
  by simp

subsection \<open>The worker keeps the jobs sound\<close>

context site_provisioner
begin

abbreviation sound_step :: "work \<Rightarrow> Job list \<Rightarrow> 'a jobs_scheme \<Rightarrow> work \<Rightarrow> 'a jobs_scheme \<Rightarrow> bool" where
  "sound_step k ps w k' w' \<equiv> jobs_sound (k', ps, w')
     \<and> (\<forall>i. job_moves (mget (Jobs (rp_data w)) i) (mget (Jobs (rp_data w')) i))"

lemma sound_step_same:
  "jobs_sound (k, ps, w) \<Longrightarrow> Jobs (rp_data w') = Jobs (rp_data w) \<Longrightarrow> jq_queue w' = jq_queue w \<Longrightarrow>
    loading k' = [] \<Longrightarrow> running k' = running k \<Longrightarrow> sound_step k ps w k' w'"
  by (auto simp: jobs_sound_def jobs_ok_def)

lemma step_Begin:
  assumes s: "jobs_sound (Begin job, ps, w)" and st: "work_step sp (Begin job, w) = (k', w')"
  shows "sound_step (Begin job) ps w k' w'"
proof -
  obtain j where j: "mget (Jobs (rp_data w)) (job_ID job) = Some j" "job_Status j = JobStatusQueued"
      "job_ID j = job_ID job" "job_life j"
    using s by (rule jobs_sound_queued [where i = "job_ID job"]) auto
  obtain t w1 where w1: "time_Now w = (t, w1)" by fastforce
  have d1: "rp_data w1 = rp_data w" and q1: "jq_queue w1 = jq_queue w"
    using w1 same_env_queue [OF time_Now_env [of w]] time_Now_data(1) [of w] by simp_all
  let ?u = "repo_UpdateJob (job_ID job) JobStatusRunning [] (Some t) None w1"
  have w': "w' = snd ?u" and k': "k' = Waiting \<or> k' = Run job t"
    using st w1 by (auto split: prod.splits option.splits)
  have "Jobs (rp_data w') = mput (job_ID job) (start_job t j) (Jobs (rp_data w))"
    using j start_job_eq [OF j(4,2), of t] by (simp add: w' UpdateJob_Jobs d1)
  moreover have "jq_queue w' = jq_queue w"
    using same_env_queue [OF repo_env(9) [of w1 "job_ID job" JobStatusRunning "[]" "Some t" None]] q1 by (simp add: w')
  moreover have "job_ID job \<notin> set (map job_ID ps @ jq_queue w)" using s by (auto simp: jobs_sound_def)
  moreover have "job_life (start_job t j)" using j by (simp add: job_life_start)
  ultimately have "jobs_sound (k', ps, w')"
    using k' j(3) by (intro jobs_sound_put [OF s, where j' = "start_job t j" and i = "job_ID job"])
      (auto simp: start_job_def)
  moreover have "job_moves (Some j) (Some (start_job t j))" using j by (auto simp: job_moves_def)
  ultimately show ?thesis
    using \<open>Jobs (rp_data w') = _\<close> j(1) by (simp add: job_moves_put)
qed

lemma step_Finish:
  assumes s: "jobs_sound (Finish job t e, ps, w)" and st: "work_step sp (Finish job t e, w) = (k', w')"
  shows "sound_step (Finish job t e) ps w k' w'"
proof -
  obtain j where j: "mget (Jobs (rp_data w)) (job_ID job) = Some j" "job_Status j = JobStatusRunning"
      "job_StartedAt j = Some t" "job_ID j = job_ID job" "job_life j"
    using s by (fastforce simp: jobs_sound_def jobs_ok_def)
  obtain f w1 where w1: "time_Now w = (f, w1)" by fastforce
  have d1: "rp_data w1 = rp_data w" and q1: "jq_queue w1 = jq_queue w"
    using w1 same_env_queue [OF time_Now_env [of w]] time_Now_data(1) [of w] by simp_all
  let ?m = "map_option Error_text e"
  let ?u = "repo_UpdateJob (job_ID job) (if ?m = None then JobStatusSuccess else JobStatusFailed)
    (case ?m of None \<Rightarrow> [] | Some m \<Rightarrow> m) (Some t) (Some f) w1"
  have w': "w' = snd ?u" and k': "k' = Waiting"
    using st w1 by (auto split: option.splits)
  have jobs: "Jobs (rp_data w') = mput (job_ID job) (end_job f ?m j) (Jobs (rp_data w))"
    using j end_job_eq [OF j(5,2,3), where e = ?m and f = f] by (simp only: w' UpdateJob_Jobs d1)
  have "jq_queue w' = jq_queue w"
    unfolding w' by (simp add: same_env_queue [OF repo_env(9)] q1)
  moreover have "job_ID job \<notin> set (map job_ID ps @ jq_queue w)"
  proof
    assume "job_ID job \<in> set (map job_ID ps @ jq_queue w)"
    then have "job_ID job \<in> set (map job_ID ps @ jq_queue w @ loading (Finish job t e))" by simp
    then obtain j2 where "mget (Jobs (rp_data w)) (job_ID job) = Some j2" "job_Status j2 = JobStatusQueued"
      by (rule jobs_sound_queued [OF s])
    with j(1,2) show False by (simp add: job_status_defs)
  qed
  moreover have "job_life (end_job f ?m j)" using j by (simp add: job_life_end)
  ultimately have "jobs_sound (k', ps, w')"
    using k' j(4) jobs by (intro jobs_sound_put [OF s, where j' = "end_job f ?m j" and i = "job_ID job"]) auto
  moreover have "job_moves (Some j) (Some (end_job f ?m j))" using j by (auto simp: job_moves_def)
  ultimately show ?thesis using jobs j(1) by (simp add: job_moves_put)
qed

lemma repo_site_ops:
  "Jobs (rp_data (snd (repo_UpdateSiteStatus i st w))) = Jobs (rp_data w)"
  "Jobs (rp_data (snd (repo_DeleteSite i w))) = Jobs (rp_data w)"
  by (simp_all add: repo_frame split: option.split)

lemma work_step_sound:
  assumes s: "jobs_sound (k, ps, w)" and st: "work_step (Some (provision, deprovision)) (k, w) = (k', w')"
  shows "sound_step k ps w k' w'"
proof (cases k)
  case (Load i)
  obtain j where j: "mget (Jobs (rp_data w)) i = Some j" "job_ID j = i"
    using s Load by (auto intro: jobs_sound_queued [where i = i])
  then have "k' = Begin j" "w' = w" using st Load by (auto simp: repo_GetJobByID_def)
  with s Load j(2) show ?thesis by (auto simp: jobs_sound_def)
next
  case (Begin job)
  with s st step_Begin show ?thesis by blast
next
  case (Run job t)
  with st have "w' = w" "loading k' = []" "running k' = running k"
    by (auto split: if_splits sum.splits)
  with s show ?thesis by (intro sound_step_same) auto
next
  case (Act job t site)
  let ?f = "if job_Type job = JobTypeProvisionSite then provision else deprovision"
  have rest: "same_rest w (snd (?f site w))" using provision_rest deprovision_rest by simp
  have "w' = snd (?f site w)" "loading k' = []" "running k' = running k"
    using st Act by (auto split: prod.splits if_splits)
  moreover have "Jobs (rp_data (snd (?f site w))) = Jobs (rp_data w)"
    using same_rest_repo(2) [OF rest] by simp
  moreover have "jq_queue (snd (?f site w)) = jq_queue w" using same_env_queue [OF same_rest_env [OF rest]] .
  ultimately show ?thesis using s by (intro sound_step_same) auto
next
  case (Settle job t site e)
  have "w' = snd (repo_UpdateSiteStatus (site_ID site) SiteStatusFailed w)
      \<or> w' = snd (repo_UpdateSiteStatus (site_ID site) SiteStatusActive w)
      \<or> w' = snd (repo_DeleteSite (site_ID site) w)" "loading k' = []" "running k' = running k"
    using st Settle by (cases e; auto split: prod.splits if_splits)+
  moreover from this(1) have "Jobs (rp_data w') = Jobs (rp_data w)" by (auto simp: repo_site_ops)
  moreover have "jq_queue w' = jq_queue w" using calculation(1) by (auto simp: same_env_queue [OF repo_env(6)] same_env_queue [OF repo_env(7)])
  ultimately show ?thesis using s by (intro sound_step_same) auto
next
  case (Finish job t e)
  with s st step_Finish show ?thesis by blast
qed (use s st in auto)

lemma new_job_life:
  "job_Status (new_job who ty pl i now) = JobStatusQueued" "job_ID (new_job who ty pl i now) = i"
  "job_life (new_job who ty pl i now)"
  by (simp_all add: new_job_def job_life_def)

lemma step_Create:
  assumes s: "jobs_sound (k, ps, w)" and i: "idgen_New ''job'' w = (Inr i, w1)" "mget (Jobs (rp_data w)) i = None"
    and now: "time_Now w1 = (now, w2)" and c: "repo_CreateJob (new_job who ty pl i now) w2 = (e, w3)"
  shows "jobs_sound (k, if e = None then new_job who ty pl i now # ps else ps, w3)
    \<and> (\<forall>i. job_moves (mget (Jobs (rp_data w)) i) (mget (Jobs (rp_data w3)) i))"
proof -
  let ?j = "new_job who ty pl i now" and ?J = "Jobs (rp_data w)"
  have d2: "rp_data w2 = rp_data w" and q2: "jq_queue w2 = jq_queue w"
    using same_rest_env [OF idgen_New_rest [of w "''job''"]] time_Now_env [of w1] i(1) now
      same_env_queue [of w w1] same_env_queue [of w1 w2]
      same_rest_repo(2) [OF idgen_New_rest [of w "''job''"]] time_Now_data(1) [of w1]
    by simp_all
  have J: "Jobs (rp_data w3) = mput i ?j ?J" and q3: "jq_queue w3 = jq_queue w"
    using repo_CreateJob_data [of ?j w2] c d2 same_env_queue [OF repo_env(8) [of w2 ?j]] q2 new_job_life(2) [of who ty pl i now]
    by simp_all
  have fresh: "i \<notin> set (map job_ID ps @ jq_queue w @ loading k)"
  proof
    assume "i \<in> set (map job_ID ps @ jq_queue w @ loading k)"
    with s obtain j where "mget (Jobs (rp_data w)) i = Some j" by (rule jobs_sound_queued)
    with i(2) show False by simp
  qed
  have queued: "list_all (\<lambda>i'. has_status JobStatusQueued i' (mput i ?j ?J)) (map job_ID ps @ jq_queue w @ loading k)"
    "has_status JobStatusQueued i (mput i ?j ?J)"
    using s fresh unfolding jobs_sound_def prod.case list_all_iff has_status_def by (auto simp: new_job_life(1))
  have "jobs_ok (rp_data w3)" "\<forall>i' j. mget (Jobs (rp_data w3)) i' = Some j \<longrightarrow> job_life j"
    using s new_job_life by (auto simp: jobs_sound_def jobs_ok_def J)
  moreover have "\<forall>i' t. running k = Some (i', t) \<longrightarrow>
      (\<exists>j. mget (Jobs (rp_data w3)) i' = Some j \<and> job_Status j = JobStatusRunning \<and> job_StartedAt j = Some t)"
    using s i(2) by (auto simp: jobs_sound_def J)
  ultimately have "jobs_sound (k, if e = None then ?j # ps else ps, w3)"
    using s fresh queued by (simp add: jobs_sound_def J q3 new_job_life(2))
  moreover have "job_moves None (Some ?j)" using new_job_life(1) by (auto simp: job_moves_def)
  ultimately show ?thesis using i(2) by (simp add: J)
qed

lemma step_Send:
  assumes "jobs_sound (k, ps, w)" "j \<in> set ps" "send_or_done done pick j w = (Some r, w')"
  shows "jobs_sound (k, remove1 j ps, w') \<and> rp_data w' = rp_data w"
proof -
  have w': "w' = w \<or> w' = w\<lparr>jq_queue := jq_queue w @ [job_ID j]\<rparr>" and d: "rp_data w' = rp_data w"
    using assms(3) by (auto simp: send_or_done_def split: if_splits option.splits)
  have p: "mset (map job_ID ps) = add_mset (job_ID j) (mset (map job_ID (remove1 j ps)))"
    using assms(2) by (simp flip: image_mset_add_mset)
  have sub: "set (map job_ID (remove1 j ps)) \<union> {job_ID j} = set (map job_ID ps)"
    using arg_cong [OF p, of set_mset] by (simp only: set_mset_mset set_mset_add_mset_insert) auto
  have "distinct (map job_ID ps) \<longleftrightarrow> job_ID j \<notin> set (map job_ID (remove1 j ps)) \<and> distinct (map job_ID (remove1 j ps))"
    using mset_eq_imp_distinct_iff [of "map job_ID ps" "job_ID j # map job_ID (remove1 j ps)"] p by simp
  note parts = sub [symmetric] this
  note s = assms(1) [unfolded jobs_sound_def prod.case list_all_append distinct_append list_all_iff set_append parts]
  have "jobs_sound (k, remove1 j ps, w)"
    unfolding jobs_sound_def prod.case list_all_append distinct_append list_all_iff set_append using s by blast
  moreover have "jobs_sound (k, remove1 j ps, w\<lparr>jq_queue := jq_queue w @ [job_ID j]\<rparr>)"
    unfolding jobs_sound_def prod.case list_all_append distinct_append list_all_iff set_append
    using s by (simp add: jobs_sound_def)
  ultimately show ?thesis using w' d by blast
qed

theorem system_step_sound:
  assumes "jobs_system (Some (provision, deprovision)) s s'" "jobs_sound s"
  shows "jobs_sound s' \<and> (\<forall>i. job_moves (mget (Jobs (rp_data (snd (snd s)))) i) (mget (Jobs (rp_data (snd (snd s')))) i))"
  using assms
proof (induction rule: jobs_system.induct)
  case (Client w w' k ps)
  have "same_env w w'" using Client(1) by (induction rule: repo_step.induct) (rule repo_env)+
  then show ?case
    using Client by (simp add: jobs_sound_cong [where w = w] same_env_queue)
next
  case (Create w i w1 now w2 who ty pl e w3 k ps)
  from step_Create [OF Create(7) Create(3-6)] show ?case unfolding snd_conv .
next
  case (Send j ps ctxdone pick w r w' k)
  then show ?case using step_Send [of k ps w j ctxdone pick r w'] by simp
next
  case (Work k w k' w' ps)
  then show ?case using work_step_sound by simp
next
  case (Start w ps)
  then show ?case by (auto simp: jobs_sound_def jobs_Start_def)
next
  case (Stop exited ctxdone pick w r w' k ps)
  then have "rp_data w' = rp_data w" "jq_queue w' = jq_queue w" by (auto simp: jobs_Stop_def split: if_splits)
  then show ?case using Stop(2) by (simp add: jobs_sound_cong [where w = w])
qed (auto simp: jobs_sound_def)

theorem system_sound:
  assumes "(jobs_system (Some (provision, deprovision)))\<^sup>*\<^sup>* s s'" "jobs_sound s"
  shows "jobs_sound s'"
  using assms by (induction rule: rtranclp_induct) (auto dest: system_step_sound)

text \<open>
  What handling a job does to the data, when its start could be saved: \<open>e\<close> is what the provisioner
  returned.
\<close>

lemma UpdateJob_frame:
  "Sites (rp_data (snd (repo_UpdateJob i st er sa fa w))) = Sites (rp_data w)"
  "DomainIndex (rp_data (snd (repo_UpdateJob i st er sa fa w))) = DomainIndex (rp_data w)"
  by (simp_all add: repo_UpdateJob_data split: option.split)

lemma handle_start:
  assumes "mget (Jobs (rp_data w)) i = Some job" "job_ID job = i" "job_life job" "job_Status job = JobStatusQueued"
    and "time_Now w = (t, w1)" "repo_UpdateJob i JobStatusRunning [] (Some t) None w1 = (None, w2)"
  shows "Jobs (rp_data w2) = mput i (start_job t job) (Jobs (rp_data w))" "Sites (rp_data w2) = Sites (rp_data w)"
    "DomainIndex (rp_data w2) = DomainIndex (rp_data w)"
proof -
  have d1: "rp_data w1 = rp_data w" using time_Now_data(1) [of w] assms(5) by simp
  show "Jobs (rp_data w2) = mput i (start_job t job) (Jobs (rp_data w))"
    using UpdateJob_Jobs [of w1 i job JobStatusRunning "[]" "Some t" None] start_job_eq [OF assms(3,4), of t] d1 assms(1,6)
    by simp
  show "Sites (rp_data w2) = Sites (rp_data w)" "DomainIndex (rp_data w2) = DomainIndex (rp_data w)"
    using UpdateJob_frame [of i JobStatusRunning "[]" "Some t" None w1] d1 assms(6) by simp_all
qed

lemma handle_end:
  assumes "mget (Jobs (rp_data w)) i = Some j" "job_life j" "job_Status j = JobStatusRunning" "job_StartedAt j = Some t"
    and "w' = (case time_Now w of (f, w) \<Rightarrow>
       (case r of Some e \<Rightarrow> snd (repo_UpdateJob i JobStatusFailed (Error_text e) (Some t) (Some f) w)
        | None \<Rightarrow> snd (repo_UpdateJob i JobStatusSuccess [] (Some t) (Some f) w)))"
  shows "\<exists>f. Jobs (rp_data w') = mput i (end_job f (map_option Error_text r) j) (Jobs (rp_data w))"
    and "Sites (rp_data w') = Sites (rp_data w)" "DomainIndex (rp_data w') = DomainIndex (rp_data w)"
proof -
  obtain f w1 where w1: "time_Now w = (f, w1)" by fastforce
  have d1: "rp_data w1 = rp_data w" using time_Now_data(1) [of w] w1 by simp
  have "Jobs (rp_data w') = mput i (end_job f (map_option Error_text r) j) (Jobs (rp_data w))"
    using end_job_eq [OF assms(2-4), where e = "map_option Error_text r" and f = f] assms(1) w1
    by (cases r) (simp_all add: assms(5) UpdateJob_Jobs d1)
  then show "\<exists>f. Jobs (rp_data w') = mput i (end_job f (map_option Error_text r) j) (Jobs (rp_data w))" by blast
  show "Sites (rp_data w') = Sites (rp_data w)" "DomainIndex (rp_data w') = DomainIndex (rp_data w)"
    using w1 by (cases r; simp add: assms(5) UpdateJob_frame d1)+
qed

lemma handle_run:
  assumes job: "mget (Jobs (rp_data w)) i = Some job" "job_ID job = i" "job_life job" "job_Status job = JobStatusQueued"
    and start: "time_Now w = (t, w1)" "repo_UpdateJob i JobStatusRunning [] (Some t) None w1 = (None, w2)"
    and run: "jobs_runByType sp job w2 = (r, w3)" "Jobs (rp_data w3) = Jobs (rp_data w2)"
  shows "\<exists>f. mget (Jobs (rp_data (jobs_handleJob sp i w))) i = Some (end_job f (map_option Error_text r) (start_job t job))"
    and "Sites (rp_data (jobs_handleJob sp i w)) = Sites (rp_data w3)"
    and "DomainIndex (rp_data (jobs_handleJob sp i w)) = DomainIndex (rp_data w3)"
proof -
  note st = handle_start [OF job start]
  have j: "mget (Jobs (rp_data w3)) i = Some (start_job t job)" "job_life (start_job t job)"
    "job_Status (start_job t job) = JobStatusRunning" "job_StartedAt (start_job t job) = Some t"
    using job st(1) run(2) job_life_start by (simp_all add: start_job_def)
  have h: "jobs_handleJob sp i w = (case time_Now w3 of (f, w) \<Rightarrow>
       (case r of Some e \<Rightarrow> snd (repo_UpdateJob i JobStatusFailed (Error_text e) (Some t) (Some f) w)
        | None \<Rightarrow> snd (repo_UpdateJob i JobStatusSuccess [] (Some t) (Some f) w)))"
    using job(1,2) start run(1)
    by (simp add: jobs_handleJob_def repo_GetJobByID_def split: prod.split option.split)
  note en = handle_end [OF j h]
  from en(1) show "\<exists>f. mget (Jobs (rp_data (jobs_handleJob sp i w))) i
      = Some (end_job f (map_option Error_text r) (start_job t job))" by auto
  show "Sites (rp_data (jobs_handleJob sp i w)) = Sites (rp_data w3)"
    "DomainIndex (rp_data (jobs_handleJob sp i w)) = DomainIndex (rp_data w3)" by (rule en(2,3))+
qed

lemma run_provision:
  assumes "job_Type job = JobTypeProvisionSite" "payload_site job w = Inr site"
    and "mget (Sites (rp_data w)) (site_ID site) = Some site" "provision site w = (e, w1)"
    and "jobs_runByType (Some (provision, deprovision)) job w = (r, w2)"
  shows "\<exists>t. Sites (rp_data w2) = mput (site_ID site)
      (set_status (if e = None then SiteStatusActive else SiteStatusFailed, t) site) (Sites (rp_data w))"
    and "Jobs (rp_data w2) = Jobs (rp_data w)" "DomainIndex (rp_data w2) = DomainIndex (rp_data w)"
    and "e \<noteq> None \<Longrightarrow> r = e"
proof -
  have d1: "rp_data w1 = rp_data w" using same_rest_repo(2) [OF provision_rest [of w site]] assms(4) by simp
  let ?st = "if e = None then SiteStatusActive else SiteStatusFailed"
  have w2: "w2 = snd (repo_UpdateSiteStatus (site_ID site) ?st w1)" and r: "e \<noteq> None \<Longrightarrow> r = e"
    using assms(1,2,4,5)
    by (auto simp: jobs_runByType_def jobs_runProvisionSite_def split: option.splits prod.splits)
  have "Sites (rp_data w2) = mput (site_ID site) (set_status (?st, fst (time_Now w1)) site) (Sites (rp_data w))"
    "Jobs (rp_data w2) = Jobs (rp_data w)" "DomainIndex (rp_data w2) = DomainIndex (rp_data w)"
    using assms(3) by (simp_all add: w2 repo_UpdateSiteStatus_data d1)
  with r show "\<exists>t. Sites (rp_data w2) = mput (site_ID site)
      (set_status (if e = None then SiteStatusActive else SiteStatusFailed, t) site) (Sites (rp_data w))"
    "Jobs (rp_data w2) = Jobs (rp_data w)" "DomainIndex (rp_data w2) = DomainIndex (rp_data w)"
    "e \<noteq> None \<Longrightarrow> r = e" by blast+
qed

lemma run_deprovision:
  assumes "job_Type job = JobTypeDeprovisionSite" "payload_site job w = Inr site"
    and "mget (Sites (rp_data w)) (site_ID site) = Some site" "deprovision site w = (e, w1)"
    and "jobs_runByType (Some (provision, deprovision)) job w = (r, w2)"
  shows "e = None \<Longrightarrow> Sites (rp_data w2) = mdel (site_ID site) (Sites (rp_data w))
      \<and> DomainIndex (rp_data w2) = mdel (ToLower (site_Domain site)) (DomainIndex (rp_data w))"
    and "e \<noteq> None \<Longrightarrow> r = e \<and> (\<exists>t. Sites (rp_data w2) = mput (site_ID site)
      (set_status (SiteStatusFailed, t) site) (Sites (rp_data w)))"
    and "Jobs (rp_data w2) = Jobs (rp_data w)"
proof -
  have d1: "rp_data w1 = rp_data w" using same_rest_repo(2) [OF deprovision_rest [of w site]] assms(4) by simp
  have types: "JobTypeDeprovisionSite \<noteq> JobTypeProvisionSite" by (simp add: job_type_defs)
  have w2: "w2 = (if e = None then snd (repo_DeleteSite (site_ID site) w1)
      else snd (repo_UpdateSiteStatus (site_ID site) SiteStatusFailed w1))" and r: "e \<noteq> None \<Longrightarrow> r = e"
    using assms(1,2,4,5) types
    by (auto simp: jobs_runByType_def jobs_runDeprovisionSite_def split: option.splits prod.splits)
  show "e = None \<Longrightarrow> Sites (rp_data w2) = mdel (site_ID site) (Sites (rp_data w))
      \<and> DomainIndex (rp_data w2) = mdel (ToLower (site_Domain site)) (DomainIndex (rp_data w))"
    using assms(3) by (simp add: w2 repo_DeleteSite_data d1)
  show "e \<noteq> None \<Longrightarrow> r = e \<and> (\<exists>t. Sites (rp_data w2) = mput (site_ID site)
      (set_status (SiteStatusFailed, t) site) (Sites (rp_data w)))"
    using assms(3) r by (auto simp: w2 repo_UpdateSiteStatus_data d1)
  show "Jobs (rp_data w2) = Jobs (rp_data w)"
    using assms(3) by (simp add: w2 repo_UpdateSiteStatus_data repo_DeleteSite_data d1)
qed

end

subsection \<open>The worker drains the queue\<close>

text \<open>
  The worker by itself: as long as there is a job in the channel and the service is not stopped, receive
  it and handle it.  \<open>n\<close> counts the jobs it is given time for.
\<close>

primrec worker_loop :: "'a jobs_scheme site_provisioner option \<Rightarrow> nat \<Rightarrow> 'a jobs_scheme \<Rightarrow> 'a jobs_scheme" where
  "worker_loop sp 0 w = w"
| "worker_loop sp (Suc n) w =
     (case jq_queue w of
        [] \<Rightarrow> w
      | i # q \<Rightarrow> worker_loop sp n (jobs_handleJob sp i (w\<lparr>jq_queue := q\<rparr>)))"

text \<open>\<open>taken i\<close>: the job is stored and no longer queued.\<close>

definition taken :: "string \<Rightarrow> (string, Job) gomap \<Rightarrow> bool" where
  "taken i m \<longleftrightarrow> (\<exists>j. mget m i = Some j \<and> job_Status j \<noteq> JobStatusQueued)"

lemma taken_moves: "job_moves (mget m i) (mget m' i) \<Longrightarrow> taken i m \<Longrightarrow> taken i m'"
  by (cases "mget m i"; cases "mget m' i")
    (auto simp: job_moves_def taken_def start_job_def end_job_def status_distinct split: option.splits)

lemma work_path:
  "(work_step sp ^^ n) (k, w) = (k', w') \<Longrightarrow> (jobs_system sp)\<^sup>*\<^sup>* (k, ps, w) (k', ps, w')"
proof (induction n arbitrary: k w)
  case (Suc n)
  obtain k1 w1 where s: "work_step sp (k, w) = (k1, w1)" by fastforce
  then have "(work_step sp ^^ n) (k1, w1) = (k', w')" using Suc.prems by (simp add: funpow_swap1)
  then show ?case using jobs_system.Work [OF s] Suc.IH by (meson converse_rtranclp_into_rtranclp)
qed simp

context site_provisioner
begin

lemma system_taken:
  assumes "(jobs_system (Some (provision, deprovision)))\<^sup>*\<^sup>* s s'" "jobs_sound s" "taken i (Jobs (rp_data (snd (snd s))))"
  shows "taken i (Jobs (rp_data (snd (snd s'))))"
  using assms
proof (induction rule: rtranclp_induct)
  case (step s1 s2)
  then show ?case using system_step_sound [OF step(2)] system_sound [OF step(1)] taken_moves by blast
qed

lemma act_queue:
  "provision s w = (e, w') \<Longrightarrow> jq_queue w' = jq_queue w"
  "deprovision s w = (e, w') \<Longrightarrow> jq_queue w' = jq_queue w"
  using same_env_queue [OF same_rest_env [OF provision_rest [of w s]]]
    same_env_queue [OF same_rest_env [OF deprovision_rest [of w s]]] by simp_all

lemma work_step_queue: "work_step (Some (provision, deprovision)) (k, w) = (k', w') \<Longrightarrow> jq_queue w' = jq_queue w"
proof -
  have u: "repo_UpdateJob i st er sa fa v = (e, v') \<Longrightarrow> jq_queue v' = jq_queue v"
    "repo_UpdateSiteStatus i ss v = (e, v') \<Longrightarrow> jq_queue v' = jq_queue v"
    "repo_DeleteSite i v = (e, v') \<Longrightarrow> jq_queue v' = jq_queue v" for i st er sa fa ss e and v v' :: "'a jobs_scheme"
    using same_env_queue [OF repo_env(9) [of v i st er sa fa]] same_env_queue [OF repo_env(6) [of v i ss]]
      same_env_queue [OF repo_env(7) [of v i]] by simp_all
  have u': "jq_queue (snd (repo_UpdateJob i st er sa fa v)) = jq_queue v" "jq_queue (snd (repo_UpdateSiteStatus i ss v)) = jq_queue v"
    for i st er sa fa ss and v :: "'a jobs_scheme"
    using u(1,2) by (metis prod.collapse)+
  show "work_step (Some (provision, deprovision)) (k, w) = (k', w') \<Longrightarrow> jq_queue w' = jq_queue w"
    by (cases "(Some (provision, deprovision), (k, w))" rule: work_step.cases)
      (auto simp: time_Now_def u' dest!: act_queue u split: sum.splits prod.splits option.splits if_splits)
qed

lemma work_steps_queue:
  "(work_step (Some (provision, deprovision)) ^^ n) (k, w) = (k', w') \<Longrightarrow> jq_queue w' = jq_queue w"
proof (induction n arbitrary: k w)
  case (Suc n)
  obtain k1 w1 where s: "work_step (Some (provision, deprovision)) (k, w) = (k1, w1)" by fastforce
  then show ?case using Suc.IH [of k1 w1] Suc.prems work_step_queue [OF s] by (simp add: funpow_swap1)
qed simp

lemma drain_one:
  fixes w :: "'a jobs_scheme"
  defines "sp \<equiv> Some (provision, deprovision)"
  assumes "jobs_sound (Waiting, ps, w)" "jq_queue w = i # q"
  shows "(jobs_system sp)\<^sup>*\<^sup>* (Waiting, ps, w) (Waiting, ps, jobs_handleJob sp i (w\<lparr>jq_queue := q\<rparr>))"
    "jq_queue (jobs_handleJob sp i (w\<lparr>jq_queue := q\<rparr>)) = q"
    "taken i (Jobs (rp_data (jobs_handleJob sp i (w\<lparr>jq_queue := q\<rparr>))))"
proof -
  let ?w = "w\<lparr>jq_queue := q\<rparr>"
  have r: "jobs_system sp (Waiting, ps, w) (Load i, ps, ?w)" by (rule jobs_system.Receive [OF assms(3)])
  obtain j where j: "mget (Jobs (rp_data w)) i = Some j" "job_ID j = i"
    using jobs_sound_queued [OF assms(2), of i] assms(3) by auto
  have l: "work_step sp (Load i, ?w) = (Begin j, ?w)" using j by (simp add: repo_GetJobByID_def)
  obtain k v where b: "work_step sp (Begin j, ?w) = (k, v)" by fastforce
  have "taken i (Jobs (rp_data v))"
  proof -
    have "mget (Jobs (rp_data ?w)) i = Some j" using j by simp
    then have "mget (Jobs (rp_data v)) i = Some (j\<lparr>job_Status := JobStatusRunning, job_Error := [],
        job_StartedAt := Some (fst (time_Now ?w)), job_FinishedAt := None\<rparr>)"
      using b j(2) UpdateJob_Jobs [of "snd (time_Now ?w)" i j JobStatusRunning "[]" "Some (fst (time_Now ?w))" None]
      by (auto simp: time_Now_def split: prod.splits option.splits)
    then show ?thesis by (simp add: taken_def status_distinct)
  qed
  have six: "(work_step sp ^^ 6) (Load i, ?w) = (Waiting, jobs_handleJob sp i ?w)"
    using handleJob_steps [of sp i ?w] by (blast intro: funpow_finish)
  then have four: "(work_step sp ^^ 4) (k, v) = (Waiting, jobs_handleJob sp i ?w)"
    using l b by (simp add: numeral_eq_Suc funpow_swap1)
  have p1: "(jobs_system sp)\<^sup>*\<^sup>* (Waiting, ps, w) (k, ps, v)"
    using r jobs_system.Work [OF l] jobs_system.Work [OF b] by (meson r_into_rtranclp rtranclp_trans)
  have p2: "(jobs_system sp)\<^sup>*\<^sup>* (k, ps, v) (Waiting, ps, jobs_handleJob sp i ?w)" by (rule work_path [OF four])
  show "taken i (Jobs (rp_data (jobs_handleJob sp i ?w)))"
    using system_taken [OF p2 [unfolded sp_def] system_sound [OF p1 [unfolded sp_def] assms(2)]] \<open>taken i _\<close>
    by (simp add: sp_def)
  show "jq_queue (jobs_handleJob sp i ?w) = q"
    using work_steps_queue [OF six [unfolded sp_def]] by (simp add: sp_def)
  show "(jobs_system sp)\<^sup>*\<^sup>* (Waiting, ps, w) (Waiting, ps, jobs_handleJob sp i ?w)"
    using p1 p2 by (rule rtranclp_trans)
qed

lemma drains:
  assumes "jobs_sound (Waiting, ps, w)" "jq_queue w = q"
  shows "let w' = worker_loop (Some (provision, deprovision)) (length q) w in
    (jobs_system (Some (provision, deprovision)))\<^sup>*\<^sup>* (Waiting, ps, w) (Waiting, ps, w') \<and> jq_queue w' = []
    \<and> (\<forall>i\<in>set q. taken i (Jobs (rp_data w')))"
  using assms
proof (induction q arbitrary: w)
  case (Cons i q)
  let ?sp = "Some (provision, deprovision)"
  let ?v = "jobs_handleJob ?sp i (w\<lparr>jq_queue := q\<rparr>)"
  let ?w' = "worker_loop ?sp (length q) ?v"
  note v = drain_one [OF Cons.prems]
  have s: "jobs_sound (Waiting, ps, ?v)" by (rule system_sound [OF v(1) Cons.prems(1)])
  have w': "(jobs_system ?sp)\<^sup>*\<^sup>* (Waiting, ps, ?v) (Waiting, ps, ?w')" "jq_queue ?w' = []"
      "\<forall>i\<in>set q. taken i (Jobs (rp_data ?w'))"
    using Cons.IH [OF s v(2)] by (simp_all add: Let_def)
  have "taken i (Jobs (rp_data ?w'))" using system_taken [OF w'(1) s] v(3) by simp
  then show ?case using w' rtranclp_trans [OF v(1) w'(1)] Cons.prems(2) by (simp add: Let_def)
qed simp

end

end
