(* ===== verification/Provision.thy ===== *)
theory Provision
  imports Jobs
begin

text \<open>
  \<open>internal/provision/nginx.go\<close>: writing a site's server block under \<open>sites-available\<close>, linking it
  under \<open>sites-enabled\<close>, testing and reloading nginx, and undoing the change when one of these fails.
\<close>

subsection \<open>Text\<close>

definition unlines :: "string list \<Rightarrow> string" where
  "unlines ls = concat (map (\<lambda>l. l @ [CHR 0x0A]) ls)"

definition join_lines :: "string list \<Rightarrow> string" where
  "join_lines ls = Join ls [CHR 0x0A]"

definition acmeChallenge :: string where
  "acmeChallenge = join_lines [
      ''    location ^~ /.well-known/acme-challenge/ {'',
      ''        default_type text/plain;'',
      ''        try_files $uri =404;'',
      ''    }'']"

definition runtimeServerCore :: "string \<Rightarrow> string \<Rightarrow> string" where
  "runtimeServerCore runtimeName rootPath =
     (if runtimeName = ''node'' then join_lines [
      ''    location / {'',
      ''        proxy_pass http://127.0.0.1:3000;'',
      ''        proxy_http_version 1.1;'',
      ''        proxy_set_header Host $host;'',
      ''        proxy_set_header X-Real-IP $remote_addr;'',
      ''        proxy_set_header X-Forwarded-For $proxy_add_x_forwarded_for;'',
      ''        proxy_set_header X-Forwarded-Proto $scheme;'',
      ''    }'']
      else if runtimeName = ''python'' then join_lines [
      ''    location / {'',
      ''        proxy_pass http://127.0.0.1:8000;'',
      ''        proxy_http_version 1.1;'',
      ''        proxy_set_header Host $host;'',
      ''        proxy_set_header X-Real-IP $remote_addr;'',
      ''        proxy_set_header X-Forwarded-For $proxy_add_x_forwarded_for;'',
      ''        proxy_set_header X-Forwarded-Proto $scheme;'',
      ''    }'']
      else if runtimeName = ''static'' then join_lines [
      ''    location / {'',
      ''        try_files $uri $uri/ =404;'',
      ''    }'']
      else join_lines [
      ''    location / {'',
      ''        try_files $uri $uri/ /index.php?$query_string;'',
      ''    }'',
      [],
      ''    location ~ '' @ [CHR 0x5C] @ ''.php$ {'',
      ''        include fastcgi_params;'',
      ''        fastcgi_param SCRIPT_FILENAME '' @ rootPath @ ''$fastcgi_script_name;'',
      ''        fastcgi_pass unix:/run/php/php8.1-fpm.sock;'',
      ''        fastcgi_index index.php;'',
      ''    }''])"

definition renderNginxServer :: "Site \<Rightarrow> string" where
  "renderNginxServer site = unlines [
      ''server {'',
      ''    listen 80;'',
      ''    listen [::]:80;'',
      ''    server_name '' @ site_Domain site @ '';'',
      [],
      ''    root '' @ site_RootPath site @ '';'',
      ''    index index.php index.html index.htm;'',
      [],
      acmeChallenge,
      [],
      runtimeServerCore (site_Runtime site) (site_RootPath site),
      ''}'']"

definition site_label :: "string \<Rightarrow> string" where
  "site_label domain = (let label = TrimSpace domain in if label = [] then ''site'' else label)"

definition defaultStaticIndex :: "string \<Rightarrow> string" where
  "defaultStaticIndex domain = (let label = site_label domain in unlines [
      ''<!doctype html>'',
      ''<html lang=\"en\">'',
      ''<head>'',
      ''  <meta charset=\"utf-8\">'',
      ''  <meta name=\"viewport\" content=\"width=device-width, initial-scale=1\">'',
      ''  <title>'' @ label @ ''</title>'',
      ''</head>'',
      ''<body>'',
      ''  <h1>'' @ label @ '' is live</h1>'',
      ''  <p>Provisioned by Nusantara Panel.</p>'',
      ''</body>'',
      ''</html>''])"

definition defaultPHPIndex :: "string \<Rightarrow> string" where
  "defaultPHPIndex domain = (let label = site_label domain in unlines [
      ''<?php'',
      ''header('Content-Type: text/html; charset=utf-8');'',
      ''?>'',
      ''<!doctype html>'',
      ''<html lang=\"en\">'',
      ''<head>'',
      ''  <meta charset=\"utf-8\">'',
      ''  <meta name=\"viewport\" content=\"width=device-width, initial-scale=1\">'',
      ''  <title>'' @ label @ ''</title>'',
      ''</head>'',
      ''<body>'',
      ''  <h1>'' @ label @ '' is live</h1>'',
      ''  <p>Provisioned by Nusantara Panel (PHP runtime).</p>'',
      ''</body>'',
      ''</html>''])"

definition sanitizeConfName :: "string \<Rightarrow> string" where
  "sanitizeConfName domain = ReplaceAll (ReplaceAll (TrimSpace (ToLower domain)) ''..'' ''.'') ''/'' ''-''"

subsection \<open>Files and commands\<close>

definition runCommand :: "string \<Rightarrow> 'a os_scheme \<Rightarrow> error option \<times> 'a os_scheme" where
  "runCommand raw w =
     (case Fields (TrimSpace raw) of
        [] \<Rightarrow> (Some (NewError ''empty command''), w)
      | parts \<Rightarrow>
          (case CombinedOutput parts w of
             ((out, Some e), w) \<Rightarrow> (Some (Errorf (raw @ '': '') e ('' ('' @ TrimSpace out @ '')'')), w)
           | ((_, None), w) \<Rightarrow> (None, w)))"

definition writeAtomic :: "string \<Rightarrow> string \<Rightarrow> 'a os_scheme \<Rightarrow> error option \<times> 'a os_scheme" where
  "writeAtomic p content w =
     (let tmpPath = p @ ''.tmp'' in
      case WriteFile tmpPath content w of
        (Some e, w) \<Rightarrow> (Some e, w)
      | (None, w) \<Rightarrow> Rename tmpPath p w)"

fun is_link :: "node \<Rightarrow> bool" where
  "is_link (Symlink _) = True"
| "is_link _ = False"

definition upsertSymlink :: "string \<Rightarrow> string \<Rightarrow> 'a os_scheme \<Rightarrow> error option \<times> 'a os_scheme" where
  "upsertSymlink target linkPath w =
     (case Lstat linkPath w of
        (Inl e, w) \<Rightarrow> if Is_NotExist e then SymlinkAt target linkPath w else (Some e, w)
      | (Inr info, w) \<Rightarrow>
          (case (if is_link info then Readlink linkPath w else (Inr [], w)) of
             (current, w) \<Rightarrow>
               if is_link info \<and> current = Inr target then (None, w)
               else (case Remove linkPath w of
                  (Some e, w) \<Rightarrow> (Some e, w)
                | (None, w) \<Rightarrow> SymlinkAt target linkPath w)))"

text \<open>\<open>None\<close> stands for a missing file.\<close>

definition readIfExists :: "string \<Rightarrow> 'a os_scheme \<Rightarrow> (error + string option) \<times> 'a os_scheme" where
  "readIfExists p w =
     (case ReadFile p w of
        (Inl e, w) \<Rightarrow> (if Is_NotExist e then Inr None else Inl e, w)
      | (Inr content, w) \<Rightarrow> (Inr (Some content), w))"

text \<open>Of something that is there but no link, the target is the empty string.\<close>

definition readLinkIfExists :: "string \<Rightarrow> 'a os_scheme \<Rightarrow> (error + string option) \<times> 'a os_scheme" where
  "readLinkIfExists p w =
     (case Lstat p w of
        (Inl e, w) \<Rightarrow> (if Is_NotExist e then Inr None else Inl e, w)
      | (Inr (Symlink _), w) \<Rightarrow>
          (case Readlink p w of
             (Inl e, w) \<Rightarrow> (Inl e, w)
           | (Inr target, w) \<Rightarrow> (Inr (Some target), w))
      | (Inr _, w) \<Rightarrow> (Inr (Some []), w))"

text \<open>\<open>os.Remove\<close>, a missing file being no error.\<close>

definition remove_if_there :: "string \<Rightarrow> 'a os_scheme \<Rightarrow> error option \<times> 'a os_scheme" where
  "remove_if_there p w =
     (case Remove p w of
        (Some e, w) \<Rightarrow> (if Is_NotExist e then None else Some e, w)
      | (None, w) \<Rightarrow> (None, w))"

definition rollback ::
  "string \<Rightarrow> string \<Rightarrow> string option \<Rightarrow> string option \<Rightarrow> 'a os_scheme \<Rightarrow> error option \<times> 'a os_scheme" where
  "rollback confPath linkPath previousConf previousLink w =
     (case (case previousConf of Some c \<Rightarrow> writeAtomic confPath c w | None \<Rightarrow> remove_if_there confPath w) of
        (Some e, w) \<Rightarrow> (Some e, w)
      | (None, w) \<Rightarrow>
          (case remove_if_there linkPath w of
             (Some e, w) \<Rightarrow> (Some e, w)
           | (None, w) \<Rightarrow>
               (case previousLink of
                  None \<Rightarrow> (None, w)
                | Some target \<Rightarrow> if target = [] then (None, w) else SymlinkAt target linkPath w)))"

fun hasAnyIndex_in :: "string \<Rightarrow> string list \<Rightarrow> 'a os_scheme \<Rightarrow> (error + bool) \<times> 'a os_scheme" where
  "hasAnyIndex_in root [] w = (Inr False, w)"
| "hasAnyIndex_in root (name # names) w =
     (case Stat (PathJoin [root, name]) w of
        (Inr _, w) \<Rightarrow> (Inr True, w)
      | (Inl e, w) \<Rightarrow> if \<not> Is_NotExist e then (Inl e, w) else hasAnyIndex_in root names w)"

definition hasAnyIndex :: "string \<Rightarrow> 'a os_scheme \<Rightarrow> (error + bool) \<times> 'a os_scheme" where
  "hasAnyIndex root w = hasAnyIndex_in root [''index.php'', ''index.html'', ''index.htm''] w"

definition writeFileIfNotExists :: "string \<Rightarrow> string \<Rightarrow> 'a os_scheme \<Rightarrow> error option \<times> 'a os_scheme" where
  "writeFileIfNotExists p content w =
     (case WriteNewFile p content w of
        (Some e, w) \<Rightarrow> (if Is_Exist e then None else Some e, w)
      | (None, w) \<Rightarrow> (None, w))"

definition ensureRuntimeBootstrap :: "Site \<Rightarrow> 'a os_scheme \<Rightarrow> error option \<times> 'a os_scheme" where
  "ensureRuntimeBootstrap site w =
     (let root = TrimSpace (site_RootPath site); runtimeName = ToLower (TrimSpace (site_Runtime site)) in
      if root = [] then (Some (NewError ''empty root path''), w)
      else if runtimeName = ''php'' then
        (case hasAnyIndex root w of
           (Inl e, w) \<Rightarrow> (Some e, w)
         | (Inr True, w) \<Rightarrow> (None, w)
         | (Inr False, w) \<Rightarrow> writeFileIfNotExists (PathJoin [root, ''index.php'']) (defaultPHPIndex (site_Domain site)) w)
      else if runtimeName = ''static'' then
        (case hasAnyIndex root w of
           (Inl e, w) \<Rightarrow> (Some e, w)
         | (Inr True, w) \<Rightarrow> (None, w)
         | (Inr False, w) \<Rightarrow> writeFileIfNotExists (PathJoin [root, ''index.html'']) (defaultStaticIndex (site_Domain site)) w)
      else (None, w))"

subsection \<open>The provisioner\<close>

record NginxConfig =
  ng_Apply :: bool
  ng_AvailableDir :: string
  ng_EnabledDir :: string
  ng_TestCommand :: string
  ng_ReloadCommand :: string

definition confPath_of :: "NginxConfig \<Rightarrow> Site \<Rightarrow> string" where
  "confPath_of cfg site = PathJoin [ng_AvailableDir cfg, sanitizeConfName (site_Domain site) @ ''.conf'']"

definition linkPath_of :: "NginxConfig \<Rightarrow> Site \<Rightarrow> string" where
  "linkPath_of cfg site = PathJoin [ng_EnabledDir cfg, sanitizeConfName (site_Domain site) @ ''.conf'']"

text \<open>The checks, the directories and the site's first page.\<close>

definition nginx_prepare :: "NginxConfig \<Rightarrow> Site \<Rightarrow> 'a os_scheme \<Rightarrow> error option \<times> 'a os_scheme" where
  "nginx_prepare cfg site w =
     (if site_Domain site = [] then (Some (NewError ''site domain is empty''), w)
      else if site_RootPath site = [] then (Some (NewError ''site root_path is empty''), w)
      else case MkdirAll (ng_AvailableDir cfg) w of
        (Some e, w) \<Rightarrow> (Some (Errorf ''create available dir: '' e []), w)
      | (None, w) \<Rightarrow>
          (case MkdirAll (ng_EnabledDir cfg) w of
             (Some e, w) \<Rightarrow> (Some (Errorf ''create enabled dir: '' e []), w)
           | (None, w) \<Rightarrow>
               (case MkdirAll (site_RootPath site) w of
                  (Some e, w) \<Rightarrow> (Some (Errorf ''create site root: '' e []), w)
                | (None, w) \<Rightarrow>
                    (case ensureRuntimeBootstrap site w of
                       (Some e, w) \<Rightarrow> (Some (Errorf ''bootstrap site root: '' e []), w)
                     | (None, w) \<Rightarrow> (None, w)))))"

text \<open>From writing the configuration on: every failure after the write rolls back.\<close>

definition nginx_activate ::
  "NginxConfig \<Rightarrow> Site \<Rightarrow> string option \<Rightarrow> string option \<Rightarrow> 'a os_scheme \<Rightarrow> error option \<times> 'a os_scheme" where
  "nginx_activate cfg site previousConf previousLink w =
     (let confPath = confPath_of cfg site; linkPath = linkPath_of cfg site;
          undo = (\<lambda>w. snd (rollback confPath linkPath previousConf previousLink w)) in
      case writeAtomic confPath (renderNginxServer site) w of
        (Some e, w) \<Rightarrow> (Some (Errorf ''write nginx conf: '' e []), w)
      | (None, w) \<Rightarrow>
          (case upsertSymlink confPath linkPath w of
             (Some e, w) \<Rightarrow> (Some (Errorf ''upsert symlink: '' e []), undo w)
           | (None, w) \<Rightarrow>
               (case runCommand (ng_TestCommand cfg) w of
                  (Some e, w) \<Rightarrow> (Some (Errorf ''nginx test failed: '' e []), undo w)
                | (None, w) \<Rightarrow>
                    (case runCommand (ng_ReloadCommand cfg) w of
                       (Some e, w) \<Rightarrow> (Some (Errorf ''nginx reload failed: '' e []), undo w)
                     | (None, w) \<Rightarrow> (None, w)))))"

definition nginx_ProvisionSite :: "NginxConfig \<Rightarrow> Site \<Rightarrow> 'a os_scheme \<Rightarrow> error option \<times> 'a os_scheme" where
  "nginx_ProvisionSite cfg site w =
     (if \<not> ng_Apply cfg then (None, w)
      else case nginx_prepare cfg site w of
        (Some e, w) \<Rightarrow> (Some e, w)
      | (None, w) \<Rightarrow>
          (case readIfExists (confPath_of cfg site) w of
             (Inl e, w) \<Rightarrow> (Some (Errorf ''read previous conf: '' e []), w)
           | (Inr previousConf, w) \<Rightarrow>
               (case readLinkIfExists (linkPath_of cfg site) w of
                  (Inl e, w) \<Rightarrow> (Some (Errorf ''read previous link: '' e []), w)
                | (Inr previousLink, w) \<Rightarrow> nginx_activate cfg site previousConf previousLink w)))"

definition nginx_DeprovisionSite :: "NginxConfig \<Rightarrow> Site \<Rightarrow> 'a os_scheme \<Rightarrow> error option \<times> 'a os_scheme" where
  "nginx_DeprovisionSite cfg site w =
     (if \<not> ng_Apply cfg then (None, w)
      else if site_Domain site = [] then (Some (NewError ''site domain is empty''), w)
      else case remove_if_there (linkPath_of cfg site) w of
        (Some e, w) \<Rightarrow> (Some (Errorf ''remove symlink: '' e []), w)
      | (None, w) \<Rightarrow>
          (case remove_if_there (confPath_of cfg site) w of
             (Some e, w) \<Rightarrow> (Some (Errorf ''remove conf: '' e []), w)
           | (None, w) \<Rightarrow>
               (case runCommand (ng_TestCommand cfg) w of
                  (Some e, w) \<Rightarrow> (Some (Errorf ''nginx test failed: '' e []), w)
                | (None, w) \<Rightarrow>
                    (case runCommand (ng_ReloadCommand cfg) w of
                       (Some e, w) \<Rightarrow> (Some (Errorf ''nginx reload failed: '' e []), w)
                     | (None, w) \<Rightarrow> (None, w)))))"


subsection \<open>What the provisioner leaves alone\<close>

lemma runCommand_env: "runCommand raw w = (r, w') \<Longrightarrow> env_of w' = env_of w"
  by (auto simp: runCommand_def dest!: os_env split: list.splits prod.splits option.splits)

lemma writeAtomic_env: "writeAtomic p c w = (r, w') \<Longrightarrow> env_of w' = env_of w"
  by (auto simp: writeAtomic_def Let_def dest!: os_env split: prod.splits option.splits)

lemma upsertSymlink_env: "upsertSymlink t l w = (r, w') \<Longrightarrow> env_of w' = env_of w"
  by (auto simp: upsertSymlink_def dest!: os_env split: prod.splits option.splits sum.splits if_splits)

lemma readIfExists_env: "readIfExists p w = (r, w') \<Longrightarrow> env_of w' = env_of w"
  by (auto simp: readIfExists_def dest!: os_env split: prod.splits sum.splits)

lemma readLinkIfExists_env: "readLinkIfExists p w = (r, w') \<Longrightarrow> env_of w' = env_of w"
  by (auto simp: readLinkIfExists_def dest!: os_env split: prod.splits sum.splits node.splits)

lemma remove_if_there_env: "remove_if_there p w = (r, w') \<Longrightarrow> env_of w' = env_of w"
  by (auto simp: remove_if_there_def dest!: os_env split: prod.splits option.splits)

lemma rollback_env: "rollback c l pc pl w = (r, w') \<Longrightarrow> env_of w' = env_of w"
  by (auto simp: rollback_def dest!: os_env writeAtomic_env remove_if_there_env
      split: prod.splits option.splits if_splits)

lemma hasAnyIndex_in_env: "hasAnyIndex_in root ns w = (r, w') \<Longrightarrow> env_of w' = env_of w"
  by (induction root ns w arbitrary: r w' rule: hasAnyIndex_in.induct)
    (auto dest!: os_env split: prod.splits sum.splits if_splits)

lemma hasAnyIndex_env: "hasAnyIndex root w = (r, w') \<Longrightarrow> env_of w' = env_of w"
  unfolding hasAnyIndex_def by (rule hasAnyIndex_in_env)

lemma writeFileIfNotExists_env: "writeFileIfNotExists p c w = (r, w') \<Longrightarrow> env_of w' = env_of w"
  by (auto simp: writeFileIfNotExists_def dest!: os_env split: prod.splits option.splits)

lemma ensureRuntimeBootstrap_env: "ensureRuntimeBootstrap site w = (r, w') \<Longrightarrow> env_of w' = env_of w"
  by (auto simp: ensureRuntimeBootstrap_def Let_def
      dest!: hasAnyIndex_env writeFileIfNotExists_env split: prod.splits sum.splits if_splits bool.splits)

lemma nginx_prepare_env: "nginx_prepare cfg site w = (r, w') \<Longrightarrow> env_of w' = env_of w"
  by (auto simp: nginx_prepare_def dest!: os_env ensureRuntimeBootstrap_env
      split: prod.splits option.splits if_splits)

lemma nginx_activate_env: "nginx_activate cfg site pc pl w = (r, w') \<Longrightarrow> env_of w' = env_of w"
proof -
  have undo: "env_of (snd (rollback c l pc pl v)) = env_of v" for c l and v :: "'a os_scheme"
    using rollback_env by (metis prod.collapse)
  show "nginx_activate cfg site pc pl w = (r, w') \<Longrightarrow> env_of w' = env_of w"
    by (auto simp: nginx_activate_def Let_def undo dest!: writeAtomic_env upsertSymlink_env runCommand_env
        split: prod.splits option.splits)
qed

lemma nginx_ProvisionSite_env: "nginx_ProvisionSite cfg site w = (r, w') \<Longrightarrow> env_of w' = env_of w"
  by (auto simp: nginx_ProvisionSite_def
      dest!: nginx_prepare_env readIfExists_env readLinkIfExists_env nginx_activate_env
      split: prod.splits option.splits sum.splits if_splits)

lemma nginx_DeprovisionSite_env: "nginx_DeprovisionSite cfg site w = (r, w') \<Longrightarrow> env_of w' = env_of w"
  by (auto simp: nginx_DeprovisionSite_def dest!: remove_if_there_env runCommand_env
      split: prod.splits option.splits if_splits)

interpretation nginx: site_provisioner "nginx_ProvisionSite cfg" "nginx_DeprovisionSite cfg" for cfg
proof
  show "same_rest w (snd (nginx_ProvisionSite cfg site w))" for site and w :: "'a jobs_scheme"
    using nginx_ProvisionSite_env by (metis same_rest_env_of prod.collapse)
  show "same_rest w (snd (nginx_DeprovisionSite cfg site w))" for site and w :: "'a jobs_scheme"
    using nginx_DeprovisionSite_env by (metis same_rest_env_of prod.collapse)
qed

subsection \<open>Operations on the entries of plain directories, when no system call fails\<close>

abbreviation fsg :: "'a os_scheme \<Rightarrow> string list \<Rightarrow> node option" where
  "fsg w \<equiv> fs_get (os_fs w)"

definition quiet :: "'a os_scheme \<Rightarrow> bool" where
  "quiet w \<longleftrightarrow> (\<forall>n. os_fault w n = None) \<and> (\<forall>n argv m. snd (snd (os_exec w n argv m)) = m)"

lemma quiet_env: "env_of w' = env_of w \<Longrightarrow> quiet w \<Longrightarrow> quiet w'"
  by (simp add: quiet_def env_of_def)

lemma quiet_sys [simp]: "quiet w \<Longrightarrow> sys w = (None, w\<lparr>os_calls := Suc (os_calls w)\<rparr>)"
  by (simp add: sys_def quiet_def)

lemma quiet_calls [simp]: "quiet (w\<lparr>os_calls := n\<rparr>) = quiet w" "quiet (w\<lparr>os_fs := m\<rparr>) = quiet w"
  by (simp_all add: quiet_def)

lemma plain_dir_upd:
  assumes "plain_dir (os_fs w) ds" "fsg w q0 \<noteq> Some Directory" "fsg w' = (fsg w)(q0 := x)"
  shows "plain_dir (os_fs w') ds"
proof (rule plain_dir_cong [OF assms(1)])
  fix q assume "prefix q ds"
  then have "fsg w q = Some Directory" using assms(1) by (rule plain_dirD [rotated])
  then show "fsg w' q = fsg w q" using assms(2) by (auto simp: assms(3))
qed

lemma fsg_put: "q \<noteq> [] \<Longrightarrow> fs_get (mput q n m) = (fs_get m)(q := Some n)"
  by (auto simp: fs_get_put)

lemma fsg_del: "q \<noteq> [] \<Longrightarrow> fs_get (mdel q m) = (fs_get m)(q := None)"
  by (auto simp: fs_get_del)

lemma entry_resolve:
  assumes "plain_dir (os_fs w) ds" "good_seg c"
    and "\<not> follow \<or> (\<forall>t. fsg w (ds @ [c]) \<noteq> Some (Symlink t))"
  shows "resolve follow (abs_path (ds @ [c])) (w\<lparr>os_calls := n\<rparr>) = Inr (ds @ [c])"
  using resolve_entry [of "w\<lparr>os_calls := n\<rparr>" ds c follow] assms by simp

lemma Remove_there:
  assumes "quiet w" "plain_dir (os_fs w) ds" "good_seg c"
    and "fsg w (ds @ [c]) = Some n" "n \<noteq> Directory"
  shows "\<exists>w'. Remove (abs_path (ds @ [c])) w = (None, w') \<and> fsg w' = (fsg w)(ds @ [c] := None)"
  using assms by (auto simp: Remove_def fsg_del entry_resolve)

lemma Remove_missing:
  assumes "quiet w" "plain_dir (os_fs w) ds" "good_seg c"
    and "fsg w (ds @ [c]) = None"
  shows "\<exists>w'. Remove (abs_path (ds @ [c])) w = (Some (PathError ''remove'' (abs_path (ds @ [c])) ENOENT), w') \<and> fsg w' = fsg w"
  using assms by (auto simp: Remove_def entry_resolve)

lemma SymlinkAt_missing:
  assumes "quiet w" "plain_dir (os_fs w) ds" "good_seg c"
    and "fsg w (ds @ [c]) = None"
  shows "\<exists>w'. SymlinkAt t (abs_path (ds @ [c])) w = (None, w') \<and> fsg w' = (fsg w)(ds @ [c] := Some (Symlink t))"
  using assms by (auto simp: SymlinkAt_def fs_store_def fsg_put entry_resolve)

lemma Lstat_entry:
  assumes "quiet w" "plain_dir (os_fs w) ds" "good_seg c"
  shows "\<exists>w'. Lstat (abs_path (ds @ [c])) w = (case fsg w (ds @ [c]) of None \<Rightarrow> Inl (PathError ''lstat'' (abs_path (ds @ [c])) ENOENT) | Some n \<Rightarrow> Inr n, w')
    \<and> fsg w' = fsg w"
  using assms by (auto simp: Lstat_def look_def entry_resolve split: option.split)

lemma Readlink_entry:
  assumes "quiet w" "plain_dir (os_fs w) ds" "good_seg c"
    and "fsg w (ds @ [c]) = Some (Symlink t)"
  shows "\<exists>w'. Readlink (abs_path (ds @ [c])) w = (Inr t, w') \<and> fsg w' = fsg w"
  using assms by (auto simp: Readlink_def look_def entry_resolve)

lemma ReadFile_entry:
  assumes "quiet w" "plain_dir (os_fs w) ds" "good_seg c"
    and "fsg w (ds @ [c]) = None \<or> fsg w (ds @ [c]) = Some (File x)"
  shows "\<exists>w'. ReadFile (abs_path (ds @ [c])) w = (if fsg w (ds @ [c]) = None then Inl (PathError ''open'' (abs_path (ds @ [c])) ENOENT) else Inr x, w')
    \<and> fsg w' = fsg w"
  using assms by (auto simp: ReadFile_def look_def entry_resolve)

lemma WriteFile_ok:
  assumes "quiet w" "plain_dir (os_fs w) ds" "good_seg c"
    and "\<And>t. fsg w (ds @ [c]) \<noteq> Some (Symlink t)" "fsg w (ds @ [c]) \<noteq> Some Directory"
  shows "\<exists>w'. WriteFile (abs_path (ds @ [c])) x w = (None, w') \<and> fsg w' = (fsg w)(ds @ [c] := Some (File x))"
  using assms by (auto simp: WriteFile_def write_at_def fs_store_def fsg_put entry_resolve)

lemma Rename_ok:
  assumes "quiet w" "plain_dir (os_fs w) ds" "good_seg a" "good_seg b" "a \<noteq> b"
    and "fsg w (ds @ [a]) = Some (File x)" "fsg w (ds @ [b]) \<noteq> Some Directory"
  shows "\<exists>w'. Rename (abs_path (ds @ [a])) (abs_path (ds @ [b])) w = (None, w')
    \<and> fsg w' = (fsg w)(ds @ [a] := None, ds @ [b] := Some (File x))"
  using assms resolve_entry [of "w\<lparr>os_calls := n\<rparr>" ds a False for n] resolve_entry [of "w\<lparr>os_calls := n\<rparr>" ds b False for n]
  by (auto simp: Rename_def fsg_put fsg_del)

lemma writeAtomic_ok:
  assumes "quiet w" "plain_dir (os_fs w) ds" "good_seg c"
    and "fsg w (ds @ [c]) \<noteq> Some Directory" "fsg w (ds @ [c @ ''.tmp'']) = None"
  shows "\<exists>w'. writeAtomic (abs_path (ds @ [c])) x w = (None, w') \<and> fsg w' = (fsg w)(ds @ [c] := Some (File x))"
proof -
  have t: "good_seg (c @ ''.tmp'')" and tc: "c @ ''.tmp'' \<noteq> c"
    using assms(3) by (auto intro: good_seg_append simp: slash_def)
  obtain w1 where w1: "WriteFile (abs_path (ds @ [c @ ''.tmp''])) x w = (None, w1)"
      "fsg w1 = (fsg w)(ds @ [c @ ''.tmp''] := Some (File x))"
    using WriteFile_ok [OF assms(1,2) t] assms(5) by auto
  have q1: "quiet w1" using quiet_env [OF os_env(5) [OF w1(1)] assms(1)] .
  have d1: "plain_dir (os_fs w1) ds" by (rule plain_dir_upd [OF assms(2) _ w1(2)]) (simp add: assms(5))
  obtain w2 where w2: "Rename (abs_path (ds @ [c @ ''.tmp''])) (abs_path (ds @ [c])) w1 = (None, w2)"
      "fsg w2 = (fsg w1)(ds @ [c @ ''.tmp''] := None, ds @ [c] := Some (File x))"
    using Rename_ok [OF q1 d1 t assms(3) tc, of x] w1(2) assms(4) by auto
  have "fsg w2 = (fsg w)(ds @ [c] := Some (File x))"
    using w1(2) w2(2) assms(5) by (auto simp: fun_eq_iff)
  then show ?thesis using w1(1) w2(1) by (simp add: writeAtomic_def abs_path_append)
qed

lemma remove_if_there_ok:
  assumes "quiet w" "plain_dir (os_fs w) ds" "good_seg c" "fsg w (ds @ [c]) \<noteq> Some Directory"
  shows "\<exists>w'. remove_if_there (abs_path (ds @ [c])) w = (None, w') \<and> fsg w' = (fsg w)(ds @ [c] := None)"
proof (cases "fsg w (ds @ [c])")
  case None
  then show ?thesis
    using Remove_missing [OF assms(1-3) None] by (auto simp: remove_if_there_def Is_NotExist_def fun_eq_iff)
next
  case (Some n)
  then show ?thesis using Remove_there [OF assms(1-3) Some] assms(4) by (auto simp: remove_if_there_def)
qed

lemma upsertSymlink_ok:
  assumes "quiet w" "plain_dir (os_fs w) ds" "good_seg c" "fsg w (ds @ [c]) \<noteq> Some Directory"
  shows "\<exists>w'. upsertSymlink t (abs_path (ds @ [c])) w = (None, w')
    \<and> fsg w' = (fsg w)(ds @ [c] := Some (Symlink t))"
proof -
  let ?p = "abs_path (ds @ [c])" and ?q = "ds @ [c]"
  obtain w1 where w1: "Lstat ?p w = (case fsg w ?q of None \<Rightarrow> Inl (PathError ''lstat'' ?p ENOENT) | Some n \<Rightarrow> Inr n, w1)"
      "fsg w1 = fsg w"
    using Lstat_entry [OF assms(1-3)] by blast
  have step: "quiet v \<and> plain_dir (os_fs v) ds" if "env_of v = env_of w" "fsg v = fsg w" for v :: "'a os_scheme"
    using that assms(2) quiet_env [OF that(1) assms(1)] plain_dir_cong [OF assms(2)] by simp
  have s1: "quiet w1" "plain_dir (os_fs w1) ds" using step [OF os_env(2) [OF w1(1)] w1(2)] by simp_all
  have replace: "\<exists>w'. (case Remove ?p v of (Some e, w) \<Rightarrow> (Some e, w) | (None, w) \<Rightarrow> SymlinkAt t ?p w) = (None, w')
      \<and> fsg w' = (fsg w)(?q := Some (Symlink t))"
    if v: "quiet v" "plain_dir (os_fs v) ds" "fsg v = fsg w" and n: "fsg w ?q = Some n" for v :: "'a os_scheme" and n
  proof -
    have n': "fsg v ?q = Some n" "n \<noteq> Directory" using v(3) n assms(4) by auto
    obtain v1 where v1: "Remove ?p v = (None, v1)" "fsg v1 = (fsg v)(?q := None)"
      using Remove_there [OF v(1,2) assms(3) n'] by blast
    have "quiet v1" using quiet_env [OF os_env(7) [OF v1(1)] v(1)] .
    moreover have "plain_dir (os_fs v1) ds" using plain_dir_upd [OF v(2) _ v1(2)] n' by simp
    ultimately obtain v2 where "SymlinkAt t ?p v1 = (None, v2)" "fsg v2 = (fsg v1)(?q := Some (Symlink t))"
      using SymlinkAt_missing [OF _ _ assms(3), of v1 ds t] v1(2) by auto
    then show ?thesis using v1 v(3) by auto
  qed
  show ?thesis
  proof (cases "fsg w ?q")
    case None
    then have "\<exists>w'. SymlinkAt t ?p w1 = (None, w') \<and> fsg w' = (fsg w1)(?q := Some (Symlink t))"
      using SymlinkAt_missing [OF s1 assms(3)] w1(2) by simp
    with None w1 show ?thesis by (auto simp: upsertSymlink_def Is_NotExist_def)
  next
    case (Some n)
    show ?thesis
    proof (cases n)
      case (Symlink u)
      obtain w2 where w2: "Readlink ?p w1 = (Inr u, w2)" "fsg w2 = fsg w1"
        using Readlink_entry [OF s1 assms(3), of u] Some Symlink w1(2) by auto
      have "env_of w2 = env_of w" using os_env(4) [OF w2(1)] os_env(2) [OF w1(1)] by simp
      then have "quiet w2" "plain_dir (os_fs w2) ds" using step w1(2) w2(2) by auto
      from replace [OF this _ Some] w1 w2 Some Symlink show ?thesis
        by (cases "u = t") (auto simp: upsertSymlink_def)
    qed (use replace [OF s1 w1(2) Some] w1 Some assms(4) in \<open>auto simp: upsertSymlink_def\<close>)
  qed
qed

lemma runCommand_quiet: "quiet w \<Longrightarrow> runCommand raw w = (r, w') \<Longrightarrow> os_fs w' = os_fs w"
  by (auto simp: runCommand_def CombinedOutput_def quiet_def split: list.splits prod.splits option.splits)
    (metis snd_conv)+

subsection \<open>Where the configuration goes\<close>

definition conf_name :: "Site \<Rightarrow> string" where
  "conf_name site = sanitizeConfName (site_Domain site) @ ''.conf''"

lemma conf_name_good: "good_seg (conf_name site)"
proof -
  have "slash \<notin> set (sanitizeConfName (site_Domain site))"
    unfolding sanitizeConfName_def slash_def by (rule ReplaceAll_removes) simp
  then have "slash \<notin> set (conf_name site)" by (simp add: conf_name_def slash_def)
  moreover have "5 \<le> length (conf_name site)" by (simp add: conf_name_def)
  ultimately show ?thesis by (auto simp: good_seg_def)
qed

lemma conf_paths:
  assumes "ng_AvailableDir cfg = abs_path da" "ng_EnabledDir cfg = abs_path de"
    and "list_all good_seg da" "list_all good_seg de"
  shows "confPath_of cfg site = abs_path (da @ [conf_name site])"
    and "linkPath_of cfg site = abs_path (de @ [conf_name site])"
  using assms conf_name_good [of site]
  by (simp_all add: confPath_of_def linkPath_of_def PathJoin_abs_name flip: conf_name_def)

text \<open>What was there before: nothing or a file, nothing or a link.\<close>

definition before_conf :: "node option \<Rightarrow> string option \<Rightarrow> bool" where
  "before_conf n pc \<longleftrightarrow> n = map_option File pc"

definition before_link :: "node option \<Rightarrow> string option \<Rightarrow> bool" where
  "before_link n pl \<longleftrightarrow> n = map_option Symlink pl \<and> pl \<noteq> Some []"

lemma rollback_ok:
  assumes w: "quiet w" "plain_dir (os_fs w) da" "plain_dir (os_fs w) de" "good_seg c" "da \<noteq> de"
    and no_dir: "fsg w (da @ [c]) \<noteq> Some Directory" "fsg w (de @ [c]) \<noteq> Some Directory"
      "fsg w (da @ [c @ ''.tmp'']) = None"
    and before: "before_conf nc pc" "before_link nl pl"
  shows "\<exists>w'. rollback (abs_path (da @ [c])) (abs_path (de @ [c])) pc pl w = (None, w')
    \<and> fsg w' = (fsg w)(da @ [c] := nc, de @ [c] := nl)"
proof -
  let ?cp = "abs_path (da @ [c])" and ?lp = "abs_path (de @ [c])"
  have ne: "de @ [c] \<noteq> da @ [c]" using w(5) by simp
  obtain w1 where w1: "(case pc of Some x \<Rightarrow> writeAtomic ?cp x w | None \<Rightarrow> remove_if_there ?cp w) = (None, w1)"
      "fsg w1 = (fsg w)(da @ [c] := nc)" "env_of w1 = env_of w"
  proof (cases pc)
    case None
    then show ?thesis
      using that remove_if_there_ok [OF w(1,2,4) no_dir(1)] before(1) remove_if_there_env [of ?cp w]
      by (auto simp: before_conf_def)
  next
    case (Some x)
    then show ?thesis
      using that writeAtomic_ok [OF w(1,2,4) no_dir(1,3), of x] before(1) writeAtomic_env [of ?cp x w]
      by (auto simp: before_conf_def)
  qed
  have s1: "quiet w1" "plain_dir (os_fs w1) de" "fsg w1 (de @ [c]) \<noteq> Some Directory"
    using quiet_env [OF w1(3) w(1)] plain_dir_upd [OF w(3) no_dir(1) w1(2)] no_dir(2) ne by (simp_all add: w1(2))
  obtain w2 where w2: "remove_if_there ?lp w1 = (None, w2)" "fsg w2 = (fsg w1)(de @ [c] := None)"
    using remove_if_there_ok [OF s1(1,2) w(4) s1(3)] by blast
  have s2: "quiet w2" "plain_dir (os_fs w2) de"
    using quiet_env [OF remove_if_there_env [OF w2(1)] s1(1)] plain_dir_upd [OF s1(2,3) w2(2)] by simp_all
  have run: "rollback ?cp ?lp pc pl w =
      (case pl of None \<Rightarrow> (None, w2) | Some t \<Rightarrow> if t = [] then (None, w2) else SymlinkAt t ?lp w2)"
    unfolding rollback_def w1(1) by (simp add: w2(1))
  show ?thesis
  proof (cases pl)
    case None
    then show ?thesis using run before(2) w1(2) w2(2) by (simp add: before_link_def)
  next
    case (Some t)
    then have "\<exists>w'. SymlinkAt t ?lp w2 = (None, w') \<and> fsg w' = (fsg w2)(de @ [c] := Some (Symlink t))"
      using SymlinkAt_missing [OF s2 w(4)] w2(2) by simp
    then show ?thesis using run before(2) Some w1(2) w2(2) by (auto simp: before_link_def)
  qed
qed

lemma nginx_activate_ok:
  fixes w :: "'a os_scheme"
  assumes w: "quiet w" "plain_dir (os_fs w) da" "plain_dir (os_fs w) de" "da \<noteq> de"
    and cfg: "ng_AvailableDir cfg = abs_path da" "ng_EnabledDir cfg = abs_path de"
    and no_tmp: "fsg w (da @ [conf_name site @ ''.tmp'']) = None"
    and before: "before_conf (fsg w (da @ [conf_name site])) pc" "before_link (fsg w (de @ [conf_name site])) pl"
    and run: "nginx_activate cfg site pc pl w = (r, w')"
  shows "fsg w' = (if r = None
      then (fsg w)(da @ [conf_name site] := Some (File (renderNginxServer site)),
                   de @ [conf_name site] := Some (Symlink (confPath_of cfg site)))
      else fsg w)"
proof -
  let ?c = "conf_name site" and ?conf = "da @ [conf_name site]" and ?link = "de @ [conf_name site]"
  note good = conf_name_good [of site]
  note paths = conf_paths [OF cfg plain_dir_good [OF w(2)] plain_dir_good [OF w(3)], of site]
  have ne: "?link \<noteq> ?conf" using w(4) by simp
  have nd: "fsg w ?conf \<noteq> Some Directory" "fsg w ?link \<noteq> Some Directory"
    using before by (cases pc; cases pl; simp add: before_conf_def before_link_def)+
  obtain w1 where w1: "writeAtomic (abs_path ?conf) (renderNginxServer site) w = (None, w1)"
      "fsg w1 = (fsg w)(?conf := Some (File (renderNginxServer site)))"
    using writeAtomic_ok [OF w(1,2) good nd(1) no_tmp] by blast
  have s1: "quiet w1" "plain_dir (os_fs w1) da" "plain_dir (os_fs w1) de"
    using quiet_env [OF writeAtomic_env [OF w1(1)] w(1)] plain_dir_upd [OF w(2) nd(1) w1(2)]
      plain_dir_upd [OF w(3) nd(1) w1(2)] by simp_all
  have l1: "fsg w1 ?link \<noteq> Some Directory" using nd(2) ne by (simp add: w1(2))
  obtain w2 where w2: "upsertSymlink (abs_path ?conf) (abs_path ?link) w1 = (None, w2)"
      "fsg w2 = (fsg w1)(?link := Some (Symlink (abs_path ?conf)))"
    using upsertSymlink_ok [OF s1(1,3) good l1] by blast
  have s2: "quiet w2" "plain_dir (os_fs w2) da" "plain_dir (os_fs w2) de"
    using quiet_env [OF upsertSymlink_env [OF w2(1)] s1(1)] plain_dir_upd [OF s1(2) l1 w2(2)]
      plain_dir_upd [OF s1(3) l1 w2(2)] by simp_all
  have f2: "fsg w2 = (fsg w)(?conf := Some (File (renderNginxServer site)), ?link := Some (Symlink (abs_path ?conf)))"
    by (simp add: w2(2) w1(2))
  have tmp: "da @ [?c @ ''.tmp''] \<noteq> ?conf" by simp
  have undo: "fsg (snd (rollback (abs_path ?conf) (abs_path ?link) pc pl v)) = fsg w"
    if v: "os_fs v = os_fs w2" "quiet v" for v :: "'a os_scheme"
  proof -
    have "de @ [?c] = da @ [?c @ ''.tmp''] \<Longrightarrow> False" by simp
    then have "fsg v (da @ [?c @ ''.tmp'']) = None" "fsg v ?conf \<noteq> Some Directory" "fsg v ?link \<noteq> Some Directory"
      using no_tmp ne unfolding v(1) f2 by auto
    from rollback_ok [OF v(2) _ _ good w(4) this(2,3,1) before] s2 v(1) obtain w'
      where "rollback (abs_path ?conf) (abs_path ?link) pc pl v = (None, w')"
        "fsg w' = (fsg v)(?conf := fsg w ?conf, ?link := fsg w ?link)" by auto
    then show ?thesis using ne unfolding v(1) f2 by (auto simp: fun_eq_iff)
  qed
  obtain r3 w3 where w3: "runCommand (ng_TestCommand cfg) w2 = (r3, w3)" by fastforce
  obtain r4 w4 where w4: "runCommand (ng_ReloadCommand cfg) w3 = (r4, w4)" by fastforce
  have s3: "os_fs w3 = os_fs w2" "quiet w3"
    using runCommand_quiet [OF s2(1) w3] quiet_env [OF runCommand_env [OF w3] s2(1)] by simp_all
  have s4: "os_fs w4 = os_fs w2" "quiet w4"
    using runCommand_quiet [OF s3(2) w4] quiet_env [OF runCommand_env [OF w4] s3(2)] s3(1) by simp_all
  note R = run [unfolded nginx_activate_def Let_def paths w1(1) prod.case option.case w2(1) w3]
  show ?thesis
  proof (cases r3)
    case (Some e)
    with R have "w' = snd (rollback (abs_path ?conf) (abs_path ?link) pc pl w3)" "r \<noteq> None" by auto
    with undo [OF s3] show ?thesis by auto
  next
    case None
    with R w4 have "if r4 = None then r = None \<and> w' = w4
        else r \<noteq> None \<and> w' = snd (rollback (abs_path ?conf) (abs_path ?link) pc pl w4)"
      by (auto split: option.splits)
    with undo [OF s4] f2 s4(1) show ?thesis by (auto simp: paths split: if_splits)
  qed
qed

lemma readIfExists_ok:
  assumes "quiet w" "plain_dir (os_fs w) ds" "good_seg c"
    and "fsg w (ds @ [c]) = None \<or> (\<exists>x. fsg w (ds @ [c]) = Some (File x))"
  shows "\<exists>pc w'. readIfExists (abs_path (ds @ [c])) w = (Inr pc, w') \<and> fsg w' = fsg w
    \<and> before_conf (fsg w (ds @ [c])) pc"
proof -
  obtain x where x: "fsg w (ds @ [c]) = None \<or> fsg w (ds @ [c]) = Some (File x)" using assms(4) by blast
  show ?thesis
    using ReadFile_entry [OF assms(1-3) x] x
    by (auto simp: readIfExists_def before_conf_def Is_NotExist_def split: if_splits)
qed

lemma readLinkIfExists_ok:
  assumes "quiet w" "plain_dir (os_fs w) ds" "good_seg c"
    and "fsg w (ds @ [c]) = None \<or> (\<exists>t. t \<noteq> [] \<and> fsg w (ds @ [c]) = Some (Symlink t))"
  shows "\<exists>pl w'. readLinkIfExists (abs_path (ds @ [c])) w = (Inr pl, w') \<and> fsg w' = fsg w
    \<and> before_link (fsg w (ds @ [c])) pl"
proof -
  let ?p = "abs_path (ds @ [c])"
  obtain w1 where w1: "Lstat ?p w = (case fsg w (ds @ [c]) of None \<Rightarrow> Inl (PathError ''lstat'' ?p ENOENT) | Some n \<Rightarrow> Inr n, w1)"
      "fsg w1 = fsg w"
    using Lstat_entry [OF assms(1-3)] by blast
  have s1: "quiet w1" "plain_dir (os_fs w1) ds"
    using quiet_env [OF os_env(2) [OF w1(1)] assms(1)] plain_dir_cong [OF assms(2)] w1(2) by simp_all
  show ?thesis
  proof (cases "fsg w (ds @ [c])")
    case None
    with w1 show ?thesis by (simp add: readLinkIfExists_def Is_NotExist_def before_link_def)
  next
    case (Some n)
    with assms(4) obtain t where t: "n = Symlink t" "t \<noteq> []" by auto
    obtain w2 where "Readlink ?p w1 = (Inr t, w2)" "fsg w2 = fsg w1"
      using Readlink_entry [OF s1 assms(3)] w1(2) Some t by auto
    with w1 Some t show ?thesis by (simp add: readLinkIfExists_def before_link_def)
  qed
qed

subsection \<open>Properties\<close>


lemma MkdirAll_existing:
  assumes "plain_dir (os_fs w) ds" "ds \<noteq> []"
  shows "MkdirAll (abs_path ds) w = (None, w)"
proof -
  have g: "list_all good_seg ds" using assms(1) by (rule plain_dir_good)
  have "Split (abs_path ds) slash = [] # ds"
    using Split_Join [OF assms(2), of slash] good_segs_no_slash [OF g] by (simp add: abs_path_def)
  moreover have "abs_path ds \<noteq> []" by (simp add: abs_path_def)
  moreover have "mkdir_each p css w = (None, w)" if "\<forall>cs\<in>set css. prefix cs ([] # ds)" for p css
    using that
  proof (induction css)
    case (Cons cs css)
    have "\<exists>q. walk 40 (os_fs w) True [] cs = Inr q \<and> prefix q ds"
    proof (cases cs)
      case (Cons x qs)
      with Cons.prems have q: "x = []" "prefix qs ds" by auto
      have "list_all good_seg qs" using g q(2) by (auto simp: prefix_def)
      then have "walk 40 (os_fs w) True [] (qs @ []) = walk 40 (os_fs w) True ([] @ qs) []"
        by (rule walk_dirs) (use assms(1) q(2) in \<open>auto intro: plain_dirD prefix_order.trans\<close>)
      then show ?thesis using Cons q by (simp add: walk_skip)
    qed simp
    then obtain q where "walk 40 (os_fs w) True [] cs = Inr q" "fsg w q = Some Directory"
      using assms(1) by (blast intro: plain_dirD)
    with Cons show ?case by simp
  qed simp
  ultimately show ?thesis
    unfolding MkdirAll_def by (simp del: mkdir_each.simps prefixes.simps)
qed

definition sample_nginx :: NginxConfig where
  "sample_nginx = \<lparr>ng_Apply = True, ng_AvailableDir = ''/a'', ng_EnabledDir = ''/e'',
     ng_TestCommand = ''nginx -t'', ng_ReloadCommand = ''systemctl reload nginx''\<rparr>"

definition sample_host :: repo where
  "sample_host = sample_repo\<lparr>os_fs := [([''a''], Directory), ([''e''], Directory), ([''r''], Directory)]\<rparr>"

definition sample_node_site :: Site where
  "sample_node_site = sample_site\<lparr>site_RootPath := ''/r'', site_Runtime := ''node''\<rparr>"

lemma sample_host_dirs:
  "plain_dir (os_fs sample_host) [''a'']" "plain_dir (os_fs sample_host) [''e'']" "plain_dir (os_fs sample_host) [''r'']"
  "abs_path [''a''] = ''/a''" "abs_path [''e''] = ''/e''" "abs_path [''r''] = ''/r''"
  by (simp_all add: sample_host_def plain_dir_def good_seg_def slash_def fs_get_def abs_path_def)

lemma sample_prepare: "nginx_prepare sample_nginx sample_node_site sample_host = (None, sample_host)"
proof -
  have "MkdirAll ''/a'' sample_host = (None, sample_host)" "MkdirAll ''/e'' sample_host = (None, sample_host)"
    "MkdirAll ''/r'' sample_host = (None, sample_host)"
    using MkdirAll_existing [OF sample_host_dirs(1)] MkdirAll_existing [OF sample_host_dirs(2)]
      MkdirAll_existing [OF sample_host_dirs(3)] by (simp_all add: sample_host_dirs)
  moreover have "ToLower (TrimSpace ''node'') = ''node''" "TrimSpace ''/r'' = ''/r''" by code_simp+
  ultimately show ?thesis
    by (simp add: nginx_prepare_def sample_nginx_def sample_node_site_def sample_site_def ensureRuntimeBootstrap_def Let_def)
qed


lemma nginx_place_segs:
  assumes "IsAbs (ng_AvailableDir cfg)" "IsAbs (ng_EnabledDir cfg)"
  shows "segs (confPath_of cfg site) = segs (ng_AvailableDir cfg) @ [conf_name site]"
    "segs (linkPath_of cfg site) = segs (ng_EnabledDir cfg) @ [conf_name site]"
proof -
  have "list_all good_seg (segs (ng_AvailableDir cfg) @ [conf_name site])"
    "list_all good_seg (segs (ng_EnabledDir cfg) @ [conf_name site])"
    using segs_good [OF assms(1)] segs_good [OF assms(2)] conf_name_good [of site] by simp_all
  then show "segs (confPath_of cfg site) = segs (ng_AvailableDir cfg) @ [conf_name site]"
    "segs (linkPath_of cfg site) = segs (ng_EnabledDir cfg) @ [conf_name site]"
    using PathJoin_abs_name [OF assms(1) conf_name_good] PathJoin_abs_name [OF assms(2) conf_name_good]
    by (simp_all add: confPath_of_def linkPath_of_def flip: conf_name_def)
qed

text \<open>
  Whatever the domain stored for a site, its configuration and its link are direct entries of the
  two configured directories: the name holds no separator and is neither \<open>.\<close> nor \<open>..\<close>, so no domain
  writes outside them.
\<close>

lemma nginx_paths_contained:
  assumes "IsAbs (ng_AvailableDir cfg)" "IsAbs (ng_EnabledDir cfg)"
  shows "segs (confPath_of cfg site) = segs (ng_AvailableDir cfg) @ [conf_name site]
    \<and> segs (linkPath_of cfg site) = segs (ng_EnabledDir cfg) @ [conf_name site]
    \<and> good_seg (conf_name site)"
  by (simp add: nginx_place_segs [OF assms] conf_name_good)

lemma nginx_paths_contained_witness:
  "segs (confPath_of \<lparr>ng_Apply = True, ng_AvailableDir = ''/etc/nginx/sites-available'',
      ng_EnabledDir = ''/etc/nginx/sites-enabled'', ng_TestCommand = [], ng_ReloadCommand = []\<rparr>
      (sample_site\<lparr>site_Domain := ''../../x''\<rparr>))
    = [''etc'', ''nginx'', ''sites-available'', ''.-.-x.conf'']"
proof -
  let ?cfg = "\<lparr>ng_Apply = True, ng_AvailableDir = ''/etc/nginx/sites-available'',
      ng_EnabledDir = ''/etc/nginx/sites-enabled'', ng_TestCommand = [], ng_ReloadCommand = []\<rparr>"
  have "segs ''/etc/nginx/sites-available'' = [''etc'', ''nginx'', ''sites-available'']" by code_simp
  moreover have "sanitizeConfName ''../../x'' = ''.-.-x''" by code_simp
  moreover have "IsAbs (ng_AvailableDir ?cfg)" "IsAbs (ng_EnabledDir ?cfg)" by (simp_all add: IsAbs_def slash_def)
  from nginx_paths_contained [OF this, of "sample_site\<lparr>site_Domain := ''../../x''\<rparr>"]
  have "segs (confPath_of ?cfg (sample_site\<lparr>site_Domain := ''../../x''\<rparr>))
      = segs ''/etc/nginx/sites-available'' @ [conf_name (sample_site\<lparr>site_Domain := ''../../x''\<rparr>)]" by simp
  ultimately show ?thesis by (simp add: conf_name_def)
qed


definition sample_file_link :: repo where
  "sample_file_link = sample_host\<lparr>os_fs := [([''a''], Directory), ([''e''], Directory), ([''e'', ''c''], File ''x'')]\<rparr>"


text \<open>
  C11: the life of a job, under every interleaving of the worker, of callers of \<open>Enqueue\<close> and of the
  other services, with every failure of saving: from a repository without jobs, in each further step a
  job either stays as it is, appears as queued, goes from queued to running with its start time, or
  from running to success or failed with its end time and, on failure, the error's text; so no job is
  run twice, skips a state or leaves a final one, and the fields always fit the status.
\<close>

theorem jobs_lifecycle:
  assumes "Jobs (rp_data w) = []" "jq_queue w = []"
    and "(jobs_system (Some (nginx_ProvisionSite cfg, nginx_DeprovisionSite cfg)))\<^sup>*\<^sup>* (Unstarted, [], w) (k, ps, w1)"
    and "jobs_system (Some (nginx_ProvisionSite cfg, nginx_DeprovisionSite cfg)) (k, ps, w1) (k', ps', w2)"
  shows "job_moves (mget (Jobs (rp_data w1)) i) (mget (Jobs (rp_data w2)) i)
    \<and> (\<forall>j. mget (Jobs (rp_data w1)) i = Some j \<longrightarrow> job_life j \<and> job_ID j = i)"
proof -
  have "jobs_sound (Unstarted, [], w)" using assms(1,2) by (simp add: jobs_sound_def jobs_ok_def)
  then have s: "jobs_sound (k, ps, w1)" using nginx.system_sound [OF assms(3)] by simp
  note sound = this [unfolded jobs_sound_def prod.case jobs_ok_def]
  show ?thesis using nginx.system_step_sound [OF assms(4) s] sound unfolding snd_conv by blast
qed

definition sample_jobs :: jobs where
  "sample_jobs = repo.extend sample_host
     \<lparr>jq_queue = [], jq_started = False, jq_stopped = False, jq_cancelled = False, jq_json_error = (\<lambda>_. Foreign ''json'')\<rparr>"

lemma jobs_lifecycle_witness:
  "\<exists>i ps w2. jobs_system (Some (nginx_ProvisionSite sample_nginx, nginx_DeprovisionSite sample_nginx))
       (Waiting, [], jobs_Start sample_jobs) (Waiting, ps, w2)
     \<and> mget (Jobs (rp_data w2)) i \<noteq> None
     \<and> job_moves (mget (Jobs (rp_data (jobs_Start sample_jobs))) i) (mget (Jobs (rp_data w2)) i)"
proof -
  let ?sp = "Some (nginx_ProvisionSite sample_nginx, nginx_DeprovisionSite sample_nginx)"
  have e: "Jobs (rp_data sample_jobs) = []" "jq_queue sample_jobs = []" "\<not> jq_started sample_jobs"
    "\<not> jq_stopped sample_jobs"
    by (simp_all add: sample_jobs_def repo.defs sample_host_def sample_repo_def newSnapshot_def)
  let ?w = "jobs_Start sample_jobs"
  have st: "jq_started ?w" "\<not> jq_stopped ?w" "Jobs (rp_data ?w) = []" using e by (simp_all add: jobs_Start_def)
  have start: "(jobs_system ?sp)\<^sup>*\<^sup>* (Unstarted, [], sample_jobs) (Waiting, [], ?w)"
    by (rule r_into_rtranclp) (rule jobs_system.Start [OF e(3)])
  obtain i w1 where i: "idgen_New ''job'' ?w = (Inr i, w1)"
    using e(3) by (simp add: idgen_New_def rand_Read_def jobs_Start_def sample_jobs_def repo.defs sample_host_def
        sample_repo_def time_Now_def)
  obtain now w2 where now: "time_Now w1 = (now, w2)" by fastforce
  let ?j = "new_job ''usr-1'' JobTypeProvisionSite [] i now"
  obtain er w3 where c: "repo_CreateJob ?j w2 = (er, w3)" by fastforce
  have step: "jobs_system ?sp (Waiting, [], ?w) (Waiting, if er = None then [?j] else [], w3)"
    by (rule jobs_system.Create [OF st(1,2) i _ now c]) (simp add: st(3))
  have "mget (Jobs (rp_data w3)) i = Some ?j"
    using repo_CreateJob_data [of ?j w2] c by (simp add: new_job_def)
  with jobs_lifecycle [OF e(1,2) start step, of i] step show ?thesis by blast
qed

text \<open>
  C23: what handling a provisioning job does: when the start of a queued job could be saved and its
  payload names a stored site, that site becomes active exactly if provisioning it succeeded and failed
  otherwise, no other site and no domain changes, and the job ends with its start and end times; if
  provisioning failed the job has failed with the text of that error.
\<close>

theorem handle_provision_job:
  assumes job: "mget (Jobs (rp_data w)) i = Some job" "job_ID job = i" "job_life job" "job_Status job = JobStatusQueued"
    and "job_Type job = JobTypeProvisionSite"
    and start: "time_Now w = (t, w1)" "repo_UpdateJob i JobStatusRunning [] (Some t) None w1 = (None, w2)"
    and "payload_site job w2 = Inr site" "mget (Sites (rp_data w)) (site_ID site) = Some site"
    and "nginx_ProvisionSite cfg site w2 = (e, w3)"
    and d: "d = rp_data (jobs_handleJob (Some (nginx_ProvisionSite cfg, nginx_DeprovisionSite cfg)) i w)"
  shows "(\<exists>now. Sites d = mput (site_ID site)
        (set_status (if e = None then SiteStatusActive else SiteStatusFailed, now) site) (Sites (rp_data w)))
    \<and> DomainIndex d = DomainIndex (rp_data w)
    \<and> (\<exists>f r. mget (Jobs d) i = Some (end_job f r (start_job t job)) \<and> (e \<noteq> None \<longrightarrow> r = map_option Error_text e))"
proof -
  note st = nginx.handle_start [OF job start]
  let ?sp = "Some (nginx_ProvisionSite cfg, nginx_DeprovisionSite cfg)"
  obtain r w4 where run: "jobs_runByType ?sp job w2 = (r, w4)" by fastforce
  have site: "mget (Sites (rp_data w2)) (site_ID site) = Some site" using assms(9) st(2) by simp
  note pr = nginx.run_provision [OF assms(5,8) site assms(10) run]
  note h = nginx.handle_run [OF job start run pr(2)]
  obtain f where "mget (Jobs d) i = Some (end_job f (map_option Error_text r) (start_job t job))"
    using h(1) d by blast
  moreover have "\<exists>now. Sites d = mput (site_ID site)
        (set_status (if e = None then SiteStatusActive else SiteStatusFailed, now) site) (Sites (rp_data w))"
    using pr(1) h(2) st(2) d by simp
  moreover have "DomainIndex d = DomainIndex (rp_data w)" using pr(3) h(3) st(3) d by simp
  ultimately show ?thesis using pr(4) by blast
qed

text \<open>A repository with one site and one queued job that is about it, and a dry-run provisioner.\<close>

definition sample_job :: "string \<Rightarrow> Job" where
  "sample_job ty = new_job ''usr-1'' ty [(''site_id'', ''site-1'')] ''job-1'' 5"

definition sample_queue :: "string \<Rightarrow> jobs" where
  "sample_queue ty = repo.extend (sample_repo\<lparr>rp_data := newSnapshot\<lparr>Sites := [(''site-1'', sample_site)],
       DomainIndex := [(''example.com'', ''site-1'')], Jobs := [(''job-1'', sample_job ty)]\<rparr>\<rparr>)
     \<lparr>jq_queue = [], jq_started = True, jq_stopped = False, jq_cancelled = False, jq_json_error = (\<lambda>_. Foreign ''json'')\<rparr>"

definition dry_run :: NginxConfig where
  "dry_run = sample_nginx\<lparr>ng_Apply := False\<rparr>"

lemma sample_queue_facts:
  "mget (Jobs (rp_data (sample_queue ty))) ''job-1'' = Some (sample_job ty)"
  "job_ID (sample_job ty) = ''job-1''" "job_life (sample_job ty)" "job_Status (sample_job ty) = JobStatusQueued"
  "job_Type (sample_job ty) = ty" "mget (Sites (rp_data (sample_queue ty))) (site_ID sample_site) = Some sample_site"
  by (simp_all add: sample_queue_def sample_job_def new_job_def job_life_def repo.defs sample_site_def)

lemma sample_queue_start:
  "\<exists>t w1 w2. time_Now (sample_queue ty) = (t, w1) \<and> repo_UpdateJob ''job-1'' JobStatusRunning [] (Some t) None w1 = (None, w2)
     \<and> payload_site (sample_job ty) w2 = Inr sample_site"
proof -
  obtain t w1 where w1: "time_Now (sample_queue ty) = (t, w1)" by fastforce
  then have w1': "w1 = sample_queue ty\<lparr>os_ticks := Suc (os_ticks (sample_queue ty))\<rparr>" by (simp add: time_Now_def)
  obtain e w2 where w2: "repo_UpdateJob ''job-1'' JobStatusRunning [] (Some t) None w1 = (e, w2)" by fastforce
  have "fst (repo_save (w1\<lparr>rp_data := d\<rparr>)) = None" for d
    by (rule sample_save_ok) (simp_all add: w1' sample_queue_def sample_repo_def repo.defs)
  then have "e = None"
    using w2 sample_queue_facts(1) [of ty] by (auto simp: repo_UpdateJob_def w1' split: option.splits) (metis fst_conv)
  moreover have "Sites (rp_data w2) = Sites (rp_data (sample_queue ty))"
    using nginx.UpdateJob_frame(1) [of "''job-1''" JobStatusRunning "[]" "Some t" None w1] w2 by (simp add: w1')
  moreover have "Unmarshal_strings (job_Payload (sample_job ty)) = Some [(''site_id'', ''site-1'')]"
    using Unmarshal_single [of "''site_id''" "''site-1''"] by (simp add: sample_job_def new_job_def ascii_def byte_def)
  ultimately show ?thesis
    using w1 w2 by (simp add: payload_site_def repo_GetSiteByID_def) (simp add: sample_queue_def repo.defs)
qed

lemma handle_provision_job_witness:
  "\<exists>now. Sites (rp_data (jobs_handleJob (Some (nginx_ProvisionSite dry_run, nginx_DeprovisionSite dry_run))
       ''job-1'' (sample_queue JobTypeProvisionSite)))
     = [(''site-1'', set_status (SiteStatusActive, now) sample_site)]"
proof -
  let ?ty = JobTypeProvisionSite
  obtain t w1 w2 where s: "time_Now (sample_queue ?ty) = (t, w1)"
      "repo_UpdateJob ''job-1'' JobStatusRunning [] (Some t) None w1 = (None, w2)"
      "payload_site (sample_job ?ty) w2 = Inr sample_site"
    using sample_queue_start by blast
  have "nginx_ProvisionSite dry_run sample_site w2 = (None, w2)"
    by (simp add: nginx_ProvisionSite_def dry_run_def)
  from handle_provision_job [OF sample_queue_facts(1-5) s sample_queue_facts(6) this refl]
  have "\<exists>now. Sites (rp_data (jobs_handleJob (Some (nginx_ProvisionSite dry_run, nginx_DeprovisionSite dry_run))
       ''job-1'' (sample_queue ?ty))) = mput (site_ID sample_site) (set_status (SiteStatusActive, now) sample_site)
          (Sites (rp_data (sample_queue ?ty)))" by auto
  then show ?thesis by (simp add: sample_queue_def repo.defs sample_site_def)
qed

text \<open>
  C24: what handling a removal job does: when the start of a queued job could be saved and its payload
  names a stored site, a successful removal takes the site out of the table and frees its domain, a
  failed one keeps the site, marked as failed; the job ends with its start and end times, and with the
  error's text if removing the configuration failed.
\<close>

theorem handle_deprovision_job:
  assumes job: "mget (Jobs (rp_data w)) i = Some job" "job_ID job = i" "job_life job" "job_Status job = JobStatusQueued"
    and "job_Type job = JobTypeDeprovisionSite"
    and start: "time_Now w = (t, w1)" "repo_UpdateJob i JobStatusRunning [] (Some t) None w1 = (None, w2)"
    and "payload_site job w2 = Inr site" "mget (Sites (rp_data w)) (site_ID site) = Some site"
    and "nginx_DeprovisionSite cfg site w2 = (e, w3)"
    and d: "d = rp_data (jobs_handleJob (Some (nginx_ProvisionSite cfg, nginx_DeprovisionSite cfg)) i w)"
  shows "(if e = None
       then mget (Sites d) (site_ID site) = None \<and> mget (DomainIndex d) (ToLower (site_Domain site)) = None
       else \<exists>now. mget (Sites d) (site_ID site) = Some (set_status (SiteStatusFailed, now) site))
    \<and> (\<forall>k. k \<noteq> site_ID site \<longrightarrow> mget (Sites d) k = mget (Sites (rp_data w)) k)
    \<and> (\<exists>f r. mget (Jobs d) i = Some (end_job f r (start_job t job)) \<and> (e \<noteq> None \<longrightarrow> r = map_option Error_text e))"
proof -
  note st = nginx.handle_start [OF job start]
  let ?sp = "Some (nginx_ProvisionSite cfg, nginx_DeprovisionSite cfg)"
  obtain r w4 where run: "jobs_runByType ?sp job w2 = (r, w4)" by fastforce
  have site: "mget (Sites (rp_data w2)) (site_ID site) = Some site" using assms(9) st(2) by simp
  note de = nginx.run_deprovision [OF assms(5,8) site assms(10) run]
  note h = nginx.handle_run [OF job start run de(3)]
  obtain f where "mget (Jobs d) i = Some (end_job f (map_option Error_text r) (start_job t job))"
    using h(1) d by blast
  moreover have "Sites d = Sites (rp_data w4)" "DomainIndex d = DomainIndex (rp_data w4)" using h(2,3) d by simp_all
  ultimately show ?thesis
    using de(1,2) st(2) by (cases e) auto
qed

lemma handle_deprovision_job_witness:
  "Sites (rp_data (jobs_handleJob (Some (nginx_ProvisionSite dry_run, nginx_DeprovisionSite dry_run))
       ''job-1'' (sample_queue JobTypeDeprovisionSite))) = []"
proof -
  let ?ty = JobTypeDeprovisionSite
  let ?d = "rp_data (jobs_handleJob (Some (nginx_ProvisionSite dry_run, nginx_DeprovisionSite dry_run)) ''job-1'' (sample_queue ?ty))"
  obtain t w1 w2 where s: "time_Now (sample_queue ?ty) = (t, w1)"
      "repo_UpdateJob ''job-1'' JobStatusRunning [] (Some t) None w1 = (None, w2)"
      "payload_site (sample_job ?ty) w2 = Inr sample_site"
    using sample_queue_start by blast
  have "nginx_DeprovisionSite dry_run sample_site w2 = (None, w2)"
    by (simp add: nginx_DeprovisionSite_def dry_run_def)
  from handle_deprovision_job [OF sample_queue_facts(1-5) s sample_queue_facts(6) this refl]
  have "mget (Sites ?d) k = None" for k
    by (cases "k = ''site-1''") (simp_all add: sample_site_def sample_queue_def repo.defs)
  from this [of "fst (hd (Sites ?d))"] show ?thesis by (cases "Sites ?d") auto
qed



end
