(* ===== verification/SiteRules.thy ===== *)
theory SiteRules
  imports Provision
begin

text \<open>
  The rules of \<open>internal/service/sites/service.go\<close> that need no state: which domains, root paths and
  relative paths are accepted, and what a relative path becomes under a site's root.
\<close>

definition domain_char :: "char \<Rightarrow> bool" where
  "domain_char c \<longleftrightarrow>
     97 \<le> byte c \<and> byte c \<le> 122 \<or> 65 \<le> byte c \<and> byte c \<le> 90 \<or> is_digit c \<or> c = CHR ''.'' \<or> c = CHR ''-''"

text \<open>The regular expression \<open>^[a-zA-Z0-9.-]+$\<close>.\<close>

definition domainRegex :: "string \<Rightarrow> bool" where
  "domainRegex s \<longleftrightarrow> s \<noteq> [] \<and> list_all domain_char s"

definition allowedRuntime :: "string list" where
  "allowedRuntime = [''php'', ''node'', ''python'', ''static'']"

definition editableFiles :: "string list" where
  "editableFiles = [''index.html'', ''index.htm'', ''index.php'']"

definition maxSiteContentBytes :: nat where "maxSiteContentBytes = 1024 * 1024"
definition maxSiteUploadBytes :: nat where "maxSiteUploadBytes = 8 * 1024 * 1024"

definition normalizeDomain :: "string \<Rightarrow> string" where
  "normalizeDomain s = ToLower (TrimSpace (TrimSuffix s ''.''))"

definition isValidDomain :: "string \<Rightarrow> bool" where
  "isValidDomain domain =
     (if length domain < 3 \<or> length domain > 253 then False
      else if HasPrefix domain ''.'' \<or> HasSuffix domain ''.'' \<or> Contains domain ''..'' then False
      else if \<not> domainRegex domain then False
      else (let parts = Split domain (CHR ''.'') in
        if length parts < 2 then False
        else list_all (\<lambda>p. \<not> (p = [] \<or> HasPrefix p ''-'' \<or> HasSuffix p ''-'')) parts))"

definition isValidRootPath :: "string \<Rightarrow> bool" where
  "isValidRootPath rootPath =
     (if rootPath = [] \<or> \<not> HasPrefix rootPath [slash] then False
      else (let clean = Clean rootPath in
        if clean = [slash] then False else \<not> Contains clean ''..''))"

definition defaultEditableFile :: "string \<Rightarrow> string" where
  "defaultEditableFile runtimeName =
     (if ToLower (TrimSpace runtimeName) = ''php'' then ''index.php'' else ''index.html'')"

definition fileCandidatesByRuntime :: "string \<Rightarrow> string list" where
  "fileCandidatesByRuntime runtimeName =
     (if ToLower (TrimSpace runtimeName) = ''php'' then [''index.php'', ''index.html'', ''index.htm'']
      else [''index.html'', ''index.htm'', ''index.php''])"

definition normalizeRelativePath :: "string \<Rightarrow> bool \<Rightarrow> error + string" where
  "normalizeRelativePath raw allowEmpty =
     (let trimmed = TrimSpace (ReplaceAll raw [CHR 0x5C] [slash]) in
      if trimmed = [] then (if allowEmpty then Inr [] else Inl (sitesE ErrInvalidPath))
      else if HasPrefix trimmed [slash] then Inl (sitesE ErrInvalidPath)
      else if list_ex (\<lambda>s. s = ''..'') (Split trimmed slash) then Inl (sitesE ErrInvalidPath)
      else (let clean = TrimPrefix (Clean (slash # trimmed)) [slash] in
        if clean = ''.'' \<or> clean = [] then (if allowEmpty then Inr [] else Inl (sitesE ErrInvalidPath))
        else if clean = ''..'' \<or> HasPrefix clean ''../'' \<or> Contains clean ''/../''
        then Inl (sitesE ErrInvalidPath)
        else Inr clean))"

definition isWithinRoot :: "string \<Rightarrow> string \<Rightarrow> bool" where
  "isWithinRoot rootPath targetPath =
     (let root = Clean rootPath; target = Clean targetPath in
      target = root \<or> HasPrefix target (root @ [slash]))"

definition sanitizeDomainForFile :: "string \<Rightarrow> string" where
  "sanitizeDomainForFile domain =
     (let clean = ReplaceAll (ReplaceAll (ReplaceAll (ToLower (TrimSpace domain)) ''..'' ''.'') ''/'' ''-'')
                   [CHR 0x5C] ''-''
      in if clean = [] then ''site'' else clean)"

subsection \<open>Paths under a root\<close>

lemma HasPrefix_slash: "HasPrefix p [slash] \<longleftrightarrow> IsAbs p"
  by (simp add: HasPrefix_def IsAbs_def)

lemma isWithinRoot_iff:
  assumes "IsAbs root" "IsAbs target" "segs root \<noteq> []"
  shows "isWithinRoot root target \<longleftrightarrow> prefix (segs root) (segs target)"
proof -
  have g: "list_all good_seg (segs root)" "list_all good_seg (segs target)" using assms(1,2) segs_good by auto
  show ?thesis
    unfolding isWithinRoot_def Let_def Clean_abs [OF assms(1)] Clean_abs [OF assms(2)] HasPrefix_def
      abs_path_eq_iff [OF g(2,1)] prefix_abs_path_iff [OF g assms(3)]
    by (auto simp: strict_prefix_def)
qed

lemma normalizeRelativePath_ok:
  assumes "normalizeRelativePath raw e = Inr clean"
  shows "clean = [] \<and> e \<or> (\<exists>ss. ss \<noteq> [] \<and> list_all good_seg ss \<and> clean = Join ss [slash])"
proof (cases "clean = []")
  case True
  then show ?thesis
    using assms by (auto simp: normalizeRelativePath_def Let_def split: if_splits)
next
  case False
  let ?t = "TrimSpace (ReplaceAll raw [CHR 0x5C] [slash])"
  have abs: "IsAbs (slash # ?t)" by (simp add: IsAbs_def)
  have "clean = TrimPrefix (Clean (slash # ?t)) [slash]"
    using assms False by (auto simp: normalizeRelativePath_def Let_def split: if_splits)
  moreover have "Clean (slash # ?t) = slash # Join (segs (slash # ?t)) [slash]"
    using abs by (simp add: Clean_abs abs_path_def)
  ultimately have c: "clean = Join (segs (slash # ?t)) [slash]"
    by (simp add: TrimPrefix_def HasPrefix_def)
  with False have "segs (slash # ?t) \<noteq> []" by auto
  with c segs_good [OF abs] show ?thesis by blast
qed

lemma Join_mem: "s \<in> set ss \<Longrightarrow> \<exists>l r. Join ss sep = l @ s @ r"
proof (induction ss)
  case (Cons a ss)
  show ?case
  proof (cases "s = a \<or> ss = []")
    case True
    with Cons.prems have "s = a" by auto
    then show ?thesis by (cases ss) (auto intro: exI [of _ "[]"])
  next
    case False
    with Cons obtain l r where "Join ss sep = l @ s @ r" by auto
    with False have "Join (a # ss) sep = (a @ sep @ l) @ s @ r" by (simp add: Join_Cons)
    then show ?thesis by blast
  qed
qed simp

lemma isValidRootPath_iff:
  "isValidRootPath p \<longleftrightarrow> IsAbs p \<and> segs p \<noteq> [] \<and> (\<forall>s\<in>set (segs p). \<not> Contains s ''..'')"
proof (cases "IsAbs p")
  case True
  have g: "list_all good_seg (segs p)" using True by (rule segs_good)
  have root: "Clean p = [slash] \<longleftrightarrow> segs p = []"
    using True g abs_path_eq_iff [of "segs p" "[]"] by (simp add: Clean_abs abs_path_def)
  have split: "Split (abs_path (segs p)) slash = [] # segs p" if "segs p \<noteq> []"
    using Split_Join [OF that, of slash] good_segs_no_slash [OF g] that by (simp add: abs_path_def)
  have "Contains (abs_path (segs p)) ''..'' \<longleftrightarrow> (\<exists>s\<in>set (segs p). Contains s ''..'')" if ne: "segs p \<noteq> []"
  proof
    assume "Contains (abs_path (segs p)) ''..''"
    then obtain xs ys where "abs_path (segs p) = xs @ ''..'' @ ys" unfolding Contains_iff by blast
    moreover have "Split (x @ ''..'' @ y) slash = butlast (Split x slash) @ [last (Split x slash) @ ''..'' @ hd (Split y slash)] @ tl (Split y slash)" for x y
      by (induction x) (auto simp: slash_def split: list.splits)
    ultimately have "last (Split xs slash) @ ''..'' @ hd (Split ys slash) \<in> set (Split (abs_path (segs p)) slash)" by simp
    then have "last (Split xs slash) @ ''..'' @ hd (Split ys slash) \<in> set (segs p)" using split [OF ne] by auto
    then show "\<exists>s\<in>set (segs p). Contains s ''..''" unfolding Contains_iff by blast
  next
    assume "\<exists>s\<in>set (segs p). Contains s ''..''"
    then obtain s xs ys where s: "s \<in> set (segs p)" "s = xs @ ''..'' @ ys" unfolding Contains_iff by blast
    from Join_mem [OF s(1), of "[slash]"] have "\<exists>l r. Join (segs p) [slash] = l @ s @ r" .
    then obtain l r where "abs_path (segs p) = (slash # l @ xs) @ ''..'' @ (ys @ r)"
      using s(2) by (auto simp: abs_path_def)
    then show "Contains (abs_path (segs p)) ''..''" unfolding Contains_iff by blast
  qed
  then show ?thesis
    using True root IsAbs_not_Nil [OF True]
    by (auto simp: isValidRootPath_def Let_def HasPrefix_slash Clean_abs)
qed (auto simp: isValidRootPath_def HasPrefix_slash)

subsection \<open>Domains\<close>

lemma isValidDomain_chars: "isValidDomain d \<Longrightarrow> list_all domain_char d \<and> \<not> Contains d ''..'' \<and> d \<noteq> []"
  by (auto simp: isValidDomain_def domainRegex_def split: if_splits)

lemma domain_char_facts:
  assumes "domain_char c" shows "solid c" "byte c < 128" "c \<noteq> slash" "c \<noteq> CHR 0x5C"
  using assms by (auto simp: domain_char_def is_digit_def solid_def slash_def byte_def)

lemma normalized_lower: "list_all domain_char (normalizeDomain x) \<Longrightarrow> ToLower (normalizeDomain x) = normalizeDomain x"
  using ToLower_not_upper domain_char_facts(2)
  by (intro ToLower_fix) (auto simp: normalizeDomain_def list_all_iff)

lemma not_contains_char: "c \<notin> set s \<Longrightarrow> \<not> Contains s [c]"
  by (auto simp: Contains_iff)

lemma sanitize_valid:
  assumes "isValidDomain d" "d = normalizeDomain x"
  shows "sanitizeConfName d = d"
proof -
  have c: "list_all domain_char d" "\<not> Contains d ''..''" using isValidDomain_chars [OF assms(1)] by auto
  have "TrimSpace d = d" using c(1) domain_char_facts(1) by (intro TrimSpace_solid) (auto simp: list_all_iff)
  moreover have "ToLower d = d" using normalized_lower c(1) assms(2) by simp
  moreover have "CHR ''/'' \<notin> set d" using c(1) domain_char_facts(3) by (auto simp: list_all_iff slash_def)
  ultimately show ?thesis
    using c(2) not_contains_char by (simp add: sanitizeConfName_def ReplaceAll_id)
qed

lemma clean_segs_no_up: "''..'' \<notin> set ss \<Longrightarrow> clean_segs rooted st ss = rev st @ filter (\<lambda>s. s \<noteq> [] \<and> s \<noteq> ''.'') ss"
  by (induction ss arbitrary: st) auto

lemma Split_mem: "s \<in> set (Split p c) \<Longrightarrow> \<exists>l r. p = l @ s @ r"
proof (induction p arbitrary: s)
  case (Cons a p)
  show ?case
  proof (cases "a = c")
    case True
    then consider "s = []" | "s \<in> set (Split p c)" using Cons.prems by auto
    then show ?thesis using Cons.IH by cases (auto, metis append_Cons)
  next
    case False
    then have "s \<in> set (Split p c) \<or> s = a # hd (Split p c)" using Cons.prems by (cases "Split p c") auto
    moreover have "\<exists>r. p = hd (Split p c) @ r"
      by (induction p) (auto split: list.splits)
    ultimately show ?thesis using Cons.IH by (metis append_Cons append_Nil)
  qed
qed simp

subsection \<open>Properties\<close>

text \<open>
  C22: no relative path leaves the site: for a root the service accepts and any path the normalization
  accepts, the file it names lies under the root component by component (the root's components, then
  proper names, never \<open>..\<close>), it is the root itself only for an empty path where that is allowed, and
  the second check, \<open>isWithinRoot\<close>, agrees.
\<close>

theorem relative_path_stays_in_root:
  assumes "isValidRootPath root" "normalizeRelativePath raw e = Inr clean"
  shows "isWithinRoot root (PathJoin [root, clean])
    \<and> (\<exists>cs. segs (PathJoin [root, clean]) = segs root @ cs \<and> list_all good_seg cs \<and> (cs = [] \<longrightarrow> clean = [] \<and> e))"
proof -
  have root: "IsAbs root" "segs root \<noteq> []" using assms(1) by (auto simp: isValidRootPath_iff)
  have g: "list_all good_seg (segs root)" using root(1) by (rule segs_good)
  obtain cs where cs: "PathJoin [root, clean] = abs_path (segs root @ cs)" "list_all good_seg cs"
      "cs = [] \<longrightarrow> clean = [] \<and> e"
  proof (cases "clean = [] \<and> e")
    case True
    then show ?thesis using that [of "[]"] PathJoin_abs_empty [OF root(1)] by simp
  next
    case False
    then obtain ss where "ss \<noteq> []" "list_all good_seg ss" "clean = Join ss [slash]"
      using normalizeRelativePath_ok [OF assms(2)] by blast
    then show ?thesis using that [of ss] PathJoin_abs [OF root(1)] by simp
  qed
  have s: "segs (PathJoin [root, clean]) = segs root @ cs" using cs(1,2) g by simp
  have "IsAbs (PathJoin [root, clean])" by (simp add: cs(1))
  from isWithinRoot_iff [OF root(1) this root(2)] s cs(2,3) show ?thesis by auto
qed

lemma relative_path_stays_in_root_witness:
  "isWithinRoot ''/var/www/x'' (PathJoin [''/var/www/x'', ''a/b''])
   \<and> normalizeRelativePath ''a/./b/'' False = Inr ''a/b''"
proof -
  have "isValidRootPath ''/var/www/x''" by code_simp
  moreover have n: "normalizeRelativePath ''a/./b/'' False = Inr ''a/b''" by code_simp
  ultimately show ?thesis using relative_path_stays_in_root [of "''/var/www/x''" "''a/./b/''" False "''a/b''"] by blast
qed

text \<open>
  \<open>isWithinRoot\<close> is containment of components, not of characters: for absolute paths it holds
  exactly when the cleaned target has the cleaned root's components as its first ones, so a sibling
  whose name merely starts alike is outside.
\<close>

lemma isWithinRoot_components:
  assumes "IsAbs root" "IsAbs target" "segs root \<noteq> []"
  shows "isWithinRoot root target \<longleftrightarrow> prefix (segs root) (segs target)"
  using assms by (rule isWithinRoot_iff)

lemma isWithinRoot_components_witness:
  "\<not> isWithinRoot ''/var/www/site'' ''/var/www/site2/x'' \<and> \<not> isWithinRoot ''/var/www/site'' ''/var/www/site/../y''"
proof -
  have "segs ''/var/www/site'' = [''var'', ''www'', ''site'']" "segs ''/var/www/site2/x'' = [''var'', ''www'', ''site2'', ''x'']"
    "segs ''/var/www/site/../y'' = [''var'', ''www'', ''y'']" by code_simp+
  then show ?thesis
    using isWithinRoot_components [of "''/var/www/site''" "''/var/www/site2/x''"]
      isWithinRoot_components [of "''/var/www/site''" "''/var/www/site/../y''"]
    by (simp add: IsAbs_def slash_def)
qed

text \<open>
  What \<open>isValidRootPath\<close> accepts: exactly the absolute paths other than the file system's root
  that have, after cleaning, no component with two dots in its name.  Since cleaning has resolved every
  \<open>..\<close> before the test, the test turns away names such as \<open>a..b\<close> and no path that steps out of its
  beginning.
\<close>

lemma root_path_rule:
  "isValidRootPath p \<longleftrightarrow> IsAbs p \<and> segs p \<noteq> [] \<and> (\<forall>s\<in>set (segs p). \<not> Contains s ''..'')"
  by (rule isValidRootPath_iff)

lemma root_path_rule_witness:
  "isValidRootPath ''/var/www/../../etc'' \<and> \<not> isValidRootPath ''/var/www/a..b''"
proof -
  have "segs ''/var/www/../../etc'' = [''etc'']" "segs ''/var/www/a..b'' = [''var'', ''www'', ''a..b'']" by code_simp+
  then show ?thesis
    using root_path_rule [of "''/var/www/../../etc''"] root_path_rule [of "''/var/www/a..b''"]
    by (simp add: IsAbs_def slash_def)
qed

text \<open>A root path that ends the directive it is written into, and begins another.\<close>

definition injected_root :: "string \<Rightarrow> string" where
  "injected_root d = ''/var/www;'' @ [CHR 0x0A] @ d"

text \<open>Whatever is put after the line break, such a root passes the check and the trimming.\<close>

lemma injected_root_accepted:
  assumes "\<not> Contains d ''..''" "d \<noteq> []" "solid (last d)"
  shows "isValidRootPath (injected_root d)" "TrimSpace (injected_root d) = injected_root d"
proof -
  let ?p = "injected_root d"
  have abs: "IsAbs ?p" by (simp add: IsAbs_def injected_root_def slash_def)
  have dots: "\<not> Contains ?p ''..''"
  proof
    assume "Contains ?p ''..''"
    then obtain xs ys where "''/var/www;'' @ [CHR 0x0A] @ d = xs @ ''..'' @ ys" unfolding Contains_iff injected_root_def by blast
    then have "(''/var/www;'' @ [CHR 0x0A]) @ d = xs @ ''..'' @ ys" by simp
    then obtain us where "(''/var/www;'' @ [CHR 0x0A]) @ us = xs \<and> d = us @ ''..'' @ ys \<or> ''/var/www;'' @ [CHR 0x0A] = xs @ us \<and> us @ d = ''..'' @ ys"
      unfolding append_eq_append_conv2 by auto
    then show False
    proof
      assume "(''/var/www;'' @ [CHR 0x0A]) @ us = xs \<and> d = us @ ''..'' @ ys"
      then show False using assms(1) unfolding Contains_iff by blast
    next
      assume u: "''/var/www;'' @ [CHR 0x0A] = xs @ us \<and> us @ d = ''..'' @ ys"
      then have "set us \<subseteq> set (''/var/www;'' @ [CHR 0x0A])" by (metis set_append sup_ge2)
      then have "CHR ''.'' \<notin> set us" by auto
      with u have "us = []" by (cases us) auto
      with u have "d = [] @ ''..'' @ ys" by simp
      then show False using assms(1) unfolding Contains_iff by blast
    qed
  qed
  have part: "\<not> Contains s ''..''" if mem: "s \<in> set (Split ?p slash)" for s
  proof
    assume "Contains s ''..''"
    then obtain a b where "s = a @ ''..'' @ b" unfolding Contains_iff by blast
    moreover obtain l r where "?p = l @ s @ r" using Split_mem [OF mem] by blast
    ultimately have "?p = (l @ a) @ ''..'' @ (b @ r)" by simp
    then show False using dots unfolding Contains_iff by blast
  qed
  have "''..'' \<notin> set (Split ?p slash)"
  proof
    assume "''..'' \<in> set (Split ?p slash)"
    moreover have "Contains ''..'' ''..''" unfolding Contains_iff by (intro exI [of _ "[]"]) simp
    ultimately show False using part by blast
  qed
  then have segs: "segs ?p = filter (\<lambda>s. s \<noteq> [] \<and> s \<noteq> ''.'') (Split ?p slash)"
    by (simp add: segs_def clean_segs_no_up)
  have "''var'' \<in> set (Split ?p slash)"
    by (simp add: injected_root_def slash_def split: list.split)
  then have "segs ?p \<noteq> []" by (auto simp: segs filter_empty_conv)
  moreover have "\<forall>s\<in>set (segs ?p). \<not> Contains s ''..''" using part by (simp add: segs)
  ultimately show "isValidRootPath ?p" using abs by (simp add: isValidRootPath_iff)
  have "?p = CHR ''/'' # (''var/www;'' @ [CHR 0x0A] @ butlast d) @ [last d]"
    using assms(2) by (simp add: injected_root_def)
  moreover have "solid (CHR ''/'')" by (simp add: solid_def byte_def)
  ultimately show "TrimSpace ?p = ?p" using TrimSpace_ends [OF _ assms(3)] by metis
qed

text \<open>
  A domain the service accepts is safe to write into the server block and names its own
  configuration: it consists of letters, digits, dots and dashes, the configuration's name is the
  domain with \<open>.conf\<close>, and two accepted sites share a configuration only if they share the domain.
\<close>

lemma accepted_domain_conf_name:
  assumes "site_Domain s = normalizeDomain x" "isValidDomain (site_Domain s)"
    and "site_Domain s' = normalizeDomain x'" "isValidDomain (site_Domain s')"
  shows "list_all domain_char (site_Domain s) \<and> conf_name s = site_Domain s @ ''.conf''
    \<and> (conf_name s = conf_name s' \<longleftrightarrow> site_Domain s = site_Domain s')"
  using sanitize_valid [OF assms(2,1)] sanitize_valid [OF assms(4,3)] isValidDomain_chars [OF assms(2)]
  by (simp add: conf_name_def)

lemma accepted_domain_conf_name_witness:
  "conf_name sample_site = ''example.com.conf''"
proof -
  have "normalizeDomain ''Example.COM.'' = ''example.com''" "isValidDomain ''example.com''" by code_simp+
  then have "site_Domain sample_site = normalizeDomain ''Example.COM.''" "isValidDomain (site_Domain sample_site)"
    by (simp_all add: sample_site_def)
  from accepted_domain_conf_name [OF this this] show ?thesis by (simp add: sample_site_def)
qed

end
