(* ===== verification/GoTime.thy ===== *)
theory GoTime
  imports GoStrings
begin

text \<open>
  \<open>time.Time\<close> in UTC from the nanoseconds since the Unix epoch: the civil date of a day number in the
  Gregorian calendar, the time of day, and the layout \<open>20060102_150405\<close> of file names.
\<close>

definition nanos_per_sec :: int where "nanos_per_sec = 1000000000"

text \<open>The year, month and day of a day counted from 1970-01-01, by eras of 400 years from 0000-03-01.\<close>

definition civil :: "int \<Rightarrow> int \<times> int \<times> int" where
  "civil day =
     (let z = day + 719468; era = z div 146097; doe = z mod 146097;
          yoe = (doe - doe div 1460 + doe div 36524 - doe div 146096) div 365;
          doy = doe - (365 * yoe + yoe div 4 - yoe div 100);
          mp = (5 * doy + 2) div 153;
          d = doy - (153 * mp + 2) div 5 + 1;
          m = (if mp < 10 then mp + 3 else mp - 9)
      in (yoe + era * 400 + (if m \<le> 2 then 1 else 0), m, d))"

definition pad_int :: "nat \<Rightarrow> int \<Rightarrow> string" where
  "pad_int width n =
     (let ds = show_nat (nat \<bar>n\<bar>) in
      (if n < 0 then ''-'' else []) @ replicate (width - length ds) (CHR ''0'') @ ds)"

definition clock_of :: "int \<Rightarrow> int \<times> int \<times> int" where
  "clock_of secs = (let s = secs mod 86400 in (s div 3600, s mod 3600 div 60, s mod 60))"

definition Format_stamp :: "int \<Rightarrow> string" where
  "Format_stamp t =
     (let secs = t div nanos_per_sec in
      case (civil (secs div 86400), clock_of secs) of
        ((y, m, d), (hh, mm, ss)) \<Rightarrow>
          pad_int 4 y @ pad_int 2 m @ pad_int 2 d @ ''_'' @ pad_int 2 hh @ pad_int 2 mm @ pad_int 2 ss)"

end
