(* ===== verification/Sites.thy ===== *)
theory Sites
  imports SiteRules GoTime
begin

text \<open>
  \<open>internal/service/sites/service.go\<close>: creating and removing sites, and the files under a site's root.
  The service holds the backup directory and the apply flag; its repository and job queue are the
  state.  Modification times of files are not modelled, and the bytes of a ZIP archive are a function
  \<open>zip_bytes\<close> of the list of its members.
\<close>

subsection \<open>Sites\<close>

definition sites_CreateSite ::
  "ctx_err option \<Rightarrow> bool \<Rightarrow> string \<Rightarrow> string \<Rightarrow> string \<Rightarrow> string \<Rightarrow> 'a jobs_scheme \<Rightarrow>
    (error + Site \<times> Job) option \<times> 'a jobs_scheme" where
  "sites_CreateSite done pick actorID in_Domain in_RootPath in_Runtime w =
     (let domain = normalizeDomain in_Domain; rootPath = TrimSpace in_RootPath; runtime = ToLower (TrimSpace in_Runtime) in
      if \<not> isValidDomain domain then (Some (Inl (sitesE ErrInvalidDomain)), w)
      else if \<not> isValidRootPath rootPath then (Some (Inl (sitesE ErrInvalidRoot)), w)
      else if runtime \<notin> set allowedRuntime then (Some (Inl (sitesE ErrInvalidRuntime)), w)
      else case idgen_New ''site'' w of
        (Inl e, w) \<Rightarrow> (Some (Inl e), w)
      | (Inr siteID, w) \<Rightarrow>
          (case time_Now w of
             (now, w) \<Rightarrow>
               (let site = \<lparr>site_ID = siteID, site_Domain = domain, site_RootPath = rootPath, site_Runtime = runtime,
                      site_Status = SiteStatusProvisioning, site_CreatedBy = actorID, site_CreatedAt = now,
                      site_UpdatedAt = now\<rparr> in
                case repo_CreateSite site w of
                  (Some e, w) \<Rightarrow> (Some (Inl e), w)
                | (None, w) \<Rightarrow>
                    (case jobs_Enqueue done pick actorID JobTypeProvisionSite
                            [(''site_id'', site_ID site), (''domain'', site_Domain site),
                             (''runtime'', site_Runtime site), (''rootPath'', site_RootPath site)] w of
                       (Some (Inl e), w) \<Rightarrow>
                         (Some (Inl e), snd (repo_UpdateSiteStatus (site_ID site) SiteStatusFailed w))
                     | (Some (Inr job), w) \<Rightarrow> (Some (Inr (site, job)), w)
                     | (None, w) \<Rightarrow> (None, w)))))"

definition sites_ListSites :: "int \<Rightarrow> 'a jobs_scheme \<Rightarrow> Site list" where
  "sites_ListSites limit w = repo_ListSites limit w"

definition sites_GetSite :: "string \<Rightarrow> 'a jobs_scheme \<Rightarrow> error + Site" where
  "sites_GetSite i w = repo_GetSiteByID i w"

definition sites_DeleteSite ::
  "ctx_err option \<Rightarrow> bool \<Rightarrow> string \<Rightarrow> string \<Rightarrow> 'a jobs_scheme \<Rightarrow> (error + Job) option \<times> 'a jobs_scheme" where
  "sites_DeleteSite done pick actorID i w =
     (case repo_GetSiteByID i w of
        Inl e \<Rightarrow> (Some (Inl e), w)
      | Inr site \<Rightarrow>
          (case repo_UpdateSiteStatus (site_ID site) SiteStatusDeleting w of
             (Some e, w) \<Rightarrow> (Some (Inl e), w)
           | (None, w) \<Rightarrow>
               (case jobs_Enqueue done pick actorID JobTypeDeprovisionSite [(''site_id'', site_ID site)] w of
                  (Some (Inl e), w) \<Rightarrow>
                    (Some (Inl e), snd (repo_UpdateSiteStatus (site_ID site) SiteStatusFailed w))
                | (Some (Inr job), w) \<Rightarrow> (Some (Inr job), w)
                | (None, w) \<Rightarrow> (None, w))))"

subsection \<open>The editable page\<close>

fun first_existing :: "string \<Rightarrow> string list \<Rightarrow> 'a os_scheme \<Rightarrow> string option \<times> 'a os_scheme" where
  "first_existing root [] w = (None, w)"
| "first_existing root (candidate # cs) w =
     (case Stat (PathJoin [root, candidate]) w of
        (Inr _, w) \<Rightarrow> (Some candidate, w)
      | (Inl _, w) \<Rightarrow> first_existing root cs w)"

definition resolveEditableFile :: "Site \<Rightarrow> string \<Rightarrow> bool \<Rightarrow> 'a os_scheme \<Rightarrow> (error + string) \<times> 'a os_scheme" where
  "resolveEditableFile site file preferExisting w =
     (let name = TrimSpace (ToLower file) in
      if name \<noteq> [] then (if name \<in> set editableFiles then Inr name else Inl (sitesE ErrInvalidFile), w)
      else case (if preferExisting then first_existing (site_RootPath site) (fileCandidatesByRuntime (site_Runtime site)) w
                 else (None, w)) of
        (Some candidate, w) \<Rightarrow> (Inr candidate, w)
      | (None, w) \<Rightarrow> (Inr (defaultEditableFile (site_Runtime site)), w))"

definition sites_GetSiteContent ::
  "string \<Rightarrow> string \<Rightarrow> 'a jobs_scheme \<Rightarrow> (error + Site \<times> string \<times> string) \<times> 'a jobs_scheme" where
  "sites_GetSiteContent i file w =
     (case repo_GetSiteByID i w of
        Inl e \<Rightarrow> (Inl e, w)
      | Inr site \<Rightarrow>
          (case resolveEditableFile site file True w of
             (Inl e, w) \<Rightarrow> (Inl e, w)
           | (Inr name, w) \<Rightarrow>
               (case ReadFile (PathJoin [site_RootPath site, name]) w of
                  (Inl e, w) \<Rightarrow> (Inl (if Is_NotExist e then storeE ErrNotFound else Errorf ''read file: '' e []), w)
                | (Inr b, w) \<Rightarrow> (Inr (site, name, b), w))))"

definition sites_UpdateSiteContent ::
  "string \<Rightarrow> string \<Rightarrow> string \<Rightarrow> 'a jobs_scheme \<Rightarrow> (error + Site \<times> string \<times> nat) \<times> 'a jobs_scheme" where
  "sites_UpdateSiteContent i file content w =
     (case repo_GetSiteByID i w of
        Inl e \<Rightarrow> (Inl e, w)
      | Inr site \<Rightarrow>
          if length content > maxSiteContentBytes then (Inl (sitesE ErrContentTooLong), w)
          else (case resolveEditableFile site file False w of
             (Inl e, w) \<Rightarrow> (Inl e, w)
           | (Inr name, w) \<Rightarrow>
               (case MkdirAll (site_RootPath site) w of
                  (Some e, w) \<Rightarrow> (Inl (Errorf ''ensure site root: '' e []), w)
                | (None, w) \<Rightarrow>
                    (case WriteFile (PathJoin [site_RootPath site, name]) content w of
                       (Some e, w) \<Rightarrow> (Inl (Errorf ''write file: '' e []), w)
                     | (None, w) \<Rightarrow> (Inr (site, name, length content), w)))))"

subsection \<open>Files and directories\<close>

text \<open>
  The path of a normalized relative path under the site's root, and the second containment check.
\<close>

definition site_path :: "Site \<Rightarrow> string \<Rightarrow> error + string" where
  "site_path site cleanPath =
     (let fullPath = PathJoin [site_RootPath site, cleanPath] in
      if \<not> isWithinRoot (site_RootPath site) fullPath then Inl (sitesE ErrInvalidPath) else Inr fullPath)"

text \<open>What most file operations begin with: the site, the normalized path, the path under the root.\<close>

definition site_target :: "string \<Rightarrow> string \<Rightarrow> bool \<Rightarrow> 'a jobs_scheme \<Rightarrow> error + Site \<times> string \<times> string" where
  "site_target i relPath allowEmpty w =
     (case repo_GetSiteByID i w of
        Inl e \<Rightarrow> Inl e
      | Inr site \<Rightarrow>
          (case normalizeRelativePath relPath allowEmpty of
             Inl e \<Rightarrow> Inl e
           | Inr cleanPath \<Rightarrow>
               (case site_path site cleanPath of
                  Inl e \<Rightarrow> Inl e
                | Inr fullPath \<Rightarrow> Inr (site, cleanPath, fullPath))))"

record SiteFileEntry =
  sf_Name :: string
  sf_Path :: string
  sf_Type :: string
  sf_Size :: nat

definition is_dir :: "node \<Rightarrow> bool" where
  "is_dir n \<longleftrightarrow> n = Directory"

fun node_size :: "node \<Rightarrow> nat" where
  "node_size (File c) = length c"
| "node_size (Symlink t) = length t"
| "node_size Directory = 0"

text \<open>
  Directories first, each part by lower-case name.  (Names that differ in case only may come in either
  order, \<open>sort.Slice\<close> being unstable; here they keep the directory's order.)
\<close>

definition sort_entries :: "(string \<times> node) list \<Rightarrow> (string \<times> node) list" where
  "sort_entries es = sort_key (\<lambda>(n, nd). \<not> is_dir nd) (sort_key (\<lambda>(n, nd). ToLower n) es)"

fun file_items :: "string \<Rightarrow> string \<Rightarrow> (string \<times> node) list \<Rightarrow> 'a os_scheme \<Rightarrow> SiteFileEntry list \<times> 'a os_scheme" where
  "file_items targetDir relDir [] w = ([], w)"
| "file_items targetDir relDir ((name, nd) # es) w =
     (case Lstat (targetDir @ slash # name) w of
        (Inl _, w) \<Rightarrow> file_items targetDir relDir es w
      | (Inr info, w) \<Rightarrow>
          (case file_items targetDir relDir es w of
             (items, w) \<Rightarrow>
               (\<lparr>sf_Name = name, sf_Path = (if relDir \<noteq> [] then PathJoin [relDir, name] else name),
                 sf_Type = (if is_dir nd then ''dir'' else ''file''),
                 sf_Size = (if is_dir nd then 0 else node_size info)\<rparr> # items, w)))"

definition sites_ListSiteFiles ::
  "string \<Rightarrow> string \<Rightarrow> int \<Rightarrow> 'a jobs_scheme \<Rightarrow> (error + Site \<times> string \<times> SiteFileEntry list) \<times> 'a jobs_scheme" where
  "sites_ListSiteFiles i dir limit w =
     (case site_target i dir True w of
        Inl e \<Rightarrow> (Inl e, w)
      | Inr (site, relDir, targetDir) \<Rightarrow>
          (case ReadDir targetDir w of
             (Inl e, w) \<Rightarrow> (Inl (if Is_NotExist e then storeE ErrNotFound else Errorf ''read directory: '' e []), w)
           | (Inr entries, w) \<Rightarrow>
               (let limit = (if limit \<le> 0 \<or> limit > 500 then 200 else limit) in
                case file_items targetDir relDir (take (nat limit) (sort_entries entries)) w of
                  (items, w) \<Rightarrow> (Inr (site, relDir, items), w))))"

definition sites_UploadSiteFile ::
  "string \<Rightarrow> string \<Rightarrow> string \<Rightarrow> 'a jobs_scheme \<Rightarrow> (error + Site \<times> string \<times> nat) \<times> 'a jobs_scheme" where
  "sites_UploadSiteFile i relPath contentBase64 w =
     (case repo_GetSiteByID i w of
        Inl e \<Rightarrow> (Inl e, w)
      | Inr site \<Rightarrow>
          (case normalizeRelativePath relPath False of
             Inl e \<Rightarrow> (Inl e, w)
           | Inr cleanPath \<Rightarrow>
               (case Std_DecodeString (TrimSpace contentBase64) of
                  None \<Rightarrow> (Inl (sitesE ErrInvalidBase64), w)
                | Some content \<Rightarrow>
                    if length content > maxSiteUploadBytes then (Inl (sitesE ErrFileTooLarge), w)
                    else (case site_path site cleanPath of
                       Inl e \<Rightarrow> (Inl e, w)
                     | Inr fullPath \<Rightarrow>
                         (case Stat fullPath w of
                            (st, w) \<Rightarrow>
                              if st = Inr Directory then (Inl (sitesE ErrInvalidPath), w)
                              else (case MkdirAll (Dir_of fullPath) w of
                                 (Some e, w) \<Rightarrow> (Inl (Errorf ''ensure parent dir: '' e []), w)
                               | (None, w) \<Rightarrow>
                                   (case WriteFile fullPath content w of
                                      (Some e, w) \<Rightarrow> (Inl (Errorf ''write file: '' e []), w)
                                    | (None, w) \<Rightarrow> (Inr (site, cleanPath, length content), w)))))))) "

definition sites_DeleteSiteFile ::
  "string \<Rightarrow> string \<Rightarrow> 'a jobs_scheme \<Rightarrow> (error + Site \<times> string) \<times> 'a jobs_scheme" where
  "sites_DeleteSiteFile i relPath w =
     (case site_target i relPath False w of
        Inl e \<Rightarrow> (Inl e, w)
      | Inr (site, cleanPath, fullPath) \<Rightarrow>
          (case Stat fullPath w of
             (Inl e, w) \<Rightarrow> (Inl (if Is_NotExist e then storeE ErrNotFound else Errorf ''stat file: '' e []), w)
           | (Inr info, w) \<Rightarrow>
               if is_dir info then (Inl (sitesE ErrInvalidPath), w)
               else (case Remove fullPath w of
                  (Some e, w) \<Rightarrow> (Inl (Errorf ''delete file: '' e []), w)
                | (None, w) \<Rightarrow> (Inr (site, cleanPath), w))))"

definition sites_DownloadSiteFile ::
  "string \<Rightarrow> string \<Rightarrow> 'a jobs_scheme \<Rightarrow> (error + Site \<times> string \<times> string) \<times> 'a jobs_scheme" where
  "sites_DownloadSiteFile i relPath w =
     (case site_target i relPath False w of
        Inl e \<Rightarrow> (Inl e, w)
      | Inr (site, cleanPath, fullPath) \<Rightarrow>
          (case Stat fullPath w of
             (Inl e, w) \<Rightarrow> (Inl (if Is_NotExist e then storeE ErrNotFound else Errorf ''stat file: '' e []), w)
           | (Inr info, w) \<Rightarrow>
               if is_dir info then (Inl (sitesE ErrInvalidPath), w)
               else (case ReadFile fullPath w of
                  (Inl e, w) \<Rightarrow> (Inl (Errorf ''read file: '' e []), w)
                | (Inr content, w) \<Rightarrow> (Inr (site, cleanPath, content), w))))"

definition sites_CreateSiteDirectory ::
  "string \<Rightarrow> string \<Rightarrow> 'a jobs_scheme \<Rightarrow> (error + Site \<times> string) \<times> 'a jobs_scheme" where
  "sites_CreateSiteDirectory i relPath w =
     (case site_target i relPath False w of
        Inl e \<Rightarrow> (Inl e, w)
      | Inr (site, cleanPath, fullPath) \<Rightarrow>
          (case MkdirAll fullPath w of
             (Some e, w) \<Rightarrow> (Inl (Errorf ''create directory: '' e []), w)
           | (None, w) \<Rightarrow> (Inr (site, cleanPath), w)))"

definition sites_DeleteSiteDirectory ::
  "string \<Rightarrow> string \<Rightarrow> bool \<Rightarrow> 'a jobs_scheme \<Rightarrow> (error + Site \<times> string) \<times> 'a jobs_scheme" where
  "sites_DeleteSiteDirectory i relPath recursive w =
     (case site_target i relPath False w of
        Inl e \<Rightarrow> (Inl e, w)
      | Inr (site, cleanPath, fullPath) \<Rightarrow>
          (case Stat fullPath w of
             (Inl e, w) \<Rightarrow> (Inl (if Is_NotExist e then storeE ErrNotFound else Errorf ''stat directory: '' e []), w)
           | (Inr info, w) \<Rightarrow>
               if \<not> is_dir info then (Inl (sitesE ErrNotDirectory), w)
               else if recursive then
                 (case RemoveAll fullPath w of
                    (Some e, w) \<Rightarrow> (Inl (Errorf ''delete directory: '' e []), w)
                  | (None, w) \<Rightarrow> (Inr (site, cleanPath), w))
               else
                 (case Remove fullPath w of
                    (Some e, w) \<Rightarrow>
                      (Inl (if Is_NotExist e then storeE ErrNotFound
                            else if Is_Permission e then Errorf ''delete directory: '' e []
                            else sitesE ErrDirNotEmpty), w)
                  | (None, w) \<Rightarrow> (Inr (site, cleanPath), w))))"

subsection \<open>The backup of a site's content\<close>

type_synonym zip_members = "(string \<times> string option) list"

text \<open>
  \<open>filepath.Walk\<close> with the callback of \<open>zipDirectory\<close>: directories in the order of their names,
  symbolic links neither followed nor stored.  The fuel bounds the depth.
\<close>

fun zip_walk :: "nat \<Rightarrow> string \<Rightarrow> string \<Rightarrow> node \<Rightarrow> 'a os_scheme \<Rightarrow> (error + zip_members) \<times> 'a os_scheme"
and zip_names :: "nat \<Rightarrow> string \<Rightarrow> string \<Rightarrow> string list \<Rightarrow> 'a os_scheme \<Rightarrow> (error + zip_members) \<times> 'a os_scheme"
where
  "zip_walk n p rel (Symlink _) w = (Inr [], w)"
| "zip_walk n p rel (File _) w =
     (if rel = [] then (Inr [], w)
      else case ReadFile p w of
        (Inl e, w) \<Rightarrow> (Inl e, w)
      | (Inr content, w) \<Rightarrow> (Inr [(rel, Some content)], w))"
| "zip_walk 0 p rel Directory w = (Inr [], w)"
| "zip_walk (Suc n) p rel Directory w =
     (case ReadDir p w of
        (Inl e, w) \<Rightarrow> (Inl e, w)
      | (Inr entries, w) \<Rightarrow>
          (case zip_names n p rel (map fst entries) w of
             (Inl e, w) \<Rightarrow> (Inl e, w)
           | (Inr ms, w) \<Rightarrow> (Inr ((if rel = [] then [] else [(rel @ [slash], None)]) @ ms), w)))"
| "zip_names n p rel [] w = (Inr [], w)"
| "zip_names n p rel (name # names) w =
     (case Lstat (PathJoin [p, name]) w of
        (Inl e, w) \<Rightarrow> (Inl e, w)
      | (Inr info, w) \<Rightarrow>
          (case zip_walk n (PathJoin [p, name]) (if rel = [] then name else rel @ slash # name) info w of
             (Inl e, w) \<Rightarrow> (Inl e, w)
           | (Inr ms, w) \<Rightarrow>
               (case zip_names n p rel names w of
                  (Inl e, w) \<Rightarrow> (Inl e, w)
                | (Inr ms', w) \<Rightarrow> (Inr (ms @ ms'), w))))"

text \<open>The depth of the file system, one more than any path in it has components.\<close>

definition fs_depth :: "fs \<Rightarrow> nat" where
  "fs_depth m = Suc (fold (\<lambda>(q, _) n. max (length q) n) m 0)"

definition zipDirectory ::
  "(zip_members \<Rightarrow> string) \<Rightarrow> string \<Rightarrow> string \<Rightarrow> 'a os_scheme \<Rightarrow> error option \<times> 'a os_scheme" where
  "zipDirectory zip_bytes rootPath targetZip w =
     (case Stat rootPath w of
        (Inl e, w) \<Rightarrow> (Some (if Is_NotExist e then storeE ErrNotFound else Errorf ''stat site root: '' e []), w)
      | (Inr rootInfo, w) \<Rightarrow>
          if \<not> is_dir rootInfo then (Some (sitesE ErrNotDirectory), w)
          else (case OpenTruncate targetZip w of
             (Inl e, w) \<Rightarrow> (Some (Errorf ''create zip file: '' e []), w)
           | (Inr q, w) \<Rightarrow>
               (case Lstat rootPath w of
                  (Inl e, w) \<Rightarrow> (Some (Errorf ''zip site content: '' e []), w)
                | (Inr info, w) \<Rightarrow>
                    (case zip_walk (fs_depth (os_fs w)) rootPath [] info w of
                       (Inl e, w) \<Rightarrow> (Some (Errorf ''zip site content: '' e []), w)
                     | (Inr members, w) \<Rightarrow>
                         (case write_at targetZip q (zip_bytes members) w of
                            (Some e, w) \<Rightarrow> (Some (Errorf ''close zip writer: '' e []), w)
                          | (None, w) \<Rightarrow> (None, w))))))"

record SiteContentBackupResult =
  sb_File :: string
  sb_CreatedAt :: int
  sb_Size :: nat

definition sites_BackupSiteContent ::
  "(zip_members \<Rightarrow> string) \<Rightarrow> string \<Rightarrow> bool \<Rightarrow> string \<Rightarrow> 'a jobs_scheme \<Rightarrow>
    (error + Site \<times> SiteContentBackupResult) \<times> 'a jobs_scheme" where
  "sites_BackupSiteContent zip_bytes backupDir apply_flag i w =
     (case repo_GetSiteByID i w of
        Inl e \<Rightarrow> (Inl e, w)
      | Inr site \<Rightarrow>
          if TrimSpace backupDir = [] then (Inl (NewError ''backup dir is empty''), w)
          else (case time_Now w of
             (now, w) \<Rightarrow>
               (let dom = sanitizeDomainForFile (site_Domain site);
                    fileName = ''site_content_'' @ dom @ ''_'' @ Format_stamp now @ ''.zip'';
                    targetDir = PathJoin [backupDir, ''sites'', dom];
                    target = PathJoin [targetDir, fileName];
                    tmp = target @ ''.tmp'' in
                if \<not> apply_flag then (Inr (site, \<lparr>sb_File = target, sb_CreatedAt = now, sb_Size = 0\<rparr>), w)
                else case MkdirAll targetDir w of
                  (Some e, w) \<Rightarrow> (Inl (Errorf ''create backup dir: '' e []), w)
                | (None, w) \<Rightarrow>
                    (case zipDirectory zip_bytes (site_RootPath site) tmp w of
                       (Some e, w) \<Rightarrow> (Inl e, snd (Remove tmp w))
                     | (None, w) \<Rightarrow>
                         (case Rename tmp target w of
                            (Some e, w) \<Rightarrow> (Inl (Errorf ''move backup file: '' e []), snd (Remove tmp w))
                          | (None, w) \<Rightarrow>
                              (case Stat target w of
                                 (Inl e, w) \<Rightarrow> (Inl (Errorf ''stat backup file: '' e []), w)
                               | (Inr info, w) \<Rightarrow>
                                   (Inr (site, \<lparr>sb_File = target, sb_CreatedAt = now, sb_Size = node_size info\<rparr>), w)))))))"

subsection \<open>Where the file operations reach\<close>

text \<open>
  In a file system without symbolic links a path resolves to its components.  (With a link inside the
  root the checks on the path say nothing about where it leads; that case is outside this part.)
\<close>

definition no_links :: "fs \<Rightarrow> bool" where
  "no_links m \<longleftrightarrow> (\<forall>q t. fs_get m q \<noteq> Some (Symlink t))"

lemma walk_no_links:
  "no_links m \<Longrightarrow> list_all good_seg ss \<Longrightarrow> walk n m f at ss = Inr q \<Longrightarrow> q = at @ ss"
proof (induction ss arbitrary: at)
  case (Cons c cs)
  have c: "c \<noteq> []" "c \<noteq> ''.''" "c \<noteq> ''..''" using Cons.prems(2) by (auto simp: good_seg_def)
  from Cons.prems(1) have "fs_get m (at @ [c]) \<noteq> Some (Symlink t)" for t by (simp add: no_links_def)
  with Cons.prems(3) c have "cs = [] \<and> q = at @ [c] \<or> walk n m f (at @ [c]) cs = Inr q"
    by (auto simp: walk.simps(2) split: option.splits node.splits if_splits)
  with Cons.IH [of "at @ [c]"] Cons.prems(1,2) show ?case by auto
qed simp

lemma Split_abs_path: "list_all good_seg ss \<Longrightarrow> ss \<noteq> [] \<Longrightarrow> Split (abs_path ss) slash = [] # ss"
  using Split_Join [of ss slash] good_segs_no_slash [of ss] by (simp add: abs_path_def)

lemma resolve_no_links:
  assumes "no_links (os_fs w)" "list_all good_seg ss" "ss \<noteq> []" "resolve f (abs_path ss) w = Inr q"
  shows "q = ss"
proof -
  have "abs_path ss \<noteq> []" by (simp add: abs_path_def)
  then have "walk 40 (os_fs w) f [] ss = Inr q"
    using assms(4) by (simp add: resolve_def Split_abs_path [OF assms(2,3)] walk_skip)
  from walk_no_links [OF assms(1,2) this] show ?thesis by simp
qed

lemma resolve_calls [simp]: "resolve f p (w\<lparr>os_calls := n\<rparr>) = resolve f p w"
  by (simp add: resolve_def)

definition confined :: "string list \<Rightarrow> 'a os_scheme \<Rightarrow> 'a os_scheme \<Rightarrow> bool" where
  "confined root w w' \<longleftrightarrow>
     (\<forall>q. strict_prefix root q \<or> fs_get (os_fs w') q = fs_get (os_fs w) q
        \<or> prefix q root \<and> fs_get (os_fs w) q = None \<and> fs_get (os_fs w') q = Some Directory)"

lemma confined_refl [simp]: "confined root w w"
  by (simp add: confined_def)

lemma confined_trans: "confined root w w1 \<Longrightarrow> confined root w1 w2 \<Longrightarrow> confined root w w2"
  unfolding confined_def by (metis option.distinct(1))

lemma confined_same: "os_fs w' = os_fs w \<Longrightarrow> confined root w w'"
  by (simp add: confined_def)

text \<open>One entry below the root is set or dropped.\<close>

lemma confined_at:
  "cs \<noteq> [] \<Longrightarrow> (\<And>q. \<not> prefix (root @ cs) q \<Longrightarrow> fs_get (os_fs w') q = fs_get (os_fs w) q) \<Longrightarrow> confined root w w'"
  unfolding confined_def by (metis append.right_neutral prefixI same_append_eq prefix_order.le_less_trans prefix_order.le_neq_trans prefix_order.less_le_trans)

lemma WriteFile_no_links:
  assumes "no_links (os_fs w)" "list_all good_seg ss" "ss \<noteq> []" "WriteFile (abs_path ss) x w = (e, w')"
  shows "q \<noteq> ss \<Longrightarrow> fsg w' q = fsg w q" and "e = None \<Longrightarrow> fsg w' ss = Some (File x)" and "no_links (os_fs w')"
proof -
  have "resolve True (abs_path ss) w = Inr q \<Longrightarrow> q = ss" for q using resolve_no_links [OF assms(1-3)] .
  then show "q \<noteq> ss \<Longrightarrow> fsg w' q = fsg w q" "e = None \<Longrightarrow> fsg w' ss = Some (File x)" "no_links (os_fs w')"
    using assms(1,3,4)
    by (auto simp: WriteFile_def write_at_def sys_def fs_store_def fs_get_put no_links_def
        split: option.splits sum.splits if_splits)
qed

lemma Remove_no_links:
  assumes "no_links (os_fs w)" "list_all good_seg ss" "ss \<noteq> []" "Remove (abs_path ss) w = (e, w')"
  shows "q \<noteq> ss \<Longrightarrow> fsg w' q = fsg w q"
proof -
  have "resolve False (abs_path ss) w = Inr q \<Longrightarrow> q = ss" for q using resolve_no_links [OF assms(1-3)] .
  then show "q \<noteq> ss \<Longrightarrow> fsg w' q = fsg w q"
    using assms(3,4) by (auto simp: Remove_def sys_def fs_get_del split: option.splits sum.splits if_splits)
qed

lemma fs_get_drop_tree: "ss \<noteq> [] \<Longrightarrow> fs_get (fs_drop_tree ss m) q = (if prefix ss q then None else fs_get m q)"
proof -
  assume ss: "ss \<noteq> []"
  have "mget (filter (\<lambda>(p, n). \<not> prefix ss p) m) q = (if prefix ss q then None else mget m q)"
    by (induction m) auto
  with ss show ?thesis by (auto simp: fs_get_def fs_drop_tree_def)
qed

lemma RemoveAll_no_links:
  assumes "no_links (os_fs w)" "list_all good_seg ss" "ss \<noteq> []" "RemoveAll (abs_path ss) w = (e, w')"
  shows "\<not> prefix ss q \<Longrightarrow> fsg w' q = fsg w q"
proof -
  have "resolve False (abs_path ss) w = Inr q \<Longrightarrow> q = ss" for q using resolve_no_links [OF assms(1-3)] .
  then show "\<not> prefix ss q \<Longrightarrow> fsg w' q = fsg w q"
    using assms(3,4) by (auto simp: RemoveAll_def sys_def fs_get_drop_tree split: option.splits sum.splits if_splits)
qed

lemma mkdir_each_no_links:
  "no_links (os_fs w) \<Longrightarrow> list_all good_seg ss \<Longrightarrow> \<forall>cs\<in>set css. prefix cs ([] # ss) \<Longrightarrow>
    mkdir_each p css w = (e, w') \<Longrightarrow>
    (\<forall>q. fsg w' q = fsg w q \<or> prefix q ss \<and> fsg w q = None \<and> fsg w' q = Some Directory) \<and> no_links (os_fs w')"
proof (induction css arbitrary: w)
  case (Cons cs css)
  have at: "q = tl cs \<and> prefix q ss" if "walk 40 (os_fs w) True [] cs = Inr q" for q
  proof (cases cs)
    case (Cons x qs)
    with Cons.prems(3) have x: "x = []" "prefix qs ss" by auto
    then have "list_all good_seg qs" using Cons.prems(2) by (auto simp: prefix_def)
    from walk_no_links [OF Cons.prems(1) this, of 40 True "[]" q] that Cons x
    show ?thesis by (simp add: walk_skip)
  qed (use that in simp)
  show ?case
  proof (cases "walk 40 (os_fs w) True [] cs")
    case (Inl a)
    then show ?thesis using Cons.prems by auto
  next
    case (Inr q)
    note q = at [OF Inr]
    show ?thesis
    proof (cases "fsg w q = None \<and> os_fault w (os_calls w) = None")
      case True
      let ?v = "fs_store q Directory (w\<lparr>os_calls := Suc (os_calls w)\<rparr>)"
      have "q \<noteq> []" using True by (auto simp: fs_get_def)
      then have v: "fsg ?v = (fsg w)(q := Some Directory)" by (auto simp: fs_store_def fs_get_put)
      then have "no_links (os_fs ?v)" using Cons.prems(1) by (auto simp: no_links_def)
      moreover have "mkdir_each p css ?v = (e, w')" using Cons.prems(4) Inr True by (simp add: sys_def)
      ultimately show ?thesis using Cons.IH [of ?v] Cons.prems(2,3) v q True by (auto simp: fun_upd_def) metis+
    next
      case False
      then show ?thesis
        using Cons.IH [of w] Cons.prems Inr
        by (auto simp: sys_def split: option.splits node.splits)
    qed
  qed
qed auto

lemma MkdirAll_no_links:
  assumes "no_links (os_fs w)" "list_all good_seg ss" "ss \<noteq> []" "MkdirAll (abs_path ss) w = (e, w')"
  shows "(\<forall>q. fsg w' q = fsg w q \<or> prefix q ss \<and> fsg w q = None \<and> fsg w' q = Some Directory) \<and> no_links (os_fs w')"
proof -
  have "abs_path ss \<noteq> []" by (simp add: abs_path_def)
  then have "mkdir_each (abs_path ss) (prefixes ([] # ss)) w = (e, w')"
    using assms(4) Split_abs_path [OF assms(2,3)] by (simp add: MkdirAll_def del: prefixes.simps)
  then show ?thesis by (intro mkdir_each_no_links [OF assms(1,2)]) (auto simp del: prefixes.simps)
qed

lemma MkdirAll_confined:
  assumes "no_links (os_fs w)" "list_all good_seg (root @ cs)" "root \<noteq> []" "MkdirAll (abs_path (root @ cs)) w = (e, w')"
  shows "confined root w w'" "no_links (os_fs w')"
proof -
  have m: "(\<forall>q. fsg w' q = fsg w q \<or> prefix q (root @ cs) \<and> fsg w q = None \<and> fsg w' q = Some Directory) \<and> no_links (os_fs w')"
    by (rule MkdirAll_no_links [OF assms(1,2) _ assms(4)]) (simp add: assms(3))
  moreover have "prefix q (root @ cs) \<Longrightarrow> strict_prefix root q \<or> prefix q root" for q
    by (metis prefix_same_cases prefixI prefix_order.le_neq_trans prefix_order.refl)
  ultimately show "confined root w w'" "no_links (os_fs w')" by (auto simp: confined_def)
qed
lemma Dir_of_abs_path:
  assumes "list_all good_seg (ss @ [c])"
  shows "Dir_of (abs_path (ss @ [c])) = abs_path ss"
proof -
  let ?pre = "if ss = [] then [] else abs_path ss"
  have c: "slash \<notin> set c" using assms by (simp add: good_seg_def)
  have g: "list_all good_seg ss" using assms by simp
  have split: "abs_path (ss @ [c]) = ?pre @ slash # c" by (simp add: abs_path_def Join_append)
  have "dropWhile (\<lambda>x. x \<noteq> slash) (rev (?pre @ slash # c)) = slash # rev ?pre"
    using dropWhile_append2 [of "rev c" "\<lambda>x. x \<noteq> slash" "slash # rev ?pre"] c by fastforce
  then have dir: "Dir_of (abs_path (ss @ [c])) = Clean (?pre @ [slash])"
    by (simp add: Dir_of_def split)
  show ?thesis
  proof (cases "ss = []")
    case True
    have "Clean [slash] = abs_path []" by code_simp
    with dir True show ?thesis by simp
  next
    case False
    have abs: "IsAbs (abs_path ss @ [slash])" by (simp add: abs_path_def IsAbs_def)
    then have "segs (abs_path ss @ [slash]) = segs (abs_path ss)"
      by (simp add: segs_def Split_append_split clean_segs_append)
    then show ?thesis using False abs g by (simp add: dir Clean_abs)
  qed
qed

lemma reads_fs:
  "Stat p w = (r1, w') \<Longrightarrow> os_fs w' = os_fs w" "Lstat p w = (r1, w') \<Longrightarrow> os_fs w' = os_fs w"
  "ReadFile p w = (r2, w') \<Longrightarrow> os_fs w' = os_fs w" "ReadDir p w = (r3, w') \<Longrightarrow> os_fs w' = os_fs w"
  by (auto simp: Stat_def Lstat_def ReadFile_def ReadDir_def sys_def split: option.splits)

lemma file_items_fs: "file_items d rel es w = (items, w') \<Longrightarrow> os_fs w' = os_fs w"
proof (induction es arbitrary: w items w')
  case (Cons e es)
  obtain name nd where e: "e = (name, nd)" by force
  obtain r w1 where l: "Lstat (d @ slash # name) w = (r, w1)" by fastforce
  obtain its w2 where i: "file_items d rel es w1 = (its, w2)" by fastforce
  have "w' = w2" using Cons.prems l i e by (auto split: sum.splits)
  then show ?case using Cons.IH [OF i] reads_fs(2) [OF l] by simp
qed simp

lemma first_existing_fs: "first_existing root cs w = (r, w') \<Longrightarrow> os_fs w' = os_fs w"
proof (induction cs arbitrary: w r w')
  case (Cons c cs)
  obtain st w1 where st: "Stat (PathJoin [root, c]) w = (st, w1)" by fastforce
  have "os_fs w1 = os_fs w" using reads_fs(1) [OF st] .
  with Cons.IH [of w1 r w'] Cons.prems st show ?case by (auto split: sum.splits)
qed simp

lemma resolveEditableFile_fs: "resolveEditableFile site file e w = (r, w') \<Longrightarrow> os_fs w' = os_fs w"
proof -
  assume a: "resolveEditableFile site file e w = (r, w')"
  obtain c w1 where f: "first_existing (site_RootPath site) (fileCandidatesByRuntime (site_Runtime site)) w = (c, w1)"
    by fastforce
  have "w' = w \<or> w' = w1" using a f by (auto simp: resolveEditableFile_def Let_def split: option.splits if_splits)
  with first_existing_fs [OF f] show ?thesis by auto
qed

text \<open>The target of a non-empty relative path, as components.\<close>

lemma site_path_segs:
  assumes "isValidRootPath (site_RootPath site)" "normalizeRelativePath rel False = Inr clean"
  obtains cs c where "site_path site clean = Inr (abs_path (segs (site_RootPath site) @ cs @ [c]))"
    "list_all good_seg (segs (site_RootPath site) @ cs @ [c])"
proof -
  let ?root = "site_RootPath site"
  have root: "IsAbs ?root" "segs ?root \<noteq> []" using assms(1) by (auto simp: isValidRootPath_iff)
  obtain ss where ss: "ss \<noteq> []" "list_all good_seg ss" "clean = Join ss [slash]"
    using normalizeRelativePath_ok [OF assms(2)] by blast
  let ?p = "abs_path (segs ?root @ ss)"
  have g: "list_all good_seg (segs ?root @ ss)" using segs_good [OF root(1)] ss(2) by simp
  have j: "PathJoin [?root, clean] = ?p" using PathJoin_abs [OF root(1) ss(1,2)] by (simp add: ss(3))
  have "isWithinRoot ?root ?p" using isWithinRoot_iff [OF root(1) _ root(2), of ?p] g by simp
  then have "site_path site clean = Inr ?p" by (simp add: site_path_def Let_def j)
  moreover obtain cs c where "ss = cs @ [c]" using ss(1) by (meson rev_exhaust)
  ultimately show ?thesis using that g by simp
qed

lemma site_target_segs:
  assumes "site_target i rel False w = Inr (site, clean, full)" "isValidRootPath (site_RootPath site)"
  obtains cs c where "full = abs_path (segs (site_RootPath site) @ cs @ [c])"
    "list_all good_seg (segs (site_RootPath site) @ cs @ [c])" "mget (Sites (rp_data w)) i = Some site"
proof -
  have n: "normalizeRelativePath rel False = Inr clean" and p: "site_path site clean = Inr full"
    and s: "mget (Sites (rp_data w)) i = Some site"
    using assms(1) by (auto simp: site_target_def repo_GetSiteByID_def split: sum.splits option.splits)
  obtain cs c where "site_path site clean = Inr (abs_path (segs (site_RootPath site) @ cs @ [c]))"
    "list_all good_seg (segs (site_RootPath site) @ cs @ [c])" using site_path_segs [OF assms(2) n] .
  moreover from this(1) p have "full = abs_path (segs (site_RootPath site) @ cs @ [c])" by simp
  ultimately show ?thesis using s by (intro that)
qed

lemma segs_root: "isValidRootPath r \<Longrightarrow> segs r \<noteq> []"
  by (simp add: isValidRootPath_iff)

lemma Upload_confined:
  assumes "no_links (os_fs w)" "mget (Sites (rp_data w)) i = Some site" "isValidRootPath (site_RootPath site)"
  shows "confined (segs (site_RootPath site)) w (snd (sites_UploadSiteFile i rel b64 w))"
proof (cases "normalizeRelativePath rel False")
  case (Inl e)
  then show ?thesis using assms(2) by (simp add: sites_UploadSiteFile_def repo_GetSiteByID_def)
next
  case (Inr clean)
  let ?root = "segs (site_RootPath site)"
  obtain cs c where p: "site_path site clean = Inr (abs_path (?root @ cs @ [c]))" and g: "list_all good_seg (?root @ cs @ [c])"
    using site_path_segs [OF assms(3) Inr] .
  let ?p = "abs_path (?root @ cs @ [c])"
  have dir: "Dir_of ?p = abs_path (?root @ cs)" using Dir_of_abs_path [of "?root @ cs" c] g by simp
  obtain st w1 where w1: "Stat ?p w = (st, w1)" by fastforce
  obtain e w2 where w2: "MkdirAll (abs_path (?root @ cs)) w1 = (e, w2)" by fastforce
  have f1: "os_fs w1 = os_fs w" using reads_fs(1) [OF w1] .
  have g': "list_all good_seg (?root @ cs)" using g by simp
  note m = MkdirAll_confined [OF assms(1) [folded f1] g' segs_root [OF assms(3)] w2]
  have c2: "confined ?root w w2" using confined_trans [OF confined_same [OF f1] m(1)] .
  have c3: "confined ?root w w3" if "WriteFile ?p x w2 = (e3, w3)" for x e3 w3
  proof (rule confined_trans [OF c2 confined_at])
    show "\<not> prefix (?root @ cs @ [c]) q \<Longrightarrow> fsg w3 q = fsg w2 q" for q
      by (rule WriteFile_no_links(1) [OF m(2) g _ that]) auto
  qed simp
  show ?thesis
    using assms(2) Inr p w1 w2 dir c2 c3 confined_same [OF f1]
    by (auto simp: sites_UploadSiteFile_def repo_GetSiteByID_def split: option.splits prod.splits)
qed

lemma site_target_inside:
  assumes "mget (Sites (rp_data w)) i = Some site" "isValidRootPath (site_RootPath site)"
    and "site_target i rel False w = Inr (site', clean, full)"
  obtains cs where "full = abs_path (segs (site_RootPath site) @ cs)" "cs \<noteq> []"
    "list_all good_seg (segs (site_RootPath site) @ cs)"
proof -
  have "site' = site" using assms(1,3) by (auto simp: site_target_def repo_GetSiteByID_def split: sum.splits)
  with assms site_target_segs [of i rel w site' clean full] that show ?thesis by (metis append_is_Nil_conv not_Cons_self2)
qed

lemma Remove_confined:
  assumes "no_links (os_fs w)" "list_all good_seg (root @ cs)" "cs \<noteq> []"
  shows "Remove (abs_path (root @ cs)) w = (e, w') \<Longrightarrow> confined root w w'"
    and "RemoveAll (abs_path (root @ cs)) w = (e, w') \<Longrightarrow> confined root w w'"
    and "WriteFile (abs_path (root @ cs)) x w = (e, w') \<Longrightarrow> confined root w w'"
  using confined_at [OF assms(3), of root w' w] Remove_no_links [OF assms(1,2)] RemoveAll_no_links [OF assms(1,2)]
    WriteFile_no_links(1) [OF assms(1,2)] assms(3) by (metis append_is_Nil_conv prefix_order.refl)+

lemma DeleteFile_confined:
  assumes "no_links (os_fs w)" "mget (Sites (rp_data w)) i = Some site" "isValidRootPath (site_RootPath site)"
  shows "confined (segs (site_RootPath site)) w (snd (sites_DeleteSiteFile i rel w))"
proof (cases "site_target i rel False w")
  case (Inl e)
  then show ?thesis by (simp add: sites_DeleteSiteFile_def)
next
  case (Inr t)
  obtain site' clean full where t: "site_target i rel False w = Inr (site', clean, full)" using Inr by (cases t) auto
  obtain cs where p: "full = abs_path (segs (site_RootPath site) @ cs)" and cs: "cs \<noteq> []"
    and g: "list_all good_seg (segs (site_RootPath site) @ cs)" using site_target_inside [OF assms(2,3) t] .
  obtain st w1 where w1: "Stat full w = (st, w1)" by fastforce
  obtain e w2 where w2: "Remove full w1 = (e, w2)" by fastforce
  have f1: "os_fs w1 = os_fs w" using reads_fs(1) [OF w1] .
  have "confined (segs (site_RootPath site)) w1 w2"
    using Remove_confined(1) [OF _ g cs] w2 assms(1) f1 p by metis
  then have "confined (segs (site_RootPath site)) w w2" using confined_trans [OF confined_same [OF f1]] by blast
  then show ?thesis using confined_same [OF f1] t w1 w2
    by (auto simp: sites_DeleteSiteFile_def split: option.splits sum.splits)
qed

lemma DeleteDirectory_confined:
  assumes "no_links (os_fs w)" "mget (Sites (rp_data w)) i = Some site" "isValidRootPath (site_RootPath site)"
  shows "confined (segs (site_RootPath site)) w (snd (sites_DeleteSiteDirectory i rel recursive w))"
proof (cases "site_target i rel False w")
  case (Inl e)
  then show ?thesis by (simp add: sites_DeleteSiteDirectory_def)
next
  case (Inr t)
  obtain site' clean full where t: "site_target i rel False w = Inr (site', clean, full)" using Inr by (cases t) auto
  obtain cs where p: "full = abs_path (segs (site_RootPath site) @ cs)" and cs: "cs \<noteq> []"
    and g: "list_all good_seg (segs (site_RootPath site) @ cs)" using site_target_inside [OF assms(2,3) t] .
  obtain st w1 where w1: "Stat full w = (st, w1)" by fastforce
  obtain e w2 where w2: "Remove full w1 = (e, w2)" by fastforce
  obtain e3 w3 where w3: "RemoveAll full w1 = (e3, w3)" by fastforce
  have f1: "os_fs w1 = os_fs w" using reads_fs(1) [OF w1] .
  have "confined (segs (site_RootPath site)) w1 w2" "confined (segs (site_RootPath site)) w1 w3"
    using Remove_confined(1,2) [OF _ g cs] w2 w3 assms(1) f1 p by metis+
  then have "confined (segs (site_RootPath site)) w w2" "confined (segs (site_RootPath site)) w w3"
    using confined_trans [OF confined_same [OF f1]] by blast+
  then show ?thesis using confined_same [OF f1] t w1 w2 w3
    by (auto simp: sites_DeleteSiteDirectory_def split: option.splits sum.splits)
qed

lemma CreateDirectory_confined:
  assumes "no_links (os_fs w)" "mget (Sites (rp_data w)) i = Some site" "isValidRootPath (site_RootPath site)"
  shows "confined (segs (site_RootPath site)) w (snd (sites_CreateSiteDirectory i rel w))"
proof (cases "site_target i rel False w")
  case (Inl e)
  then show ?thesis by (simp add: sites_CreateSiteDirectory_def)
next
  case (Inr t)
  obtain site' clean full where t: "site_target i rel False w = Inr (site', clean, full)" using Inr by (cases t) auto
  obtain cs where p: "full = abs_path (segs (site_RootPath site) @ cs)"
    and g: "list_all good_seg (segs (site_RootPath site) @ cs)" using site_target_inside [OF assms(2,3) t] .
  obtain e w2 where w2: "MkdirAll full w = (e, w2)" by fastforce
  from MkdirAll_confined(1) [OF assms(1) g segs_root [OF assms(3)]] w2 p
  have "confined (segs (site_RootPath site)) w w2" by simp
  then show ?thesis using t w2 by (auto simp: sites_CreateSiteDirectory_def split: option.splits)
qed

lemma DownloadSiteFile_fs: "os_fs (snd (sites_DownloadSiteFile i rel w)) = os_fs w"
  by (auto simp: sites_DownloadSiteFile_def reads_fs split: sum.splits prod.splits)

lemma ListSiteFiles_fs: "os_fs (snd (sites_ListSiteFiles i dir limit w)) = os_fs w"
  by (auto simp: sites_ListSiteFiles_def Let_def reads_fs file_items_fs split: sum.splits prod.splits)

lemma GetSiteContent_fs: "os_fs (snd (sites_GetSiteContent i file w)) = os_fs w"
  by (auto simp: sites_GetSiteContent_def reads_fs resolveEditableFile_fs split: sum.splits prod.splits)

lemma resolveEditableFile_name:
  "resolveEditableFile site file False w = (Inr name, w') \<Longrightarrow> name \<in> set editableFiles"
  by (auto simp: resolveEditableFile_def Let_def defaultEditableFile_def editableFiles_def split: if_splits)

lemma UpdateContent_confined:
  assumes "no_links (os_fs w)" "mget (Sites (rp_data w)) i = Some site" "isValidRootPath (site_RootPath site)"
    and clean: "Clean (site_RootPath site) = site_RootPath site"
  shows "confined (segs (site_RootPath site)) w (snd (sites_UpdateSiteContent i file content w))"
proof -
  let ?root = "segs (site_RootPath site)"
  have abs: "IsAbs (site_RootPath site)" using assms(3) by (auto simp: isValidRootPath_iff)
  then have root: "site_RootPath site = abs_path (?root @ [])" using clean by (simp add: Clean_abs)
  have g: "list_all good_seg (?root @ [])" using segs_good [OF abs] by simp
  obtain r w1 where r: "resolveEditableFile site file False w = (r, w1)" by fastforce
  obtain e w2 where w2: "MkdirAll (abs_path (?root @ [])) w1 = (e, w2)" by fastforce
  have f1: "os_fs w1 = os_fs w" using resolveEditableFile_fs [OF r] .
  note m = MkdirAll_confined [OF assms(1) [folded f1] g segs_root [OF assms(3)] w2]
  have c1: "confined ?root w w1" using confined_same [OF f1] .
  have c2: "confined ?root w w2" using confined_trans [OF c1 m(1)] .
  have c3: "confined ?root w w3"
    if "r = Inr name" "WriteFile (PathJoin [site_RootPath site, name]) content w2 = (e3, w3)" for name e3 w3
  proof -
    have "resolveEditableFile site file False w = (Inr name, w1)" using r that(1) by simp
    from resolveEditableFile_name [OF this] have "good_seg name"
      by (auto simp: editableFiles_def good_seg_def slash_def)
    moreover from PathJoin_abs_name [OF abs this]
    have "PathJoin [site_RootPath site, name] = abs_path (?root @ [name])" .
    ultimately show ?thesis
      using confined_trans [OF c2] Remove_confined(3) [OF m(2), of ?root "[name]"] that(2) g by simp
  qed
  show ?thesis
    using assms(2) r w2 root c1 c2 c3
    by (auto simp: sites_UpdateSiteContent_def repo_GetSiteByID_def split: option.splits sum.splits prod.splits)
qed

text \<open>The operations on the files of site \<open>i\<close>.\<close>

inductive file_op :: "string \<Rightarrow> 'a jobs_scheme \<Rightarrow> 'a jobs_scheme \<Rightarrow> bool" for i where
  Upload: "file_op i w (snd (sites_UploadSiteFile i relPath contentBase64 w))"
| DeleteFile: "file_op i w (snd (sites_DeleteSiteFile i relPath w))"
| CreateDirectory: "file_op i w (snd (sites_CreateSiteDirectory i relPath w))"
| DeleteDirectory: "file_op i w (snd (sites_DeleteSiteDirectory i relPath recursive w))"
| UpdateContent: "file_op i w (snd (sites_UpdateSiteContent i file content w))"
| Download: "file_op i w (snd (sites_DownloadSiteFile i relPath w))"
| ListFiles: "file_op i w (snd (sites_ListSiteFiles i dir limit w))"
| GetContent: "file_op i w (snd (sites_GetSiteContent i file w))"



subsection \<open>Uploading and downloading\<close>

text \<open>A path that resolved keeps resolving while nothing above its last component changes.\<close>

lemma walk_again:
  "no_links m \<Longrightarrow> no_links m' \<Longrightarrow> list_all good_seg ss \<Longrightarrow> walk n m True at ss = Inr q \<Longrightarrow>
    \<forall>p. p \<noteq> at @ ss \<longrightarrow> fs_get m' p = fs_get m p \<Longrightarrow> walk n m' True at ss = Inr q"
proof (induction ss arbitrary: at)
  case (Cons c cs)
  have c: "c \<noteq> []" "c \<noteq> ''.''" "c \<noteq> ''..''" using Cons.prems(3) by (auto simp: good_seg_def)
  have l: "fs_get m (at @ [c]) \<noteq> Some (Symlink t)" "fs_get m' (at @ [c]) \<noteq> Some (Symlink t)" for t
    using Cons.prems(1,2) by (auto simp: no_links_def)
  show ?case
  proof (cases cs)
    case Nil
    then show ?thesis using c l Cons.prems(4) by (auto simp: walk.simps(2) split: option.splits node.splits)
  next
    case (Cons d ds)
    have "fs_get m' (at @ [c]) = fs_get m (at @ [c])" using Cons.prems(5) Cons by auto
    moreover have "fs_get m (at @ [c]) = Some Directory \<and> walk n m True (at @ [c]) cs = Inr q"
      using Cons.prems(4) c l Cons
      by (auto simp: walk.simps(2) [of n m True at c] simp del: append_assoc split: option.splits node.splits)
    moreover from this have "walk n m' True (at @ [c]) cs = Inr q"
      using Cons.IH [of "at @ [c]"] Cons.prems by auto
    ultimately show ?thesis using c by (simp add: walk.simps(2) [of n m' True at c])
  qed
qed simp

lemma WriteFile_ReadFile:
  assumes "no_links (os_fs w)" "list_all good_seg ss" "ss \<noteq> []" "WriteFile (abs_path ss) x w = (None, w')"
    and "os_fault w'' (os_calls w'') = None" "os_fs w'' = os_fs w'"
  shows "fst (Stat (abs_path ss) w'') = Inr (File x)" "fst (ReadFile (abs_path ss) w'') = Inr x"
proof -
  note wr = WriteFile_no_links [OF assms(1-4)]
  have r: "resolve True (abs_path ss) w = Inr ss"
    using assms(4) resolve_no_links [OF assms(1-3), of True]
    by (auto simp: WriteFile_def sys_def split: option.splits sum.splits)
  have ne: "abs_path ss \<noteq> []" "IsAbs (abs_path ss)" by (simp_all add: abs_path_def IsAbs_def)
  have "walk 40 (os_fs w) True [] ss = Inr ss"
    using r ne by (simp add: resolve_def Split_abs_path [OF assms(2,3)] walk_skip)
  then have "walk 40 (os_fs w') True [] ss = Inr ss"
    using walk_again [OF assms(1) wr(3) assms(2)] wr(1) by simp
  then have "resolve True (abs_path ss) w'' = Inr ss"
    using ne assms(6) by (simp add: resolve_def Split_abs_path [OF assms(2,3)] walk_skip)
  then show "fst (Stat (abs_path ss) w'') = Inr (File x)" "fst (ReadFile (abs_path ss) w'') = Inr x"
    using assms(5,6) wr(2) by (simp_all add: Stat_def ReadFile_def sys_def look_def)
qed


subsection \<open>Creating a site\<close>

lemma pair_data:
  "idgen_New pre w = (r2, w1) \<Longrightarrow> rp_data w1 = rp_data w \<and> jq_queue w1 = jq_queue w"
  "time_Now w = (t, w1) \<Longrightarrow> rp_data w1 = rp_data w \<and> jq_queue w1 = jq_queue w"
  for w :: "'a jobs_scheme"
  using same_rest_repo(2) [OF idgen_New_rest [of w pre]] same_env_queue [OF same_rest_env [OF idgen_New_rest [of w pre]]]
    same_rest_repo(2) [OF time_Now_rest [of w]] same_env_queue [OF same_rest_env [OF time_Now_rest [of w]]]
  by simp_all

lemma jobs_Enqueue_cases:
  assumes "jobs_Enqueue dn pick actor ty payload w = (r, w')"
  obtains (not_running) e where "r = Some (Inl e)" "w' = w" "\<not> jq_started w \<or> jq_stopped w"
  | (no_id) e where "r = Some (Inl e)" "rp_data w' = rp_data w" "jq_queue w' = jq_queue w"
  | (recorded) jid now where
      "rp_data w' = (rp_data w)\<lparr>Jobs := mput jid (new_job actor ty payload jid now) (Jobs (rp_data w))\<rparr>"
      "r = Some (Inr (new_job actor ty payload jid now)) \<and> jq_queue w' = jq_queue w @ [jid]
       \<or> (\<exists>e. r = Some (Inl e)) \<and> jq_queue w' = jq_queue w \<or> r = None \<and> jq_queue w' = jq_queue w"
proof (cases "jq_started w \<and> \<not> jq_stopped w")
  case False
  then show ?thesis using assms not_running by (auto simp: jobs_Enqueue_def split: if_splits)
next
  case True
  obtain i w1 where i: "idgen_New ''job'' w = (i, w1)" by fastforce
  obtain now w2 where now: "time_Now w1 = (now, w2)" by fastforce
  note d1 = pair_data(1) [OF i] note d2 = pair_data(2) [OF now]
  show ?thesis
  proof (cases i)
    case (Inl e)
    then show ?thesis using assms True i d1 no_id by (auto simp: jobs_Enqueue_def)
  next
    case (Inr jid)
    let ?j = "new_job actor ty payload jid now"
    obtain er w3 where c: "repo_CreateJob ?j w2 = (er, w3)" by fastforce
    have d3: "rp_data w3 = (rp_data w)\<lparr>Jobs := mput jid ?j (Jobs (rp_data w))\<rparr>"
      using repo_CreateJob_data [of ?j w2] c d1 d2 by (simp add: new_job_def)
    have q3: "jq_queue w3 = jq_queue w" using same_env_queue [OF repo_env(8) [of w2 ?j]] c d1 d2 by simp
    have rw: "(r, w') = (case er of Some e \<Rightarrow> (Some (Inl e), w3) | None \<Rightarrow> send_or_done dn pick ?j w3)"
      using assms True i Inr now c by (simp add: jobs_Enqueue_def)
    show ?thesis
    proof (rule recorded [of jid now])
      show "rp_data w' = (rp_data w)\<lparr>Jobs := mput jid ?j (Jobs (rp_data w))\<rparr>"
        using rw d3 by (auto simp: send_or_done_def split: option.splits if_splits)
      show "r = Some (Inr ?j) \<and> jq_queue w' = jq_queue w @ [jid]
          \<or> (\<exists>e. r = Some (Inl e)) \<and> jq_queue w' = jq_queue w \<or> r = None \<and> jq_queue w' = jq_queue w"
        using rw q3 by (auto simp: send_or_done_def new_job_def split: option.splits if_splits)
    qed
  qed
qed

definition site_payload :: "Site \<Rightarrow> (string \<times> string) list" where
  "site_payload site = [(''site_id'', site_ID site), (''domain'', site_Domain site),
     (''runtime'', site_Runtime site), (''rootPath'', site_RootPath site)]"

lemma payload_site_of:
  assumes "job_Payload job = Marshal (JMap (map (\<lambda>(k, v). (k, JStr v)) (site_payload site)))"
    and "ascii (site_ID site)" "site_ID site \<noteq> []" "mget (Sites (rp_data w)) (site_ID site) = Some site"
  shows "payload_site job w = Inr site"
proof -
  let ?kvs = "[(''domain'', site_Domain site), (''rootPath'', site_RootPath site), (''runtime'', site_Runtime site),
     (''site_id'', site_ID site)]"
  have "JMap (map (\<lambda>(k, v). (k, JStr v)) (site_payload site)) = JObj (map (\<lambda>(k, v). (k, JStr v)) ?kvs)"
    by (simp add: JMap_def site_payload_def)
  then obtain m where "Unmarshal_strings (job_Payload job) = Some m" "mget m ''site_id'' = Some (site_ID site)"
    using Unmarshal_written_get [of ?kvs "''site_id''" "site_ID site"] assms(1,2)
    by (auto simp: ascii_def byte_def)
  with assms(3,4) show ?thesis by (simp add: payload_site_def repo_GetSiteByID_def)
qed

text \<open>The first part of \<open>CreateSite\<close>, and the call of \<open>Enqueue\<close>.\<close>

lemma sites_CreateSite_cases:
  assumes "sites_CreateSite dn pick actor d r rt w = (res, w')"
  obtains (refused) e where "res = Some (Inl e)" "rp_data w' = rp_data w" "jq_queue w' = jq_queue w"
  | (unsaved) e site where "res = Some (Inl e)" "site_Domain site = normalizeDomain d"
      "site_Status site = SiteStatusProvisioning" "jq_queue w' = jq_queue w"
      "mget (DomainIndex (rp_data w)) (ToLower (normalizeDomain d)) = None"
      "rp_data w' = (rp_data w)\<lparr>Sites := mput (site_ID site) site (Sites (rp_data w)),
         DomainIndex := mput (ToLower (site_Domain site)) (site_ID site) (DomainIndex (rp_data w))\<rparr>"
  | (stored) site w1 er w2 where "isValidDomain (site_Domain site)" "isValidRootPath (site_RootPath site)"
      "site_Runtime site \<in> set allowedRuntime" "ascii (site_ID site)" "site_ID site \<noteq> []"
      "site_Domain site = normalizeDomain d" "site_RootPath site = TrimSpace r" "site_Runtime site = ToLower (TrimSpace rt)"
      "site_Status site = SiteStatusProvisioning" "site_CreatedBy site = actor"
      "mget (DomainIndex (rp_data w)) (ToLower (normalizeDomain d)) = None" "jq_queue w1 = jq_queue w"
      "rp_data w1 = (rp_data w)\<lparr>Sites := mput (site_ID site) site (Sites (rp_data w)),
         DomainIndex := mput (ToLower (site_Domain site)) (site_ID site) (DomainIndex (rp_data w))\<rparr>"
      "jobs_Enqueue dn pick actor JobTypeProvisionSite (site_payload site) w1 = (er, w2)"
      "(case er of Some (Inl e) \<Rightarrow> (Some (Inl e), snd (repo_UpdateSiteStatus (site_ID site) SiteStatusFailed w2))
        | Some (Inr job) \<Rightarrow> (Some (Inr (site, job)), w2) | None \<Rightarrow> (None, w2)) = (res, w')"
proof (cases "isValidDomain (normalizeDomain d) \<and> isValidRootPath (TrimSpace r) \<and> ToLower (TrimSpace rt) \<in> set allowedRuntime")
  case False
  then show ?thesis using assms refused by (auto simp: sites_CreateSite_def Let_def split: if_splits)
next
  case valid: True
  obtain i w0 where i: "idgen_New ''site'' w = (i, w0)" by fastforce
  obtain now w1 where now: "time_Now w0 = (now, w1)" by fastforce
  note d0 = pair_data(1) [OF i] note d1 = pair_data(2) [OF now]
  show ?thesis
  proof (cases i)
    case (Inl e)
    then show ?thesis using assms valid i d0 refused by (auto simp: sites_CreateSite_def)
  next
    case (Inr sid)
    define site where "site = \<lparr>site_ID = sid, site_Domain = normalizeDomain d, site_RootPath = TrimSpace r,
      site_Runtime = ToLower (TrimSpace rt), site_Status = SiteStatusProvisioning, site_CreatedBy = actor,
      site_CreatedAt = now, site_UpdatedAt = now\<rparr>"
    have sid: "ascii sid" "sid \<noteq> []"
      using idgen_New_ascii [of "''site''" w sid] idgen_New_not_Nil [of "''site''" w sid] i Inr
      by (auto simp: ascii_def byte_def)
    obtain e w2 where c: "repo_CreateSite site w1 = (e, w2)" by fastforce
    obtain er w3 where q: "jobs_Enqueue dn pick actor JobTypeProvisionSite (site_payload site) w2 = (er, w3)" by fastforce
    have q2: "jq_queue w2 = jq_queue w" using same_env_queue [OF repo_env(5) [of w1 site]] c d0 d1 by simp
    have res: "(case e of Some e \<Rightarrow> (Some (Inl e), w2) | None \<Rightarrow>
        (case er of Some (Inl e) \<Rightarrow> (Some (Inl e), snd (repo_UpdateSiteStatus (site_ID site) SiteStatusFailed w3))
         | Some (Inr job) \<Rightarrow> (Some (Inr (site, job)), w3) | None \<Rightarrow> (None, w3))) = (res, w')"
      using assms valid i Inr now c q
      by (simp add: sites_CreateSite_def Let_def site_def site_payload_def split: option.splits sum.splits)
    show ?thesis
    proof (cases "mget (DomainIndex (rp_data w)) (ToLower (normalizeDomain d)) = None")
      case False
      then have "e \<noteq> None" "rp_data w2 = rp_data w"
        using c d0 d1 by (auto simp: repo_CreateSite_def site_def split: if_splits)
      then show ?thesis using res q2 refused by (auto split: option.splits)
    next
      case free: True
      have d2: "rp_data w2 = (rp_data w)\<lparr>Sites := mput (site_ID site) site (Sites (rp_data w)),
         DomainIndex := mput (ToLower (site_Domain site)) (site_ID site) (DomainIndex (rp_data w))\<rparr>"
        using repo_CreateSite_data [of site w1] c d0 d1 free by (simp add: site_def)
      show ?thesis
      proof (cases e)
        case (Some er)
        then show ?thesis using res q2 d2 free by (intro unsaved [of er site]) (simp_all add: site_def)
      next
        case None
        then show ?thesis using res q q2 d2 free valid sid
          by (intro stored [of site w2 er w3]) (simp_all add: site_def)
      qed
    qed
  qed
qed
text \<open>
  What a successful \<open>CreateSite\<close> did: the inputs passed every check, the domain was free, the site is
  stored under its domain with the normalized values, as provisioning and for the caller, a queued job of
  the provisioning type is recorded and is the last of the channel, and the payload the worker will
  parse back from the job's JSON leads it to exactly this site.
\<close>

lemma sites_CreateSite_correct:
  assumes "sites_CreateSite dn pick actor d r rt w = (Some (Inr (site, job)), w')"
  shows "isValidDomain (site_Domain site) \<and> isValidRootPath (site_RootPath site) \<and> site_Runtime site \<in> set allowedRuntime
    \<and> site_Domain site = normalizeDomain d \<and> site_RootPath site = TrimSpace r \<and> site_Runtime site = ToLower (TrimSpace rt)
    \<and> site_Status site = SiteStatusProvisioning \<and> site_CreatedBy site = actor
    \<and> mget (DomainIndex (rp_data w)) (ToLower (site_Domain site)) = None
    \<and> mget (DomainIndex (rp_data w')) (ToLower (site_Domain site)) = Some (site_ID site)
    \<and> Sites (rp_data w') = mput (site_ID site) site (Sites (rp_data w))
    \<and> Jobs (rp_data w') = mput (job_ID job) job (Jobs (rp_data w)) \<and> jq_queue w' = jq_queue w @ [job_ID job]
    \<and> job_Type job = JobTypeProvisionSite \<and> job_Status job = JobStatusQueued \<and> payload_site job w' = Inr site"
  using assms
proof (cases rule: sites_CreateSite_cases)
  case (stored s w1 er w2)
  have s: "er = Some (Inr job)" "s = site" "w2 = w'"
    using stored(15) by (auto split: option.splits sum.splits)
  from stored(14) show ?thesis
  proof (cases rule: jobs_Enqueue_cases)
    case (recorded jid now)
    have j: "job = new_job actor JobTypeProvisionSite (site_payload site) jid now"
      and q: "jq_queue w' = jq_queue w @ [jid]" using recorded(2) s stored(12) by auto
    have d: "Sites (rp_data w') = mput (site_ID site) site (Sites (rp_data w))"
        "DomainIndex (rp_data w') = mput (ToLower (site_Domain site)) (site_ID site) (DomainIndex (rp_data w))"
        "Jobs (rp_data w') = mput jid job (Jobs (rp_data w))"
      using recorded(1) s stored(13) j by simp_all
    have "payload_site job w' = Inr site"
      using stored(4,5) s d(1) by (intro payload_site_of) (simp_all add: j new_job_def)
    with stored(1-11) s d q show ?thesis by (simp add: j new_job_def)
  qed (use s in auto)
qed auto

lemma sites_CreateSite_correct_witness:
  "\<exists>site job w'. sites_CreateSite None True ''usr-1'' ''New.Example'' ''/var/www/new'' ''php'' (sample_queue [])
       = (Some (Inr (site, job)), w')
     \<and> site_Domain site = ''new.example'' \<and> payload_site job w' = Inr site"
proof -
  let ?r = "sites_CreateSite None True ''usr-1'' ''New.Example'' ''/var/www/new'' ''php'' (sample_queue [])"
  have "(case ?r of (Some (Inr (site, job)), w') \<Rightarrow> True | _ \<Rightarrow> False)" by code_simp
  then obtain site job w' where r: "?r = (Some (Inr (site, job)), w')" by (auto split: prod.splits option.splits sum.splits)
  have "normalizeDomain ''New.Example'' = ''new.example''" by code_simp
  with r sites_CreateSite_correct [OF r] show ?thesis by (intro exI [of _ site] exI [of _ job] exI [of _ w']) simp
qed

definition sample_full_disk :: jobs where
  "sample_full_disk = sample_queue []\<lparr>os_fault := \<lambda>_. Some ENOSPC\<rparr>"


text \<open>
  What a successful \<open>DeleteSite\<close> did: the site, found by its identifier, is marked as being deleted, a
  queued job of the removal type is recorded and is the last of the channel, and its payload leads the
  worker back to this site; neither a domain nor another site changed.
\<close>

lemma sites_DeleteSite_correct:
  assumes "sites_ok (rp_data w)" and "ascii i" "i \<noteq> []"
    and "sites_DeleteSite dn pick actor i w = (Some (Inr job), w')"
  shows "\<exists>site t. mget (Sites (rp_data w)) i = Some site
    \<and> Sites (rp_data w') = mput i (set_status (SiteStatusDeleting, t) site) (Sites (rp_data w))
    \<and> DomainIndex (rp_data w') = DomainIndex (rp_data w)
    \<and> Jobs (rp_data w') = mput (job_ID job) job (Jobs (rp_data w)) \<and> jq_queue w' = jq_queue w @ [job_ID job]
    \<and> job_Type job = JobTypeDeprovisionSite \<and> job_Status job = JobStatusQueued
    \<and> payload_site job w' = Inr (set_status (SiteStatusDeleting, t) site)"
proof -
  obtain site where site: "mget (Sites (rp_data w)) i = Some site"
    using assms(4) by (auto simp: sites_DeleteSite_def repo_GetSiteByID_def split: option.splits)
  have i: "site_ID site = i" using assms(1) site by (auto simp: sites_ok_def table_ok_def)
  define t where "t = fst (time_Now w)"
  obtain e w1 where u: "repo_UpdateSiteStatus i SiteStatusDeleting w = (e, w1)" by fastforce
  have d1: "rp_data w1 = (rp_data w)\<lparr>Sites := mput i (set_status (SiteStatusDeleting, t) site) (Sites (rp_data w))\<rparr>"
    using repo_UpdateSiteStatus_data [of i SiteStatusDeleting w] u site by (simp add: t_def)
  have q1: "jq_queue w1 = jq_queue w" using same_env_queue [OF repo_env(6) [of w i]] u by (metis snd_conv)
  obtain er w2 where q: "jobs_Enqueue dn pick actor JobTypeDeprovisionSite [(''site_id'', i)] w1 = (er, w2)" by fastforce
  have er: "er = Some (Inr job)" "w2 = w'"
    using assms(4) site i u q by (auto simp: sites_DeleteSite_def repo_GetSiteByID_def split: option.splits sum.splits)
  from q show ?thesis
  proof (cases rule: jobs_Enqueue_cases)
    case (recorded jid now)
    have j: "job = new_job actor JobTypeDeprovisionSite [(''site_id'', i)] jid now"
      and q': "jq_queue w' = jq_queue w @ [jid]" using recorded(2) er q1 by auto
    have "Unmarshal_strings (job_Payload job) = Some [(''site_id'', i)]"
      using Unmarshal_single [of "''site_id''" i] assms(2) by (simp add: j new_job_def ascii_def byte_def)
    then have "payload_site job w' = Inr (set_status (SiteStatusDeleting, t) site)"
      using recorded(1) er(2) d1 assms(3) by (simp add: payload_site_def repo_GetSiteByID_def)
    with site recorded(1) er(2) d1 q' show ?thesis
      by (intro exI [of _ site] exI [of _ t]) (simp add: j new_job_def)
  qed (use er in auto)
qed
lemma sites_DeleteSite_correct_witness:
  "\<exists>job w' t. sites_DeleteSite None True ''usr-1'' ''site-1'' (sample_queue []) = (Some (Inr job), w')
     \<and> payload_site job w' = Inr (set_status (SiteStatusDeleting, t) sample_site)"
proof -
  let ?r = "sites_DeleteSite None True ''usr-1'' ''site-1'' (sample_queue [])"
  have "(case ?r of (Some (Inr job), w') \<Rightarrow> True | _ \<Rightarrow> False)" by code_simp
  then obtain job w' where r: "?r = (Some (Inr job), w')" by (auto split: prod.splits option.splits sum.splits)
  have "ToLower ''example.com'' = ''example.com''" by code_simp
  then have ok: "sites_ok (rp_data (sample_queue []))"
    by (auto simp: sites_ok_def table_ok_def sample_queue_def sample_site_def repo.defs)
  have "ascii ''site-1''" by (simp add: ascii_def byte_def)
  from sites_DeleteSite_correct [OF ok this _ r] r show ?thesis
    by (auto simp: sample_queue_def repo.defs)
qed


subsection \<open>What the file operations leave alone\<close>

lemma first_existing_env: "first_existing root cs w = (r, w') \<Longrightarrow> env_of w' = env_of w"
  by (induction cs arbitrary: w r) (auto dest!: os_env split: prod.splits sum.splits)

lemma resolveEditableFile_env: "resolveEditableFile site file e w = (r, w') \<Longrightarrow> env_of w' = env_of w"
  by (auto simp: resolveEditableFile_def Let_def dest!: first_existing_env split: prod.splits option.splits if_splits)

lemma sites_GetSiteContent_env: "sites_GetSiteContent i f w = (r, w') \<Longrightarrow> env_of w' = env_of w"
  by (auto simp: sites_GetSiteContent_def dest!: os_env resolveEditableFile_env split: prod.splits sum.splits)

lemma sites_UpdateSiteContent_env: "sites_UpdateSiteContent i f c w = (r, w') \<Longrightarrow> env_of w' = env_of w"
  by (auto simp: sites_UpdateSiteContent_def dest!: os_env resolveEditableFile_env
      split: prod.splits sum.splits option.splits if_splits)

lemma file_items_env: "file_items d rel es w = (r, w') \<Longrightarrow> env_of w' = env_of w"
proof (induction es arbitrary: w r w')
  case (Cons e es)
  then show ?case by (cases e) (auto dest!: os_env split: prod.splits sum.splits)
qed simp

lemma sites_ListSiteFiles_env: "sites_ListSiteFiles i d l w = (r, w') \<Longrightarrow> env_of w' = env_of w"
  by (auto simp: sites_ListSiteFiles_def Let_def dest!: os_env2 file_items_env split: prod.splits sum.splits)

lemma sites_UploadSiteFile_env: "sites_UploadSiteFile i p c w = (r, w') \<Longrightarrow> env_of w' = env_of w"
  by (auto simp: sites_UploadSiteFile_def dest!: os_env split: prod.splits sum.splits option.splits if_splits)

lemma sites_DeleteSiteFile_env: "sites_DeleteSiteFile i p w = (r, w') \<Longrightarrow> env_of w' = env_of w"
  by (auto simp: sites_DeleteSiteFile_def dest!: os_env split: prod.splits sum.splits option.splits if_splits)

lemma sites_DownloadSiteFile_env: "sites_DownloadSiteFile i p w = (r, w') \<Longrightarrow> env_of w' = env_of w"
  by (auto simp: sites_DownloadSiteFile_def dest!: os_env split: prod.splits sum.splits option.splits if_splits)

lemma sites_CreateSiteDirectory_env: "sites_CreateSiteDirectory i p w = (r, w') \<Longrightarrow> env_of w' = env_of w"
  by (auto simp: sites_CreateSiteDirectory_def dest!: os_env split: prod.splits sum.splits option.splits if_splits)

lemma sites_DeleteSiteDirectory_env: "sites_DeleteSiteDirectory i p b w = (r, w') \<Longrightarrow> env_of w' = env_of w"
  by (auto simp: sites_DeleteSiteDirectory_def dest!: os_env os_env2
      split: prod.splits sum.splits option.splits if_splits)

lemma zip_walk_env:
  "zip_walk n p rel nd w = (r, w') \<Longrightarrow> env_of w' = env_of w"
  "zip_names n p rel ns w = (r, w') \<Longrightarrow> env_of w' = env_of w"
  by (induction n p rel nd w and n p rel ns w arbitrary: r w' and r w' rule: zip_walk_zip_names.induct)
    (auto dest!: os_env os_env2 split: prod.splits sum.splits if_splits)

lemma zipDirectory_env: "zipDirectory z p t w = (r, w') \<Longrightarrow> env_of w' = env_of w"
  by (auto simp: zipDirectory_def dest!: os_env os_env2 zip_walk_env split: prod.splits sum.splits option.splits if_splits)

lemma sites_BackupSiteContent_env: "sites_BackupSiteContent z d b i w = (r, w') \<Longrightarrow> env_of w' = env_of w"
proof -
  have tidy: "env_of (snd (Remove p v)) = env_of v" for p and v :: "'a jobs_scheme"
    using os_env(7) by (metis prod.collapse)
  show "sites_BackupSiteContent z d b i w = (r, w') \<Longrightarrow> env_of w' = env_of w"
    by (auto simp: sites_BackupSiteContent_def Let_def tidy dest!: os_env os_env2 zipDirectory_env
        split: prod.splits sum.splits option.splits if_splits)
qed

end
