(* ===== verification/AuditTrail.thy ===== *)
theory AuditTrail
  imports FileDB GoJSON
begin

text \<open>
  \<open>internal/audit/service.go\<close>: the audit trail.  The metadata is the \<open>map[string]any\<close> of the caller, a
  nil map as \<open>None\<close>; its values are strings, numbers and booleans, which always encode, so the branch
  of the code for a failed encoding cannot be taken.  A record that cannot be saved is only logged.
\<close>

definition audit_entry ::
  "string \<Rightarrow> string \<Rightarrow> string \<Rightarrow> string \<Rightarrow> (string \<times> json) list option \<Rightarrow> int \<Rightarrow> AuditLog" where
  "audit_entry actorUserID action targetType targetID metadata now =
     \<lparr>log_ID = 0, log_ActorUser = actorUserID, log_Action = action, log_TargetType = targetType,
      log_TargetID = targetID,
      log_Metadata = Marshal (case metadata of None \<Rightarrow> JNull | Some m \<Rightarrow> JMap m), log_CreatedAt = now\<rparr>"

definition audit_Record ::
  "string \<Rightarrow> string \<Rightarrow> string \<Rightarrow> string \<Rightarrow> (string \<times> json) list option \<Rightarrow> 'a repo_scheme \<Rightarrow> 'a repo_scheme" where
  "audit_Record actorUserID action targetType targetID metadata w =
     (case time_Now w of
        (now, w) \<Rightarrow>
          snd (repo_CreateAuditLog (audit_entry actorUserID action targetType targetID metadata now) w))"

definition audit_List :: "int \<Rightarrow> 'a repo_scheme \<Rightarrow> AuditLog list" where
  "audit_List limit w = repo_ListAuditLogs limit w"

lemma audit_Record_data:
  "rp_data (audit_Record actor action ty i m w) =
     (rp_data w)\<lparr>AuditSequence := wrap64 (AuditSequence (rp_data w) + 1),
        AuditLogs := AuditLogs (rp_data w) @
          [(audit_entry actor action ty i m (fst (time_Now w)))\<lparr>log_ID := wrap64 (AuditSequence (rp_data w) + 1)\<rparr>]\<rparr>"
  by (simp add: audit_Record_def time_Now_def repo_CreateAuditLog_def repo_frame Let_def)

lemma audit_Record_env: "same_env w (audit_Record actor action ty i m w)"
  using time_Now_env [of w] by (auto simp: audit_Record_def split: prod.split intro: same_env_trans repo_env(10))

end
