(* ===== verification/Auth.thy ===== *)
theory Auth
  imports FileDB IdGen
begin

text \<open>
  \<open>internal/security/password/password.go\<close> and \<open>internal/service/auth/service.go\<close>: password hashes,
  the first administrator, login, sessions, and changing a password.  \<open>golang.org/x/crypto/bcrypt\<close> is
  a parameter; \<open>bcrypt_ok\<close> states the part of its documentation the code relies on.
\<close>

subsection \<open>Passwords\<close>

record bcrypt =
  bc_Generate :: "nat \<Rightarrow> string \<Rightarrow> int \<Rightarrow> error + string"
  bc_Compare :: "string \<Rightarrow> string \<Rightarrow> error option"

text \<open>
  A generated hash is an ASCII string without white space that starts with the version \<open>$2a$\<close>, and
  comparing it with the password it was made from succeeds.
\<close>

definition bcrypt_ok :: "bcrypt \<Rightarrow> bool" where
  "bcrypt_ok bc \<longleftrightarrow> (\<forall>n p cost h. bc_Generate bc n p cost = Inr h \<longrightarrow>
     list_all solid h \<and> HasPrefix h ''$2a$'' \<and> bc_Compare bc h p = None)"

definition defaultCost :: int where "defaultCost = 12"
definition minPasswordLen :: nat where "minPasswordLen = 8"

definition password_Hash :: "bcrypt \<Rightarrow> string \<Rightarrow> 'a os_scheme \<Rightarrow> (error + string) \<times> 'a os_scheme" where
  "password_Hash bc plain w =
     (if length plain < minPasswordLen then (Inl (passwordE ErrWeakPassword), w)
      else (bc_Generate bc (os_draws w) plain defaultCost, w\<lparr>os_draws := Suc (os_draws w)\<rparr>))"

definition password_Verify :: "bcrypt \<Rightarrow> string \<Rightarrow> string \<Rightarrow> bool" where
  "password_Verify bc plain encoded =
     (let encoded = TrimSpace encoded in
      if encoded = [] then False
      else if HasPrefix encoded ''$2a$'' \<or> HasPrefix encoded ''$2b$'' \<or> HasPrefix encoded ''$2y$''
      then bc_Compare bc encoded plain = None
      else False)"

subsection \<open>Tokens\<close>

definition randomToken :: "'a os_scheme \<Rightarrow> (error + string) \<times> 'a os_scheme" where
  "randomToken w =
     (case rand_Read 32 w of
        (Inl e, w) \<Rightarrow> (Inl e, w)
      | (Inr raw, w) \<Rightarrow> (Inr (RawURL_EncodeToString raw), w))"

definition hashToken :: "string \<Rightarrow> string" where
  "hashToken token = Hex (Sum256 token)"

subsection \<open>The service\<close>

definition auth_EnsureBootstrapAdmin ::
  "bcrypt \<Rightarrow> string \<Rightarrow> string \<Rightarrow> 'a repo_scheme \<Rightarrow> error option \<times> 'a repo_scheme" where
  "auth_EnsureBootstrapAdmin bc username plainPassword w =
     (if repo_CountUsers w > 0 then (None, w)
      else if TrimSpace plainPassword = [] then (Some (NewError ''bootstrap admin password is empty''), w)
      else case password_Hash bc plainPassword w of
        (Inl e, w) \<Rightarrow> (Some e, w)
      | (Inr hash, w) \<Rightarrow>
          (case idgen_New ''usr'' w of
             (Inl e, w) \<Rightarrow> (Some e, w)
           | (Inr i, w) \<Rightarrow>
               (case time_Now w of
                  (now, w) \<Rightarrow>
                    repo_CreateUser \<lparr>user_ID = i, user_Username = TrimSpace username, user_PasswordHash = hash,
                      user_Role = RoleAdmin, user_IsActive = True, user_CreatedAt = now, user_UpdatedAt = now\<rparr> w)))"

definition auth_Login ::
  "bcrypt \<Rightarrow> int \<Rightarrow> string \<Rightarrow> string \<Rightarrow> 'a repo_scheme \<Rightarrow> (error + string \<times> int \<times> User) \<times> 'a repo_scheme" where
  "auth_Login bc tokenTTL username plainPassword w =
     (case repo_GetUserByUsername (TrimSpace username) w of
        Inl e \<Rightarrow> (Inl (if errors_Is e (StoreE ErrNotFound) then authE ErrInvalidCredentials else e), w)
      | Inr user \<Rightarrow>
          if \<not> user_IsActive user \<or> \<not> password_Verify bc plainPassword (user_PasswordHash user)
          then (Inl (authE ErrInvalidCredentials), w)
          else (case randomToken w of
             (Inl e, w) \<Rightarrow> (Inl e, w)
           | (Inr token, w) \<Rightarrow>
               (case time_Now w of
                  (now, w) \<Rightarrow>
                    (case time_Now w of
                       (created, w) \<Rightarrow>
                         (case repo_CreateSession \<lparr>session_TokenHash = hashToken token,
                              session_UserID = user_ID user, session_ExpiresAt = now + tokenTTL,
                              session_CreatedAt = created\<rparr> w of
                            (Some e, w) \<Rightarrow> (Inl e, w)
                          | (None, w) \<Rightarrow> (Inr (token, now + tokenTTL, user\<lparr>user_PasswordHash := []\<rparr>), w))))))"

definition auth_Authenticate :: "string \<Rightarrow> 'a repo_scheme \<Rightarrow> (error + User) \<times> 'a repo_scheme" where
  "auth_Authenticate token w =
     (if token = [] then (Inl (authE ErrUnauthorized), w)
      else case repo_GetSessionByTokenHash (hashToken token) w of
        Inl e \<Rightarrow> (Inl (if errors_Is e (StoreE ErrNotFound) then authE ErrUnauthorized else e), w)
      | Inr session \<Rightarrow>
          (case time_Now w of
             (now, w) \<Rightarrow>
               if session_ExpiresAt session < now
               then (Inl (authE ErrUnauthorized), snd (repo_DeleteSessionByTokenHash (hashToken token) w))
               else (case repo_GetUserByID (session_UserID session) w of
                  Inl e \<Rightarrow> (Inl (if errors_Is e (StoreE ErrNotFound) then authE ErrUnauthorized else e), w)
                | Inr user \<Rightarrow>
                    if \<not> user_IsActive user then (Inl (authE ErrUnauthorized), w)
                    else (Inr (user\<lparr>user_PasswordHash := []\<rparr>), w))))"

definition auth_Logout :: "string \<Rightarrow> 'a repo_scheme \<Rightarrow> error option \<times> 'a repo_scheme" where
  "auth_Logout token w =
     (if token = [] then (Some (authE ErrUnauthorized), w)
      else repo_DeleteSessionByTokenHash (hashToken token) w)"

definition auth_ChangePassword ::
  "bcrypt \<Rightarrow> string \<Rightarrow> string \<Rightarrow> string \<Rightarrow> 'a repo_scheme \<Rightarrow> error option \<times> 'a repo_scheme" where
  "auth_ChangePassword bc userID currentPassword newPassword w =
     (case repo_GetUserByID userID w of
        Inl e \<Rightarrow> (Some (if errors_Is e (StoreE ErrNotFound) then authE ErrUnauthorized else e), w)
      | Inr user \<Rightarrow>
          if \<not> password_Verify bc currentPassword (user_PasswordHash user)
          then (Some (authE ErrInvalidPassword), w)
          else (case password_Hash bc newPassword w of
             (Inl e, w) \<Rightarrow> (Some e, w)
           | (Inr newHash, w) \<Rightarrow>
               (case time_Now w of
                  (now, w) \<Rightarrow> repo_UpdateUserPassword (user_ID user) newHash now w)))"

subsection \<open>What the helpers leave alone\<close>

lemma password_Hash_rest [os_frame]: "same_rest w (snd (password_Hash bc p w))"
  by (simp add: password_Hash_def)

lemma randomToken_rest [os_frame]: "same_rest w (snd (randomToken w))"
  by (simp add: randomToken_def rand_Read_def split: sum.split)

lemmas password_Hash_frame = same_rest_repo [OF password_Hash_rest]
lemmas idgen_New_frame = same_rest_repo [OF idgen_New_rest]
lemmas randomToken_frame = same_rest_repo [OF randomToken_rest]
lemmas time_Now_frame = same_rest_repo [OF time_Now_rest]

text \<open>The data a result came with, for results given as pairs.\<close>

lemma frame_pair:
  "password_Hash bc p w = (r1, w1) \<Longrightarrow> rp_data w1 = rp_data w"
  "idgen_New pre w = (r2, w1) \<Longrightarrow> rp_data w1 = rp_data w"
  "randomToken w = (r2, w1) \<Longrightarrow> rp_data w1 = rp_data w"
  "time_Now w = (t, w1) \<Longrightarrow> rp_data w1 = rp_data w"
  for w :: "'a repo_scheme"
  using password_Hash_frame(2) [of bc p w] idgen_New_frame(2) [of pre w] randomToken_frame(2) [of w]
    time_Now_frame(2) [of w] by simp_all

lemma time_Now_pair: "time_Now w = (os_clock w (os_ticks w), w\<lparr>os_ticks := Suc (os_ticks w)\<rparr>)"
  by (simp add: time_Now_def)

lemma auth_Login_env: "same_env w (snd (auth_Login bc ttl n p w))"
proof -
  have "same_env w (snd (randomToken w))" by (rule same_rest_env [OF randomToken_rest])
  moreover have "same_env v (snd (repo_CreateSession s (v\<lparr>os_ticks := t\<rparr>)))" for v :: "'a repo_scheme" and s t
    by (rule same_env_trans [OF same_rest_env repo_env(3)]) (simp add: same_rest_def)
  ultimately show ?thesis
    by (auto simp: auth_Login_def time_Now_pair split: sum.split prod.split option.split intro: same_env_trans)
      (metis same_env_trans snd_conv)+
qed

lemma repo_save_error: "fst (repo_save w) = Some e \<Longrightarrow> \<exists>a b. e = Errorf a b []"
  by (auto simp: repo_save_def split: sum.splits prod.splits option.splits)

lemma password_roundtrip:
  assumes "bcrypt_ok bc" "fst (password_Hash bc p w) = Inr h"
  shows "password_Verify bc p h"
proof -
  from assms have h: "list_all solid h" "HasPrefix h ''$2a$''" "bc_Compare bc h p = None"
    by (auto simp: bcrypt_ok_def password_Hash_def split: if_splits)
  then have "TrimSpace h = h" by (intro TrimSpace_solid) (simp add: list_all_iff)
  with h show ?thesis by (auto simp: password_Verify_def Let_def HasPrefix_def)
qed

lemma RawURL_not_Nil: "s \<noteq> [] \<Longrightarrow> RawURL_EncodeToString s \<noteq> []"
  using length_RawURL [of s] by (cases s) auto

subsection \<open>Login\<close>

lemma Login_cases:
  assumes "auth_Login bc ttl n p w = (Inr (tok, expires, u), w')"
  obtains user created where "repo_GetUserByUsername (TrimSpace n) w = Inr user" "user_IsActive user"
    "password_Verify bc p (user_PasswordHash user)" "u = user\<lparr>user_PasswordHash := []\<rparr>"
    "fst (randomToken w) = Inr tok" "expires = os_clock w (os_ticks w) + ttl"
    "rp_data w' = (rp_data w)\<lparr>Sessions := mput (hashToken tok) \<lparr>session_TokenHash = hashToken tok,
       session_UserID = user_ID user, session_ExpiresAt = expires, session_CreatedAt = created\<rparr>
       (Sessions (rp_data w))\<rparr>"
proof -
  obtain user where user: "repo_GetUserByUsername (TrimSpace n) w = Inr user" "user_IsActive user"
      "password_Verify bc p (user_PasswordHash user)"
    using assms by (auto simp: auth_Login_def split: sum.splits if_splits)
  obtain t w1 where w1: "randomToken w = (t, w1)" by fastforce
  have keep: "os_clock w1 = os_clock w" "rp_data w1 = rp_data w" "os_ticks w1 = os_ticks w"
    using randomToken_rest [of w] frame_pair(3) [OF w1] w1
    by (simp_all add: same_rest_def) (auto simp: randomToken_def rand_Read_def split: sum.splits)
  obtain tok' where t: "t = Inr tok'"
    using assms user w1 by (auto simp: auth_Login_def split: sum.splits)
  let ?now = "os_clock w (os_ticks w)" and ?created = "os_clock w (Suc (os_ticks w))"
  let ?s = "\<lparr>session_TokenHash = hashToken tok', session_UserID = user_ID user,
    session_ExpiresAt = ?now + ttl, session_CreatedAt = ?created\<rparr>"
  let ?w3 = "w1\<lparr>os_ticks := Suc (Suc (os_ticks w1))\<rparr>"
  have "auth_Login bc ttl n p w =
      (case repo_CreateSession ?s ?w3 of
         (Some e, w) \<Rightarrow> (Inl e, w)
       | (None, w) \<Rightarrow> (Inr (tok', ?now + ttl, user\<lparr>user_PasswordHash := []\<rparr>), w))"
    using user w1 t keep by (simp add: auth_Login_def time_Now_pair split: prod.split option.split)
  with assms have out: "tok' = tok" "expires = ?now + ttl" "u = user\<lparr>user_PasswordHash := []\<rparr>"
      "snd (repo_CreateSession ?s ?w3) = w'"
    by (auto split: prod.splits option.splits)
  have "rp_data w' = (rp_data w)\<lparr>Sessions := mput (hashToken tok) ?s (Sessions (rp_data w))\<rparr>"
    unfolding out(4) [symmetric] repo_CreateSession_data using keep out(1) by simp
  with that user w1 t out(1-3) show ?thesis by simp
qed

subsection \<open>A state to exercise the properties at\<close>

text \<open>A library whose hashes are a prefix and the password, byte by byte in hexadecimal.\<close>

definition sample_bcrypt :: bcrypt where
  "sample_bcrypt = \<lparr>bc_Generate = (\<lambda>n p cost. Inr (''$2a$'' @ Hex p)),
     bc_Compare = (\<lambda>h p. if h = ''$2a$'' @ Hex p then None else Some (Foreign ''mismatch''))\<rparr>"

lemma sample_hash_solid: "list_all solid (''$2a$'' @ Hex p)"
proof -
  have "\<forall>c\<in>set hex_digits. solid c" by (simp add: hex_digits_def solid_def byte_def)
  moreover have "set (Hex p) \<subseteq> set hex_digits" by (rule set_Hex)
  ultimately have "list_all solid (Hex p)" by (auto simp: list_all_iff)
  then show ?thesis by (simp add: solid_def byte_def)
qed

lemma sample_bcrypt_ok: "bcrypt_ok sample_bcrypt"
  using sample_hash_solid by (simp add: bcrypt_ok_def sample_bcrypt_def HasPrefix_def)

lemma sample_hash_trim: "TrimSpace (''$2a$'' @ Hex p) = ''$2a$'' @ Hex p"
  using sample_hash_solid [of p] by (intro TrimSpace_solid) (simp only: list_all_iff)

text \<open>A repository with one user, whose password is \<open>secret-pw\<close>, in which saving succeeds.\<close>

definition sample_auth_user :: User where
  "sample_auth_user = sample_user\<lparr>user_PasswordHash := ''$2a$'' @ Hex ''secret-pw''\<rparr>"

definition sample_auth :: repo where
  "sample_auth = sample_repo\<lparr>rp_data := newSnapshot\<lparr>Users := [(''usr-1'', sample_auth_user)],
     UsernameIndex := [(''admin'', ''usr-1'')]\<rparr>\<rparr>"

lemma sample_auth_users_ok: "users_ok (rp_data sample_auth)"
proof -
  have "ToLower ''Admin'' = ''admin''" by (simp add: ToLower_def byte_def lower_byte_def is_upper_def)
  then show ?thesis
    by (auto simp: users_ok_def table_ok_def sample_auth_def sample_auth_user_def sample_user_def)
qed

lemma sample_Login:
  "\<exists>tok expires u w. auth_Login sample_bcrypt ttl '' admin'' ''secret-pw'' sample_auth = (Inr (tok, expires, u), w)"
proof -
  let ?tok = "RawURL_EncodeToString (replicate 32 CHR 0x00)"
  have "TrimSpace '' admin'' = ''admin''" by code_simp
  moreover have "ToLower ''admin'' = ''admin''" by (simp add: ToLower_def byte_def lower_byte_def is_upper_def)
  ultimately have user: "repo_GetUserByUsername (TrimSpace '' admin'') sample_auth = Inr sample_auth_user"
    by (simp add: repo_GetUserByUsername_def sample_auth_def)
  have pw: "password_Verify sample_bcrypt ''secret-pw'' (user_PasswordHash sample_auth_user)"
    by (rule password_roundtrip [OF sample_bcrypt_ok, where w = sample_repo])
      (simp add: password_Hash_def sample_bcrypt_def sample_auth_user_def minPasswordLen_def)
  have act: "user_IsActive sample_auth_user" by (simp add: sample_auth_user_def sample_user_def)
  have rand: "randomToken sample_auth = (Inr ?tok, sample_auth\<lparr>os_draws := Suc 0\<rparr>)"
    by (simp add: randomToken_def rand_Read_def sample_auth_def sample_repo_def)
  let ?w = "sample_auth\<lparr>os_draws := Suc 0, os_ticks := Suc (Suc (os_ticks sample_auth))\<rparr>"
  have save: "fst (repo_CreateSession s ?w) = None" for s
    unfolding repo_CreateSession_def by (rule sample_save_ok) (simp_all add: sample_auth_def sample_repo_def)
  show ?thesis
    using user pw act rand save
    by (auto simp: auth_Login_def time_Now_pair split: prod.splits option.splits) (metis fst_conv option.discI)
qed

subsection \<open>Properties\<close>

text \<open>
  C16: a login succeeds only with the right credentials: the name belongs to a stored, active user,
  the password verifies against that user's hash, the session that is stored (under the hash of the
  token, never the token itself) is that user's and expires one \<open>tokenTTL\<close> after the login, nothing
  else is changed, and the user that is returned does not carry the password hash.
\<close>

theorem auth_Login_sound:
  assumes "auth_Login bc ttl n p w = (Inr (tok, expires, u), w')"
  shows "\<exists>user created. repo_GetUserByUsername (TrimSpace n) w = Inr user \<and> user_IsActive user
    \<and> password_Verify bc p (user_PasswordHash user) \<and> u = user\<lparr>user_PasswordHash := []\<rparr>
    \<and> expires = os_clock w (os_ticks w) + ttl
    \<and> rp_data w' = (rp_data w)\<lparr>Sessions := mput (hashToken tok) \<lparr>session_TokenHash = hashToken tok,
         session_UserID = user_ID user, session_ExpiresAt = expires, session_CreatedAt = created\<rparr>
         (Sessions (rp_data w))\<rparr>"
  using assms by (rule Login_cases) blast

lemma auth_Login_sound_witness:
  "\<exists>tok expires u w. auth_Login sample_bcrypt 7 '' admin'' ''secret-pw'' sample_auth = (Inr (tok, expires, u), w)
     \<and> expires = os_clock sample_auth (os_ticks sample_auth) + 7"
  using sample_Login [of 7] auth_Login_sound [of sample_bcrypt 7 "'' admin''" "''secret-pw''" sample_auth] by blast

text \<open>
  C15: \<open>Authenticate\<close> accepts a token exactly when it is not empty, a session is stored under its hash
  that has not expired, and the session's user exists and is active; it returns that user without the
  password hash.
\<close>

theorem auth_Authenticate_iff:
  "fst (auth_Authenticate tok w) = Inr u \<longleftrightarrow>
     tok \<noteq> [] \<and> (\<exists>s user. mget (Sessions (rp_data w)) (hashToken tok) = Some s
       \<and> os_clock w (os_ticks w) \<le> session_ExpiresAt s
       \<and> mget (Users (rp_data w)) (session_UserID s) = Some user \<and> user_IsActive user
       \<and> u = user\<lparr>user_PasswordHash := []\<rparr>)"
  by (auto simp: auth_Authenticate_def repo_GetSessionByTokenHash_def repo_GetUserByID_def time_Now_pair
      split: option.splits)

text \<open>
  C36: the token of a login authenticates as the user who logged in, at any later state in which the
  session and the user are as the login left them and the session has not expired.
\<close>

theorem auth_Login_Authenticate:
  assumes "users_ok (rp_data w)" "auth_Login bc ttl n p w = (Inr (tok, expires, u), w1)"
    and "\<And>s. os_entropy w (os_draws w) 32 = Inr s \<Longrightarrow> length s = 32"
    and "mget (Sessions (rp_data w2)) (hashToken tok) = mget (Sessions (rp_data w1)) (hashToken tok)"
    and "mget (Users (rp_data w2)) (user_ID u) = mget (Users (rp_data w1)) (user_ID u)"
    and "os_clock w2 (os_ticks w2) \<le> expires"
  shows "fst (auth_Authenticate tok w2) = Inr u"
proof -
  from assms(2) obtain user created where l: "repo_GetUserByUsername (TrimSpace n) w = Inr user"
      "user_IsActive user" "u = user\<lparr>user_PasswordHash := []\<rparr>" "fst (randomToken w) = Inr tok"
      "rp_data w1 = (rp_data w)\<lparr>Sessions := mput (hashToken tok) \<lparr>session_TokenHash = hashToken tok,
         session_UserID = user_ID user, session_ExpiresAt = expires, session_CreatedAt = created\<rparr>
         (Sessions (rp_data w))\<rparr>"
    by (rule Login_cases)
  have "tok \<noteq> []"
  proof -
    from l(4) obtain raw where "os_entropy w (os_draws w) 32 = Inr raw" "tok = RawURL_EncodeToString raw"
      by (auto simp: randomToken_def rand_Read_def split: sum.splits)
    with assms(3) [of raw] RawURL_not_Nil [of raw] show ?thesis by (cases raw) auto
  qed
  moreover have "mget (Users (rp_data w)) (user_ID user) = Some user"
  proof -
    from l(1) obtain i where "mget (Users (rp_data w)) i = Some user"
      by (auto simp: repo_GetUserByUsername_def split: option.splits)
    moreover from this assms(1) have "user_ID user = i" using table_okD(3) by (auto simp: users_ok_def)
    ultimately show ?thesis by simp
  qed
  ultimately show ?thesis
    using assms(4-6) l by (simp add: auth_Authenticate_iff)
qed

lemma auth_Login_Authenticate_witness:
  "\<exists>tok expires u w. auth_Login sample_bcrypt 7 '' admin'' ''secret-pw'' sample_auth = (Inr (tok, expires, u), w)
     \<and> fst (auth_Authenticate tok (w\<lparr>os_ticks := 1\<rparr>)) = Inr u"
proof -
  obtain tok expires u w
    where l: "auth_Login sample_bcrypt 7 '' admin'' ''secret-pw'' sample_auth = (Inr (tok, expires, u), w)"
    using sample_Login [of 7] by blast
  have "os_clock w = os_clock sample_auth"
    using same_envD(5) [OF auth_Login_env [of sample_auth sample_bcrypt 7 "'' admin''" "''secret-pw''"]] l by simp
  then have c: "os_clock (w\<lparr>os_ticks := 1\<rparr>) (os_ticks (w\<lparr>os_ticks := 1\<rparr>)) \<le> expires"
    using l by (auto elim!: Login_cases simp: sample_auth_def sample_repo_def)
  from auth_Login_Authenticate [OF sample_auth_users_ok l _ _ _ c] l show ?thesis
    by (auto simp: sample_auth_def sample_repo_def)
qed

text \<open>
  C37: logging out revokes the token at once: whatever becomes of the state file, the next use of the
  token is unauthorized, no session of a token with another hash is touched, and no user.
\<close>

theorem auth_Logout_revokes:
  assumes "tok \<noteq> []"
  shows "fst (auth_Authenticate tok (snd (auth_Logout tok w))) = Inl (authE ErrUnauthorized)
    \<and> Users (rp_data (snd (auth_Logout tok w))) = Users (rp_data w)
    \<and> (\<forall>t. hashToken t \<noteq> hashToken tok \<longrightarrow>
        repo_GetSessionByTokenHash (hashToken t) (snd (auth_Logout tok w)) = repo_GetSessionByTokenHash (hashToken t) w)"
  using assms
  by (simp add: auth_Logout_def auth_Authenticate_def repo_GetSessionByTokenHash_def repo_frame)

lemma auth_Logout_revokes_witness:
  "fst (auth_Authenticate ''tok'' (snd (auth_Logout ''tok'' sample_auth))) = Inl (authE ErrUnauthorized)"
  using auth_Logout_revokes [of "''tok''" sample_auth] by simp

lemma ChangePassword_ok:
  assumes "bcrypt_ok bc" "users_ok (rp_data w)" and none: "fst (auth_ChangePassword bc i cur new w) = None"
  shows "\<exists>user h t. mget (Users (rp_data w)) i = Some user \<and> password_Verify bc cur (user_PasswordHash user)
    \<and> minPasswordLen \<le> length new \<and> password_Verify bc new h
    \<and> rp_data (snd (auth_ChangePassword bc i cur new w)) =
        (rp_data w)\<lparr>Users := mput i (user\<lparr>user_PasswordHash := h, user_UpdatedAt := t\<rparr>) (Users (rp_data w))\<rparr>"
proof -
  obtain user where user: "mget (Users (rp_data w)) i = Some user" "password_Verify bc cur (user_PasswordHash user)"
    using none by (auto simp: auth_ChangePassword_def repo_GetUserByID_def split: option.splits if_splits)
  obtain r w1 where w1: "password_Hash bc new w = (r, w1)" by fastforce
  from none user w1 obtain h where h: "r = Inr h"
    by (auto simp: auth_ChangePassword_def repo_GetUserByID_def split: sum.splits)
  have id: "user_ID user = i" using user(1) assms(2) table_okD(3) by (auto simp: users_ok_def)
  have "minPasswordLen \<le> length new" using w1 h by (auto simp: password_Hash_def split: if_splits)
  moreover have "password_Verify bc new h" by (rule password_roundtrip [OF assms(1), of new w]) (simp add: w1 h)
  moreover have "rp_data (snd (auth_ChangePassword bc i cur new w)) =
      (rp_data w)\<lparr>Users := mput i (user\<lparr>user_PasswordHash := h, user_UpdatedAt := os_clock w1 (os_ticks w1)\<rparr>) (Users (rp_data w))\<rparr>"
    using user w1 h id frame_pair(1) [OF w1]
    by (simp add: auth_ChangePassword_def repo_GetUserByID_def time_Now_pair repo_frame set_password_def)
  ultimately show ?thesis using user by blast
qed

text \<open>
  C38: a change of password needs the current one: when it succeeds, the user exists, the current
  password verified and the new one has at least eight characters; afterwards the new password
  verifies for that user, whose name, role and activation are the same, and no other user, no
  session and no site has changed.  Without the current password nothing changes at all.
\<close>

theorem auth_ChangePassword_correct:
  assumes "bcrypt_ok bc" "users_ok (rp_data w)"
  shows "(fst (auth_ChangePassword bc i cur new w) = None \<longrightarrow>
      (\<exists>user h t. mget (Users (rp_data w)) i = Some user \<and> password_Verify bc cur (user_PasswordHash user)
        \<and> minPasswordLen \<le> length new \<and> password_Verify bc new h
        \<and> rp_data (snd (auth_ChangePassword bc i cur new w)) =
            (rp_data w)\<lparr>Users := mput i (user\<lparr>user_PasswordHash := h, user_UpdatedAt := t\<rparr>) (Users (rp_data w))\<rparr>))
    \<and> (\<not> (\<exists>user. mget (Users (rp_data w)) i = Some user \<and> password_Verify bc cur (user_PasswordHash user)) \<longrightarrow>
      snd (auth_ChangePassword bc i cur new w) = w)"
proof
  show "\<not> (\<exists>user. mget (Users (rp_data w)) i = Some user \<and> password_Verify bc cur (user_PasswordHash user)) \<longrightarrow>
      snd (auth_ChangePassword bc i cur new w) = w"
    by (auto simp: auth_ChangePassword_def repo_GetUserByID_def split: option.split)
qed (use ChangePassword_ok [OF assms] in blast)

lemma auth_ChangePassword_correct_witness:
  "snd (auth_ChangePassword sample_bcrypt ''usr-1'' ''wrong'' ''another-pw'' sample_auth) = sample_auth"
proof -
  have "Hex ''secret-pw'' \<noteq> Hex ''wrong''" by (simp add: Hex_inj)
  then have "\<not> password_Verify sample_bcrypt ''wrong'' (user_PasswordHash sample_auth_user)"
    using sample_hash_trim [of "''secret-pw''"]
    by (simp add: password_Verify_def sample_auth_user_def sample_bcrypt_def Let_def HasPrefix_def)
  then have "\<not> (\<exists>user. mget (Users (rp_data sample_auth)) ''usr-1'' = Some user
      \<and> password_Verify sample_bcrypt ''wrong'' (user_PasswordHash user))"
    by (simp add: sample_auth_def)
  with auth_ChangePassword_correct [OF sample_bcrypt_ok sample_auth_users_ok, of "''usr-1''" "''wrong''" "''another-pw''"]
  show ?thesis by blast
qed

text \<open>
  The bootstrap creates the one administrator it should: with users present it does nothing;
  when it succeeds without users there is exactly one, an active administrator, and logging in with
  the same password under the same name (surrounding blanks and letter case aside) is refused for no
  reason but a state file that cannot be written.
\<close>

lemma auth_EnsureBootstrapAdmin_login:
  assumes "bcrypt_ok bc" "auth_EnsureBootstrapAdmin bc username p w = (None, w1)" "users_ok (rp_data w)"
    and "Users (rp_data w) = []" "ToLower (TrimSpace n) = ToLower (TrimSpace username)"
    and "os_entropy w1 (os_draws w1) 32 = Inr raw"
  shows "length (Users (rp_data w1)) = 1
    \<and> ((\<exists>tok expires u. fst (auth_Login bc ttl n p w1) = Inr (tok, expires, u) \<and> user_Role u = RoleAdmin)
       \<or> (\<exists>a e. fst (auth_Login bc ttl n p w1) = Inl (Errorf a e [])))"
proof -
  have idx: "UsernameIndex (rp_data w) = []"
  proof -
    have "mget (UsernameIndex (rp_data w)) k = None" for k
      using table_okD(4) [OF assms(3) [unfolded users_ok_def], of k] assms(4) by (cases "mget (UsernameIndex (rp_data w)) k") auto
    from this [of "fst (hd (UsernameIndex (rp_data w)))"] show ?thesis by (cases "UsernameIndex (rp_data w)") auto
  qed
  obtain r h_w where hw: "password_Hash bc p w = (r, h_w)" by fastforce
  obtain s i_w where iw: "idgen_New ''usr'' h_w = (s, i_w)" by fastforce
  from assms(2,4) hw iw obtain h i where h: "r = Inr h" "s = Inr i"
    by (auto simp: auth_EnsureBootstrapAdmin_def repo_CountUsers_def split: if_splits sum.splits)
  let ?u = "\<lparr>user_ID = i, user_Username = TrimSpace username, user_PasswordHash = h, user_Role = RoleAdmin,
    user_IsActive = True, user_CreatedAt = os_clock i_w (os_ticks i_w), user_UpdatedAt = os_clock i_w (os_ticks i_w)\<rparr>"
  have w1: "w1 = snd (repo_CreateUser ?u (i_w\<lparr>os_ticks := Suc (os_ticks i_w)\<rparr>))"
    using assms(2,4) hw iw h
    by (auto simp: auth_EnsureBootstrapAdmin_def repo_CountUsers_def time_Now_pair split: if_splits)
  have d: "rp_data i_w = rp_data w" using frame_pair(1) [OF hw] frame_pair(2) [OF iw] by simp
  have data: "rp_data w1 = (rp_data w)\<lparr>Users := [(i, ?u)], UsernameIndex := [(ToLower (TrimSpace username), i)]\<rparr>"
    unfolding w1 repo_CreateUser_data by (simp add: d idx assms(4))
  have ver: "password_Verify bc p h" by (rule password_roundtrip [OF assms(1), of p w]) (simp add: hw h)
  have get: "repo_GetUserByUsername (TrimSpace n) w1 = Inr ?u"
    using assms(5) by (simp add: repo_GetUserByUsername_def data)
  have tok: "randomToken w1 = (Inr (RawURL_EncodeToString raw), w1\<lparr>os_draws := Suc (os_draws w1)\<rparr>)"
    using assms(6) by (simp add: randomToken_def rand_Read_def)
  have role: "user_Role (?u\<lparr>user_PasswordHash := []\<rparr>) = RoleAdmin" by simp
  show ?thesis
    using get ver tok role repo_save_error data
    by (auto simp: auth_Login_def time_Now_pair repo_CreateSession_def split: prod.split option.split)
      (metis fst_conv repo_save_error)+
qed

lemma auth_EnsureBootstrapAdmin_login_witness:
  "\<exists>w1. auth_EnsureBootstrapAdmin sample_bcrypt '' root '' ''secret-pw'' sample_repo = (None, w1)
     \<and> length (Users (rp_data w1)) = 1"
proof -
  let ?r = "auth_EnsureBootstrapAdmin sample_bcrypt '' root '' ''secret-pw'' sample_repo"
  have e: "os_entropy sample_repo = (\<lambda>_ k. Inr (replicate k CHR 0x00))" "rp_data sample_repo = newSnapshot"
    by (simp_all add: sample_repo_def)
  obtain h hw where hw: "password_Hash sample_bcrypt ''secret-pw'' sample_repo = (Inr h, hw)"
    by (simp add: password_Hash_def sample_bcrypt_def minPasswordLen_def)
  have hw': "hw = sample_repo\<lparr>os_draws := Suc (os_draws sample_repo)\<rparr>"
    using hw by (simp add: password_Hash_def minPasswordLen_def)
  obtain i iw where iw: "idgen_New ''usr'' hw = (Inr i, iw)"
    by (simp add: idgen_New_def rand_Read_def hw' e time_Now_pair)
  have iw': "iw = hw\<lparr>os_draws := Suc (os_draws hw), os_ticks := Suc (os_ticks hw)\<rparr>"
    using iw by (simp add: idgen_New_def rand_Read_def hw' e time_Now_pair)
  have nb: "TrimSpace ''secret-pw'' \<noteq> []" by code_simp
  have save: "fst (repo_CreateUser u (iw\<lparr>os_ticks := t\<rparr>)) = None" for u t
    unfolding repo_CreateUser_def Let_def
    by (simp add: iw' hw' e newSnapshot_def) (rule sample_save_ok; simp add: sample_repo_def)
  have "fst ?r = None"
    using hw iw nb save
    by (simp add: auth_EnsureBootstrapAdmin_def repo_CountUsers_def e time_Now_pair newSnapshot_def)
  then have r: "?r = (None, snd ?r)" by (simp add: prod_eq_iff)
  have ent: "os_entropy (snd ?r) = os_entropy sample_repo"
    using hw iw nb
    by (simp add: auth_EnsureBootstrapAdmin_def repo_CountUsers_def time_Now_pair iw' hw'
        same_envD(6) [OF repo_env(1)])
  have "users_ok (rp_data sample_repo)" "Users (rp_data sample_repo) = []"
    using newSnapshot_ok by (simp_all add: e data_ok_def) (simp add: newSnapshot_def)
  from auth_EnsureBootstrapAdmin_login [OF sample_bcrypt_ok r this refl, of "replicate 32 CHR 0x00" 7] r
  show ?thesis by (auto simp: ent e)
qed

end
