(* ===== verification/RateLimit.thy ===== *)
theory RateLimit
  imports GoOS
begin

text \<open>
  \<open>internal/security/ratelimit/login_limiter.go\<close>: failed logins per key, and the block that follows
  too many of them.  Times are nanoseconds; \<open>time.Time.Sub\<close> saturates at the ends of \<open>int64\<close>.
\<close>

definition time_Second :: int where
  "time_Second = 1000000000"

definition time_Minute :: int where
  "time_Minute = 60 * time_Second"

text \<open>\<open>time.Time{}\<close>: the first of January of year 1.\<close>

definition time_zero :: int where
  "time_zero = - 62135596800 * time_Second"

definition time_Sub :: "int \<Rightarrow> int \<Rightarrow> int" where
  "time_Sub a b = max (- (2 ^ 63)) (min (2 ^ 63 - 1) (a - b))"

record entry =
  failCount :: int
  blockedUntil :: int
  lastAttempt :: int

record LoginLimiter =
  maxFail :: int
  window :: int
  entries :: "(string, entry) gomap"

definition NewLoginLimiter :: "int \<Rightarrow> int \<Rightarrow> LoginLimiter" where
  "NewLoginLimiter m win =
     \<lparr>maxFail = (if m < 1 then 5 else m), window = (if win < time_Second then 5 * time_Minute else win),
      entries = []\<rparr>"

definition Allow :: "string \<Rightarrow> int \<Rightarrow> LoginLimiter \<Rightarrow> bool \<times> LoginLimiter" where
  "Allow key now l =
     (case mget (entries l) key of
        None \<Rightarrow> (True, l)
      | Some e \<Rightarrow>
          if time_Sub now (lastAttempt e) > window l then (True, l\<lparr>entries := mdel key (entries l)\<rparr>)
          else (\<not> now < blockedUntil e, l))"

definition fresh_entry :: entry where
  "fresh_entry = \<lparr>failCount = 0, blockedUntil = time_zero, lastAttempt = time_zero\<rparr>"

definition RegisterFailure :: "string \<Rightarrow> int \<Rightarrow> LoginLimiter \<Rightarrow> LoginLimiter" where
  "RegisterFailure key now l =
     (let e = (case mget (entries l) key of
                 None \<Rightarrow> fresh_entry
               | Some e \<Rightarrow> if time_Sub now (lastAttempt e) > window l then fresh_entry else e);
          e = e\<lparr>failCount := wrap64 (failCount e + 1), lastAttempt := now\<rparr>;
          e = (if failCount e \<ge> maxFail l then e\<lparr>blockedUntil := now + window l\<rparr> else e)
      in l\<lparr>entries := mput key e (entries l)\<rparr>)"

definition RegisterSuccess :: "string \<Rightarrow> LoginLimiter \<Rightarrow> LoginLimiter" where
  "RegisterSuccess key l = l\<lparr>entries := mdel key (entries l)\<rparr>"

subsection \<open>The interface the login handler relies on\<close>

datatype login_event = Attempt string int | Failed string int | Succeeded string

fun event_key :: "login_event \<Rightarrow> string" where
  "event_key (Attempt k _) = k"
| "event_key (Failed k _) = k"
| "event_key (Succeeded k) = k"

text \<open>
  A gate keeps something per key (\<open>view\<close>); its answer for a key depends on that alone, and no event
  of another key changes it.  Then no sequence of other keys' events can lock a key out, or unlock it.
\<close>

locale login_gate =
  fixes allow :: "string \<Rightarrow> int \<Rightarrow> 's \<Rightarrow> bool \<times> 's"
    and failure :: "string \<Rightarrow> int \<Rightarrow> 's \<Rightarrow> 's"
    and success :: "string \<Rightarrow> 's \<Rightarrow> 's"
    and view :: "'s \<Rightarrow> string \<Rightarrow> 'v"
  assumes allow_local: "view s k = view s' k \<Longrightarrow> fst (allow k t s) = fst (allow k t s')"
    and allow_other: "k' \<noteq> k \<Longrightarrow> view (snd (allow k t s)) k' = view s k'"
    and failure_other: "k' \<noteq> k \<Longrightarrow> view (failure k t s) k' = view s k'"
    and success_other: "k' \<noteq> k \<Longrightarrow> view (success k s) k' = view s k'"
begin

fun apply_event :: "login_event \<Rightarrow> 's \<Rightarrow> 's" where
  "apply_event (Attempt k t) s = snd (allow k t s)"
| "apply_event (Failed k t) s = failure k t s"
| "apply_event (Succeeded k) s = success k s"

lemma event_other: "event_key e \<noteq> k \<Longrightarrow> view (apply_event e s) k = view s k"
  by (cases e) (auto simp: allow_other failure_other success_other)

lemma events_other: "k \<notin> event_key ` set es \<Longrightarrow> view (fold apply_event es s) k = view s k"
  by (induction es arbitrary: s) (auto simp: event_other)

lemma isolated: "k \<notin> event_key ` set es \<Longrightarrow> fst (allow k t (fold apply_event es s)) = fst (allow k t s)"
  by (intro allow_local events_other)

end

definition limiter_view :: "LoginLimiter \<Rightarrow> string \<Rightarrow> entry option \<times> int \<times> int" where
  "limiter_view l k = (mget (entries l) k, window l, maxFail l)"

lemma Allow_keeps: "window (snd (Allow k t l)) = window l" "maxFail (snd (Allow k t l)) = maxFail l"
  by (simp_all add: Allow_def split: option.split)

lemma RegisterFailure_keeps: "window (RegisterFailure k t l) = window l" "maxFail (RegisterFailure k t l) = maxFail l"
  by (simp_all add: RegisterFailure_def Let_def)

interpretation gate: login_gate Allow RegisterFailure RegisterSuccess limiter_view
proof unfold_locales
  show "limiter_view s k = limiter_view s' k \<Longrightarrow> fst (Allow k t s) = fst (Allow k t s')" for s s' k t
    by (auto simp: limiter_view_def Allow_def split: option.split)
  show "k' \<noteq> k \<Longrightarrow> limiter_view (snd (Allow k t s)) k' = limiter_view s k'" for k k' t s
    by (auto simp: limiter_view_def Allow_def split: option.split)
qed (simp_all add: limiter_view_def RegisterFailure_def RegisterSuccess_def Let_def)

subsection \<open>What the limiter promises\<close>

fun limiter_event :: "login_event \<Rightarrow> LoginLimiter \<Rightarrow> LoginLimiter" where
  "limiter_event (Attempt k t) l = snd (Allow k t l)"
| "limiter_event (Failed k t) l = RegisterFailure k t l"
| "limiter_event (Succeeded k) l = RegisterSuccess k l"

lemma limiter_event_gate: "limiter_event = gate.apply_event"
proof (rule ext, rule ext)
  show "limiter_event e l = gate.apply_event e l" for e l by (cases e) simp_all
qed

text \<open>
  The specification in terms of the history alone: the failures of the key since its last success,
  latest first, and how many of them form the current streak, each within the window of the one before.
\<close>

fun failures :: "string \<Rightarrow> login_event list \<Rightarrow> int list" where
  "failures k [] = []"
| "failures k (Attempt k' t # es) = failures k es"
| "failures k (Failed k' t # es) = (if k' = k then t # failures k es else failures k es)"
| "failures k (Succeeded k' # es) = (if k' = k then [] else failures k es)"

fun streak :: "int \<Rightarrow> int list \<Rightarrow> nat" where
  "streak win [] = 0"
| "streak win [t] = 1"
| "streak win (t # t' # ts) = (if t - t' > win then 1 else Suc (streak win (t' # ts)))"

definition spec_allow :: "int \<Rightarrow> int \<Rightarrow> int list \<Rightarrow> int \<Rightarrow> bool" where
  "spec_allow m win ts now = (case ts of [] \<Rightarrow> True | t # _ \<Rightarrow> \<not> (m \<le> int (streak win ts) \<and> now < t + win))"

fun event_time :: "login_event \<Rightarrow> int option" where
  "event_time (Attempt _ t) = Some t"
| "event_time (Failed _ t) = Some t"
| "event_time (Succeeded _) = None"

text \<open>The clock does not run backwards: no event is earlier than one before it in the history.\<close>

definition event_times :: "login_event list \<Rightarrow> int list" where
  "event_times es = List.map_filter event_time es"

lemma event_times_simps [simp]:
  "event_times [] = []" "event_times (Attempt k t # es) = t # event_times es" "event_times (Failed k t # es) = t # event_times es"
  "event_times (Succeeded k # es) = event_times es"
  by (simp_all add: event_times_def map_filter_simps)

lemma failures_event_times: "set (failures k es) \<subseteq> set (event_times es)"
  by (induction k es rule: failures.induct) auto

lemma streak_le: "streak win ts \<le> length ts"
  by (induction win ts rule: streak.induct) auto

lemma failures_le: "length (failures k es) \<le> length es"
  by (induction k es rule: failures.induct) auto

text \<open>How an entry of the limiter stands for the history, when no event so far is later than \<open>T\<close>.\<close>

definition entry_for :: "int \<Rightarrow> int \<Rightarrow> int \<Rightarrow> int list \<Rightarrow> entry option \<Rightarrow> bool" where
  "entry_for m win T ts eo =
     (case eo of
        None \<Rightarrow> ts = [] \<or> win < T - hd ts
      | Some e \<Rightarrow> ts \<noteq> [] \<and> lastAttempt e = hd ts \<and> failCount e = int (streak win ts)
          \<and> blockedUntil e = (if m \<le> int (streak win ts) then hd ts + win else time_zero))"

lemma time_Sub_gt: "win < 2 ^ 63 - 1 \<Longrightarrow> time_Second \<le> win \<Longrightarrow> win < time_Sub a b \<longleftrightarrow> win < a - b"
  by (auto simp: time_Sub_def time_Second_def)

lemma entry_for_later: "entry_for m win T ts eo \<Longrightarrow> T \<le> T' \<Longrightarrow> entry_for m win T' ts eo"
  by (auto simp: entry_for_def split: option.splits)

lemma streak_Cons: "streak win (t # ts) = (if ts = [] \<or> win < t - hd ts then 1 else Suc (streak win ts))"
  by (cases ts) auto

lemma Allow_entry:
  assumes "entry_for m win T ts (mget (entries l) k)" "window l = win" "T \<le> now" "time_zero \<le> now"
    and win: "time_Second \<le> win" "win < 2 ^ 63 - 1"
  shows "fst (Allow k now l) = spec_allow m win ts now"
    and "entry_for m win now ts (mget (entries (snd (Allow k now l))) k)"
proof -
  show "entry_for m win now ts (mget (entries (snd (Allow k now l))) k)"
    using assms by (auto simp: entry_for_def Allow_def time_Sub_gt split: option.splits)
  show "fst (Allow k now l) = spec_allow m win ts now"
  proof (cases ts)
    case Nil
    then show ?thesis using assms by (auto simp: entry_for_def Allow_def spec_allow_def split: option.splits)
  next
    case (Cons t ts')
    then show ?thesis
      using assms(1-4) win
      by (auto simp: entry_for_def Allow_def spec_allow_def time_Sub_gt time_Second_def
          split: option.splits if_splits)
  qed
qed

lemma RegisterFailure_entry:
  assumes "entry_for m win T ts (mget (entries l) k)" "window l = win" "maxFail l = m" "T \<le> now"
    and "int (length ts) < 2 ^ 63 - 1" and m: "1 \<le> m" and win: "time_Second \<le> win" "win < 2 ^ 63 - 1"
  shows "entry_for m win now (now # ts) (mget (entries (RegisterFailure k now l)) k)"
proof -
  have "int (streak win ts) < 2 ^ 63 - 1" using streak_le [of win ts] assms(5) by linarith
  then have "wrap64 (int (streak win ts) + 1) = int (streak win ts) + 1" "wrap64 1 = 1"
    by (auto intro!: wrap64_id)
  then show ?thesis
    using assms(1-4) m win
    by (auto simp: entry_for_def RegisterFailure_def Let_def streak_Cons fresh_entry_def time_Sub_gt
        split: option.splits)
qed

lemma limiter_history:
  assumes m: "1 \<le> m" and win: "time_Second \<le> win" "win < 2 ^ 63 - 1"
  shows "sorted (event_times hs) \<Longrightarrow> \<forall>t\<in>set (event_times hs). time_zero \<le> t \<and> t \<le> T \<Longrightarrow> int (length hs) < 2 ^ 63 - 1 \<Longrightarrow>
    entry_for m win T (failures k (rev hs)) (mget (entries (fold limiter_event hs (NewLoginLimiter m win))) k)
    \<and> window (fold limiter_event hs (NewLoginLimiter m win)) = win
    \<and> maxFail (fold limiter_event hs (NewLoginLimiter m win)) = m"
proof (induction hs arbitrary: T rule: rev_induct)
  case Nil
  then show ?case using m win by (simp add: NewLoginLimiter_def entry_for_def)
next
  case (snoc e hs)
  let ?l = "fold limiter_event hs (NewLoginLimiter m win)"
  have app: "event_times (hs @ [e]) = event_times hs @ event_times [e]" by (simp add: event_times_def map_filter_def)
  have IH: "entry_for m win T' (failures k (rev hs)) (mget (entries ?l) k)" "window ?l = win" "maxFail ?l = m"
    if "\<forall>t\<in>set (event_times hs). t \<le> T'" for T'
    using snoc.IH [of T'] snoc.prems that unfolding app by (auto simp: sorted_append)
  have len: "int (length (failures k (rev hs))) < 2 ^ 63 - 1"
    using failures_le [of k "rev hs"] snoc.prems(3) by simp
  show ?case
  proof (cases e)
    case (Attempt k' t)
    then have t: "\<forall>s\<in>set (event_times hs). s \<le> t" "time_zero \<le> t" "t \<le> T"
      using snoc.prems unfolding app by (auto simp: sorted_append)
    show ?thesis
    proof (cases "k' = k")
      case True
      with Allow_entry(2) [OF IH(1,2) [OF t(1)] order_refl t(2) win] IH(2,3) [OF t(1)] t(3) Attempt
      show ?thesis by (auto simp: Allow_keeps intro: entry_for_later)
    next
      case False
      then have "mget (entries (snd (Allow k' t ?l))) k = mget (entries ?l) k"
        using gate.allow_other [of k k' t ?l] by (simp add: limiter_view_def)
      with IH [OF t(1)] t(3) Attempt show ?thesis
        by (auto simp: Allow_keeps intro: entry_for_later)
    qed
  next
    case (Failed k' t)
    then have t: "\<forall>s\<in>set (event_times hs). s \<le> t" "time_zero \<le> t" "t \<le> T"
      using snoc.prems unfolding app by (auto simp: sorted_append)
    show ?thesis
    proof (cases "k' = k")
      case True
      with RegisterFailure_entry [OF IH [OF t(1)] order_refl len m win] IH(2,3) [OF t(1)] t(3) Failed
      show ?thesis by (auto simp: RegisterFailure_keeps intro: entry_for_later)
    next
      case False
      then have "mget (entries (RegisterFailure k' t ?l)) k = mget (entries ?l) k"
        using gate.failure_other [of k k' t ?l] by (simp add: limiter_view_def)
      with IH [OF t(1)] t(3) Failed False show ?thesis
        by (auto simp: RegisterFailure_keeps intro: entry_for_later)
    qed
  next
    case (Succeeded k')
    then have "\<forall>s\<in>set (event_times hs). s \<le> T" using snoc.prems unfolding app by auto
    from IH [OF this] Succeeded show ?thesis
      by (auto simp: RegisterSuccess_def entry_for_def)
  qed
qed

subsection \<open>Properties\<close>

text \<open>
  C14: the limiter refines its specification over histories.  After any sequence of attempts, failures
  and successes (of any keys, with a clock that does not run backwards), \<open>Allow\<close> refuses a key exactly
  when its current streak of failures, each within the window of the previous one and none before its
  last success, has reached \<open>maxFail\<close> and less than a window has passed since the last failure; so a
  block always ends.
\<close>

theorem limiter_refines_history:
  assumes "1 \<le> m" "time_Second \<le> win" "win < 2 ^ 63 - 1"
    and "sorted (event_times hs)" "\<forall>t\<in>set (event_times hs). time_zero \<le> t \<and> t \<le> now" "time_zero \<le> now"
    and "int (length hs) < 2 ^ 63 - 1"
  shows "fst (Allow k now (fold limiter_event hs (NewLoginLimiter m win))) =
    spec_allow m win (failures k (rev hs)) now"
  using limiter_history [OF assms(1-5,7), of k] Allow_entry(1) [OF _ _ order_refl assms(6,2,3)] by blast

lemma limiter_refines_history_witness:
  "\<not> fst (Allow ''k'' (3 * time_Second)
      (fold limiter_event [Failed ''k'' time_Second, Failed ''j'' time_Second, Failed ''k'' (2 * time_Second)]
        (NewLoginLimiter 2 (5 * time_Second))))"
  by (subst limiter_refines_history) (simp_all add: time_Second_def time_zero_def spec_allow_def)

text \<open>
  Keys do not interfere: no sequence of events of other keys, whatever their times, changes the
  answer for a key, so one client cannot lock out another.
\<close>

lemma limiter_keys_isolated:
  assumes "k \<notin> event_key ` set es"
  shows "fst (Allow k t (fold limiter_event es l)) = fst (Allow k t l)"
  using gate.isolated [OF assms] by (simp add: limiter_event_gate)

lemma limiter_keys_isolated_witness:
  "fst (Allow ''k'' 1 (fold limiter_event [Failed ''j'' 0, Failed ''j'' 0, Attempt ''j'' 1] (NewLoginLimiter 1 time_Second)))"
  by (subst limiter_keys_isolated) (simp_all add: Allow_def NewLoginLimiter_def)

end
