(* ===== verification/Backup.thy ===== *)
theory Backup
  imports FileDB GoTime
begin

text \<open>
  \<open>internal/backup/service.go\<close>: copies of the state file.  \<open>done\<close> says whether the request's context is
  done on entry; the context is looked at only there.
\<close>

record BackupService =
  bk_apply :: bool
  bk_stateFile :: string
  bk_backupDir :: string

record BackupResult =
  br_File :: string
  br_CreatedAt :: int

text \<open>\<open>os.Open\<close> for reading: where the file is.\<close>

definition OpenRead :: "string \<Rightarrow> 'a os_scheme \<Rightarrow> (error + string list) \<times> 'a os_scheme" where
  "OpenRead p w =
     (case sys w of
        (Some e, w) \<Rightarrow> (Inl (PathError ''open'' p e), w)
      | (None, w) \<Rightarrow>
          (case resolve True p w of
             Inl e \<Rightarrow> (Inl (PathError ''open'' p e), w)
           | Inr q \<Rightarrow> (if fs_get (os_fs w) q = None then Inl (PathError ''open'' p ENOENT) else Inr q, w)))"

text \<open>\<open>io.Copy\<close> from the open file at \<open>q\<close> to the open, empty file \<open>tmp\<close> at \<open>t\<close>.\<close>

definition io_Copy :: "string \<Rightarrow> string list \<Rightarrow> string \<Rightarrow> string list \<Rightarrow> 'a os_scheme \<Rightarrow> error option \<times> 'a os_scheme" where
  "io_Copy src q tmp t w =
     (case sys w of
        (Some e, w) \<Rightarrow> (Some (PathError ''read'' src e), w)
      | (None, w) \<Rightarrow>
          (case fs_get (os_fs w) q of
             Some (File c) \<Rightarrow> write_at tmp t c w
           | _ \<Rightarrow> (Some (PathError ''read'' src EISDIR), w)))"

definition copyFile :: "string \<Rightarrow> string \<Rightarrow> 'a os_scheme \<Rightarrow> error option \<times> 'a os_scheme" where
  "copyFile src dst w =
     (case OpenRead src w of
        (Inl e, w) \<Rightarrow> (Some (Errorf ''open source file: '' e []), w)
      | (Inr q, w) \<Rightarrow>
          (case MkdirAll (Dir_of dst) w of
             (Some e, w) \<Rightarrow> (Some (Errorf ''create destination dir: '' e []), w)
           | (None, w) \<Rightarrow>
               (let tmp = dst @ ''.tmp'' in
                case OpenTruncate tmp w of
                  (Inl e, w) \<Rightarrow> (Some (Errorf ''create temp file: '' e []), w)
                | (Inr t, w) \<Rightarrow>
                    (case io_Copy src q tmp t w of
                       (Some e, w) \<Rightarrow> (Some (Errorf ''copy file: '' e []), w)
                     | (None, w) \<Rightarrow>
                         (case sys w of
                            (Some e, w) \<Rightarrow> (Some (Errorf ''close temp file: '' (PathError ''close'' tmp e) []), w)
                          | (None, w) \<Rightarrow>
                              (case Rename tmp dst w of
                                 (Some e, w) \<Rightarrow> (Some (Errorf ''move backup file: '' e []), w)
                               | (None, w) \<Rightarrow> (None, w)))))))"

definition backup_name :: "int \<Rightarrow> string" where
  "backup_name now = ''nusantara_state_'' @ Format_stamp now @ ''.json''"

definition backup_Run :: "BackupService \<Rightarrow> ctx_err option \<Rightarrow> 'a os_scheme \<Rightarrow> (error + BackupResult) \<times> 'a os_scheme" where
  "backup_Run s done w =
     (case done of
        Some e \<Rightarrow> (Inl (ctxE e), w)
      | None \<Rightarrow>
          if TrimSpace (bk_stateFile s) = [] then (Inl (NewError ''state file is empty''), w)
          else if TrimSpace (bk_backupDir s) = [] then (Inl (NewError ''backup dir is empty''), w)
          else case time_Now w of
            (now, w) \<Rightarrow>
              (let target = PathJoin [bk_backupDir s, backup_name now];
                   result = \<lparr>br_File = target, br_CreatedAt = now\<rparr> in
               if \<not> bk_apply s then (Inr result, w)
               else case MkdirAll (bk_backupDir s) w of
                 (Some e, w) \<Rightarrow> (Inl (Errorf ''create backup dir: '' e []), w)
               | (None, w) \<Rightarrow>
                   (case copyFile (bk_stateFile s) target w of
                      (Some e, w) \<Rightarrow> (Inl e, w)
                    | (None, w) \<Rightarrow> (Inr result, w))))"

text \<open>The working directory as a path; \<open>filepath.Abs\<close> fails only when it cannot be read.\<close>

definition cwd_path :: "'a os_scheme \<Rightarrow> string" where
  "cwd_path w = abs_path (os_cwd w)"

definition in_backup_dir :: "string \<Rightarrow> string \<Rightarrow> bool" where
  "in_backup_dir absBackupDir absFile \<longleftrightarrow> HasPrefix absFile (absBackupDir @ [slash]) \<or> absFile = absBackupDir"

definition backup_Restore :: "BackupService \<Rightarrow> ctx_err option \<Rightarrow> string \<Rightarrow> 'a os_scheme \<Rightarrow> error option \<times> 'a os_scheme" where
  "backup_Restore s done file w =
     (case done of
        Some e \<Rightarrow> (Some (ctxE e), w)
      | None \<Rightarrow>
          (let backupFile = TrimSpace file in
           if backupFile = [] then (Some (backupE ErrInvalidBackupPath), w)
           else (let absBackupDir = Abs (cwd_path w) (bk_backupDir s); absFile = Abs (cwd_path w) backupFile in
             if \<not> in_backup_dir absBackupDir absFile then (Some (backupE ErrInvalidBackupPath), w)
             else if \<not> bk_apply s then (None, w)
             else case Stat absFile w of
               (Inl e, w) \<Rightarrow> (Some (Errorf ''backup file not found: '' e []), w)
             | (Inr _, w) \<Rightarrow> copyFile absFile (bk_stateFile s) w)))"

subsection \<open>What copying leaves alone\<close>

lemma OpenRead_env: "OpenRead p w = (r, w') \<Longrightarrow> env_of w' = env_of w"
  by (auto simp: OpenRead_def dest!: os_env2 split: prod.splits option.splits sum.splits)

lemma io_Copy_env: "io_Copy a b c d w = (r, w') \<Longrightarrow> env_of w' = env_of w"
  by (auto simp: io_Copy_def dest!: os_env2 split: prod.splits option.splits node.splits)

lemma copyFile_env: "copyFile a b w = (r, w') \<Longrightarrow> env_of w' = env_of w"
  by (auto simp: copyFile_def Let_def dest!: os_env os_env2 OpenRead_env io_Copy_env
      split: prod.splits option.splits sum.splits)

lemma backup_Run_env: "backup_Run s d w = (r, w') \<Longrightarrow> env_of w' = env_of w"
  by (auto simp: backup_Run_def Let_def dest!: os_env os_env2 copyFile_env split: prod.splits option.splits if_splits)

lemma backup_Restore_env: "backup_Restore s d f w = (r, w') \<Longrightarrow> env_of w' = env_of w"
  by (auto simp: backup_Restore_def Let_def dest!: os_env copyFile_env split: prod.splits option.splits sum.splits if_splits)

end
