(* ===== verification/Database.thy ===== *)
theory Database
  imports GoOS
begin

text \<open>
  \<open>internal/db/service.go\<close>: databases and database users through the \<open>mysql\<close> client.  The client is a
  command of the state; what the code controls is the SQL text it is given.
\<close>

record DBService =
  db_apply :: bool
  db_mysqlCommand :: string

record DatabaseInfo =
  di_Name :: string
  di_System :: bool

definition db_NewService :: "bool \<Rightarrow> string \<Rightarrow> DBService" where
  "db_NewService apply_flag mysqlCommand =
     \<lparr>db_apply = apply_flag, db_mysqlCommand = (if TrimSpace mysqlCommand = [] then ''mysql'' else mysqlCommand)\<rparr>"

definition identifier_char :: "char \<Rightarrow> bool" where
  "identifier_char c \<longleftrightarrow>
     97 \<le> byte c \<and> byte c \<le> 122 \<or> 65 \<le> byte c \<and> byte c \<le> 90 \<or> is_digit c \<or> c = CHR ''_''"

definition host_char :: "char \<Rightarrow> bool" where
  "host_char c \<longleftrightarrow>
     97 \<le> byte c \<and> byte c \<le> 122 \<or> 65 \<le> byte c \<and> byte c \<le> 90 \<or> is_digit c \<or> c \<in> set ''._%-''"

definition identifierPattern :: "string \<Rightarrow> bool" where
  "identifierPattern s \<longleftrightarrow> s \<noteq> [] \<and> list_all identifier_char s"

definition hostPattern :: "string \<Rightarrow> bool" where
  "hostPattern s \<longleftrightarrow> s \<noteq> [] \<and> list_all host_char s"

definition systemDatabases :: "string list" where
  "systemDatabases = [''mysql'', ''information_schema'', ''performance_schema'', ''sys'']"

definition isValidIdentifier :: "string \<Rightarrow> bool" where
  "isValidIdentifier name =
     (if length name < 1 \<or> length name > 64 then False else identifierPattern name)"

text \<open>The single quotation mark and the back quote.\<close>

definition squote :: char where "squote = CHR 0x27"
definition bquote :: char where "bquote = CHR 0x60"

definition escapeSQLString :: "string \<Rightarrow> string" where
  "escapeSQLString v = ReplaceAll v [squote] [squote, squote]"

definition sql_string :: "string \<Rightarrow> string" where
  "sql_string v = [squote] @ escapeSQLString v @ [squote]"

text \<open>The text \<open>%v\<close> prints for a list of strings.\<close>

definition print_args :: "string list \<Rightarrow> string" where
  "print_args args = ''['' @ Join args '' '' @ '']''"

definition db_run :: "DBService \<Rightarrow> string list \<Rightarrow> 'a os_scheme \<Rightarrow> (error + string) \<times> 'a os_scheme" where
  "db_run s args w =
     (case CombinedOutput (db_mysqlCommand s # args) w of
        ((out, Some e), w) \<Rightarrow>
          (Inl (Errorf (db_mysqlCommand s @ '' '' @ print_args args @ '': '') e ('' ('' @ TrimSpace out @ '')'')), w)
      | ((out, None), w) \<Rightarrow> (Inr out, w))"

definition db_query :: "DBService \<Rightarrow> string \<Rightarrow> 'a os_scheme \<Rightarrow> (error + string list) \<times> 'a os_scheme" where
  "db_query s sql w =
     (case db_run s [''-Nse'', sql] w of
        (Inl e, w) \<Rightarrow> (Inl e, w)
      | (Inr out, w) \<Rightarrow>
          (let raw = TrimSpace out in (Inr (if raw = [] then [] else Split raw (CHR 0x0A)), w)))"

definition db_execSQL :: "DBService \<Rightarrow> string \<Rightarrow> 'a os_scheme \<Rightarrow> error option \<times> 'a os_scheme" where
  "db_execSQL s sql w =
     (if \<not> db_apply s then (None, w)
      else case db_run s [''-Nse'', sql] w of
        (Inl e, w) \<Rightarrow> (Some e, w)
      | (Inr _, w) \<Rightarrow> (None, w))"

definition db_items :: "string list \<Rightarrow> DatabaseInfo list" where
  "db_items lines =
     map (\<lambda>name. \<lparr>di_Name = name, di_System = (ToLower name \<in> set systemDatabases)\<rparr>)
       (filter (\<lambda>name. name \<noteq> []) (map TrimSpace lines))"

definition db_ListDatabases :: "DBService \<Rightarrow> 'a os_scheme \<Rightarrow> (error + DatabaseInfo list) \<times> 'a os_scheme" where
  "db_ListDatabases s w =
     (if \<not> db_apply s then (Inr [], w)
      else case db_query s ''SHOW DATABASES;'' w of
        (Inl e, w) \<Rightarrow> (Inl e, w)
      | (Inr lines, w) \<Rightarrow> (Inr (db_items lines), w))"

definition create_database_sql :: "string \<Rightarrow> string" where
  "create_database_sql database =
     ''CREATE DATABASE IF NOT EXISTS '' @ [bquote] @ database @ [bquote]
       @ '' CHARACTER SET utf8mb4 COLLATE utf8mb4_unicode_ci;''"

definition db_CreateDatabase :: "DBService \<Rightarrow> string \<Rightarrow> 'a os_scheme \<Rightarrow> error option \<times> 'a os_scheme" where
  "db_CreateDatabase s name w =
     (let database = TrimSpace name in
      if \<not> isValidIdentifier database then (Some (dbE ErrInvalidDatabaseName), w)
      else db_execSQL s (create_database_sql database) w)"

record CreateUserInput =
  cu_Database :: string
  cu_Username :: string
  cu_Password :: string
  cu_Host :: string

definition create_user_sql :: "string \<Rightarrow> string \<Rightarrow> string \<Rightarrow> string \<Rightarrow> string" where
  "create_user_sql database username password host =
     Join [''CREATE USER IF NOT EXISTS '' @ sql_string username @ ''@'' @ sql_string host
             @ '' IDENTIFIED BY '' @ sql_string password @ '';'',
           ''GRANT ALL PRIVILEGES ON '' @ [bquote] @ database @ [bquote] @ ''.* TO ''
             @ sql_string username @ ''@'' @ sql_string host @ '';'',
           ''FLUSH PRIVILEGES;''] '' ''"

definition db_CreateUser :: "DBService \<Rightarrow> CreateUserInput \<Rightarrow> 'a os_scheme \<Rightarrow> error option \<times> 'a os_scheme" where
  "db_CreateUser s input w =
     (let database = TrimSpace (cu_Database input); username = TrimSpace (cu_Username input);
          password = cu_Password input; host = TrimSpace (cu_Host input);
          host = (if host = [] then ''localhost'' else host) in
      if \<not> isValidIdentifier database then (Some (dbE ErrInvalidDatabaseName), w)
      else if \<not> isValidIdentifier username then (Some (dbE ErrInvalidUsername), w)
      else if length (TrimSpace password) < 8 then (Some (dbE DbErrInvalidPassword), w)
      else if \<not> hostPattern host then (Some (dbE ErrInvalidHost), w)
      else db_execSQL s (create_user_sql database username password host) w)"

subsection \<open>What the client leaves alone\<close>

lemma db_run_env: "db_run s args w = (r, w') \<Longrightarrow> env_of w' = env_of w"
  by (auto simp: db_run_def dest!: os_env split: prod.splits option.splits)

lemma db_execSQL_env: "db_execSQL s sql w = (r, w') \<Longrightarrow> env_of w' = env_of w"
  by (auto simp: db_execSQL_def dest!: db_run_env split: prod.splits sum.splits if_splits)

lemma db_ListDatabases_env: "db_ListDatabases s w = (r, w') \<Longrightarrow> env_of w' = env_of w"
  by (auto simp: db_ListDatabases_def db_query_def Let_def dest!: db_run_env split: prod.splits sum.splits if_splits)

lemma db_CreateDatabase_env: "db_CreateDatabase s name w = (r, w') \<Longrightarrow> env_of w' = env_of w"
  by (auto simp: db_CreateDatabase_def Let_def dest!: db_execSQL_env split: if_splits)

lemma db_CreateUser_env: "db_CreateUser s input w = (r, w') \<Longrightarrow> env_of w' = env_of w"
  by (auto simp: db_CreateUser_def Let_def dest!: db_execSQL_env split: if_splits)

subsection \<open>What the server reads\<close>

text \<open>
  A string literal as MySQL's manual defines it: it ends at a quotation mark that is not doubled, and,
  unless the server's SQL mode includes \<open>NO_BACKSLASH_ESCAPES\<close> (it does not by default), a backslash
  takes the next character along.  \<open>read_literal b s\<close> is the value of the literal at the start of \<open>s\<close> and
  what follows it, where \<open>b\<close> says whether backslashes escape.
\<close>

definition backslash :: char where "backslash = CHR 0x5C"

definition unescape :: "char \<Rightarrow> char" where
  "unescape c =
     (if c = CHR ''n'' then CHR 0x0A else if c = CHR ''t'' then CHR 0x09 else if c = CHR ''r'' then CHR 0x0D
      else if c = CHR ''0'' then CHR 0x00 else if c = CHR ''b'' then CHR 0x08 else if c = CHR ''Z'' then CHR 0x1A else c)"

fun read_body :: "bool \<Rightarrow> string \<Rightarrow> (string \<times> string) option" where
  "read_body b [] = None"
| "read_body b [c] = (if c = squote then Some ([], []) else None)"
| "read_body b (c # d # s) =
     (if c = squote then
        (if d = squote then map_option (apfst (Cons squote)) (read_body b s) else Some ([], d # s))
      else if b \<and> c = backslash then map_option (apfst (Cons (unescape d))) (read_body b s)
      else map_option (apfst (Cons c)) (read_body b (d # s)))"

definition read_literal :: "bool \<Rightarrow> string \<Rightarrow> (string \<times> string) option" where
  "read_literal b s = (case s of c # cs \<Rightarrow> if c = squote then read_body b cs else None | [] \<Rightarrow> None)"

lemma escape_simps [simp]:
  "escapeSQLString [] = []"
  "escapeSQLString (c # v) = (if c = squote then [squote, squote] else [c]) @ escapeSQLString v"
  by (simp_all add: escapeSQLString_def)

lemma read_escaped:
  assumes "tail = [] \<or> hd tail \<noteq> squote" and "\<not> b \<or> backslash \<notin> set v"
  shows "read_body b (escapeSQLString v @ squote # tail) = Some (v, tail)"
  using assms(2)
proof (induction v)
  case Nil
  then show ?case using assms(1) by (cases tail) auto
next
  case (Cons c v)
  obtain d s where t: "escapeSQLString v @ squote # tail = d # s" by (cases "escapeSQLString v") auto
  show ?case using Cons by (auto simp: t [symmetric]) (auto simp: t)
qed

lemma read_run_on:
  assumes "backslash \<notin> set v" and "read_body True (escapeSQLString v @ backslash # squote # tail) = Some (x, rest)"
  shows "prefix (v @ [squote]) x"
  using assms
proof (induction v arbitrary: x)
  case Nil
  then show ?case by (auto simp: backslash_def squote_def unescape_def)
next
  case (Cons c v)
  obtain d s where t: "escapeSQLString v @ backslash # squote # tail = d # s" by (cases "escapeSQLString v") auto
  show ?case using Cons by (auto simp: t split: if_splits)
qed

lemma read_password:
  assumes "tail = [] \<or> hd tail \<noteq> squote"
  shows "read_literal False (sql_string v @ tail) = Some (v, tail)"
    and "backslash \<notin> set v \<Longrightarrow> read_literal True (sql_string v @ tail) = Some (v, tail)"
    and "v = u @ [backslash] \<Longrightarrow> backslash \<notin> set u \<Longrightarrow> read_literal True (sql_string v @ tail) \<noteq> Some (v, tail)"
proof -
  show "read_literal False (sql_string v @ tail) = Some (v, tail)"
    using read_escaped [OF assms, of False v] by (simp add: read_literal_def sql_string_def)
  show "read_literal True (sql_string v @ tail) = Some (v, tail)" if "backslash \<notin> set v"
    using read_escaped [OF assms, of True v] that by (simp add: read_literal_def sql_string_def)
  show "read_literal True (sql_string v @ tail) \<noteq> Some (v, tail)" if "v = u @ [backslash]" "backslash \<notin> set u"
  proof
    have "escapeSQLString (u @ [backslash]) = escapeSQLString u @ [backslash]"
      by (induction u) (simp_all add: backslash_def squote_def)
    moreover assume "read_literal True (sql_string v @ tail) = Some (v, tail)"
    ultimately have "prefix (u @ [squote]) v"
      using read_run_on [OF that(2), of tail v tail] that(1) by (simp add: read_literal_def sql_string_def)
    then show False using that(1) by (simp add: squote_def backslash_def)
  qed
qed


definition sample_user_input :: CreateUserInput where
  "sample_user_input = \<lparr>cu_Database = ''shop'', cu_Username = ''shop'', cu_Password = ''secret-pw'' @ [backslash], cu_Host = []\<rparr>"


end
