(* ===== verification/Certs.thy ===== *)
theory Certs
  imports SiteRules
begin

text \<open>
  \<open>internal/ssl/service.go\<close>: certificates through the \<open>certbot\<close> command.  Whether a web root or a
  certificate exists is asked of the file system.
\<close>

record SSLService =
  ssl_apply :: bool
  ssl_certbotCommand :: string

definition ssl_NewService :: "bool \<Rightarrow> string \<Rightarrow> SSLService" where
  "ssl_NewService apply_flag certbotCommand =
     \<lparr>ssl_apply = apply_flag,
      ssl_certbotCommand = (if TrimSpace certbotCommand = [] then ''certbot'' else certbotCommand)\<rparr>"

text \<open>The class \<open>\s\<close> of Go's regular expressions, and the expression \<open>^[^@\s]+@[^@\s]+\.[^@\s]+$\<close>.\<close>

definition re_space :: "char \<Rightarrow> bool" where
  "re_space c \<longleftrightarrow> byte c \<in> {9, 10, 12, 13, 32}"

definition email_char :: "char \<Rightarrow> bool" where
  "email_char c \<longleftrightarrow> c \<noteq> CHR ''@'' \<and> \<not> re_space c"

definition emailPattern :: "string \<Rightarrow> bool" where
  "emailPattern s =
     (case Split s (CHR ''@'') of
        [a, b] \<Rightarrow> a \<noteq> [] \<and> list_all email_char a \<and> list_all email_char b
          \<and> CHR ''.'' \<in> set (butlast (tl b))
      | _ \<Rightarrow> False)"

definition domainPattern :: "string \<Rightarrow> bool" where
  "domainPattern s \<longleftrightarrow> s \<noteq> [] \<and> list_all domain_char s"

definition ssl_isValidDomain :: "string \<Rightarrow> bool" where
  "ssl_isValidDomain domain =
     (if length domain < 3 \<or> length domain > 253 then False
      else if HasPrefix domain ''.'' \<or> HasSuffix domain ''.'' \<or> Contains domain ''..'' then False
      else if \<not> domainPattern domain then False
      else (let parts = Split domain (CHR ''.'') in
        if length parts < 2 then False
        else list_all (\<lambda>p. \<not> (p = [] \<or> HasPrefix p ''-'' \<or> HasSuffix p ''-'')) parts))"

text \<open>The package repeats the rule of the sites service.\<close>

lemma ssl_isValidDomain_eq: "ssl_isValidDomain d = isValidDomain d"
  by (simp add: ssl_isValidDomain_def isValidDomain_def domainPattern_def domainRegex_def)

definition ssl_runCommand :: "string \<Rightarrow> string list \<Rightarrow> 'a os_scheme \<Rightarrow> error option \<times> 'a os_scheme" where
  "ssl_runCommand command args w =
     (case CombinedOutput (command # args) w of
        ((out, Some e), w) \<Rightarrow>
          (Some (Errorf (command @ '' ['' @ Join args '' '' @ '']: '') e ('' ('' @ TrimSpace out @ '')'')), w)
      | ((_, None), w) \<Rightarrow> (None, w))"

definition defaultWebrootForDomain :: "string \<Rightarrow> 'a os_scheme \<Rightarrow> string \<times> 'a os_scheme" where
  "defaultWebrootForDomain domain w =
     (let root = PathJoin [''/var/www'', domain, ''public''] in
      case Stat root w of
        (Inr Directory, w) \<Rightarrow> (root, w)
      | (_, w) \<Rightarrow> ([], w))"

definition issueCommandArgs :: "string \<Rightarrow> string \<Rightarrow> 'a os_scheme \<Rightarrow> string list \<times> 'a os_scheme" where
  "issueCommandArgs domain email w =
     (let args = [''certonly'', ''-d'', domain, ''--non-interactive'', ''--agree-tos'', ''-m'', email] in
      case defaultWebrootForDomain domain w of
        (webroot, w) \<Rightarrow>
          (if webroot = [] then args @ [''--nginx''] else args @ [''--webroot'', ''-w'', webroot], w))"

definition certificateExists :: "string \<Rightarrow> 'a os_scheme \<Rightarrow> bool \<times> 'a os_scheme" where
  "certificateExists domain w =
     (case Stat (PathJoin [''/etc/letsencrypt/live'', domain, ''fullchain.pem'']) w of
        (Inl _, w) \<Rightarrow> (False, w)
      | (Inr _, w) \<Rightarrow>
          (case Stat (PathJoin [''/etc/letsencrypt/live'', domain, ''privkey.pem'']) w of
             (Inl _, w) \<Rightarrow> (False, w)
           | (Inr _, w) \<Rightarrow> (True, w)))"

definition ssl_Issue :: "SSLService \<Rightarrow> string \<Rightarrow> string \<Rightarrow> 'a os_scheme \<Rightarrow> error option \<times> 'a os_scheme" where
  "ssl_Issue s rawDomain rawEmail w =
     (let domain = ToLower (TrimSpace rawDomain); email = TrimSpace rawEmail in
      if \<not> ssl_isValidDomain domain then (Some (sslE SslErrInvalidDomain), w)
      else if \<not> emailPattern email then (Some (sslE SslErrInvalidEmail), w)
      else if \<not> ssl_apply s then (None, w)
      else case RemoveAll ''/var/lib/letsencrypt/temp_checkpoint'' w of
        (_, w) \<Rightarrow>
          (case issueCommandArgs domain email w of
             (issueArgs, w) \<Rightarrow>
               (case ssl_runCommand (ssl_certbotCommand s) issueArgs w of
                  (err, w) \<Rightarrow>
                    (case (case err of None \<Rightarrow> (None, w)
                           | Some e \<Rightarrow>
                               (case certificateExists domain w of
                                  (ok, w) \<Rightarrow> (if ok then None else Some (Errorf ''issue cert: '' e []), w))) of
                       (Some e, w) \<Rightarrow> (Some e, w)
                     | (None, w) \<Rightarrow>
                         (case ssl_runCommand (ssl_certbotCommand s)
                                 [''install'', ''--cert-name'', domain, ''--nginx'', ''--redirect'', ''--non-interactive''] w of
                            (Some e, w) \<Rightarrow> (Some (Errorf ''install cert: '' e []), w)
                          | (None, w) \<Rightarrow> (None, w))))))"

definition ssl_Renew :: "SSLService \<Rightarrow> 'a os_scheme \<Rightarrow> error option \<times> 'a os_scheme" where
  "ssl_Renew s w =
     (if \<not> ssl_apply s then (None, w)
      else case ssl_runCommand (ssl_certbotCommand s) [''renew'', ''--non-interactive''] w of
        (Some e, w) \<Rightarrow> (Some (Errorf ''renew cert: '' e []), w)
      | (None, w) \<Rightarrow> (None, w))"

subsection \<open>What the commands leave alone\<close>

lemma ssl_runCommand_env: "ssl_runCommand c args w = (r, w') \<Longrightarrow> env_of w' = env_of w"
  by (auto simp: ssl_runCommand_def dest!: os_env split: prod.splits option.splits)

lemma issueCommandArgs_env: "issueCommandArgs d e w = (r, w') \<Longrightarrow> env_of w' = env_of w"
  by (auto simp: issueCommandArgs_def defaultWebrootForDomain_def Let_def dest!: os_env
      split: prod.splits sum.splits node.splits if_splits)

lemma certificateExists_env: "certificateExists d w = (r, w') \<Longrightarrow> env_of w' = env_of w"
  by (auto simp: certificateExists_def dest!: os_env split: prod.splits sum.splits)

lemma ssl_Issue_env: "ssl_Issue s d e w = (r, w') \<Longrightarrow> env_of w' = env_of w"
  by (auto simp: ssl_Issue_def Let_def dest!: os_env2 issueCommandArgs_env ssl_runCommand_env certificateExists_env
      split: prod.splits option.splits if_splits)

lemma ssl_Renew_env: "ssl_Renew s w = (r, w') \<Longrightarrow> env_of w' = env_of w"
  by (auto simp: ssl_Renew_def dest!: ssl_runCommand_env split: prod.splits option.splits if_splits)

end
