(* ===== verification/HostChecks.thy ===== *)
theory HostChecks
  imports GoOS GoEncoding
begin

text \<open>
  \<open>internal/platform/oscheck\<close> and \<open>internal/monitor\<close>: which host the daemon runs on, and the state of
  the services it watches.  \<open>goos\<close> stands for \<open>runtime.GOOS\<close>, a constant of the build.
\<close>

subsection \<open>The host\<close>

definition minUbuntuMajor :: int where "minUbuntuMajor = 22"

record OSResult =
  os_GOOS :: string
  os_ID :: string
  os_VersionID :: string
  os_Supported :: bool

definition newline :: char where "newline = CHR 0x0A"

definition release_line :: "string \<Rightarrow> (string \<times> string) option" where
  "release_line raw =
     (let line = TrimSpace raw in
      if line = [] \<or> HasPrefix line ''#'' then None
      else case SplitN2 line (CHR ''='') of
        [k, v] \<Rightarrow> Some (ToLower (TrimSpace k), ToLower (TrimChar (TrimSpace v) (CHR 0x22)))
      | _ \<Rightarrow> None)"

definition parseOSRelease :: "string \<Rightarrow> (string, string) gomap" where
  "parseOSRelease raw =
     fold (\<lambda>line out. case release_line line of None \<Rightarrow> out | Some (k, v) \<Rightarrow> mput k v out) (Split raw newline) []"

definition isSupportedUbuntu :: "string \<Rightarrow> string \<Rightarrow> bool" where
  "isSupportedUbuntu i versionID =
     (if i \<noteq> ''ubuntu'' then False
      else case SplitN2 versionID (CHR ''.'') of
        [] \<Rightarrow> False
      | p # _ \<Rightarrow> if p = [] then False
                  else (case Atoi p of None \<Rightarrow> False | Some major \<Rightarrow> major \<ge> minUbuntuMajor))"

definition map_value :: "(string, string) gomap \<Rightarrow> string \<Rightarrow> string" where
  "map_value m k = (case mget m k of None \<Rightarrow> [] | Some v \<Rightarrow> v)"

definition oscheck_Detect :: "string \<Rightarrow> 'a os_scheme \<Rightarrow> OSResult \<times> 'a os_scheme" where
  "oscheck_Detect goos w =
     (let res = \<lparr>os_GOOS = goos, os_ID = [], os_VersionID = [], os_Supported = False\<rparr> in
      if goos \<noteq> ''linux'' then (res, w)
      else case ReadFile ''/etc/os-release'' w of
        (Inl _, w) \<Rightarrow> (res, w)
      | (Inr raw, w) \<Rightarrow>
          (let values = parseOSRelease raw; i = map_value values ''id''; v = map_value values ''version_id'' in
           (res\<lparr>os_ID := i, os_VersionID := v, os_Supported := isSupportedUbuntu i v\<rparr>, w)))"

subsection \<open>The services\<close>

record ServiceState =
  ss_Name :: string
  ss_Status :: string
  ss_CheckedAt :: int

definition NewServicesMonitor :: "string list \<Rightarrow> string list" where
  "NewServicesMonitor names =
     (if names = [] then [''nginx'', ''php8.1-fpm'', ''mariadb'', ''redis-server''] else names)"

definition probe :: "string \<Rightarrow> string \<Rightarrow> 'a os_scheme \<Rightarrow> string \<times> 'a os_scheme" where
  "probe goos name w =
     (if goos \<noteq> ''linux'' then (''unknown'', w)
      else case CombinedOutput [''systemctl'', ''is-active'', name] w of
        ((out, err), w) \<Rightarrow> (if err \<noteq> None \<and> out = [] then ''unknown'' else TrimSpace out, w))"

fun probe_all :: "string \<Rightarrow> int \<Rightarrow> string list \<Rightarrow> 'a os_scheme \<Rightarrow> ServiceState list \<times> 'a os_scheme" where
  "probe_all goos now [] w = ([], w)"
| "probe_all goos now (name # names) w =
     (case probe goos name w of
        (status, w) \<Rightarrow>
          (case probe_all goos now names w of
             (items, w) \<Rightarrow> (\<lparr>ss_Name = name, ss_Status = status, ss_CheckedAt = now\<rparr> # items, w)))"

definition monitor_List :: "string \<Rightarrow> string list \<Rightarrow> 'a os_scheme \<Rightarrow> ServiceState list \<times> 'a os_scheme" where
  "monitor_List goos names w = (case time_Now w of (now, w) \<Rightarrow> probe_all goos now names w)"

subsection \<open>What the probes leave alone\<close>

lemma oscheck_Detect_env: "oscheck_Detect goos w = (r, w') \<Longrightarrow> env_of w' = env_of w"
  by (auto simp: oscheck_Detect_def Let_def dest!: os_env split: prod.splits sum.splits if_splits)

lemma probe_env: "probe goos name w = (r, w') \<Longrightarrow> env_of w' = env_of w"
  by (auto simp: probe_def dest!: os_env split: prod.splits if_splits)

lemma probe_all_env: "probe_all goos now names w = (r, w') \<Longrightarrow> env_of w' = env_of w"
  by (induction names arbitrary: w r) (auto dest!: probe_env split: prod.splits)

lemma monitor_List_env: "monitor_List goos names w = (r, w') \<Longrightarrow> env_of w' = env_of w"
  by (auto simp: monitor_List_def dest!: os_env2 probe_all_env split: prod.splits)

end
