(* ===== verification/Updater.thy ===== *)
theory Updater
  imports HostChecks RateLimit
begin

text \<open>
  \<open>internal/updater/service.go\<close>: the panel's update of itself, which runs as a transient unit of systemd.
  Every command is a command of the state.  Two results of the standard library are fields of the
  service here: whether \<open>url.ParseRequestURI\<close> accepts an address (its rules for bracketed hosts differ
  between releases of the Go version the module asks for), and the time \<open>time.Parse\<close> makes of a time
  stamp, which depends on the host's time zone.  \<open>elapsed.Seconds()\<close>, a floating-point number, is
  truncated to whole seconds; the two agree below 2^24 seconds.
\<close>

subsection \<open>Data\<close>

record UpdaterConfig =
  uc_RepoURL :: string
  uc_Branch :: string
  uc_ScriptURL :: string
  uc_UnitName :: string
  uc_LogLines :: int
  uc_Cooldown :: int

record Updater =
  up_enabled :: bool
  up_cfg :: UpdaterConfig
  up_Version :: string
  up_Commit :: string
  up_uri_ok :: "string \<Rightarrow> bool"
  up_stamp :: "string \<Rightarrow> int option"

record StartResult =
  sr_Unit :: string
  sr_RepoURL :: string
  sr_Branch :: string
  sr_ScriptURL :: string
  sr_StartedAt :: int

record UpdateStatus =
  us_Unit :: string
  us_Exists :: bool
  us_Running :: bool
  us_ActiveState :: string
  us_SubState :: string
  us_Result :: string
  us_ExecMainStatus :: int
  us_StateChangeTimestamp :: string
  us_Success :: bool
  us_Failed :: bool
  us_LastCheckedAt :: int
  us_Logs :: "string list"

record CheckResult =
  ck_RepoURL :: string
  ck_Branch :: string
  ck_CurrentVersion :: string
  ck_CurrentCommit :: string
  ck_RemoteCommit :: string
  ck_Status :: string
  ck_UpToDate :: bool
  ck_UpdateAvailable :: bool
  ck_Note :: string
  ck_LastCheckedAt :: int

subsection \<open>Text\<close>

definition normalizeUnitName :: "string \<Rightarrow> string" where
  "normalizeUnitName v = TrimSuffix (TrimSpace v) ''.service''"

definition updater_NewService ::
  "bool \<Rightarrow> UpdaterConfig \<Rightarrow> string \<Rightarrow> string \<Rightarrow> (string \<Rightarrow> bool) \<Rightarrow> (string \<Rightarrow> int option) \<Rightarrow> Updater" where
  "updater_NewService enabled cfg version commit uri_ok stamp =
     \<lparr>up_enabled = enabled,
      up_cfg = cfg\<lparr>uc_LogLines := (if uc_LogLines cfg \<le> 0 then 80 else uc_LogLines cfg),
                   uc_UnitName := normalizeUnitName (uc_UnitName cfg)\<rparr>,
      up_Version = version, up_Commit = commit, up_uri_ok = uri_ok, up_stamp = stamp\<rparr>"

definition unitServiceName :: "Updater \<Rightarrow> string" where
  "unitServiceName s = uc_UnitName (up_cfg s) @ ''.service''"

definition quote_mark :: char where "quote_mark = CHR 0x27"

definition shellQuote :: "string \<Rightarrow> string" where
  "shellQuote v =
     [quote_mark] @ ReplaceAll v [quote_mark] [quote_mark, CHR 0x22, quote_mark, CHR 0x22, quote_mark] @ [quote_mark]"

text \<open>\<open>strconv.Atoi\<close> with its error dropped: the nearest value when the number does not fit, zero for no number.\<close>

definition parseInt :: "string \<Rightarrow> int" where
  "parseInt v =
     (let s = TrimSpace v; neg = prefix ''-'' s;
          ds = (if prefix ''-'' s \<or> prefix ''+'' s then tl s else s);
          n = (if neg then - digits_val ds else digits_val ds)
      in if ds \<noteq> [] \<and> (\<forall>c\<in>set ds. is_digit c) then max (- (2 ^ 63)) (min (2 ^ 63 - 1) n) else 0)"

definition commit_char :: "char \<Rightarrow> bool" where
  "commit_char c \<longleftrightarrow> is_digit c \<or> 97 \<le> byte c \<and> byte c \<le> 102 \<or> 65 \<le> byte c \<and> byte c \<le> 70"

definition looksLikeCommit :: "string \<Rightarrow> bool" where
  "looksLikeCommit v \<longleftrightarrow> \<not> length v < 7 \<and> list_all commit_char v"

definition letter_or_digit :: "char \<Rightarrow> bool" where
  "letter_or_digit c \<longleftrightarrow> 97 \<le> byte c \<and> byte c \<le> 122 \<or> 65 \<le> byte c \<and> byte c \<le> 90 \<or> is_digit c"

definition branchRe :: "string \<Rightarrow> bool" where
  "branchRe s \<longleftrightarrow> s \<noteq> [] \<and> list_all (\<lambda>c. letter_or_digit c \<or> c \<in> set ''._/-'') s"

definition unitNameRe :: "string \<Rightarrow> bool" where
  "unitNameRe s \<longleftrightarrow> s \<noteq> [] \<and> list_all (\<lambda>c. letter_or_digit c \<or> c \<in> set ''_.@-'') s"

definition summarizeStatus :: "UpdateStatus \<Rightarrow> string" where
  "summarizeStatus st =
     (let base = ''unit='' @ us_Unit st @ '' active='' @ us_ActiveState st @ '' sub='' @ us_SubState st
            @ '' result='' @ us_Result st @ '' exec_status='' @ Itoa (us_ExecMainStatus st) in
      if us_Logs st = [] then base
      else base @ '' logs_tail='' @ Join (drop (length (us_Logs st) - 5) (us_Logs st)) '' || '')"

definition validateConfig :: "Updater \<Rightarrow> error option" where
  "validateConfig s =
     (let c = up_cfg s; bad = (\<lambda>m. Some (Errorf [] (updaterE ErrInvalidConfig) ('': '' @ m))) in
      if TrimSpace (uc_RepoURL c) = [] \<or> TrimSpace (uc_ScriptURL c) = [] \<or> TrimSpace (uc_Branch c) = []
      then bad ''empty updater repo/script/branch''
      else if \<not> up_uri_ok s (uc_RepoURL c) then bad ''invalid repo url''
      else if \<not> up_uri_ok s (uc_ScriptURL c) then bad ''invalid script url''
      else if \<not> branchRe (uc_Branch c) then bad ''invalid branch''
      else if \<not> unitNameRe (uc_UnitName c) then bad ''invalid unit name''
      else if uc_Cooldown c < 0 then bad ''invalid cooldown''
      else None)"

definition cooldownWait :: "Updater \<Rightarrow> UpdateStatus \<Rightarrow> int \<Rightarrow> int" where
  "cooldownWait s st now =
     (if \<not> us_Exists st \<or> us_Running st then 0
      else (let ts = TrimSpace (us_StateChangeTimestamp st) in
        if ts = [] \<or> EqualFold ts ''n/a'' then 0
        else case up_stamp s ts of
          None \<Rightarrow> 0
        | Some parsed \<Rightarrow>
            (let elapsed = time_Sub now parsed in
             if elapsed < 0 then uc_Cooldown (up_cfg s)
             else (let remaining = uc_Cooldown (up_cfg s) - elapsed div time_Second in
               if remaining > 0 then remaining else 0))))"

subsection \<open>Asking systemd, the journal and git\<close>

definition unit_property :: "string \<Rightarrow> (string \<times> string) option" where
  "unit_property raw =
     (let line = TrimSpace raw in
      if line = [] then None
      else case SplitN2 line (CHR ''='') of [k, v] \<Rightarrow> Some (k, TrimSpace v) | _ \<Rightarrow> None)"

definition unit_properties :: "string \<Rightarrow> (string, string) gomap" where
  "unit_properties output =
     fold (\<lambda>line m. case unit_property line of None \<Rightarrow> m | Some (k, v) \<Rightarrow> mput k v m) (Split output newline) []"

definition updater_showUnit :: "Updater \<Rightarrow> 'a os_scheme \<Rightarrow> (error + (string, string) gomap) \<times> 'a os_scheme" where
  "updater_showUnit s w =
     (case CombinedOutput [''systemctl'', ''show'', unitServiceName s, ''--property=LoadState'',
             ''--property=ActiveState'', ''--property=SubState'', ''--property=Result'',
             ''--property=ExecMainStatus'', ''--property=StateChangeTimestamp'', ''--no-pager''] w of
        ((output, Some e), w) \<Rightarrow> (Inl (Errorf ''read updater unit status: '' e ('': '' @ TrimSpace output)), w)
      | ((output, None), w) \<Rightarrow> (Inr (unit_properties output), w))"

definition log_lines :: "int \<Rightarrow> int" where
  "log_lines n = (let n = (if n < 20 then 20 else n) in if n > 500 then 500 else n)"

definition updater_logs :: "Updater \<Rightarrow> 'a os_scheme \<Rightarrow> (error + string list) \<times> 'a os_scheme" where
  "updater_logs s w =
     (case CombinedOutput [''journalctl'', ''-u'', unitServiceName s, ''-n'', Itoa (log_lines (uc_LogLines (up_cfg s))),
             ''--no-pager'', ''--output=short-iso''] w of
        ((output, Some e), w) \<Rightarrow> (Inl (Errorf ''read updater logs: '' e []), w)
      | ((output, None), w) \<Rightarrow>
          (Inr (filter (\<lambda>l. l \<noteq> []) (map TrimSpace (Split (ReplaceAll output [CHR 0x0D, newline] [newline]) newline))), w))"

definition updater_readRemoteCommit :: "Updater \<Rightarrow> 'a os_scheme \<Rightarrow> (error + string) \<times> 'a os_scheme" where
  "updater_readRemoteCommit s w =
     (case CombinedOutput [''git'', ''ls-remote'', ''--heads'', uc_RepoURL (up_cfg s),
             ''refs/heads/'' @ uc_Branch (up_cfg s)] w of
        ((output, Some e), w) \<Rightarrow> (Inl (Errorf ''check remote commit: '' e ('': '' @ TrimSpace output)), w)
      | ((output, None), w) \<Rightarrow>
          (let line = TrimSpace output in
           if line = [] then (Inl (NewError (''check remote commit: no ref found for branch '' @ uc_Branch (up_cfg s))), w)
           else (case Fields line of
             f # _ \<Rightarrow> if looksLikeCommit f then (Inr (ToLower f), w)
                       else (Inl (NewError ''check remote commit: invalid response''), w)
           | [] \<Rightarrow> (Inl (NewError ''check remote commit: invalid response''), w))))"

definition updater_cleanupUnit :: "Updater \<Rightarrow> 'a os_scheme \<Rightarrow> 'a os_scheme" where
  "updater_cleanupUnit s w =
     snd (CombinedOutput [''systemctl'', ''reset-failed'', unitServiceName s]
       (snd (CombinedOutput [''systemctl'', ''stop'', unitServiceName s] w)))"

definition unit_running :: "string \<Rightarrow> string \<Rightarrow> bool" where
  "unit_running active sub \<longleftrightarrow> active = ''activating'' \<or> sub = ''running'' \<or> sub = ''start''"

definition status_of :: "Updater \<Rightarrow> (string, string) gomap \<Rightarrow> int \<Rightarrow> UpdateStatus" where
  "status_of s props now =
     (let active = map_value props ''ActiveState''; sub = map_value props ''SubState'';
          result = map_value props ''Result''; execStatus = parseInt (map_value props ''ExecMainStatus'');
          running = unit_running active sub; exists = map_value props ''LoadState'' \<noteq> ''not-found'' in
      \<lparr>us_Unit = unitServiceName s, us_Exists = exists, us_Running = running, us_ActiveState = active,
       us_SubState = sub, us_Result = result, us_ExecMainStatus = execStatus,
       us_StateChangeTimestamp = map_value props ''StateChangeTimestamp'',
       us_Success = (exists \<and> \<not> running \<and> result = ''success'' \<and> execStatus = 0),
       us_Failed = (exists \<and> \<not> running \<and> (result = ''failed'' \<or> execStatus \<noteq> 0)),
       us_LastCheckedAt = now, us_Logs = []\<rparr>)"

definition updater_Status :: "Updater \<Rightarrow> 'a os_scheme \<Rightarrow> (error + UpdateStatus) \<times> 'a os_scheme" where
  "updater_Status s w =
     (if \<not> up_enabled s then (Inl (updaterE ErrDisabled), w)
      else case validateConfig s of
        Some e \<Rightarrow> (Inl e, w)
      | None \<Rightarrow>
          (case updater_showUnit s w of
             (Inl e, w) \<Rightarrow> (Inl e, w)
           | (Inr props, w) \<Rightarrow>
               (case time_Now w of
                  (now, w) \<Rightarrow>
                    (let status = status_of s props now in
                     if \<not> us_Exists status then (Inr status, w)
                     else (case updater_logs s w of
                       (Inl _, w) \<Rightarrow> (Inr status, w)
                     | (Inr logs, w) \<Rightarrow> (Inr (status\<lparr>us_Logs := logs\<rparr>), w))))))"

subsection \<open>Starting an update\<close>

definition update_script :: "UpdaterConfig \<Rightarrow> string" where
  "update_script c =
     ''set -euo pipefail; curl -fsSL '' @ shellQuote (uc_ScriptURL c) @ '' | /bin/bash -s -- --repo ''
       @ shellQuote (uc_RepoURL c) @ '' --branch '' @ shellQuote (uc_Branch c)"

definition systemd_run :: "Updater \<Rightarrow> string list" where
  "systemd_run s = [''systemd-run'', ''--unit'', uc_UnitName (up_cfg s), ''--property=Type=oneshot'',
     ''--property=RemainAfterExit=yes'', ''/bin/bash'', ''-lc'', update_script (up_cfg s)]"

definition start_error :: "Updater \<Rightarrow> error \<Rightarrow> string \<Rightarrow> 'a os_scheme \<Rightarrow> (error + StartResult) \<times> 'a os_scheme" where
  "start_error s e detail w =
     (case updater_Status s w of
        (st, w) \<Rightarrow>
          (Inl (Errorf ''start updater unit: '' e ('': ''
             @ (case st of Inl _ \<Rightarrow> detail | Inr st \<Rightarrow> detail @ ''; updater_status='' @ summarizeStatus st))), w))"

definition start_result :: "Updater \<Rightarrow> 'a os_scheme \<Rightarrow> (error + StartResult) \<times> 'a os_scheme" where
  "start_result s w =
     (case time_Now w of
        (now, w) \<Rightarrow>
          (Inr \<lparr>sr_Unit = unitServiceName s, sr_RepoURL = uc_RepoURL (up_cfg s), sr_Branch = uc_Branch (up_cfg s),
             sr_ScriptURL = uc_ScriptURL (up_cfg s), sr_StartedAt = now\<rparr>, w))"

definition launch :: "Updater \<Rightarrow> 'a os_scheme \<Rightarrow> (error + StartResult) \<times> 'a os_scheme" where
  "launch s w =
     (case CombinedOutput (systemd_run s) w of
        ((_, None), w) \<Rightarrow> start_result s w
      | ((output, Some e), w) \<Rightarrow>
          (let raw = TrimSpace output in
           if Contains (ToLower raw) ''already exists'' then
             (case CombinedOutput (systemd_run s) (updater_cleanupUnit s w) of
                ((_, None), w) \<Rightarrow> start_result s w
              | ((retryOut, Some retryErr), w) \<Rightarrow> start_error s retryErr (TrimSpace retryOut) w)
           else start_error s e raw w))"

definition cooldown_error :: "int \<Rightarrow> error" where
  "cooldown_error wait = Errorf [] (updaterE ErrCooldown) ('': wait '' @ Itoa wait @ ''s'')"

definition updater_Start :: "Updater \<Rightarrow> 'a os_scheme \<Rightarrow> (error + StartResult) \<times> 'a os_scheme" where
  "updater_Start s w =
     (if \<not> up_enabled s then (Inl (updaterE ErrDisabled), w)
      else case validateConfig s of
        Some e \<Rightarrow> (Inl e, w)
      | None \<Rightarrow>
          (case updater_Status s w of
             (Inl _, w) \<Rightarrow> launch s w
           | (Inr status, w) \<Rightarrow>
               if us_Exists status \<and> us_Running status then (Inl (updaterE ErrAlreadyRunning), w)
               else if uc_Cooldown (up_cfg s) > 0 then
                 (case time_Now w of
                    (now, w) \<Rightarrow>
                      (let wait = cooldownWait s status now in
                       if wait > 0 then (Inl (cooldown_error wait), w) else launch s w))
               else launch s w))"

subsection \<open>Looking for an update\<close>

definition updater_Check :: "Updater \<Rightarrow> 'a os_scheme \<Rightarrow> (error + CheckResult) \<times> 'a os_scheme" where
  "updater_Check s w =
     (if \<not> up_enabled s then (Inl (updaterE ErrDisabled), w)
      else case validateConfig s of
        Some e \<Rightarrow> (Inl e, w)
      | None \<Rightarrow>
          (case updater_readRemoteCommit s w of
             (Inl e, w) \<Rightarrow> (Inl e, w)
           | (Inr remoteCommit, w) \<Rightarrow>
               (case time_Now w of
                  (now, w) \<Rightarrow>
                    (let currentCommit = ToLower (TrimSpace (up_Commit s));
                         result = \<lparr>ck_RepoURL = uc_RepoURL (up_cfg s), ck_Branch = uc_Branch (up_cfg s),
                           ck_CurrentVersion = TrimSpace (up_Version s), ck_CurrentCommit = currentCommit,
                           ck_RemoteCommit = remoteCommit, ck_Status = ''unknown'', ck_UpToDate = False,
                           ck_UpdateAvailable = False, ck_Note = [], ck_LastCheckedAt = now\<rparr> in
                     (Inr (if \<not> looksLikeCommit currentCommit
                           then result\<lparr>ck_Note := ''current commit is unavailable, run update to refresh build metadata''\<rparr>
                           else if HasPrefix remoteCommit currentCommit \<or> HasPrefix currentCommit remoteCommit
                           then result\<lparr>ck_Status := ''up_to_date'', ck_UpToDate := True\<rparr>
                           else result\<lparr>ck_Status := ''update_available'', ck_UpdateAvailable := True\<rparr>), w)))))"

subsection \<open>What the updater leaves alone\<close>

lemma updater_commands_env:
  "updater_showUnit s w = (r1, w') \<Longrightarrow> env_of w' = env_of w"
  "updater_logs s w = (r2, w') \<Longrightarrow> env_of w' = env_of w"
  "updater_readRemoteCommit s w = (r3, w') \<Longrightarrow> env_of w' = env_of w"
  by (auto simp: updater_showUnit_def updater_logs_def updater_readRemoteCommit_def Let_def
      dest!: os_env split: prod.splits option.splits list.splits if_splits)

lemma updater_cleanupUnit_env: "env_of (updater_cleanupUnit s w) = env_of w"
  by (auto simp: updater_cleanupUnit_def) (metis os_env(11) prod.collapse)

lemma updater_Status_env: "updater_Status s w = (r, w') \<Longrightarrow> env_of w' = env_of w"
  by (auto simp: updater_Status_def Let_def dest!: os_env2 updater_commands_env
      split: prod.splits option.splits sum.splits if_splits)

lemma start_error_env: "start_error s e d w = (r, w') \<Longrightarrow> env_of w' = env_of w"
  by (auto simp: start_error_def dest!: updater_Status_env split: prod.splits)

lemma start_result_env: "start_result s w = (r, w') \<Longrightarrow> env_of w' = env_of w"
  by (auto simp: start_result_def dest!: os_env2 split: prod.splits)

lemma launch_env: "launch s w = (r, w') \<Longrightarrow> env_of w' = env_of w"
  by (auto simp: launch_def Let_def updater_cleanupUnit_env dest!: os_env start_error_env start_result_env
      split: prod.splits option.splits if_splits)

lemma updater_Start_env: "updater_Start s w = (r, w') \<Longrightarrow> env_of w' = env_of w"
  by (auto simp: updater_Start_def Let_def dest!: os_env2 updater_Status_env launch_env
      split: prod.splits option.splits sum.splits if_splits)

lemma updater_Check_env: "updater_Check s w = (r, w') \<Longrightarrow> env_of w' = env_of w"
  by (auto simp: updater_Check_def Let_def dest!: os_env2 updater_commands_env
      split: prod.splits option.splits sum.splits if_splits)

subsection \<open>What the shell reads\<close>

text \<open>
  The words of a command line, as the POSIX shell splits it: blanks separate words; between single
  quotation marks everything is literal; between double ones everything but the dollar sign, the back
  quote and the backslash.  A line with characters that would start an expansion, a redirection or a
  comment outside quotes is not split at all; the operators \<open>;\<close> and \<open>|\<close> stay in their words.
\<close>

datatype quoting = Plain | Single | Double

definition sh_special :: "char \<Rightarrow> bool" where
  "sh_special c \<longleftrightarrow> c \<in> set [CHR ''$'', CHR 0x60, CHR 0x5C, CHR ''&'', CHR ''('', CHR '')'', CHR ''<'', CHR ''>'', CHR ''*'',
     CHR ''?'', CHR ''['', CHR ''#'', CHR ''~'', CHR ''!'', CHR ''{'', CHR 0x0A]"

definition dquote :: char where "dquote = CHR 0x22"

fun sh_scan :: "quoting \<Rightarrow> string option \<Rightarrow> string \<Rightarrow> string list option" where
  "sh_scan Plain cur [] = Some (case cur of None \<Rightarrow> [] | Some v \<Rightarrow> [v])"
| "sh_scan q cur [] = None"
| "sh_scan Plain cur (c # s) =
     (if c = CHR '' '' then map_option (\<lambda>ws. (case cur of None \<Rightarrow> ws | Some v \<Rightarrow> v # ws)) (sh_scan Plain None s)
      else if c = quote_mark then sh_scan Single (Some (case cur of None \<Rightarrow> [] | Some v \<Rightarrow> v)) s
      else if c = dquote then sh_scan Double (Some (case cur of None \<Rightarrow> [] | Some v \<Rightarrow> v)) s
      else if sh_special c then None
      else sh_scan Plain (Some (case cur of None \<Rightarrow> [c] | Some v \<Rightarrow> v @ [c])) s)"
| "sh_scan Single cur (c # s) =
     (if c = quote_mark then sh_scan Plain cur s else sh_scan Single (map_option (\<lambda>v. v @ [c]) cur) s)"
| "sh_scan Double cur (c # s) =
     (if c = dquote then sh_scan Plain cur s
      else if c \<in> set [CHR ''$'', CHR 0x60, CHR 0x5C] then None
      else sh_scan Double (map_option (\<lambda>v. v @ [c]) cur) s)"

definition sh_words :: "string \<Rightarrow> string list option" where
  "sh_words line = sh_scan Plain None line"

lemma sh_scan_Single:
  "sh_scan Single (Some u) (ReplaceAll v [quote_mark] [quote_mark, CHR 0x22, quote_mark, CHR 0x22, quote_mark] @ quote_mark # s)
     = sh_scan Plain (Some (u @ v)) s"
proof (induction v arbitrary: u)
  case (Cons a v)
  then show ?case by (cases "a = CHR 0x27") (simp_all add: quote_mark_def dquote_def)
qed (simp add: quote_mark_def)

lemma sh_scan_quoted:
  "sh_scan Plain None (shellQuote v @ s) = sh_scan Plain (Some v) s"
  using sh_scan_Single [of "[]" v s] by (simp add: shellQuote_def) (simp add: quote_mark_def)

lemma update_script_words:
  "sh_words (update_script c) = Some [''set'', ''-euo'', ''pipefail;'', ''curl'', ''-fsSL'', uc_ScriptURL c, ''|'',
     ''/bin/bash'', ''-s'', ''--'', ''--repo'', uc_RepoURL c, ''--branch'', uc_Branch c]"
proof -
  have b: "sh_scan Plain None (shellQuote (uc_Branch c)) = Some [uc_Branch c]"
    using sh_scan_quoted [of "uc_Branch c" "[]"] by simp
  show ?thesis
    by (simp add: sh_words_def update_script_def sh_scan_quoted b quote_mark_def dquote_def sh_special_def)
qed

lemma updater_Status_cmds:
  assumes "updater_Status s w = (r, w')"
  shows "\<exists>cs. os_cmds w' = os_cmds w @ cs \<and> systemd_run s \<notin> set cs"
proof -
  have "\<exists>cs. os_cmds v' = os_cmds v @ cs \<and> systemd_run s \<notin> set cs"
    if "updater_showUnit s v = (x, v') \<or> updater_logs s v = (y, v')" for v v' x y
    using that by (auto simp: updater_showUnit_def updater_logs_def CombinedOutput_def systemd_run_def split: prod.splits option.splits)
  note step = this [OF disjI1] this [OF disjI2]
  show ?thesis using assms
    by (auto simp: updater_Status_def time_Now_def Let_def dest!: step split: prod.splits option.splits sum.splits if_splits)
qed

text \<open>
  C27: when the panel launches an update of itself.  If \<open>Start\<close> runs the launching command, the updater is
  enabled and its configuration valid, the status, if systemd reported one, showed no running update
  and no cooldown left, and the command line the shell reads has the configured addresses and the
  branch as single words, whatever characters they consist of: a configured value cannot smuggle in
  a command.
\<close>

theorem updater_Start_safe:
  assumes "updater_Start s w = (r, w')" and "systemd_run s \<in> set (drop (length (os_cmds w)) (os_cmds w'))"
  shows "up_enabled s \<and> validateConfig s = None
    \<and> (\<forall>st w1. updater_Status s w = (Inr st, w1) \<longrightarrow>
        \<not> (us_Exists st \<and> us_Running st)
        \<and> (0 < uc_Cooldown (up_cfg s) \<longrightarrow> cooldownWait s st (os_clock w1 (os_ticks w1)) \<le> 0))
    \<and> sh_words (last (systemd_run s)) = Some [''set'', ''-euo'', ''pipefail;'', ''curl'', ''-fsSL'', uc_ScriptURL (up_cfg s),
        ''|'', ''/bin/bash'', ''-s'', ''--'', ''--repo'', uc_RepoURL (up_cfg s), ''--branch'', uc_Branch (up_cfg s)]"
proof (intro conjI allI impI)
  have quiet: "systemd_run s \<notin> set (drop (length (os_cmds w)) (os_cmds v))" if "updater_Status s w = (x, v)" for x v
    using updater_Status_cmds [OF that] by auto
  show e: "up_enabled s" using assms by (auto simp: updater_Start_def split: if_splits)
  show v: "validateConfig s = None" using assms e by (auto simp: updater_Start_def split: option.splits)
  show "sh_words (last (systemd_run s)) = Some [''set'', ''-euo'', ''pipefail;'', ''curl'', ''-fsSL'', uc_ScriptURL (up_cfg s),
        ''|'', ''/bin/bash'', ''-s'', ''--'', ''--repo'', uc_RepoURL (up_cfg s), ''--branch'', uc_Branch (up_cfg s)]"
    by (simp add: systemd_run_def update_script_words)
  fix st w1 assume st: "updater_Status s w = (Inr st, w1)"
  show "\<not> (us_Exists st \<and> us_Running st)"
    using assms quiet [OF st] e v st by (auto simp: updater_Start_def)
  then show "cooldownWait s st (os_clock w1 (os_ticks w1)) \<le> 0" if "0 < uc_Cooldown (up_cfg s)"
    using assms quiet [OF st] e v st that by (auto simp: updater_Start_def time_Now_def Let_def not_less split: if_splits)
qed

definition sample_updater :: Updater where
  "sample_updater = updater_NewService True
     \<lparr>uc_RepoURL = ''https://example.com/r.git'', uc_Branch = ''main'', uc_ScriptURL = ''https://example.com/it's'',
      uc_UnitName = ''panel-updater'', uc_LogLines = 80, uc_Cooldown = 20\<rparr> ''v1'' [] (\<lambda>_. True) (\<lambda>_. None)"

lemma updater_Start_safe_witness:
  "systemd_run sample_updater \<in> set (os_cmds (snd (updater_Start sample_updater quiet_host)))
     \<and> (\<exists>ws. sh_words (last (systemd_run sample_updater)) = Some ws \<and> ws ! 5 = ''https://example.com/it's'')"
proof -
  obtain r w' where s: "updater_Start sample_updater quiet_host = (r, w')" by fastforce
  have "systemd_run sample_updater \<in> set (drop (length (os_cmds quiet_host)) (os_cmds (snd (updater_Start sample_updater quiet_host))))"
    by code_simp
  then have d: "systemd_run sample_updater \<in> set (drop (length (os_cmds quiet_host)) (os_cmds w'))" by (simp add: s)
  have "os_cmds quiet_host = []" "uc_ScriptURL (up_cfg sample_updater) = ''https://example.com/it's''"
    by (simp_all add: quiet_host_def sample_updater_def updater_NewService_def)
  with updater_Start_safe [OF s d] d s show ?thesis by simp
qed

end
