(* ===== verification/Http.thy ===== *)
theory Http
  imports Sites AuditTrail Auth RateLimit Backup Database Certs Updater
begin

text \<open>
  The parts of \<open>internal/httpserver/api.go\<close> that every handler uses: the request as far as the API looks
  at it, responses, the decoding of a JSON body, the bearer token, the limit of a listing, the key of
  the login limiter; and the JSON form of the entities.  \<open>File modes\<close>, connection handling and headers
  no code reads are left out.
\<close>

subsection \<open>Requests and responses\<close>

text \<open>
  \<open>rq_Segments\<close> are the path's segments, unescaped; \<open>rq_Query\<close> the query parameters in order; \<open>rq_done\<close>
  whether the request's context is done when a handler looks, and \<open>rq_pick\<close> the branch a \<open>select\<close>
  with several ready branches takes.
\<close>

record request =
  rq_Method :: string
  rq_Segments :: "string list"
  rq_Authorization :: string
  rq_ForwardedFor :: string
  rq_RemoteAddr :: string
  rq_Query :: "(string \<times> string) list"
  rq_Body :: string
  rq_done :: "ctx_err option"
  rq_pick :: bool

definition query_Get :: "request \<Rightarrow> string \<Rightarrow> string" where
  "query_Get r k = (case mget (rq_Query r) k of None \<Rightarrow> [] | Some v \<Rightarrow> v)"

text \<open>A JSON body, or bytes with their content type and the name they are offered under.\<close>

datatype payload = Body json | Attachment string string string | Page

record response =
  rs_Status :: nat
  rs_Payload :: payload

definition writeJSON :: "nat \<Rightarrow> json \<Rightarrow> response" where
  "writeJSON status body = \<lparr>rs_Status = status, rs_Payload = Body body\<rparr>"

subsection \<open>Times\<close>

definition date_time :: "int \<Rightarrow> string" where
  "date_time t =
     (let secs = t div nanos_per_sec in
      case (civil (secs div 86400), clock_of secs) of
        ((y, m, d), (hh, mm, ss)) \<Rightarrow>
          pad_int 4 y @ ''-'' @ pad_int 2 m @ ''-'' @ pad_int 2 d @ ''T''
            @ pad_int 2 hh @ '':'' @ pad_int 2 mm @ '':'' @ pad_int 2 ss)"

text \<open>The layouts \<open>time.RFC3339\<close> and \<open>time.RFC3339Nano\<close> (the JSON form), for times in UTC.\<close>

definition Format_RFC3339 :: "int \<Rightarrow> string" where
  "Format_RFC3339 t = date_time t @ ''Z''"

definition Format_nano :: "int \<Rightarrow> string" where
  "Format_nano t =
     date_time t
       @ (let ns = t mod nanos_per_sec in
          if ns = 0 then [] else ''.'' @ rev (dropWhile (\<lambda>c. c = CHR ''0'') (rev (pad_int 9 ns))))
       @ ''Z''"

definition JTime :: "int \<Rightarrow> json" where
  "JTime t = JStr (Format_nano t)"

definition JInt :: "int \<Rightarrow> json" where
  "JInt n = JNum (Itoa n)"

subsection \<open>The entities as JSON\<close>

definition site_json :: "Site \<Rightarrow> json" where
  "site_json s = JObj [(''id'', JStr (site_ID s)), (''domain'', JStr (site_Domain s)), (''root_path'', JStr (site_RootPath s)),
     (''runtime'', JStr (site_Runtime s)), (''status'', JStr (site_Status s)), (''created_by'', JStr (site_CreatedBy s)),
     (''created_at'', JTime (site_CreatedAt s)), (''updated_at'', JTime (site_UpdatedAt s))]"

definition opt_time :: "string \<Rightarrow> int option \<Rightarrow> (string \<times> json) list" where
  "opt_time k t = (case t of None \<Rightarrow> [] | Some t \<Rightarrow> [(k, JTime t)])"

definition job_json :: "Job \<Rightarrow> json" where
  "job_json j = JObj ([(''id'', JStr (job_ID j)), (''type'', JStr (job_Type j)), (''status'', JStr (job_Status j)),
     (''payload'', JStr (job_Payload j)), (''error'', JStr (job_Error j))]
     @ opt_time ''started_at'' (job_StartedAt j) @ opt_time ''finished_at'' (job_FinishedAt j)
     @ [(''created_at'', JTime (job_CreatedAt j)), (''triggered_by'', JStr (job_TriggeredBy j))])"

definition log_json :: "AuditLog \<Rightarrow> json" where
  "log_json l = JObj [(''id'', JInt (log_ID l)), (''actor_user'', JStr (log_ActorUser l)), (''action'', JStr (log_Action l)),
     (''target_type'', JStr (log_TargetType l)), (''target_id'', JStr (log_TargetID l)),
     (''metadata'', JStr (log_Metadata l)), (''created_at'', JTime (log_CreatedAt l))]"

text \<open>An entry of a listing; its \<open>mod_time\<close> is left out, modification times not being modelled.\<close>

definition entry_json :: "SiteFileEntry \<Rightarrow> json" where
  "entry_json e = JObj [(''name'', JStr (sf_Name e)), (''path'', JStr (sf_Path e)), (''type'', JStr (sf_Type e)),
     (''size'', JInt (int (sf_Size e)))]"

definition database_json :: "DatabaseInfo \<Rightarrow> json" where
  "database_json d = JObj [(''name'', JStr (di_Name d)), (''system'', JBool (di_System d))]"

definition backup_json :: "BackupResult \<Rightarrow> json" where
  "backup_json b = JObj [(''file'', JStr (br_File b)), (''created_at'', JTime (br_CreatedAt b))]"

definition service_json :: "ServiceState \<Rightarrow> json" where
  "service_json s = JObj [(''name'', JStr (ss_Name s)), (''status'', JStr (ss_Status s)), (''checked_at'', JTime (ss_CheckedAt s))]"

definition start_json :: "StartResult \<Rightarrow> json" where
  "start_json s = JObj [(''unit'', JStr (sr_Unit s)), (''repo_url'', JStr (sr_RepoURL s)), (''branch'', JStr (sr_Branch s)),
     (''script_url'', JStr (sr_ScriptURL s)), (''started_at'', JTime (sr_StartedAt s))]"

definition status_json :: "UpdateStatus \<Rightarrow> json" where
  "status_json s = JObj ([(''unit'', JStr (us_Unit s)), (''exists'', JBool (us_Exists s)), (''running'', JBool (us_Running s)),
     (''active_state'', JStr (us_ActiveState s)), (''sub_state'', JStr (us_SubState s)), (''result'', JStr (us_Result s)),
     (''exec_main_status'', JInt (us_ExecMainStatus s)),
     (''state_change_timestamp'', JStr (us_StateChangeTimestamp s)), (''success'', JBool (us_Success s)),
     (''failed'', JBool (us_Failed s)), (''last_checked_at'', JTime (us_LastCheckedAt s))]
     @ (if us_Logs s = [] then [] else [(''logs'', JArr (map JStr (us_Logs s)))]))"

definition check_json :: "CheckResult \<Rightarrow> json" where
  "check_json c = JObj ([(''repo_url'', JStr (ck_RepoURL c)), (''branch'', JStr (ck_Branch c)),
     (''current_version'', JStr (ck_CurrentVersion c)), (''current_commit'', JStr (ck_CurrentCommit c)),
     (''remote_commit'', JStr (ck_RemoteCommit c)), (''status'', JStr (ck_Status c)), (''up_to_date'', JBool (ck_UpToDate c)),
     (''update_available'', JBool (ck_UpdateAvailable c))]
     @ (if ck_Note c = [] then [] else [(''note'', JStr (ck_Note c))]) @ [(''last_checked_at'', JTime (ck_LastCheckedAt c))])"

subsection \<open>Errors\<close>

definition error_payload :: "string \<Rightarrow> int \<Rightarrow> (string \<times> json) list" where
  "error_payload message now = [(''error'', JStr message), (''timestamp'', JStr (Format_RFC3339 now))]"

definition writeError :: "nat \<Rightarrow> string \<Rightarrow> 'a os_scheme \<Rightarrow> response \<times> 'a os_scheme" where
  "writeError status message w =
     (case time_Now w of (now, w) \<Rightarrow> (writeJSON status (JMap (error_payload message now)), w))"

definition mergeErrorPayload :: "string \<Rightarrow> (string \<times> json) list \<Rightarrow> 'a os_scheme \<Rightarrow> json \<times> 'a os_scheme" where
  "mergeErrorPayload message extra w =
     (case time_Now w of (now, w) \<Rightarrow> (JMap (fold (\<lambda>(k, v). mput k v) extra (error_payload message now)), w))"

text \<open>
  The switch on an error most handlers end in: the first case one of whose errors is meant decides, a
  case without a text answers with the error's own.
\<close>

fun error_answer :: "(sentinel list \<times> nat \<times> string option) list \<Rightarrow> nat \<times> string option \<Rightarrow> error \<Rightarrow> nat \<times> string" where
  "error_answer [] (status, text) e = (status, case text of None \<Rightarrow> Error_text e | Some t \<Rightarrow> t)"
| "error_answer ((es, status, text) # cases) fallback e =
     (if list_ex (errors_Is e) es then (status, case text of None \<Rightarrow> Error_text e | Some t \<Rightarrow> t)
      else error_answer cases fallback e)"

definition answer_error ::
  "(sentinel list \<times> nat \<times> string option) list \<Rightarrow> nat \<times> string option \<Rightarrow> error \<Rightarrow> 'a os_scheme \<Rightarrow> response \<times> 'a os_scheme" where
  "answer_error cases fallback e w =
     (case error_answer cases fallback e of (status, message) \<Rightarrow> writeError status message w)"

definition internal_error :: "nat \<times> string option" where
  "internal_error = (500, Some ''internal error'')"

subsection \<open>The body\<close>

text \<open>
  A member name selects the field whose name it equals up to letter case; besides the ASCII letters
  the long s and the Kelvin sign fold to letters.
\<close>

fun fold_name :: "string \<Rightarrow> string" where
  "fold_name [] = []"
| "fold_name (c # s) =
     (case s of
        d # t \<Rightarrow>
          if c = CHR 0xC5 \<and> d = CHR 0xBF then CHR ''s'' # fold_name t
          else (case t of
            e # u \<Rightarrow>
              if c = CHR 0xE2 \<and> d = CHR 0x84 \<and> e = CHR 0xAA then CHR ''k'' # fold_name u
              else lower_byte c # fold_name s
          | [] \<Rightarrow> lower_byte c # fold_name s)
      | [] \<Rightarrow> [lower_byte c])"

definition field_named :: "string list \<Rightarrow> string \<Rightarrow> string option" where
  "field_named names k = find (\<lambda>n. fold_name k = n) names"

fun read_fields :: "string list \<Rightarrow> (string \<times> json) list \<Rightarrow> (string, string) gomap \<Rightarrow> (string, string) gomap option" where
  "read_fields names [] m = Some m"
| "read_fields names ((k, v) # kvs) m =
     (case field_named names k of
        None \<Rightarrow> None
      | Some n \<Rightarrow>
          (case v of
             JStr s \<Rightarrow> read_fields names kvs (mput n s m)
           | JNull \<Rightarrow> read_fields names kvs m
           | _ \<Rightarrow> None))"

definition body_limit :: nat where
  "body_limit = 2 ^ 20"

text \<open>\<open>decodeJSON\<close> into a struct whose fields, all strings, have the given (lower-case) names.\<close>

definition decodeJSON :: "string list \<Rightarrow> request \<Rightarrow> error + (string, string) gomap" where
  "decodeJSON names r =
     (case Parse (take body_limit (rq_Body r)) of
        Some (JObj kvs) \<Rightarrow>
          (case read_fields names kvs [] of None \<Rightarrow> Inl (NewError ''invalid json body'') | Some m \<Rightarrow> Inr m)
      | Some JNull \<Rightarrow> Inr []
      | _ \<Rightarrow> Inl (NewError ''invalid json body''))"

definition field :: "(string, string) gomap \<Rightarrow> string \<Rightarrow> string" where
  "field m k = (case mget m k of None \<Rightarrow> [] | Some v \<Rightarrow> v)"

subsection \<open>Parameters of a request\<close>

definition bearerToken :: "string \<Rightarrow> error + string" where
  "bearerToken v =
     (case SplitN2 (TrimSpace v) (CHR '' '') of
        [scheme, rest] \<Rightarrow>
          if \<not> EqualFold scheme ''bearer'' then Inl (NewError ''missing bearer token'')
          else (let token = TrimSpace rest in if token = [] then Inl (NewError ''empty token'') else Inr token)
      | _ \<Rightarrow> Inl (NewError ''missing bearer token''))"

definition parseLimit :: "request \<Rightarrow> int \<Rightarrow> int" where
  "parseLimit r fallback0 =
     (let fallback = (if fallback0 \<le> 0 then 100 else fallback0); v = TrimSpace (query_Get r ''limit'') in
      if v = [] then fallback
      else (case Atoi v of
        None \<Rightarrow> fallback
      | Some n \<Rightarrow> if n < 1 then fallback else if n > 500 then 500 else n))"

text \<open>
  \<open>net.SplitHostPort\<close>: the last colon ends the host; a host in brackets may contain colons, any other
  may not.
\<close>

definition last_colon :: "string \<Rightarrow> nat option" where
  "last_colon s =
     (if CHR '':'' \<in> set s then Some (length s - 1 - length (takeWhile (\<lambda>c. c \<noteq> CHR '':'') (rev s))) else None)"

definition SplitHostPort :: "string \<Rightarrow> (string \<times> string) option" where
  "SplitHostPort hostport =
     (case last_colon hostport of
        None \<Rightarrow> None
      | Some i \<Rightarrow>
          if HasPrefix hostport ''['' then
            (let close = length (takeWhile (\<lambda>c. c \<noteq> CHR '']'') hostport) in
             if close = length hostport \<or> Suc close \<noteq> i then None
             else (let host = take (close - 1) (drop 1 hostport); port = drop (Suc i) hostport in
               if CHR ''['' \<in> set (drop 1 hostport) \<or> CHR '']'' \<in> set (drop (Suc close) hostport) then None
               else Some (host, port)))
          else (let host = take i hostport in
            if CHR '':'' \<in> set host then None
            else if CHR ''['' \<in> set hostport \<or> CHR '']'' \<in> set hostport then None
            else Some (host, drop (Suc i) hostport)))"

definition client_ip :: "request \<Rightarrow> string" where
  "client_ip r =
     (let forwardedFor = TrimSpace (rq_ForwardedFor r) in
      if forwardedFor \<noteq> [] then TrimSpace (hd (Split forwardedFor (CHR '','')))
      else case SplitHostPort (rq_RemoteAddr r) of
        Some (host, _) \<Rightarrow> host
      | None \<Rightarrow> TrimSpace (rq_RemoteAddr r))"

definition loginLimitKey :: "request \<Rightarrow> string \<Rightarrow> string" where
  "loginLimitKey r username = client_ip r @ '':'' @ ToLower (TrimSpace username)"

end
