(* ===== verification/API.thy ===== *)
theory API
  imports Http
begin

text \<open>
  The handlers of \<open>internal/httpserver/api.go\<close>.  A handler takes the service configuration, the
  principal and token the authentication put into the request's context, the request and the state; it
  yields the response, or \<open>None\<close> while the request still waits for room in the job queue.  The test each
  handler makes for a missing principal is left out: every handler that makes it is registered behind
  \<open>requireAuth\<close>, which puts the principal there.
\<close>

subsection \<open>State and configuration\<close>

record panel = jobs +
  pn_limiter :: LoginLimiter

text \<open>
  The services' settings.  The last six fields are answers of the host and of the build: its name,
  system, architecture and number of processors, the Go version, \<open>mime.TypeByExtension\<close> (which reads
  the host's tables), and the quoting of the verb \<open>%q\<close>.
\<close>

record API =
  api_bcrypt :: bcrypt
  api_tokenTTL :: int
  api_apply :: bool
  api_backupDir :: string
  api_zip :: "zip_members \<Rightarrow> string"
  api_db :: "DBService option"
  api_backup :: "BackupService option"
  api_ssl :: "SSLService option"
  api_monitor :: "string list option"
  api_updater :: "Updater option"
  api_version :: "string \<times> string \<times> string"
  api_hostname :: string
  api_goos :: string
  api_goarch :: string
  api_cpus :: nat
  api_go_version :: string
  api_mime :: "string \<Rightarrow> string"
  api_quote :: "string \<Rightarrow> string"

type_synonym 'w answer = "response option \<times> 'w"

text \<open>An answer given at once, an error, and an error value through a switch.\<close>

definition ok :: "nat \<Rightarrow> json \<Rightarrow> 'w \<Rightarrow> 'w answer" where
  "ok status body w = (Some (writeJSON status body), w)"

definition fail :: "nat \<Rightarrow> string \<Rightarrow> 'a os_scheme \<Rightarrow> 'a os_scheme answer" where
  "fail status message w = (case writeError status message w of (resp, w) \<Rightarrow> (Some resp, w))"

definition fail_with ::
  "(sentinel list \<times> nat \<times> string option) list \<Rightarrow> nat \<times> string option \<Rightarrow> error \<Rightarrow> 'a os_scheme \<Rightarrow> 'a os_scheme answer" where
  "fail_with cases fallback e w = (case answer_error cases fallback e w of (resp, w) \<Rightarrow> (Some resp, w))"

text \<open>A handler that needs the body decoded.\<close>

definition with_body ::
  "string list \<Rightarrow> request \<Rightarrow> ((string, string) gomap \<Rightarrow> 'a os_scheme \<Rightarrow> 'a os_scheme answer) \<Rightarrow> 'a os_scheme \<Rightarrow> 'a os_scheme answer" where
  "with_body names r body w =
     (case decodeJSON names r of Inl e \<Rightarrow> fail 400 (Error_text e) w | Inr m \<Rightarrow> body m w)"

definition status_ok :: json where
  "status_ok = JMap [(''status'', JStr ''ok'')]"

subsection \<open>Sessions\<close>

definition user_json :: "User \<Rightarrow> json" where
  "user_json user = JMap [(''id'', JStr (user_ID user)), (''username'', JStr (user_Username user)), (''role'', JStr (user_Role user))]"

definition api_handleLogin :: "API \<Rightarrow> request \<Rightarrow> 'a panel_scheme \<Rightarrow> 'a panel_scheme answer" where
  "api_handleLogin a r =
     with_body [''username'', ''password''] r (\<lambda>m w.
       (let username = field m ''username''; key = loginLimitKey r username in
        case time_Now w of
          (now, w) \<Rightarrow>
            (case Allow key now (pn_limiter w) of
               (allowed, limiter) \<Rightarrow>
                 (let w = w\<lparr>pn_limiter := limiter\<rparr> in
                  if \<not> allowed then fail 429 ''too many login attempts'' w
                  else (case auth_Login (api_bcrypt a) (api_tokenTTL a) username (field m ''password'') w of
                     (Inl e, w) \<Rightarrow>
                       (if errors_Is e (AuthE ErrInvalidCredentials) then
                          (case time_Now w of
                             (now, w) \<Rightarrow>
                               (let w = w\<lparr>pn_limiter := RegisterFailure key now (pn_limiter w)\<rparr>;
                                    w = audit_Record [] ''auth.login.failed'' ''user'' (TrimSpace username) None w in
                                fail 401 ''invalid credentials'' w))
                        else fail 500 ''internal error'' w)
                   | (Inr (token, expiresAt, user), w) \<Rightarrow>
                       (let w = w\<lparr>pn_limiter := RegisterSuccess key (pn_limiter w)\<rparr>;
                            w = audit_Record (user_ID user) ''auth.login.success'' ''user'' (user_ID user)
                                  (Some [(''username'', JStr (user_Username user))]) w in
                        ok 200 (JMap [(''token'', JStr token), (''expires_at'', JTime expiresAt), (''user'', user_json user)]) w))))))"

definition api_handleChangePassword :: "API \<Rightarrow> User \<Rightarrow> request \<Rightarrow> 'a panel_scheme \<Rightarrow> 'a panel_scheme answer" where
  "api_handleChangePassword a user r =
     with_body [''current_password'', ''new_password''] r (\<lambda>m w.
       (case auth_ChangePassword (api_bcrypt a) (user_ID user) (field m ''current_password'') (field m ''new_password'') w of
          (Some e, w) \<Rightarrow>
            fail_with [([AuthE ErrInvalidPassword], 401, Some ''invalid current password'')] (400, None) e w
        | (None, w) \<Rightarrow> ok 200 status_ok (audit_Record (user_ID user) ''auth.change_password'' ''user'' (user_ID user) None w)))"

definition api_handleLogout :: "User \<Rightarrow> string \<Rightarrow> 'a panel_scheme \<Rightarrow> 'a panel_scheme answer" where
  "api_handleLogout user token w =
     (case auth_Logout token w of
        (Some _, w) \<Rightarrow> fail 401 ''unauthorized'' w
      | (None, w) \<Rightarrow> ok 200 status_ok (audit_Record (user_ID user) ''auth.logout'' ''user'' (user_ID user) None w))"

definition api_handleMe :: "User \<Rightarrow> 'a panel_scheme \<Rightarrow> 'a panel_scheme answer" where
  "api_handleMe user w = ok 200 (user_json user) w"

subsection \<open>Sites\<close>

definition api_handleCreateSite :: "User \<Rightarrow> request \<Rightarrow> 'a panel_scheme \<Rightarrow> 'a panel_scheme answer" where
  "api_handleCreateSite user r =
     with_body [''domain'', ''root_path'', ''runtime''] r (\<lambda>m w.
       (case sites_CreateSite (rq_done r) (rq_pick r) (user_ID user) (field m ''domain'') (field m ''root_path'') (field m ''runtime'') w of
          (None, w) \<Rightarrow> (None, w)
        | (Some (Inl e), w) \<Rightarrow>
            fail_with [([SitesE ErrInvalidDomain, SitesE ErrInvalidRoot, SitesE ErrInvalidRuntime], 400, None),
                ([StoreE ErrConflict], 409, Some ''domain already exists'')] internal_error e w
        | (Some (Inr (site, job)), w) \<Rightarrow>
            ok 201 (JMap [(''site'', site_json site), (''job'', job_json job)])
              (audit_Record (user_ID user) ''site.create'' ''site'' (site_ID site)
                 (Some [(''domain'', JStr (site_Domain site)), (''job_id'', JStr (job_ID job))]) w)))"

definition api_handleListSites :: "request \<Rightarrow> 'a panel_scheme \<Rightarrow> 'a panel_scheme answer" where
  "api_handleListSites r w = ok 200 (JMap [(''items'', JArr (map site_json (sites_ListSites (parseLimit r 200) w)))]) w"

definition api_handleGetSite :: "string \<Rightarrow> 'a panel_scheme \<Rightarrow> 'a panel_scheme answer" where
  "api_handleGetSite siteID w =
     (case sites_GetSite siteID w of
        Inl e \<Rightarrow> fail_with [([StoreE ErrNotFound], 404, Some ''site not found'')] internal_error e w
      | Inr site \<Rightarrow> ok 200 (site_json site) w)"

text \<open>What the answers about a site's files begin with.\<close>

definition site_fields :: "Site \<Rightarrow> (string \<times> json) list" where
  "site_fields site = [(''site_id'', JStr (site_ID site)), (''domain'', JStr (site_Domain site))]"

definition root_field :: "Site \<Rightarrow> (string \<times> json) list" where
  "root_field site = [(''root_path'', JStr (site_RootPath site))]"

definition api_handleGetSiteContent :: "string \<Rightarrow> request \<Rightarrow> 'a panel_scheme \<Rightarrow> 'a panel_scheme answer" where
  "api_handleGetSiteContent siteID r w =
     (case sites_GetSiteContent siteID (query_Get r ''file'') w of
        (Inl e, w) \<Rightarrow>
          fail_with [([StoreE ErrNotFound], 404, Some ''site or file not found''), ([SitesE ErrInvalidFile], 400, None)]
            internal_error e w
      | (Inr (site, name, content), w) \<Rightarrow>
          ok 200 (JMap (site_fields site @ root_field site
            @ [(''file'', JStr name), (''size'', JInt (int (length content))), (''content'', JStr content)])) w)"

definition api_handleUpdateSiteContent :: "User \<Rightarrow> string \<Rightarrow> request \<Rightarrow> 'a panel_scheme \<Rightarrow> 'a panel_scheme answer" where
  "api_handleUpdateSiteContent user siteID r =
     with_body [''file'', ''content''] r (\<lambda>m w.
       (case sites_UpdateSiteContent siteID (field m ''file'') (field m ''content'') w of
          (Inl e, w) \<Rightarrow>
            fail_with [([StoreE ErrNotFound], 404, Some ''site not found''),
                ([SitesE ErrInvalidFile, SitesE ErrContentTooLong], 400, None)] internal_error e w
        | (Inr (site, name, sz), w) \<Rightarrow>
            ok 200 (JMap ([(''status'', JStr ''ok'')] @ site_fields site @ root_field site
                @ [(''file'', JStr name), (''size'', JInt (int sz))]))
              (audit_Record (user_ID user) ''site.content.update'' ''site'' (site_ID site)
                 (Some [(''file'', JStr name), (''size'', JInt (int sz))]) w)))"

definition api_handleListSiteFiles :: "string \<Rightarrow> request \<Rightarrow> 'a panel_scheme \<Rightarrow> 'a panel_scheme answer" where
  "api_handleListSiteFiles siteID r w =
     (case sites_ListSiteFiles siteID (query_Get r ''dir'') (parseLimit r 200) w of
        (Inl e, w) \<Rightarrow>
          fail_with [([StoreE ErrNotFound], 404, Some ''site or directory not found''), ([SitesE ErrInvalidPath], 400, None)]
            internal_error e w
      | (Inr (site, relDir, items), w) \<Rightarrow>
          ok 200 (JMap (site_fields site @ root_field site
            @ [(''dir'', JStr relDir), (''items'', JArr (map entry_json items))])) w)"

text \<open>\<open>path.Base\<close> of a cleaned relative path, and \<open>path.Ext\<close>.\<close>

definition path_Base :: "string \<Rightarrow> string" where
  "path_Base p = last (Split p slash)"

definition path_Ext :: "string \<Rightarrow> string" where
  "path_Ext p = (let b = path_Base p in
     if CHR ''.'' \<in> set b then CHR ''.'' # rev (takeWhile (\<lambda>c. c \<noteq> CHR ''.'') (rev b)) else [])"

definition api_handleDownloadSiteFile :: "API \<Rightarrow> string \<Rightarrow> request \<Rightarrow> 'a panel_scheme \<Rightarrow> 'a panel_scheme answer" where
  "api_handleDownloadSiteFile a siteID r w =
     (case sites_DownloadSiteFile siteID (query_Get r ''path'') w of
        (Inl e, w) \<Rightarrow>
          fail_with [([StoreE ErrNotFound], 404, Some ''site or file not found''), ([SitesE ErrInvalidPath], 400, None)]
            internal_error e w
      | (Inr (_, cleanPath, content), w) \<Rightarrow>
          (let contentType = api_mime a (path_Ext cleanPath);
               contentType = (if TrimSpace contentType = [] then ''application/octet-stream'' else contentType) in
           (Some \<lparr>rs_Status = 200,
              rs_Payload = Attachment contentType (''attachment; filename='' @ api_quote a (path_Base cleanPath)) content\<rparr>, w)))"

definition api_handleUploadSiteFile :: "User \<Rightarrow> string \<Rightarrow> request \<Rightarrow> 'a panel_scheme \<Rightarrow> 'a panel_scheme answer" where
  "api_handleUploadSiteFile user siteID r =
     with_body [''path'', ''content_base64''] r (\<lambda>m w.
       (case sites_UploadSiteFile siteID (field m ''path'') (field m ''content_base64'') w of
          (Inl e, w) \<Rightarrow>
            fail_with [([StoreE ErrNotFound], 404, Some ''site not found''),
                ([SitesE ErrInvalidPath, SitesE ErrInvalidBase64, SitesE ErrFileTooLarge], 400, None)] internal_error e w
        | (Inr (site, relPath, sz), w) \<Rightarrow>
            ok 200 (JMap ([(''status'', JStr ''ok'')] @ site_fields site @ root_field site
                @ [(''path'', JStr relPath), (''size'', JInt (int sz))]))
              (audit_Record (user_ID user) ''site.file.upload'' ''site'' (site_ID site)
                 (Some [(''path'', JStr relPath), (''size'', JInt (int sz))]) w)))"

definition api_handleDeleteSiteFile :: "User \<Rightarrow> string \<Rightarrow> request \<Rightarrow> 'a panel_scheme \<Rightarrow> 'a panel_scheme answer" where
  "api_handleDeleteSiteFile user siteID r w =
     (case sites_DeleteSiteFile siteID (query_Get r ''path'') w of
        (Inl e, w) \<Rightarrow>
          fail_with [([StoreE ErrNotFound], 404, Some ''site or file not found''), ([SitesE ErrInvalidPath], 400, None)]
            internal_error e w
      | (Inr (site, deletedPath), w) \<Rightarrow>
          ok 200 (JMap ([(''status'', JStr ''ok'')] @ site_fields site @ [(''path'', JStr deletedPath)]))
            (audit_Record (user_ID user) ''site.file.delete'' ''site'' (site_ID site) (Some [(''path'', JStr deletedPath)]) w))"

definition api_handleCreateSiteDir :: "User \<Rightarrow> string \<Rightarrow> request \<Rightarrow> 'a panel_scheme \<Rightarrow> 'a panel_scheme answer" where
  "api_handleCreateSiteDir user siteID r =
     with_body [''path''] r (\<lambda>m w.
       (case sites_CreateSiteDirectory siteID (field m ''path'') w of
          (Inl e, w) \<Rightarrow>
            fail_with [([StoreE ErrNotFound], 404, Some ''site not found''), ([SitesE ErrInvalidPath], 400, None)]
              internal_error e w
        | (Inr (site, relPath), w) \<Rightarrow>
            ok 201 (JMap ([(''status'', JStr ''ok'')] @ site_fields site @ [(''path'', JStr relPath)]))
              (audit_Record (user_ID user) ''site.dir.create'' ''site'' (site_ID site) (Some [(''path'', JStr relPath)]) w)))"

definition recursive_flag :: "request \<Rightarrow> bool option" where
  "recursive_flag r = (let raw = TrimSpace (query_Get r ''recursive'') in if raw = [] then Some False else ParseBool raw)"

definition api_handleDeleteSiteDir :: "User \<Rightarrow> string \<Rightarrow> request \<Rightarrow> 'a panel_scheme \<Rightarrow> 'a panel_scheme answer" where
  "api_handleDeleteSiteDir user siteID r w =
     (case recursive_flag r of
        None \<Rightarrow> fail 400 ''invalid recursive flag'' w
      | Some recursive \<Rightarrow>
          (case sites_DeleteSiteDirectory siteID (query_Get r ''path'') recursive w of
             (Inl e, w) \<Rightarrow>
               fail_with [([StoreE ErrNotFound], 404, Some ''site or directory not found''),
                   ([SitesE ErrInvalidPath, SitesE ErrNotDirectory], 400, None), ([SitesE ErrDirNotEmpty], 409, None)]
                 internal_error e w
           | (Inr (site, deletedPath), w) \<Rightarrow>
               ok 200 (JMap ([(''status'', JStr ''ok'')] @ site_fields site
                   @ [(''path'', JStr deletedPath), (''recursive'', JBool recursive)]))
                 (audit_Record (user_ID user) ''site.dir.delete'' ''site'' (site_ID site)
                    (Some [(''path'', JStr deletedPath), (''recursive'', JBool recursive)]) w)))"

definition api_handleBackupSiteContent :: "API \<Rightarrow> User \<Rightarrow> string \<Rightarrow> 'a panel_scheme \<Rightarrow> 'a panel_scheme answer" where
  "api_handleBackupSiteContent a user siteID w =
     (case sites_BackupSiteContent (api_zip a) (api_backupDir a) (api_apply a) siteID w of
        (Inl e, w) \<Rightarrow> fail_with [([StoreE ErrNotFound], 404, Some ''site not found'')] (500, None) e w
      | (Inr (site, result), w) \<Rightarrow>
          ok 201 (JMap ([(''status'', JStr ''ok'')] @ site_fields site
              @ [(''file'', JStr (sb_File result)), (''size'', JInt (int (sb_Size result))),
                 (''created_at'', JTime (sb_CreatedAt result))]))
            (audit_Record (user_ID user) ''site.backup.content'' ''site'' (site_ID site)
               (Some [(''file'', JStr (sb_File result)), (''size'', JInt (int (sb_Size result)))]) w))"

definition api_handleDeleteSite :: "User \<Rightarrow> string \<Rightarrow> request \<Rightarrow> 'a panel_scheme \<Rightarrow> 'a panel_scheme answer" where
  "api_handleDeleteSite user siteID r w =
     (case sites_DeleteSite (rq_done r) (rq_pick r) (user_ID user) siteID w of
        (None, w) \<Rightarrow> (None, w)
      | (Some (Inl e), w) \<Rightarrow> fail_with [([StoreE ErrNotFound], 404, Some ''site not found'')] internal_error e w
      | (Some (Inr job), w) \<Rightarrow>
          ok 202 (JMap [(''status'', JStr ''deprovisioning''), (''job'', job_json job)])
            (audit_Record (user_ID user) ''site.delete.requested'' ''site'' siteID (Some [(''job_id'', JStr (job_ID job))]) w))"

subsection \<open>Jobs and the audit trail\<close>

definition api_handleListJobs :: "request \<Rightarrow> 'a panel_scheme \<Rightarrow> 'a panel_scheme answer" where
  "api_handleListJobs r w = ok 200 (JMap [(''items'', JArr (map job_json (jobs_List (parseLimit r 200) w)))]) w"

definition api_handleGetJob :: "string \<Rightarrow> 'a panel_scheme \<Rightarrow> 'a panel_scheme answer" where
  "api_handleGetJob jobID w =
     (case jobs_Get jobID w of
        Inl e \<Rightarrow> fail_with [([StoreE ErrNotFound], 404, Some ''job not found'')] internal_error e w
      | Inr job \<Rightarrow> ok 200 (job_json job) w)"

definition api_handleListAuditLogs :: "request \<Rightarrow> 'a panel_scheme \<Rightarrow> 'a panel_scheme answer" where
  "api_handleListAuditLogs r w = ok 200 (JMap [(''items'', JArr (map log_json (audit_List (parseLimit r 200) w)))]) w"

subsection \<open>Databases, backups and certificates\<close>

definition api_handleListDatabases :: "API \<Rightarrow> 'a panel_scheme \<Rightarrow> 'a panel_scheme answer" where
  "api_handleListDatabases a w =
     (case api_db a of
        None \<Rightarrow> fail 500 ''db service is not configured'' w
      | Some s \<Rightarrow>
          (case db_ListDatabases s w of
             (Inl e, w) \<Rightarrow> fail 500 (Error_text e) w
           | (Inr items, w) \<Rightarrow> ok 200 (JMap [(''items'', JArr (map database_json items))]) w))"

definition api_handleCreateDatabase :: "API \<Rightarrow> User \<Rightarrow> request \<Rightarrow> 'a panel_scheme \<Rightarrow> 'a panel_scheme answer" where
  "api_handleCreateDatabase a user r w =
     (case api_db a of
        None \<Rightarrow> fail 500 ''db service is not configured'' w
      | Some s \<Rightarrow>
          with_body [''name''] r (\<lambda>m w.
            (case db_CreateDatabase s (field m ''name'') w of
               (Some e, w) \<Rightarrow> fail_with [([DbE ErrInvalidDatabaseName], 400, None)] (500, None) e w
             | (None, w) \<Rightarrow>
                 ok 201 (JMap [(''status'', JStr ''ok''), (''database'', JStr (field m ''name''))])
                   (audit_Record (user_ID user) ''db.create_database'' ''database'' (field m ''name'') None w))) w)"

definition api_handleCreateDatabaseUser :: "API \<Rightarrow> User \<Rightarrow> request \<Rightarrow> 'a panel_scheme \<Rightarrow> 'a panel_scheme answer" where
  "api_handleCreateDatabaseUser a user r w =
     (case api_db a of
        None \<Rightarrow> fail 500 ''db service is not configured'' w
      | Some s \<Rightarrow>
          with_body [''database'', ''username'', ''password'', ''host''] r (\<lambda>m w.
            (case db_CreateUser s \<lparr>cu_Database = field m ''database'', cu_Username = field m ''username'',
                    cu_Password = field m ''password'', cu_Host = field m ''host''\<rparr> w of
               (Some e, w) \<Rightarrow>
                 fail_with [([DbE ErrInvalidDatabaseName, DbE ErrInvalidUsername, DbE DbErrInvalidPassword, DbE ErrInvalidHost],
                     400, None)] (500, None) e w
             | (None, w) \<Rightarrow>
                 (let host = (if TrimSpace (field m ''host'') = [] then ''localhost'' else field m ''host'') in
                  ok 201 (JMap [(''status'', JStr ''ok''), (''database'', JStr (field m ''database'')),
                      (''username'', JStr (field m ''username'')), (''host'', JStr host)])
                    (audit_Record (user_ID user) ''db.create_user'' ''database'' (field m ''database'')
                       (Some [(''username'', JStr (field m ''username'')), (''host'', JStr host)]) w)))) w)"

definition api_handleRunBackup :: "API \<Rightarrow> User \<Rightarrow> request \<Rightarrow> 'a panel_scheme \<Rightarrow> 'a panel_scheme answer" where
  "api_handleRunBackup a user r w =
     (case api_backup a of
        None \<Rightarrow> fail 500 ''backup service is not configured'' w
      | Some s \<Rightarrow>
          (case backup_Run s (rq_done r) w of
             (Inl e, w) \<Rightarrow> fail 500 (Error_text e) w
           | (Inr result, w) \<Rightarrow>
               ok 201 (backup_json result) (audit_Record (user_ID user) ''backup.run'' ''file'' (br_File result) None w)))"

definition api_handleRestoreBackup :: "API \<Rightarrow> User \<Rightarrow> request \<Rightarrow> 'a panel_scheme \<Rightarrow> 'a panel_scheme answer" where
  "api_handleRestoreBackup a user r w =
     (case api_backup a of
        None \<Rightarrow> fail 500 ''backup service is not configured'' w
      | Some s \<Rightarrow>
          with_body [''file''] r (\<lambda>m w.
            (case backup_Restore s (rq_done r) (field m ''file'') w of
               (Some e, w) \<Rightarrow> fail_with [([BackupE ErrInvalidBackupPath], 400, None)] (500, None) e w
             | (None, w) \<Rightarrow>
                 ok 200 (JMap [(''status'', JStr ''ok''), (''file'', JStr (field m ''file'')),
                     (''note'', JStr ''restart nusantara-panel service is recommended after restore'')])
                   (audit_Record (user_ID user) ''backup.restore'' ''file'' (field m ''file'') None w))) w)"

definition api_handleIssueSSL :: "API \<Rightarrow> User \<Rightarrow> request \<Rightarrow> 'a panel_scheme \<Rightarrow> 'a panel_scheme answer" where
  "api_handleIssueSSL a user r w =
     (case api_ssl a of
        None \<Rightarrow> fail 500 ''ssl service is not configured'' w
      | Some s \<Rightarrow>
          with_body [''domain'', ''email''] r (\<lambda>m w.
            (case ssl_Issue s (field m ''domain'') (field m ''email'') w of
               (Some e, w) \<Rightarrow> fail_with [([SslE SslErrInvalidDomain, SslE SslErrInvalidEmail], 400, None)] (500, None) e w
             | (None, w) \<Rightarrow>
                 ok 200 (JMap [(''status'', JStr ''ok''), (''domain'', JStr (field m ''domain''))])
                   (audit_Record (user_ID user) ''ssl.issue'' ''domain'' (field m ''domain'')
                      (Some [(''email'', JStr (field m ''email''))]) w))) w)"

definition api_handleRenewSSL :: "API \<Rightarrow> User \<Rightarrow> 'a panel_scheme \<Rightarrow> 'a panel_scheme answer" where
  "api_handleRenewSSL a user w =
     (case api_ssl a of
        None \<Rightarrow> fail 500 ''ssl service is not configured'' w
      | Some s \<Rightarrow>
          (case ssl_Renew s w of
             (Some e, w) \<Rightarrow> fail 500 (Error_text e) w
           | (None, w) \<Rightarrow> ok 200 status_ok (audit_Record (user_ID user) ''ssl.renew'' ''system'' ''certbot'' None w)))"

subsection \<open>The host and the panel itself\<close>

definition api_handleMonitorHost :: "API \<Rightarrow> 'a panel_scheme \<Rightarrow> 'a panel_scheme answer" where
  "api_handleMonitorHost a w =
     (case time_Now w of
        (now, w) \<Rightarrow>
          ok 200 (JMap [(''status'', JStr ''ok''), (''hostname'', JStr (api_hostname a)), (''goos'', JStr (api_goos a)),
            (''goarch'', JStr (api_goarch a)), (''cpu_threads'', JInt (int (api_cpus a))), (''timestamp'', JTime now)]) w)"

definition api_handleMonitorServices :: "API \<Rightarrow> 'a panel_scheme \<Rightarrow> 'a panel_scheme answer" where
  "api_handleMonitorServices a w =
     (case api_monitor a of
        None \<Rightarrow> ok 200 (JMap [(''items'', JArr []), (''note'', JStr ''services monitor is not configured'')]) w
      | Some names \<Rightarrow>
          (case monitor_List (api_goos a) names w of
             (items, w) \<Rightarrow> ok 200 (JMap [(''items'', JArr (map service_json items))]) w))"

definition api_handlePanelVersion :: "API \<Rightarrow> 'a panel_scheme \<Rightarrow> 'a panel_scheme answer" where
  "api_handlePanelVersion a w =
     (case (api_version a, time_Now w) of
        ((version, commit, build_time), (now, w)) \<Rightarrow>
          ok 200 (JMap [(''version'', JStr version), (''commit'', JStr commit), (''build_time'', JStr build_time),
            (''go_version'', JStr (api_go_version a)), (''timestamp'', JTime now)]) w)"

definition api_handleStartPanelUpdate :: "API \<Rightarrow> User \<Rightarrow> 'a panel_scheme \<Rightarrow> 'a panel_scheme answer" where
  "api_handleStartPanelUpdate a user w =
     (case api_updater a of
        None \<Rightarrow> fail 500 ''panel updater is not configured'' w
      | Some s \<Rightarrow>
          (case updater_Start s w of
             (Inr result, w) \<Rightarrow>
               ok 202 (start_json result)
                 (audit_Record (user_ID user) ''panel.update.start'' ''system'' (sr_Unit result)
                    (Some [(''repo_url'', JStr (sr_RepoURL result)), (''branch'', JStr (sr_Branch result)),
                       (''script_url'', JStr (sr_ScriptURL result))]) w)
           | (Inl e, w) \<Rightarrow>
               (case updater_Status s w of
                  (st, w) \<Rightarrow>
                    (let statusPayload = (case st of Inl _ \<Rightarrow> [] | Inr st \<Rightarrow> [(''update_status'', status_json st)]) in
                     case error_answer
                         [([UpdaterE ErrAlreadyRunning], 409, Some ''panel update is already running''),
                          ([UpdaterE ErrCooldown], 429, None), ([UpdaterE ErrDisabled], 400, Some ''panel updater is disabled'')]
                         (500, None) e of
                       (status, message) \<Rightarrow>
                         (case mergeErrorPayload message statusPayload w of (body, w) \<Rightarrow> ok status body w)))))"

definition api_handlePanelUpdateCheck :: "API \<Rightarrow> 'a panel_scheme \<Rightarrow> 'a panel_scheme answer" where
  "api_handlePanelUpdateCheck a w =
     (case api_updater a of
        None \<Rightarrow> fail 500 ''panel updater is not configured'' w
      | Some s \<Rightarrow>
          (case updater_Check s w of
             (Inl e, w) \<Rightarrow> fail_with [([UpdaterE ErrDisabled], 400, Some ''panel updater is disabled'')] (500, None) e w
           | (Inr result, w) \<Rightarrow> ok 200 (check_json result) w))"

definition api_handlePanelUpdateStatus :: "API \<Rightarrow> 'a panel_scheme \<Rightarrow> 'a panel_scheme answer" where
  "api_handlePanelUpdateStatus a w =
     (case api_updater a of
        None \<Rightarrow> fail 500 ''panel updater is not configured'' w
      | Some s \<Rightarrow>
          (case updater_Status s w of
             (Inl e, w) \<Rightarrow> fail_with [([UpdaterE ErrDisabled], 400, Some ''panel updater is disabled'')] (500, None) e w
           | (Inr status, w) \<Rightarrow> ok 200 (status_json status) w))"

subsection \<open>Authentication and roles\<close>

definition api_requireAuth ::
  "(User \<Rightarrow> string \<Rightarrow> 'a panel_scheme \<Rightarrow> 'a panel_scheme answer) \<Rightarrow> request \<Rightarrow> 'a panel_scheme \<Rightarrow> 'a panel_scheme answer" where
  "api_requireAuth handler r w =
     (case bearerToken (rq_Authorization r) of
        Inl _ \<Rightarrow> fail 401 ''unauthorized'' w
      | Inr token \<Rightarrow>
          (case auth_Authenticate token w of
             (Inl _, w) \<Rightarrow> fail 401 ''unauthorized'' w
           | (Inr user, w) \<Rightarrow> handler user token w))"

definition api_requireRole ::
  "string \<Rightarrow> (User \<Rightarrow> 'a panel_scheme \<Rightarrow> 'a panel_scheme answer) \<Rightarrow> request \<Rightarrow> 'a panel_scheme \<Rightarrow> 'a panel_scheme answer" where
  "api_requireRole role handler =
     api_requireAuth (\<lambda>user token w. if user_Role user \<noteq> role then fail 403 ''forbidden'' w else handler user w)"

end
