(* ===== verification/Routes.thy ===== *)
theory Routes
  imports API
begin

text \<open>
  \<open>RegisterRoutes\<close> (\<open>internal/httpserver/api.go\<close>), \<open>NewRouter\<close> (\<open>router.go\<close>) and the handlers outside the
  API: which handler a request reaches, and behind which check.  The table is the router's; matching
  is \<open>http.ServeMux\<close>'s for these patterns: literal segments, single wildcards that match any one
  non-empty segment, and \<open>GET /\<close>, which matches every path.  A path that is not clean is redirected
  before it gets here.
\<close>

datatype endpoint =
    WebUI | Health | Compatibility
  | Login | Logout | Me | ChangePassword
  | ListSites | CreateSite | GetSite | GetSiteContent | UpdateSiteContent | ListSiteFiles | DownloadSiteFile
  | UploadSiteFile | DeleteSiteFile | CreateSiteDir | DeleteSiteDir | BackupSiteContent | DeleteSite
  | ListJobs | GetJob | ListDatabases | CreateDatabase | CreateDatabaseUser | RunBackup | RestoreBackup
  | IssueSSL | RenewSSL | ListAuditLogs | MonitorHost | MonitorServices | PanelVersion | PanelUpdateCheck
  | StartPanelUpdate | PanelUpdateStatus

text \<open>A pattern's segment; the empty literal stands for a wildcard.\<close>

definition routes :: "(string \<times> string list \<times> endpoint) list" where
  "routes = [
     (''GET'', [''ui''], WebUI),
     (''GET'', [''healthz''], Health),
     (''GET'', [''v1'', ''system'', ''compatibility''], Compatibility),
     (''POST'', [''v1'', ''auth'', ''login''], Login),
     (''POST'', [''v1'', ''auth'', ''logout''], Logout),
     (''GET'', [''v1'', ''auth'', ''me''], Me),
     (''POST'', [''v1'', ''auth'', ''change-password''], ChangePassword),
     (''GET'', [''v1'', ''sites''], ListSites),
     (''POST'', [''v1'', ''sites''], CreateSite),
     (''GET'', [''v1'', ''sites'', []], GetSite),
     (''GET'', [''v1'', ''sites'', [], ''content''], GetSiteContent),
     (''PUT'', [''v1'', ''sites'', [], ''content''], UpdateSiteContent),
     (''GET'', [''v1'', ''sites'', [], ''files''], ListSiteFiles),
     (''GET'', [''v1'', ''sites'', [], ''files'', ''download''], DownloadSiteFile),
     (''POST'', [''v1'', ''sites'', [], ''files'', ''upload''], UploadSiteFile),
     (''DELETE'', [''v1'', ''sites'', [], ''files''], DeleteSiteFile),
     (''POST'', [''v1'', ''sites'', [], ''dirs''], CreateSiteDir),
     (''DELETE'', [''v1'', ''sites'', [], ''dirs''], DeleteSiteDir),
     (''POST'', [''v1'', ''sites'', [], ''backup''], BackupSiteContent),
     (''DELETE'', [''v1'', ''sites'', []], DeleteSite),
     (''GET'', [''v1'', ''jobs''], ListJobs),
     (''GET'', [''v1'', ''jobs'', []], GetJob),
     (''GET'', [''v1'', ''db'', ''databases''], ListDatabases),
     (''POST'', [''v1'', ''db'', ''databases''], CreateDatabase),
     (''POST'', [''v1'', ''db'', ''users''], CreateDatabaseUser),
     (''POST'', [''v1'', ''backup'', ''run''], RunBackup),
     (''POST'', [''v1'', ''backup'', ''restore''], RestoreBackup),
     (''POST'', [''v1'', ''ssl'', ''issue''], IssueSSL),
     (''POST'', [''v1'', ''ssl'', ''renew''], RenewSSL),
     (''GET'', [''v1'', ''audit'', ''logs''], ListAuditLogs),
     (''GET'', [''v1'', ''monitor'', ''host''], MonitorHost),
     (''GET'', [''v1'', ''monitor'', ''services''], MonitorServices),
     (''GET'', [''v1'', ''panel'', ''version''], PanelVersion),
     (''GET'', [''v1'', ''panel'', ''update'', ''check''], PanelUpdateCheck),
     (''POST'', [''v1'', ''panel'', ''update''], StartPanelUpdate),
     (''GET'', [''v1'', ''panel'', ''update'', ''status''], PanelUpdateStatus)]"

fun match_path :: "string list \<Rightarrow> string list \<Rightarrow> bool" where
  "match_path [] [] = True"
| "match_path (p # ps) (s # ss) = ((if p = [] then s \<noteq> [] else p = s) \<and> match_path ps ss)"
| "match_path _ _ = False"

text \<open>A request with the method HEAD uses the routes of GET.\<close>

definition route_method :: "string \<Rightarrow> string" where
  "route_method m = (if m = ''HEAD'' then ''GET'' else m)"

definition route :: "request \<Rightarrow> endpoint option" where
  "route r =
     (case find (\<lambda>(m, ps, e). m = route_method (rq_Method r) \<and> match_path ps (rq_Segments r)) routes of
        Some (_, _, e) \<Rightarrow> Some e
      | None \<Rightarrow> if route_method (rq_Method r) = ''GET'' then Some WebUI else None)"

text \<open>The wildcard, always the third segment.\<close>

definition path_value :: "request \<Rightarrow> string" where
  "path_value r = (case rq_Segments r of _ # _ # s # _ \<Rightarrow> s | _ \<Rightarrow> [])"

subsection \<open>The handlers outside the API\<close>

definition handlers_Health :: "'a panel_scheme \<Rightarrow> 'a panel_scheme answer" where
  "handlers_Health w =
     (case time_Now w of
        (now, w) \<Rightarrow>
          ok 200 (JObj [(''status'', JStr ''ok''), (''service'', JStr ''nusantarad''), (''timestamp'', JTime now)]) w)"

definition handlers_SystemCompatibility :: "OSResult \<Rightarrow> 'a panel_scheme \<Rightarrow> 'a panel_scheme answer" where
  "handlers_SystemCompatibility res w =
     ok 200 (JObj [(''target_os'', JStr ''ubuntu 22.04+''), (''single_server_only'', JBool True),
       (''native_on_server'', JBool True),
       (''compatibility_info'', JObj [(''goos'', JStr (os_GOOS res)), (''id'', JStr (os_ID res)),
          (''version_id'', JStr (os_VersionID res)), (''supported'', JBool (os_Supported res))])]) w"

text \<open>The page itself is a constant; what matters here is that it is served to anybody.\<close>

definition handlers_WebUI :: "'a panel_scheme \<Rightarrow> 'a panel_scheme answer" where
  "handlers_WebUI w = (Some \<lparr>rs_Status = 200, rs_Payload = Page\<rparr>, w)"

subsection \<open>Dispatch\<close>

fun endpoint_handler :: "API \<Rightarrow> OSResult \<Rightarrow> endpoint \<Rightarrow> request \<Rightarrow> 'a panel_scheme \<Rightarrow> 'a panel_scheme answer" where
  "endpoint_handler a res WebUI r = handlers_WebUI"
| "endpoint_handler a res Health r = handlers_Health"
| "endpoint_handler a res Compatibility r = handlers_SystemCompatibility res"
| "endpoint_handler a res Login r = api_handleLogin a r"
| "endpoint_handler a res Logout r = api_requireAuth api_handleLogout r"
| "endpoint_handler a res Me r = api_requireAuth (\<lambda>user _. api_handleMe user) r"
| "endpoint_handler a res ChangePassword r = api_requireAuth (\<lambda>user _. api_handleChangePassword a user r) r"
| "endpoint_handler a res ListSites r = api_requireRole RoleAdmin (\<lambda>_. api_handleListSites r) r"
| "endpoint_handler a res CreateSite r = api_requireRole RoleAdmin (\<lambda>user. api_handleCreateSite user r) r"
| "endpoint_handler a res GetSite r = api_requireRole RoleAdmin (\<lambda>_. api_handleGetSite (path_value r)) r"
| "endpoint_handler a res GetSiteContent r = api_requireRole RoleAdmin (\<lambda>_. api_handleGetSiteContent (path_value r) r) r"
| "endpoint_handler a res UpdateSiteContent r =
     api_requireRole RoleAdmin (\<lambda>user. api_handleUpdateSiteContent user (path_value r) r) r"
| "endpoint_handler a res ListSiteFiles r = api_requireRole RoleAdmin (\<lambda>_. api_handleListSiteFiles (path_value r) r) r"
| "endpoint_handler a res DownloadSiteFile r =
     api_requireRole RoleAdmin (\<lambda>_. api_handleDownloadSiteFile a (path_value r) r) r"
| "endpoint_handler a res UploadSiteFile r =
     api_requireRole RoleAdmin (\<lambda>user. api_handleUploadSiteFile user (path_value r) r) r"
| "endpoint_handler a res DeleteSiteFile r =
     api_requireRole RoleAdmin (\<lambda>user. api_handleDeleteSiteFile user (path_value r) r) r"
| "endpoint_handler a res CreateSiteDir r =
     api_requireRole RoleAdmin (\<lambda>user. api_handleCreateSiteDir user (path_value r) r) r"
| "endpoint_handler a res DeleteSiteDir r =
     api_requireRole RoleAdmin (\<lambda>user. api_handleDeleteSiteDir user (path_value r) r) r"
| "endpoint_handler a res BackupSiteContent r =
     api_requireRole RoleAdmin (\<lambda>user. api_handleBackupSiteContent a user (path_value r)) r"
| "endpoint_handler a res DeleteSite r = api_requireRole RoleAdmin (\<lambda>user. api_handleDeleteSite user (path_value r) r) r"
| "endpoint_handler a res ListJobs r = api_requireRole RoleAdmin (\<lambda>_. api_handleListJobs r) r"
| "endpoint_handler a res GetJob r = api_requireRole RoleAdmin (\<lambda>_. api_handleGetJob (path_value r)) r"
| "endpoint_handler a res ListDatabases r = api_requireRole RoleAdmin (\<lambda>_. api_handleListDatabases a) r"
| "endpoint_handler a res CreateDatabase r = api_requireRole RoleAdmin (\<lambda>user. api_handleCreateDatabase a user r) r"
| "endpoint_handler a res CreateDatabaseUser r = api_requireRole RoleAdmin (\<lambda>user. api_handleCreateDatabaseUser a user r) r"
| "endpoint_handler a res RunBackup r = api_requireRole RoleAdmin (\<lambda>user. api_handleRunBackup a user r) r"
| "endpoint_handler a res RestoreBackup r = api_requireRole RoleAdmin (\<lambda>user. api_handleRestoreBackup a user r) r"
| "endpoint_handler a res IssueSSL r = api_requireRole RoleAdmin (\<lambda>user. api_handleIssueSSL a user r) r"
| "endpoint_handler a res RenewSSL r = api_requireRole RoleAdmin (\<lambda>user. api_handleRenewSSL a user) r"
| "endpoint_handler a res ListAuditLogs r = api_requireRole RoleAdmin (\<lambda>_. api_handleListAuditLogs r) r"
| "endpoint_handler a res MonitorHost r = api_requireRole RoleAdmin (\<lambda>_. api_handleMonitorHost a) r"
| "endpoint_handler a res MonitorServices r = api_requireRole RoleAdmin (\<lambda>_. api_handleMonitorServices a) r"
| "endpoint_handler a res PanelVersion r = api_requireRole RoleAdmin (\<lambda>_. api_handlePanelVersion a) r"
| "endpoint_handler a res PanelUpdateCheck r = api_requireRole RoleAdmin (\<lambda>_. api_handlePanelUpdateCheck a) r"
| "endpoint_handler a res StartPanelUpdate r = api_requireRole RoleAdmin (\<lambda>user. api_handleStartPanelUpdate a user) r"
| "endpoint_handler a res PanelUpdateStatus r = api_requireRole RoleAdmin (\<lambda>_. api_handlePanelUpdateStatus a) r"

definition serve :: "API \<Rightarrow> OSResult \<Rightarrow> request \<Rightarrow> 'a panel_scheme \<Rightarrow> 'a panel_scheme answer" where
  "serve a res r w =
     (case route r of
        Some e \<Rightarrow> endpoint_handler a res e r w
      | None \<Rightarrow> (Some \<lparr>rs_Status = 405, rs_Payload = Attachment ''text/plain; charset=utf-8'' [] ''Method Not Allowed''\<rparr>, w))"

subsection \<open>What a refused request leaves behind\<close>

lemma WriteFile_cmds: "WriteFile p x w = (e, w') \<Longrightarrow> os_cmds w' = os_cmds w"
  by (auto simp: WriteFile_def write_at_def sys_def fs_store_def split: option.splits sum.splits if_splits)

lemma Rename_cmds: "Rename p q w = (e, w') \<Longrightarrow> os_cmds w' = os_cmds w"
  by (auto simp: Rename_def sys_def split: option.splits sum.splits node.splits if_splits)

lemma repo_save_cmds: "os_cmds (snd (repo_save w)) = os_cmds w"
  by (auto simp: repo_save_def dest!: WriteFile_cmds Rename_cmds split: sum.splits prod.splits option.splits)

text \<open>
  \<open>unchanged w w'\<close>: no command was run, the queue, its flags and the limiter are as before, and so is the
  data, except that one session may be gone.
\<close>

definition unchanged :: "'a panel_scheme \<Rightarrow> 'a panel_scheme \<Rightarrow> bool" where
  "unchanged w w' \<longleftrightarrow> os_cmds w' = os_cmds w \<and> repo.more w' = repo.more w
     \<and> (rp_data w' = rp_data w
        \<or> (\<exists>h s. mget (Sessions (rp_data w)) h = Some s \<and> session_ExpiresAt s < os_clock w (os_ticks w)
             \<and> rp_data w' = (rp_data w)\<lparr>Sessions := mdel h (Sessions (rp_data w))\<rparr>))"

lemma unchanged_refl: "unchanged w w"
  by (simp add: unchanged_def)

lemma unchanged_ticks: "unchanged w (w'\<lparr>os_ticks := n\<rparr>) = unchanged w w'"
  by (simp add: unchanged_def)

lemma Authenticate_unchanged: "auth_Authenticate token w = (x, w') \<Longrightarrow> unchanged w w'"
proof (cases "repo_GetSessionByTokenHash (hashToken token) w")
  case (Inr s)
  assume a: "auth_Authenticate token w = (x, w')"
  let ?v = "w\<lparr>os_ticks := Suc (os_ticks w)\<rparr>"
  have "w' = w \<or> w' = ?v \<or> session_ExpiresAt s < os_clock w (os_ticks w) \<and> w' = snd (repo_DeleteSessionByTokenHash (hashToken token) ?v)"
    using a Inr by (auto simp: auth_Authenticate_def time_Now_def split: if_splits sum.splits)
  then show ?thesis
  proof (elim disjE conjE)
    assume "session_ExpiresAt s < os_clock w (os_ticks w)" "w' = snd (repo_DeleteSessionByTokenHash (hashToken token) ?v)"
    moreover have "mget (Sessions (rp_data w)) (hashToken token) = Some s"
      using Inr by (auto simp: repo_GetSessionByTokenHash_def split: option.splits)
    moreover have "same_env ?v (snd (repo_DeleteSessionByTokenHash (hashToken token) ?v))" by (rule repo_env)
    ultimately show ?thesis
      using same_envD(4) [of ?v w'] by (auto simp: unchanged_def repo_DeleteSessionByTokenHash_def repo_save_cmds)
  qed (simp_all add: unchanged_refl unchanged_ticks)
next
  case (Inl e)
  assume "auth_Authenticate token w = (x, w')"
  then show ?thesis using Inl by (auto simp: auth_Authenticate_def unchanged_refl split: if_splits)
qed

lemma fail_response: "\<exists>resp. fail st msg w = (Some resp, w\<lparr>os_ticks := Suc (os_ticks w)\<rparr>) \<and> rs_Status resp = st"
  by (simp add: fail_def writeError_def writeJSON_def time_Now_def)

lemma requireAuth_refuses:
  assumes "\<And>token user w1. bearerToken (rq_Authorization r) = Inr token \<Longrightarrow> auth_Authenticate token w = (Inr user, w1) \<Longrightarrow> False"
  shows "\<exists>resp w'. api_requireAuth h r w = (Some resp, w') \<and> rs_Status resp = 401 \<and> unchanged w w'"
proof (cases "bearerToken (rq_Authorization r)")
  case (Inl e)
  then show ?thesis using fail_response [of 401 "''unauthorized''" w]
    by (auto simp: api_requireAuth_def unchanged_ticks unchanged_refl)
next
  case (Inr token)
  obtain e w1 where a: "auth_Authenticate token w = (Inl e, w1)"
    using assms [OF Inr] by (metis not_Inr_obtain prod.collapse)
  then show ?thesis using fail_response [of 401 "''unauthorized''" w1] Authenticate_unchanged [OF a] Inr
    by (auto simp: api_requireAuth_def unchanged_ticks)
qed

lemma requireRole_refuses:
  assumes "\<And>token user w1. bearerToken (rq_Authorization r) = Inr token \<Longrightarrow> auth_Authenticate token w = (Inr user, w1) \<Longrightarrow>
      user_Role user \<noteq> role"
  shows "\<exists>resp w'. api_requireRole role h r w = (Some resp, w') \<and> rs_Status resp \<in> {401, 403} \<and> unchanged w w'"
proof (cases "\<exists>token user w1. bearerToken (rq_Authorization r) = Inr token \<and> auth_Authenticate token w = (Inr user, w1)")
  case True
  then obtain token user w1 where t: "bearerToken (rq_Authorization r) = Inr token" "auth_Authenticate token w = (Inr user, w1)"
    by blast
  then show ?thesis
    using fail_response [of 403 "''forbidden''" w1] Authenticate_unchanged [OF t(2)] assms [OF t]
    by (auto simp: api_requireRole_def api_requireAuth_def unchanged_ticks)
next
  case False
  then have "bearerToken (rq_Authorization r) = Inr token \<Longrightarrow> auth_Authenticate token w = (Inr user, w1) \<Longrightarrow> False" for token user w1
    by blast
  then have "\<exists>resp w'. api_requireRole role h r w = (Some resp, w') \<and> rs_Status resp = 401 \<and> unchanged w w'"
    unfolding api_requireRole_def by (intro requireAuth_refuses) blast
  then show ?thesis by auto
qed

text \<open>The endpoints nobody need log in for, and those of one's own session.\<close>

definition open_endpoints :: "endpoint set" where
  "open_endpoints = {WebUI, Health, Compatibility, Login}"

definition session_endpoints :: "endpoint set" where
  "session_endpoints = {Logout, Me, ChangePassword}"

text \<open>
  C2: the whole API is closed to anybody but an active administrator.  A request for any other endpoint
  than the open ones and those of one's own session, whose bearer token does not authenticate a user
  with the role admin, is answered with 401 or 403 and has no effect: no command is run, nothing is
  queued, the login limiter is untouched, and no user, site, job, audit record or session changes,
  except that the expired session the token names may be removed.
\<close>

theorem api_admin_only:
  fixes w :: "'a panel_scheme"
  assumes "route r = Some e" and "e \<notin> open_endpoints \<union> session_endpoints"
    and "\<And>token user w1. bearerToken (rq_Authorization r) = Inr token \<Longrightarrow> auth_Authenticate token w = (Inr user, w1) \<Longrightarrow>
      user_Role user \<noteq> RoleAdmin"
  shows "\<exists>resp w'. serve a res r w = (Some resp, w') \<and> rs_Status resp \<in> {401, 403} \<and> unchanged w w'"
proof -
  obtain h :: "User \<Rightarrow> 'a panel_scheme \<Rightarrow> 'a panel_scheme answer"
    where "endpoint_handler a res e r = api_requireRole RoleAdmin h r"
    using assms(2) by (cases e) (auto simp: open_endpoints_def session_endpoints_def)
  moreover have "\<exists>resp w'. api_requireRole RoleAdmin h r w = (Some resp, w') \<and> rs_Status resp \<in> {401, 403} \<and> unchanged w w'"
    by (rule requireRole_refuses) (rule assms(3))
  ultimately show ?thesis using assms(1) by (simp add: serve_def)
qed

subsection \<open>Every change is recorded\<close>

text \<open>The action under which an endpoint that changes something is recorded.\<close>

fun audited_action :: "endpoint \<Rightarrow> string option" where
  "audited_action Logout = Some ''auth.logout''"
| "audited_action ChangePassword = Some ''auth.change_password''"
| "audited_action CreateSite = Some ''site.create''"
| "audited_action UpdateSiteContent = Some ''site.content.update''"
| "audited_action UploadSiteFile = Some ''site.file.upload''"
| "audited_action DeleteSiteFile = Some ''site.file.delete''"
| "audited_action CreateSiteDir = Some ''site.dir.create''"
| "audited_action DeleteSiteDir = Some ''site.dir.delete''"
| "audited_action BackupSiteContent = Some ''site.backup.content''"
| "audited_action DeleteSite = Some ''site.delete.requested''"
| "audited_action CreateDatabase = Some ''db.create_database''"
| "audited_action CreateDatabaseUser = Some ''db.create_user''"
| "audited_action RunBackup = Some ''backup.run''"
| "audited_action RestoreBackup = Some ''backup.restore''"
| "audited_action IssueSSL = Some ''ssl.issue''"
| "audited_action RenewSSL = Some ''ssl.renew''"
| "audited_action StartPanelUpdate = Some ''panel.update.start''"
| "audited_action _ = None"

text \<open>\<open>recorded act user w ans\<close>: if the answer is a success, its state has one more record, by \<open>user\<close>.\<close>

definition recorded :: "string \<Rightarrow> string \<Rightarrow> 'a panel_scheme \<Rightarrow> 'a panel_scheme answer \<Rightarrow> bool" where
  "recorded act user w ans \<longleftrightarrow>
     (case ans of
        (Some resp, w') \<Rightarrow> rs_Status resp < 300 \<longrightarrow>
          (\<exists>l. AuditLogs (rp_data w') = AuditLogs (rp_data w) @ [l] \<and> log_ActorUser l = user \<and> log_Action l = act)
      | (None, w') \<Rightarrow> True)"

lemma recorded_ok:
  "AuditLogs (rp_data v) = AuditLogs (rp_data w) \<Longrightarrow> recorded act user w (ok st body (audit_Record user act ty i m v))"
  by (simp add: recorded_def ok_def audit_Record_data audit_entry_def)

lemma recorded_fail: "300 \<le> st \<Longrightarrow> recorded act user w (fail st msg v)"
  using fail_response [of st msg v] by (auto simp: recorded_def)

lemma error_answer_status:
  "300 \<le> fst fallback \<Longrightarrow> \<forall>(es, st, t)\<in>set cs. 300 \<le> st \<Longrightarrow> 300 \<le> fst (error_answer cs fallback e)"
  by (induction cs fallback e rule: error_answer.induct) auto

lemma recorded_fail_with:
  assumes "300 \<le> fst fallback" "\<forall>(es, st, t)\<in>set cs. 300 \<le> st"
  shows "recorded act user w (fail_with cs fallback e v)"
  using error_answer_status [OF assms, of e]
  by (auto simp: recorded_def fail_with_def answer_error_def writeError_def writeJSON_def time_Now_def split: prod.splits)

lemma recorded_error_body:
  assumes "error_answer cs fallback e = (st, t)" "300 \<le> fst fallback" "\<forall>(es, st, t)\<in>set cs. 300 \<le> st"
  shows "recorded act user w (ok st body v)"
  using error_answer_status [OF assms(2,3), of e] assms(1) by (simp add: recorded_def ok_def writeJSON_def)

lemma recorded_wait [simp]: "recorded act user w (None, v)"
  by (simp add: recorded_def)

lemma recorded_body: "(\<And>m. recorded act user w (h m v)) \<Longrightarrow> recorded act user w (with_body names r h v)"
  by (auto simp: with_body_def intro: recorded_fail split: sum.split)

text \<open>An operation that leaves the environment alone leaves the trail alone.\<close>

lemma env_trail: "env_of w' = env_of w \<Longrightarrow> rp_data w' = rp_data w" for w :: "'a repo_scheme"
  using same_rest_repo(2) by (metis same_rest_env_of)

lemmas trail_env = 
  sites_UpdateSiteContent_env [THEN env_trail] sites_UploadSiteFile_env [THEN env_trail]
  sites_DeleteSiteFile_env [THEN env_trail] sites_CreateSiteDirectory_env [THEN env_trail]
  sites_DeleteSiteDirectory_env [THEN env_trail] sites_BackupSiteContent_env [THEN env_trail]
  db_CreateDatabase_env [THEN env_trail] db_CreateUser_env [THEN env_trail] backup_Run_env [THEN env_trail]
  backup_Restore_env [THEN env_trail] ssl_Issue_env [THEN env_trail] ssl_Renew_env [THEN env_trail]
  updater_Start_env [THEN env_trail]

lemma repo_trail [simp]:
  "AuditLogs (rp_data (snd (repo_UpdateSiteStatus i st w))) = AuditLogs (rp_data w)"
  "AuditLogs (rp_data (snd (repo_DeleteSessionByTokenHash h w))) = AuditLogs (rp_data w)"
  "AuditLogs (rp_data (snd (repo_UpdateUserPassword i p t w))) = AuditLogs (rp_data w)"
  by (simp_all add: repo_UpdateSiteStatus_data repo_DeleteSession_data repo_UpdateUserPassword_data split: option.split)

lemma auth_trail:
  "auth_Logout token w = (e, w') \<Longrightarrow> AuditLogs (rp_data w') = AuditLogs (rp_data w)"
  "auth_ChangePassword bc i old new w = (e, w') \<Longrightarrow> AuditLogs (rp_data w') = AuditLogs (rp_data w)"
proof -
  assume "auth_Logout token w = (e, w')"
  then show "AuditLogs (rp_data w') = AuditLogs (rp_data w)"
    using repo_trail(2) [of "hashToken token" w] by (auto simp: auth_Logout_def simp del: repo_trail split: if_splits)
next
  assume "auth_ChangePassword bc i old new w = (e, w')"
  then show "AuditLogs (rp_data w') = AuditLogs (rp_data w)"
    using password_Hash_frame(2) [of bc new w] repo_trail(3) [of _ _ _ "snd (time_Now (snd (password_Hash bc new w)))"]
    by (auto simp: auth_ChangePassword_def time_Now_def simp del: repo_trail split: sum.splits if_splits prod.splits)
      (metis snd_conv repo_trail(3) )+
qed

lemma jobs_Enqueue_trail:
  "jobs_Enqueue dn pick actor ty p w = (r, w') \<Longrightarrow> AuditLogs (rp_data w') = AuditLogs (rp_data w)"
  by (erule jobs_Enqueue_cases) simp_all

lemma trail_sites:
  "sites_CreateSite dn pick actor d r rt w = (x, w') \<Longrightarrow> AuditLogs (rp_data w') = AuditLogs (rp_data w)"
  "sites_DeleteSite dn pick actor i w = (y, w') \<Longrightarrow> AuditLogs (rp_data w') = AuditLogs (rp_data w)"
proof -
  assume "sites_CreateSite dn pick actor d r rt w = (x, w')"
  then show "AuditLogs (rp_data w') = AuditLogs (rp_data w)"
  proof (cases rule: sites_CreateSite_cases)
    case (stored site w1 er w2)
    then show ?thesis
      using jobs_Enqueue_trail [OF stored(14)] by (auto split: option.splits sum.splits)
  qed simp_all
next
  assume d: "sites_DeleteSite dn pick actor i w = (y, w')"
  show "AuditLogs (rp_data w') = AuditLogs (rp_data w)"
  proof (cases "repo_GetSiteByID i w")
    case (Inr site)
    obtain e w1 where u: "repo_UpdateSiteStatus (site_ID site) SiteStatusDeleting w = (e, w1)" by fastforce
    obtain r w2 where q: "jobs_Enqueue dn pick actor JobTypeDeprovisionSite [(''site_id'', site_ID site)] w1 = (r, w2)" by fastforce
    have "AuditLogs (rp_data w1) = AuditLogs (rp_data w)" using repo_trail(1) [of "site_ID site" SiteStatusDeleting w] u by simp
    then show ?thesis using d u q Inr jobs_Enqueue_trail [OF q]
      by (auto simp: sites_DeleteSite_def split: option.splits sum.splits)
  qed (use d in \<open>simp add: sites_DeleteSite_def\<close>)
qed

lemma recorded_handlers:
  "recorded ''auth.logout'' (user_ID u) w (api_handleLogout u t w)"
  "recorded ''auth.change_password'' (user_ID u) w (api_handleChangePassword a u r w)"
  "recorded ''site.create'' (user_ID u) w (api_handleCreateSite u r w)"
  "recorded ''site.content.update'' (user_ID u) w (api_handleUpdateSiteContent u i r w)"
  "recorded ''site.file.upload'' (user_ID u) w (api_handleUploadSiteFile u i r w)"
  "recorded ''site.file.delete'' (user_ID u) w (api_handleDeleteSiteFile u i r w)"
  "recorded ''site.dir.create'' (user_ID u) w (api_handleCreateSiteDir u i r w)"
  "recorded ''site.dir.delete'' (user_ID u) w (api_handleDeleteSiteDir u i r w)"
  "recorded ''site.backup.content'' (user_ID u) w (api_handleBackupSiteContent a u i w)"
  "recorded ''site.delete.requested'' (user_ID u) w (api_handleDeleteSite u i r w)"
  "recorded ''db.create_database'' (user_ID u) w (api_handleCreateDatabase a u r w)"
  "recorded ''db.create_user'' (user_ID u) w (api_handleCreateDatabaseUser a u r w)"
  "recorded ''backup.run'' (user_ID u) w (api_handleRunBackup a u r w)"
  "recorded ''backup.restore'' (user_ID u) w (api_handleRestoreBackup a u r w)"
  "recorded ''ssl.issue'' (user_ID u) w (api_handleIssueSSL a u r w)"
  "recorded ''ssl.renew'' (user_ID u) w (api_handleRenewSSL a u w)"
  "recorded ''panel.update.start'' (user_ID u) w (api_handleStartPanelUpdate a u w)"
  subgoal
    by (auto simp: api_handleLogout_def intro!: recorded_ok recorded_fail
        dest!: auth_trail split: prod.splits option.splits)
  subgoal
    by (auto simp: api_handleChangePassword_def intro!: recorded_body recorded_ok recorded_fail_with
        dest!: auth_trail         split: prod.splits option.splits)
  subgoal
    by (auto simp: api_handleCreateSite_def internal_error_def intro!: recorded_body recorded_ok recorded_fail_with
        dest!: trail_sites split: prod.splits option.splits sum.splits)
  subgoal
    by (auto simp: api_handleUpdateSiteContent_def internal_error_def intro!: recorded_body recorded_ok recorded_fail_with
        dest!: trail_env split: prod.splits sum.splits)
  subgoal
    by (auto simp: api_handleUploadSiteFile_def internal_error_def intro!: recorded_body recorded_ok recorded_fail_with
        dest!: trail_env split: prod.splits sum.splits)
  subgoal
    by (auto simp: api_handleDeleteSiteFile_def internal_error_def intro!: recorded_ok recorded_fail_with
        dest!: trail_env split: prod.splits sum.splits)
  subgoal
    by (auto simp: api_handleCreateSiteDir_def internal_error_def intro!: recorded_body recorded_ok recorded_fail_with
        dest!: trail_env split: prod.splits sum.splits)
  subgoal
    by (auto simp: api_handleDeleteSiteDir_def internal_error_def intro!: recorded_ok recorded_fail_with recorded_fail
        dest!: trail_env split: prod.splits sum.splits option.splits)
  subgoal
    by (auto simp: api_handleBackupSiteContent_def intro!: recorded_ok recorded_fail_with
        dest!: trail_env split: prod.splits sum.splits)
  subgoal
    by (auto simp: api_handleDeleteSite_def internal_error_def intro!: recorded_ok recorded_fail_with
        dest!: trail_sites split: prod.splits sum.splits option.splits)
  subgoal
    by (auto simp: api_handleCreateDatabase_def intro!: recorded_body recorded_ok recorded_fail_with recorded_fail
        dest!: trail_env split: prod.splits option.splits)
  subgoal
    by (auto simp: api_handleCreateDatabaseUser_def Let_def intro!: recorded_body recorded_ok recorded_fail_with recorded_fail
        dest!: trail_env split: prod.splits option.splits)
  subgoal
    by (auto simp: api_handleRunBackup_def intro!: recorded_ok recorded_fail
        dest!: trail_env split: prod.splits sum.splits option.splits)
  subgoal
    by (auto simp: api_handleRestoreBackup_def intro!: recorded_body recorded_ok recorded_fail_with recorded_fail
        dest!: trail_env split: prod.splits option.splits)
  subgoal
    by (auto simp: api_handleIssueSSL_def intro!: recorded_body recorded_ok recorded_fail_with recorded_fail
        dest!: trail_env split: prod.splits option.splits)
  subgoal
    by (auto simp: api_handleRenewSSL_def intro!: recorded_ok recorded_fail
        dest!: trail_env split: prod.splits option.splits)
  subgoal
    by (auto simp: api_handleStartPanelUpdate_def Let_def simp del: error_answer.simps intro!: recorded_ok recorded_fail
        elim!: recorded_error_body
        dest!: trail_env split: prod.splits option.splits sum.splits)
  done
text \<open>The authentication in front of a handler changes nothing in the trail, and hands over the token's user.\<close>

lemma recorded_auth:
  assumes "\<And>u t v. recorded act (user_ID u) v (h u t v)"
    and "api_requireAuth h r w = (Some resp, w')" and "rs_Status resp < 300"
  shows "\<exists>token user w1 l. bearerToken (rq_Authorization r) = Inr token \<and> auth_Authenticate token w = (Inr user, w1)
    \<and> AuditLogs (rp_data w') = AuditLogs (rp_data w) @ [l] \<and> log_ActorUser l = user_ID user \<and> log_Action l = act"
proof -
  have f: "fail 401 m v \<noteq> (Some resp, w')" for m v
    using fail_response [of 401 m v] assms(3) by auto
  obtain token user w1 where t: "bearerToken (rq_Authorization r) = Inr token" "auth_Authenticate token w = (Inr user, w1)"
      "h user token w1 = (Some resp, w')"
    using assms(2) f by (auto simp: api_requireAuth_def split: sum.splits prod.splits)
  have "AuditLogs (rp_data w1) = AuditLogs (rp_data w)"
    using Authenticate_unchanged [OF t(2)] by (auto simp: unchanged_def)
  then show ?thesis
    using assms(1) [of user w1 token] t assms(3) by (auto simp: recorded_def)
qed

lemma recorded_role:
  assumes "\<And>u v. recorded act (user_ID u) v (h u v)"
  shows "recorded act (user_ID u) v (if user_Role u \<noteq> role then fail 403 m v else h u v)"
  by (simp add: assms recorded_fail)

lemma recorded_endpoint:
  assumes "audited_action e = Some act"
  obtains h :: "User \<Rightarrow> string \<Rightarrow> 'a panel_scheme \<Rightarrow> 'a panel_scheme answer" where
    "endpoint_handler a res e r = api_requireAuth h r" "\<And>u t v. recorded act (user_ID u) v (h u t v)"
proof -
  have "\<exists>h. endpoint_handler a res e r = (api_requireAuth h r :: 'a panel_scheme \<Rightarrow> 'a panel_scheme answer)
      \<and> (\<forall>u t v. recorded act (user_ID u) v (h u t v))"
    using assms by (cases e; simp add: api_requireRole_def)
      (rule exI, rule conjI, rule refl, auto simp: recorded_handlers intro!: recorded_role)+
  then show ?thesis using that by blast
qed

text \<open>
  C7: every change an administrator makes through the API leaves a trace.  When an endpoint that
  changes something answers with success, the request's token authenticated a user, and the audit
  trail has exactly one more record, of that user's and under the endpoint's action; nothing that was
  in the trail before is lost.
\<close>

theorem api_audited:
  fixes w :: "'a panel_scheme"
  assumes "route r = Some e" and "audited_action e = Some act"
    and "serve a res r w = (Some resp, w')" and "rs_Status resp < 300"
  shows "\<exists>token user w1 l. bearerToken (rq_Authorization r) = Inr token \<and> auth_Authenticate token w = (Inr user, w1)
    \<and> AuditLogs (rp_data w') = AuditLogs (rp_data w) @ [l] \<and> log_ActorUser l = user_ID user \<and> log_Action l = act"
proof -
  obtain h :: "User \<Rightarrow> string \<Rightarrow> 'a panel_scheme \<Rightarrow> 'a panel_scheme answer" where
    h: "endpoint_handler a res e r = api_requireAuth h r" "\<And>u t v. recorded act (user_ID u) v (h u t v)"
    using recorded_endpoint [OF assms(2)] by blast
  then show ?thesis
    using assms(1,3,4) by (intro recorded_auth [where h = h]) (simp_all add: serve_def)
qed

subsection \<open>A panel to exercise the properties at\<close>

text \<open>
  A daemon with a started queue, an administrator and an operator, each with a session, whose
  tokens are \<open>adm\<close> and \<open>opr\<close>.
\<close>

definition sample_session :: "string \<Rightarrow> string \<Rightarrow> Session" where
  "sample_session token i =
     \<lparr>session_TokenHash = hashToken token, session_UserID = i, session_ExpiresAt = 1000, session_CreatedAt = 0\<rparr>"

definition sample_operator :: User where
  "sample_operator = sample_auth_user\<lparr>user_ID := ''usr-2'', user_Username := ''operator'', user_Role := ''operator''\<rparr>"

definition sample_panel :: panel where
  "sample_panel = jobs.extend (repo.extend
     (sample_auth\<lparr>rp_data := newSnapshot\<lparr>
        Users := [(''usr-1'', sample_auth_user), (''usr-2'', sample_operator)],
        UsernameIndex := [(''admin'', ''usr-1''), (''operator'', ''usr-2'')],
        Sessions := [(hashToken ''adm'', sample_session ''adm'' ''usr-1'')]\<rparr>\<rparr>)
     \<lparr>jq_queue = [], jq_started = True, jq_stopped = False, jq_cancelled = False, jq_json_error = (\<lambda>_. Foreign ''json'')\<rparr>)
     \<lparr>pn_limiter = NewLoginLimiter 5 (5 * time_Minute)\<rparr>"

definition operator_panel :: panel where
  "operator_panel = sample_panel\<lparr>rp_data := (rp_data sample_panel)\<lparr>
     Sessions := [(hashToken ''opr'', sample_session ''opr'' ''usr-2'')]\<rparr>\<rparr>"

definition sample_api :: API where
  "sample_api = \<lparr>api_bcrypt = sample_bcrypt, api_tokenTTL = 500, api_apply = True, api_backupDir = ''/b'',
     api_zip = (\<lambda>_. ''zip''), api_db = Some (db_NewService False []),
     api_backup = Some \<lparr>bk_apply = True, bk_stateFile = ''/srv/state.json'', bk_backupDir = ''/b''\<rparr>,
     api_ssl = Some (ssl_NewService False []), api_monitor = None, api_updater = None,
     api_version = ([], [], []), api_hostname = ''host'', api_goos = ''linux'', api_goarch = ''amd64'', api_cpus = 1,
     api_go_version = ''go'', api_mime = (\<lambda>_. []), api_quote = (\<lambda>s. s)\<rparr>"

definition sample_request :: "string \<Rightarrow> string list \<Rightarrow> string \<Rightarrow> request" where
  "sample_request m segments token =
     \<lparr>rq_Method = m, rq_Segments = segments, rq_Authorization = ''Bearer '' @ token, rq_ForwardedFor = [],
      rq_RemoteAddr = ''10.0.0.1:4000'', rq_Query = [], rq_Body = [], rq_done = None, rq_pick = True\<rparr>"

definition sample_host_check :: OSResult where
  "sample_host_check = \<lparr>os_GOOS = ''linux'', os_ID = ''ubuntu'', os_VersionID = ''22.04'', os_Supported = True\<rparr>"

lemmas sample_panel_defs = sample_panel_def sample_auth_def sample_defs sample_session_def sample_auth_user_def
  jobs.defs repo.defs

lemma sample_bearer: "bearerToken (rq_Authorization (sample_request m s ''adm'')) = Inr ''adm''"
  "bearerToken (rq_Authorization (sample_request m s ''opr'')) = Inr ''opr''"
proof -
  have "bearerToken ''Bearer adm'' = Inr ''adm''" "bearerToken ''Bearer opr'' = Inr ''opr''" by code_simp+
  then show "bearerToken (rq_Authorization (sample_request m s ''adm'')) = Inr ''adm''"
    "bearerToken (rq_Authorization (sample_request m s ''opr'')) = Inr ''opr''"
    by (simp_all add: sample_request_def)
qed

lemma sample_admin:
  "auth_Authenticate ''adm'' sample_panel = (Inr (sample_auth_user\<lparr>user_PasswordHash := []\<rparr>), sample_panel\<lparr>os_ticks := 1\<rparr>)"
  by (simp add: auth_Authenticate_def repo_GetSessionByTokenHash_def repo_GetUserByID_def time_Now_def sample_panel_defs)

lemma sample_operator_auth:
  "auth_Authenticate ''opr'' operator_panel = (Inr (sample_operator\<lparr>user_PasswordHash := []\<rparr>), operator_panel\<lparr>os_ticks := 1\<rparr>)"
  by (simp add: auth_Authenticate_def repo_GetSessionByTokenHash_def repo_GetUserByID_def time_Now_def sample_panel_defs
      operator_panel_def sample_operator_def)

lemma sample_routes:
  "route (sample_request ''DELETE'' [''v1'', ''sites'', ''site-1''] t) = Some DeleteSite"
  "route (sample_request ''POST'' [''v1'', ''ssl'', ''renew''] t) = Some RenewSSL"
  by (simp_all add: route_def sample_request_def routes_def route_method_def)

lemma api_admin_only_witness:
  "\<exists>resp w'. serve sample_api sample_host_check (sample_request ''DELETE'' [''v1'', ''sites'', ''site-1''] ''opr'') operator_panel
       = (Some resp, w') \<and> rs_Status resp \<in> {401, 403} \<and> unchanged operator_panel w'"
  by (rule api_admin_only [where e = DeleteSite])
    (auto simp: sample_routes open_endpoints_def session_endpoints_def sample_bearer sample_operator_auth
      sample_operator_def RoleAdmin_def)

lemma api_audited_witness:
  "\<exists>resp w' l. serve sample_api sample_host_check (sample_request ''POST'' [''v1'', ''ssl'', ''renew''] ''adm'') sample_panel
       = (Some resp, w') \<and> AuditLogs (rp_data w') = [l] \<and> log_ActorUser l = ''usr-1'' \<and> log_Action l = ''ssl.renew''"
proof -
  let ?r = "sample_request ''POST'' [''v1'', ''ssl'', ''renew''] ''adm''"
  obtain resp w' where s: "serve sample_api sample_host_check ?r sample_panel = (Some resp, w')" "rs_Status resp < 300"
    by (simp add: serve_def sample_routes api_requireRole_def api_requireAuth_def sample_bearer sample_admin
        api_handleRenewSSL_def sample_api_def ssl_NewService_def ssl_Renew_def ok_def writeJSON_def
        sample_auth_user_def sample_user_def RoleAdmin_def)
  then show ?thesis
    using api_audited [OF sample_routes(2) _ s] sample_bearer(1) sample_admin
    by (simp add: sample_auth_user_def sample_user_def sample_panel_def sample_auth_def sample_repo_def newSnapshot_def
        jobs.defs repo.defs)
qed

end
