(* ===== verification/Config.thy ===== *)
theory Config
  imports GoErrors
begin

text \<open>
  \<open>internal/config/config.go\<close>: the configuration from the environment.  \<open>env\<close> gives the value of a
  variable, empty when unset; \<open>goos\<close> stands for \<open>runtime.GOOS\<close>; \<open>q\<close> for the verb \<open>%q\<close>, which depends
  on Unicode's table of printable characters and only shapes the text of errors.
\<close>

record Config =
  cf_Address :: string
  cf_DataDir :: string
  cf_DBPath :: string
  cf_ProvisionApply :: bool
  cf_NginxAvailableDir :: string
  cf_NginxEnabledDir :: string
  cf_NginxTestCommand :: string
  cf_NginxReloadCommand :: string
  cf_CertbotCommand :: string
  cf_MySQLCommand :: string
  cf_BackupDir :: string
  cf_LogLevel :: string
  cf_ShutdownSecs :: int
  cf_TokenTTLHours :: int
  cf_AllowNonUbuntu :: bool
  cf_BootstrapAdminUsername :: string
  cf_BootstrapAdminPassword :: string
  cf_UpdateRepoURL :: string
  cf_UpdateBranch :: string
  cf_UpdateScriptURL :: string
  cf_UpdateUnitName :: string
  cf_UpdateLogLines :: int
  cf_UpdateCooldown :: int

definition getenv :: "(string \<Rightarrow> string) \<Rightarrow> string \<Rightarrow> string \<Rightarrow> string" where
  "getenv env key fallback = (if env key \<noteq> [] then env key else fallback)"

definition env_base :: "string \<Rightarrow> (string \<Rightarrow> string) \<Rightarrow> Config" where
  "env_base goos env =
     \<lparr>cf_Address = getenv env ''NUSANTARA_ADDR'' '':8080'',
      cf_DataDir = getenv env ''NUSANTARA_DATA_DIR'' ''/var/lib/nusantara-panel'',
      cf_DBPath = [],
      cf_ProvisionApply = (goos = ''linux''),
      cf_NginxAvailableDir = getenv env ''NUSANTARA_NGINX_SITES_AVAILABLE_DIR'' ''/etc/nginx/sites-available'',
      cf_NginxEnabledDir = getenv env ''NUSANTARA_NGINX_SITES_ENABLED_DIR'' ''/etc/nginx/sites-enabled'',
      cf_NginxTestCommand = getenv env ''NUSANTARA_NGINX_TEST_COMMAND'' ''nginx -t'',
      cf_NginxReloadCommand = getenv env ''NUSANTARA_NGINX_RELOAD_COMMAND'' ''systemctl reload nginx'',
      cf_CertbotCommand = getenv env ''NUSANTARA_CERTBOT_COMMAND'' ''certbot'',
      cf_MySQLCommand = getenv env ''NUSANTARA_MYSQL_COMMAND'' ''mysql'',
      cf_BackupDir = getenv env ''NUSANTARA_BACKUP_DIR'' ''/var/backups/nusantara-panel'',
      cf_LogLevel = getenv env ''NUSANTARA_LOG_LEVEL'' ''info'',
      cf_ShutdownSecs = 10,
      cf_TokenTTLHours = 24,
      cf_AllowNonUbuntu = False,
      cf_BootstrapAdminUsername = getenv env ''NUSANTARA_BOOTSTRAP_ADMIN_USERNAME'' ''admin'',
      cf_BootstrapAdminPassword = getenv env ''NUSANTARA_BOOTSTRAP_ADMIN_PASSWORD'' [],
      cf_UpdateRepoURL =
        getenv env ''NUSANTARA_UPDATE_REPO_URL'' ''https://github.com/wayangm/Nusantara-Panel.git'',
      cf_UpdateBranch = getenv env ''NUSANTARA_UPDATE_BRANCH'' ''main'',
      cf_UpdateScriptURL =
        getenv env ''NUSANTARA_UPDATE_SCRIPT_URL''
          ''https://raw.githubusercontent.com/wayangm/Nusantara-Panel/main/install.sh'',
      cf_UpdateUnitName = getenv env ''NUSANTARA_UPDATE_UNIT_NAME'' ''nusantara-panel-updater'',
      cf_UpdateLogLines = 80,
      cf_UpdateCooldown = 20\<rparr>"

text \<open>
  One overriding variable: unset leaves the configuration, a value that does not parse or is out of
  bounds ends the loading.
\<close>

definition override ::
  "(string \<Rightarrow> string) \<Rightarrow> (string \<Rightarrow> string) \<Rightarrow> string \<Rightarrow> (string \<Rightarrow> 'v option) \<Rightarrow> ('v \<Rightarrow> bool) \<Rightarrow> ('v \<Rightarrow> Config \<Rightarrow> Config) \<Rightarrow>
    error + Config \<Rightarrow> error + Config" where
  "override q env key parse valid put r =
     (case r of
        Inl e \<Rightarrow> Inl e
      | Inr cfg \<Rightarrow>
          (let v = env key in
           if v = [] then Inr cfg
           else (case parse v of
             None \<Rightarrow> Inl (NewError (''invalid '' @ key @ '': '' @ q v))
           | Some x \<Rightarrow> if valid x then Inr (put x cfg) else Inl (NewError (''invalid '' @ key @ '': '' @ q v)))))"

definition LoadFromEnv :: "(string \<Rightarrow> string) \<Rightarrow> string \<Rightarrow> (string \<Rightarrow> string) \<Rightarrow> error + Config" where
  "LoadFromEnv q goos env =
     (let r = Inr (env_base goos env);
          r = override q env ''NUSANTARA_SHUTDOWN_SECS'' Atoi (\<lambda>n. \<not> n < 1) (\<lambda>n. cf_ShutdownSecs_update (\<lambda>_. n)) r;
          r = override q env ''NUSANTARA_ALLOW_NON_UBUNTU'' ParseBool (\<lambda>_. True) (\<lambda>b. cf_AllowNonUbuntu_update (\<lambda>_. b)) r;
          r = override q env ''NUSANTARA_TOKEN_TTL_HOURS'' Atoi (\<lambda>n. \<not> n < 1) (\<lambda>n. cf_TokenTTLHours_update (\<lambda>_. n)) r;
          r = override q env ''NUSANTARA_PROVISION_APPLY'' ParseBool (\<lambda>_. True) (\<lambda>b. cf_ProvisionApply_update (\<lambda>_. b)) r;
          r = override q env ''NUSANTARA_UPDATE_LOG_LINES'' Atoi (\<lambda>n. \<not> n < 1) (\<lambda>n. cf_UpdateLogLines_update (\<lambda>_. n)) r;
          r = override q env ''NUSANTARA_UPDATE_COOLDOWN_SECS'' Atoi (\<lambda>n. \<not> n < 0) (\<lambda>n. cf_UpdateCooldown_update (\<lambda>_. n)) r
      in case r of
           Inl e \<Rightarrow> Inl e
         | Inr cfg \<Rightarrow>
             Inr (cfg\<lparr>cf_DBPath := getenv env ''NUSANTARA_DB_PATH''
                        (PathJoin [cf_DataDir cfg, ''nusantara_state.json''])\<rparr>))"

subsection \<open>What a loaded configuration is\<close>

text \<open>The conditions on the six variables that are parsed.\<close>

definition valid_number :: "int \<Rightarrow> string \<Rightarrow> bool" where
  "valid_number lo v \<longleftrightarrow> v = [] \<or> (case Atoi v of None \<Rightarrow> False | Some n \<Rightarrow> lo \<le> n)"

definition valid_flag :: "string \<Rightarrow> bool" where
  "valid_flag v \<longleftrightarrow> v = [] \<or> ParseBool v \<noteq> None"

definition env_valid :: "(string \<Rightarrow> string) \<Rightarrow> bool" where
  "env_valid env \<longleftrightarrow>
     list_all (\<lambda>k. valid_number 1 (env k)) [''NUSANTARA_SHUTDOWN_SECS'', ''NUSANTARA_TOKEN_TTL_HOURS'', ''NUSANTARA_UPDATE_LOG_LINES'']
     \<and> valid_number 0 (env ''NUSANTARA_UPDATE_COOLDOWN_SECS'')
     \<and> list_all (\<lambda>k. valid_flag (env k)) [''NUSANTARA_ALLOW_NON_UBUNTU'', ''NUSANTARA_PROVISION_APPLY'']"

text \<open>What every later use of a configuration relies on: a 64-bit number of the right sign, a path or a command.\<close>

definition Config_ok :: "Config \<Rightarrow> bool" where
  "Config_ok c \<longleftrightarrow>
     list_all (\<lambda>n. 1 \<le> n \<and> n < 2 ^ 63) [cf_ShutdownSecs c, cf_TokenTTLHours c, cf_UpdateLogLines c]
     \<and> 0 \<le> cf_UpdateCooldown c \<and> cf_UpdateCooldown c < 2 ^ 63
     \<and> list_all (\<lambda>s. s \<noteq> []) [cf_Address c, cf_DataDir c, cf_DBPath c, cf_NginxAvailableDir c, cf_NginxEnabledDir c,
          cf_NginxTestCommand c, cf_NginxReloadCommand c, cf_CertbotCommand c, cf_MySQLCommand c, cf_BackupDir c, cf_LogLevel c,
          cf_BootstrapAdminUsername c, cf_UpdateRepoURL c, cf_UpdateBranch c, cf_UpdateScriptURL c, cf_UpdateUnitName c]"

lemma getenv_not_Nil: "d \<noteq> [] \<Longrightarrow> getenv env k d \<noteq> []"
  by (simp add: getenv_def)

lemma override_Inr:
  "override q env key parse valid put r = Inr c' \<longleftrightarrow>
     (\<exists>c. r = Inr c \<and> (env key = [] \<and> c' = c \<or> env key \<noteq> [] \<and> (\<exists>x. parse (env key) = Some x \<and> valid x \<and> c' = put x c)))"
  by (auto simp: override_def Let_def split: sum.splits option.splits)

lemma override_isl:
  "isl (override q env key parse valid put r) \<longleftrightarrow> isl r \<or> \<not> (env key = [] \<or> (\<exists>x. parse (env key) = Some x \<and> valid x))"
  by (cases r; cases "parse (env key)") (simp_all add: override_def Let_def)

lemma valid_iff:
  "valid_number lo v \<longleftrightarrow> v = [] \<or> (\<exists>n. Atoi v = Some n \<and> \<not> n < lo)"
  "valid_flag v \<longleftrightarrow> v = [] \<or> (\<exists>b. ParseBool v = Some b \<and> True)"
  by (auto simp: valid_number_def valid_flag_def split: option.splits)

lemma override_keeps:
  assumes "\<forall>c. r = Inr c \<longrightarrow> P c" and "\<And>c x. P c \<Longrightarrow> parse (env key) = Some x \<Longrightarrow> valid x \<Longrightarrow> P (put x c)"
  shows "\<forall>c. override q env key parse valid put r = Inr c \<longrightarrow> P c"
  using assms by (auto simp: override_Inr)

lemma clean_segs_not_Nil: "list_all (\<lambda>s. s \<noteq> []) st \<Longrightarrow> list_all (\<lambda>s. s \<noteq> []) (clean_segs rooted st ss)"
  by (induction rooted st ss rule: clean_segs.induct) (auto split: list.splits)

lemma Clean_not_Nil: "Clean p \<noteq> []"
proof -
  have "Join ss [slash] \<noteq> []" if "ss \<noteq> []" "list_all (\<lambda>s. s \<noteq> []) ss" for ss
  proof (cases ss)
    case (Cons s us)
    then show ?thesis using that by (cases us) simp_all
  qed (use that in simp)
  moreover have "list_all (\<lambda>s. s \<noteq> []) (segs p)"
    using clean_segs_not_Nil [of "[]" "IsAbs p" "Split p slash"] by (simp add: segs_def)
  ultimately show ?thesis by (simp add: Clean_def abs_path_def)
qed

lemma PathJoin_not_Nil: "PathJoin [d, n # ns] \<noteq> []"
  by (simp add: PathJoin_def Clean_not_Nil)

lemma Config_ok_DBPath: "p \<noteq> [] \<Longrightarrow> Config_ok (c\<lparr>cf_DBPath := p\<rparr>) = Config_ok (c\<lparr>cf_DBPath := ''db''\<rparr>)"
  by (simp add: Config_ok_def)

lemma env_base_ok: "Config_ok ((env_base goos env)\<lparr>cf_DBPath := ''db''\<rparr>)"
  by (simp add: Config_ok_def env_base_def getenv_not_Nil)

lemma LoadFromEnv_ok:
  assumes "LoadFromEnv q goos env = Inr cfg"
  shows "Config_ok cfg"
proof -
  let ?P = "\<lambda>c. Config_ok (c\<lparr>cf_DBPath := ''db''\<rparr>)"
  have put: "?P (cf_ShutdownSecs_update (\<lambda>_. n) c)" "?P (cf_TokenTTLHours_update (\<lambda>_. n) c)" "?P (cf_UpdateLogLines_update (\<lambda>_. n) c)"
    if "?P c" "Atoi v = Some n" "\<not> n < 1" for n v c
    using that Atoi_bounds [OF that(2)] by (simp_all add: Config_ok_def)
  have put0: "?P (cf_UpdateCooldown_update (\<lambda>_. n) c)" if "?P c" "Atoi v = Some n" "\<not> n < 0" for n v c
    using that Atoi_bounds [OF that(2)] by (simp add: Config_ok_def)
  have flag: "?P (cf_AllowNonUbuntu_update (\<lambda>_. b) c)" "?P (cf_ProvisionApply_update (\<lambda>_. b) c)" if "?P c" for b c
    using that by (simp_all add: Config_ok_def)
  define r where "r =
    override q env ''NUSANTARA_UPDATE_COOLDOWN_SECS'' Atoi (\<lambda>n. \<not> n < 0) (\<lambda>n. cf_UpdateCooldown_update (\<lambda>_. n))
    (override q env ''NUSANTARA_UPDATE_LOG_LINES'' Atoi (\<lambda>n. \<not> n < 1) (\<lambda>n. cf_UpdateLogLines_update (\<lambda>_. n))
    (override q env ''NUSANTARA_PROVISION_APPLY'' ParseBool (\<lambda>_. True) (\<lambda>b. cf_ProvisionApply_update (\<lambda>_. b))
    (override q env ''NUSANTARA_TOKEN_TTL_HOURS'' Atoi (\<lambda>n. \<not> n < 1) (\<lambda>n. cf_TokenTTLHours_update (\<lambda>_. n))
    (override q env ''NUSANTARA_ALLOW_NON_UBUNTU'' ParseBool (\<lambda>_. True) (\<lambda>b. cf_AllowNonUbuntu_update (\<lambda>_. b))
    (override q env ''NUSANTARA_SHUTDOWN_SECS'' Atoi (\<lambda>n. \<not> n < 1) (\<lambda>n. cf_ShutdownSecs_update (\<lambda>_. n))
    (Inr (env_base goos env)))))))"
  have all: "\<forall>c. r = Inr c \<longrightarrow> ?P c"
    unfolding r_def by (intro override_keeps)
      ((rule put put0, assumption, assumption, assumption) | (rule flag, assumption) | simp add: env_base_ok)+
  have l: "LoadFromEnv q goos env = (case r of Inl e \<Rightarrow> Inl e | Inr cfg \<Rightarrow>
      Inr (cfg\<lparr>cf_DBPath := getenv env ''NUSANTARA_DB_PATH'' (PathJoin [cf_DataDir cfg, ''nusantara_state.json''])\<rparr>))"
    by (simp only: LoadFromEnv_def Let_def r_def)
  obtain c where c: "r = Inr c" using assms unfolding l by (cases r) simp_all
  have "cfg = c\<lparr>cf_DBPath := getenv env ''NUSANTARA_DB_PATH'' (PathJoin [cf_DataDir c, ''nusantara_state.json''])\<rparr>"
    using assms unfolding l c by simp
  moreover have "?P c" by (rule all [rule_format, OF c])
  moreover have "getenv env ''NUSANTARA_DB_PATH'' (PathJoin [cf_DataDir c, ''nusantara_state.json'']) \<noteq> []"
    by (intro getenv_not_Nil PathJoin_not_Nil)
  ultimately show ?thesis using Config_ok_DBPath by metis
qed

text \<open>
  C32: loading succeeds exactly when every variable that is set and has to be parsed is valid, and the
  configuration it yields then is well-formed: its numbers are positive and fit 64 bits, its commands,
  directories and addresses are not empty.  An invalid variable never falls back to a default.
\<close>

theorem LoadFromEnv_typed:
  "(isl (LoadFromEnv q goos env) \<longleftrightarrow> \<not> env_valid env)
     \<and> (\<forall>cfg. LoadFromEnv q goos env = Inr cfg \<longrightarrow> Config_ok cfg)"
proof (intro conjI allI impI)
  show "isl (LoadFromEnv q goos env) \<longleftrightarrow> \<not> env_valid env"
  proof -
    have c: "isl (case r of Inl e \<Rightarrow> Inl e | Inr c \<Rightarrow> Inr (f c)) = isl r" for r :: "error + Config" and f :: "Config \<Rightarrow> Config"
      by (cases r) simp_all
    have "isl (LoadFromEnv q goos env) \<longleftrightarrow> \<not> env_valid env"
      unfolding LoadFromEnv_def Let_def env_valid_def c override_isl valid_iff
      by (simp only: list.pred_inject sum.disc simp_thms) blast
    then show ?thesis .
  qed
next
  fix cfg assume "LoadFromEnv q goos env = Inr cfg"
  then show "Config_ok cfg" by (rule LoadFromEnv_ok)
qed

lemma LoadFromEnv_typed_witness:
  "isl (LoadFromEnv (\<lambda>s. s) ''linux'' ((\<lambda>_. [])(''NUSANTARA_SHUTDOWN_SECS'' := ''0'')))
     \<and> (\<exists>cfg. LoadFromEnv (\<lambda>s. s) ''linux'' ((\<lambda>_. [])(''NUSANTARA_TOKEN_TTL_HOURS'' := ''48'')) = Inr cfg
          \<and> cf_TokenTTLHours cfg = 48 \<and> Config_ok cfg)"
proof -
  have "\<not> env_valid ((\<lambda>_. [])(''NUSANTARA_SHUTDOWN_SECS'' := ''0''))" by code_simp
  moreover have "case LoadFromEnv (\<lambda>s. s) ''linux'' ((\<lambda>_. [])(''NUSANTARA_TOKEN_TTL_HOURS'' := ''48'')) of
      Inl _ \<Rightarrow> False | Inr cfg \<Rightarrow> cf_TokenTTLHours cfg = 48" by code_simp
  ultimately show ?thesis
    using LoadFromEnv_typed [of "\<lambda>s. s" "''linux''"] by (auto split: sum.splits)
qed

end
