(* ===== verification/App.thy ===== *)
theory App
  imports Routes Config
begin

text \<open>
  \<open>internal/app/app.go\<close>: what \<open>Run\<close> does until the server listens: the checks, the directories, the
  repository, the first administrator, the job worker, and the services' settings, which \<open>NewAPI\<close> and
  \<open>NewRouter\<close> tie together; and what it does when it ends.  \<open>Run\<close> closes the repository on the way
  out; a boot that fails after the repository was opened does so too.  The server itself is a
  parameter: what listening and shutting down return.
\<close>

text \<open>What the host and the build contribute to the services.\<close>

record host_info =
  hi_bcrypt :: bcrypt
  hi_zip :: "zip_members \<Rightarrow> string"
  hi_uri_ok :: "string \<Rightarrow> bool"
  hi_stamp :: "string \<Rightarrow> int option"
  hi_version :: "string \<times> string \<times> string"
  hi_hostname :: string
  hi_goos :: string
  hi_goarch :: string
  hi_cpus :: nat
  hi_go_version :: string
  hi_mime :: "string \<Rightarrow> string"
  hi_quote :: "string \<Rightarrow> string"

text \<open>\<open>time.Duration(hours) * time.Hour\<close>, which wraps around.\<close>

definition token_ttl :: "int \<Rightarrow> int" where
  "token_ttl hours = wrap64 (hours * (60 * time_Minute))"

definition app_nginx :: "Config \<Rightarrow> NginxConfig" where
  "app_nginx cfg = \<lparr>ng_Apply = cf_ProvisionApply cfg, ng_AvailableDir = cf_NginxAvailableDir cfg,
     ng_EnabledDir = cf_NginxEnabledDir cfg, ng_TestCommand = cf_NginxTestCommand cfg,
     ng_ReloadCommand = cf_NginxReloadCommand cfg\<rparr>"

definition app_api :: "host_info \<Rightarrow> Config \<Rightarrow> API" where
  "app_api h cfg =
     \<lparr>api_bcrypt = hi_bcrypt h, api_tokenTTL = token_ttl (cf_TokenTTLHours cfg), api_apply = cf_ProvisionApply cfg,
      api_backupDir = cf_BackupDir cfg, api_zip = hi_zip h,
      api_db = Some (db_NewService (cf_ProvisionApply cfg) (cf_MySQLCommand cfg)),
      api_backup = Some \<lparr>bk_apply = cf_ProvisionApply cfg, bk_stateFile = cf_DBPath cfg, bk_backupDir = cf_BackupDir cfg\<rparr>,
      api_ssl = Some (ssl_NewService (cf_ProvisionApply cfg) (cf_CertbotCommand cfg)),
      api_monitor = Some (NewServicesMonitor []),
      api_updater = Some (updater_NewService (cf_ProvisionApply cfg)
        \<lparr>uc_RepoURL = cf_UpdateRepoURL cfg, uc_Branch = cf_UpdateBranch cfg, uc_ScriptURL = cf_UpdateScriptURL cfg,
         uc_UnitName = cf_UpdateUnitName cfg, uc_LogLines = cf_UpdateLogLines cfg, uc_Cooldown = cf_UpdateCooldown cfg\<rparr>
        (fst (hi_version h)) (fst (snd (hi_version h))) (hi_uri_ok h) (hi_stamp h)),
      api_version = hi_version h, api_hostname = hi_hostname h, api_goos = hi_goos h, api_goarch = hi_goarch h,
      api_cpus = hi_cpus h, api_go_version = hi_go_version h, api_mime = hi_mime h, api_quote = hi_quote h\<rparr>"

definition app_boot ::
  "host_info \<Rightarrow> Config \<Rightarrow> 'a panel_scheme \<Rightarrow> (error + API \<times> OSResult) \<times> 'a panel_scheme" where
  "app_boot h cfg w =
     (case oscheck_Detect (hi_goos h) w of
        (check, w) \<Rightarrow>
          if \<not> os_Supported check \<and> \<not> cf_AllowNonUbuntu cfg
          then (Inl (NewError (''unsupported host OS ('' @ os_ID check @ '' '' @ os_VersionID check
                  @ ''), set NUSANTARA_ALLOW_NON_UBUNTU=true for non-production runs'')), w)
          else (case MkdirAll (cf_DataDir cfg) w of
             (Some e, w) \<Rightarrow> (Inl (Errorf ''create data dir: '' e []), w)
           | (None, w) \<Rightarrow>
               (case repo_New (cf_DBPath cfg) w of
                  (Some e, w) \<Rightarrow> (Inl (Errorf ''init repository: '' e []), w)
                | (None, w) \<Rightarrow>
                    (case repo_Migrate w of
                       (Some e, w) \<Rightarrow> (Inl (Errorf ''migrate repository: '' e []), snd (repo_Close w))
                     | (None, w) \<Rightarrow>
                         (case auth_EnsureBootstrapAdmin (hi_bcrypt h) (cf_BootstrapAdminUsername cfg)
                                 (cf_BootstrapAdminPassword cfg) w of
                            (Some e, w) \<Rightarrow> (Inl (Errorf ''bootstrap admin: '' e []), snd (repo_Close w))
                          | (None, w) \<Rightarrow>
                              (Inr (app_api h cfg, check),
                               (jobs_Start w)\<lparr>pn_limiter := NewLoginLimiter 5 (5 * time_Minute)\<rparr>))))))"

text \<open>
  The end of \<open>Run\<close>: either listening failed with the error \<open>listening\<close>, or a signal came and the server
  was shut down with the result \<open>shutdown\<close>; then the deferred calls: the worker is stopped, for which
  \<open>Stop\<close> waits five seconds (\<open>exited\<close>, \<open>waited\<close> and \<open>pick\<close> as for \<open>jobs_Stop\<close>), and the repository closed,
  whose error is dropped.
\<close>

definition app_shutdown ::
  "error option \<Rightarrow> error option \<Rightarrow> bool \<Rightarrow> ctx_err option \<Rightarrow> bool \<Rightarrow> 'a panel_scheme \<Rightarrow> error option \<times> 'a panel_scheme" where
  "app_shutdown listening shutdown exited waited pick w =
     (case listening of Some e \<Rightarrow> Some e | None \<Rightarrow> shutdown,
      snd (repo_Close (snd (jobs_Stop exited waited pick w))))"

text \<open>A new process on the same host: nothing but the files is left of the old one.\<close>

definition new_process :: "'a panel_scheme \<Rightarrow> 'a panel_scheme" where
  "new_process w = w\<lparr>rp_path := [], rp_data := newSnapshot, jq_queue := [], jq_started := False, jq_stopped := False,
     jq_cancelled := False, pn_limiter := NewLoginLimiter 5 (5 * time_Minute)\<rparr>"

text \<open>
  \<open>main\<close> (\<open>cmd/nusantarad/main.go\<close>) up to where the server listens: the configuration from the environment,
  then the start; either failure ends the process with one line on the log (\<open>Fatalf\<close>).
\<close>

definition nusantarad_main ::
  "host_info \<Rightarrow> (string \<Rightarrow> string) \<Rightarrow> 'a panel_scheme \<Rightarrow> (string + API \<times> OSResult) \<times> 'a panel_scheme" where
  "nusantarad_main h env w =
     (case LoadFromEnv (hi_quote h) (hi_goos h) env of
        Inl e \<Rightarrow> (Inl (''load config: '' @ Error_text e), w)
      | Inr cfg \<Rightarrow>
          (case app_boot h cfg w of
             (Inl e, w) \<Rightarrow> (Inl (''run: '' @ Error_text e), w)
           | (Inr up, w) \<Rightarrow> (Inr up, w)))"

text \<open>A daemon that runs has a configuration that was accepted, and serves with the services built from it.\<close>

lemma app_boot_api: "app_boot h cfg w = (Inr (a, check), w') \<Longrightarrow> a = app_api h cfg"
  by (auto simp: app_boot_def split: prod.splits option.splits if_splits)

lemma main_runs:
  assumes "nusantarad_main h env w = (Inr (a, check), w')"
  obtains cfg where "LoadFromEnv (hi_quote h) (hi_goos h) env = Inr cfg" "Config_ok cfg" "a = app_api h cfg"
    "app_boot h cfg w = (Inr (a, check), w')"
proof -
  from assms obtain cfg where "LoadFromEnv (hi_quote h) (hi_goos h) env = Inr cfg" "app_boot h cfg w = (Inr (a, check), w')"
    by (auto simp: nusantarad_main_def split: sum.splits prod.splits)
  with that LoadFromEnv_ok app_boot_api show thesis by blast
qed

end
