(* ===== verification/Daemon.thy ===== *)
theory Daemon
  imports App
begin

text \<open>
  The components together: what every request and every job does to the stored data, and which states
  the daemon comes to from its start.
\<close>

subsection \<open>What one operation does to good data\<close>

text \<open>
  A stored site went through the checks of \<open>CreateSite\<close>.  \<open>panel_ok\<close>: the repository's data is
  consistent and holds only such sites.  \<open>room\<close>: in addition the counter of the audit trail is short of
  its largest value.
\<close>

definition site_checked :: "Site \<Rightarrow> bool" where
  "site_checked s \<longleftrightarrow> (\<exists>x. site_Domain s = normalizeDomain x) \<and> isValidDomain (site_Domain s)
     \<and> isValidRootPath (site_RootPath s) \<and> site_Runtime s \<in> set allowedRuntime"

definition panel_ok :: "snapshot \<Rightarrow> bool" where
  "panel_ok d \<longleftrightarrow> data_ok d \<and> (\<forall>i s. mget (Sites d) i = Some s \<longrightarrow> site_checked s)"

definition room :: "snapshot \<Rightarrow> bool" where
  "room d \<longleftrightarrow> length (AuditLogs d) < 2 ^ 63 - 1"

text \<open>The random bytes drawn next are in no site's identifier.\<close>

definition fresh_draw :: "'a repo_scheme \<Rightarrow> bool" where
  "fresh_draw w \<longleftrightarrow>
     (case os_entropy w (os_draws w) 6 of
        Inl _ \<Rightarrow> True
      | Inr b \<Rightarrow> list_all (\<lambda>(i, _). \<not> HasSuffix i (''_'' @ Hex b)) (Sites (rp_data w)))"

lemma site_checked_status [simp]: "site_checked (set_status st s) = site_checked s"
  by (cases st) (simp add: site_checked_def set_status_def)

lemma panel_ok_step:
  assumes "panel_ok (rp_data w)" "repo_step w w'"
    "\<And>i s. mget (Sites (rp_data w')) i = Some s \<Longrightarrow>
       site_checked s \<or> (\<exists>j s0 st. mget (Sites (rp_data w)) j = Some s0 \<and> s = set_status st s0) \<or> (\<exists>j. mget (Sites (rp_data w)) j = Some s)"
  shows "panel_ok (rp_data w')"
  using assms repo_step_data_ok [OF assms(2)] by (fastforce simp: panel_ok_def)

lemma panel_ok_ops:
  assumes "panel_ok (rp_data w)"
  shows "panel_ok (rp_data (snd (repo_UpdateUserPassword i h t w)))" "panel_ok (rp_data (snd (repo_CreateSession s w)))"
    "panel_ok (rp_data (snd (repo_DeleteSessionByTokenHash h w)))" "panel_ok (rp_data (snd (repo_UpdateSiteStatus i st w)))"
    "panel_ok (rp_data (snd (repo_DeleteSite i w)))" "panel_ok (rp_data (snd (repo_CreateJob j w)))"
    "panel_ok (rp_data (snd (repo_UpdateJob i st er sa fa w)))" "panel_ok (rp_data (snd (repo_Migrate w)))" "panel_ok (rp_data (snd (repo_Close w)))"
    "mget (Users (rp_data w)) (user_ID u) = None \<Longrightarrow> panel_ok (rp_data (snd (repo_CreateUser u w)))"
    "mget (Sites (rp_data w)) (site_ID site) = None \<Longrightarrow> site_checked site \<Longrightarrow> panel_ok (rp_data (snd (repo_CreateSite site w)))"
    "room (rp_data w) \<Longrightarrow> panel_ok (rp_data (snd (repo_CreateAuditLog e w)))"
proof -
  note step = panel_ok_step [OF assms]
  show "panel_ok (rp_data (snd (repo_UpdateUserPassword i h t w)))"
    by (rule step [OF UpdatePassword]) (auto simp: repo_frame split: option.splits)
  show "panel_ok (rp_data (snd (repo_CreateSession s w)))" by (rule step [OF CreateSession]) (auto simp: repo_frame)
  show "panel_ok (rp_data (snd (repo_DeleteSessionByTokenHash h w)))" by (rule step [OF DeleteSession]) (auto simp: repo_frame)
  show "panel_ok (rp_data (snd (repo_UpdateSiteStatus i st w)))"
    by (rule step [OF UpdateSiteStatus]) (auto simp: repo_frame split: option.splits if_splits)
  show "panel_ok (rp_data (snd (repo_DeleteSite i w)))"
    by (rule step [OF DeleteSite]) (auto simp: repo_frame delete_conv' split: option.splits if_splits)
  show "panel_ok (rp_data (snd (repo_CreateJob j w)))" by (rule step [OF CreateJob]) (auto simp: repo_frame)
  show "panel_ok (rp_data (snd (repo_UpdateJob i st er sa fa w)))"
    by (rule step [OF UpdateJob]) (auto simp: repo_frame split: option.splits)
  show "panel_ok (rp_data (snd (repo_Migrate w)))" by (rule step [OF Migrate]) (auto simp: repo_frame split: if_splits)
  show "panel_ok (rp_data (snd (repo_Close w)))" by (rule step [OF Close]) (auto simp: repo_frame)
  show "panel_ok (rp_data (snd (repo_CreateUser u w)))" if "mget (Users (rp_data w)) (user_ID u) = None"
    by (rule step [OF CreateUser [OF that]]) (auto simp: repo_frame split: if_splits)
  show "panel_ok (rp_data (snd (repo_CreateSite site w)))" if "mget (Sites (rp_data w)) (site_ID site) = None" "site_checked site"
    by (rule step [OF CreateSite [OF that(1)]]) (use that(2) in \<open>auto simp: repo_frame split: if_splits\<close>)
  show "panel_ok (rp_data (snd (repo_CreateAuditLog e w)))" if "room (rp_data w)"
    by (rule step [OF CreateAuditLog]) (use that in \<open>auto simp: repo_frame room_def\<close>)
qed

lemma panel_ok_audit:
  assumes "panel_ok (rp_data w)" "room (rp_data w)"
  shows "panel_ok (rp_data (audit_Record actor act ty i m w))"
  using panel_ok_ops(12) [of "snd (time_Now w)"] assms by (simp add: audit_Record_def time_Now_def)

text \<open>The same for results given as pairs.\<close>

lemma ok_ops:
  "repo_UpdateUserPassword i h t w = (e, w') \<Longrightarrow> panel_ok (rp_data w) \<Longrightarrow> panel_ok (rp_data w')"
  "repo_CreateSession s w = (e, w') \<Longrightarrow> panel_ok (rp_data w) \<Longrightarrow> panel_ok (rp_data w')"
  "repo_DeleteSessionByTokenHash h w = (e, w') \<Longrightarrow> panel_ok (rp_data w) \<Longrightarrow> panel_ok (rp_data w')"
  "repo_UpdateSiteStatus i st w = (e, w') \<Longrightarrow> panel_ok (rp_data w) \<Longrightarrow> panel_ok (rp_data w')"
  "repo_DeleteSite i w = (e, w') \<Longrightarrow> panel_ok (rp_data w) \<Longrightarrow> panel_ok (rp_data w')"
  "repo_CreateJob j w = (e, w') \<Longrightarrow> panel_ok (rp_data w) \<Longrightarrow> panel_ok (rp_data w')"
  "repo_UpdateJob i js er sa fa w = (e, w') \<Longrightarrow> panel_ok (rp_data w) \<Longrightarrow> panel_ok (rp_data w')"
  "repo_Migrate w = (e, w') \<Longrightarrow> panel_ok (rp_data w) \<Longrightarrow> panel_ok (rp_data w')"
  "repo_Close w = (e, w') \<Longrightarrow> panel_ok (rp_data w) \<Longrightarrow> panel_ok (rp_data w')"
  using panel_ok_ops(1-9) [of w] by (metis snd_conv)+

lemma data_same:
  "time_Now w = (t, w') \<Longrightarrow> rp_data w' = rp_data w"
  "randomToken w = (r, w') \<Longrightarrow> rp_data w' = rp_data w"
  "idgen_New pre w = (r, w') \<Longrightarrow> rp_data w' = rp_data w"
  "password_Hash bc p w = (r, w') \<Longrightarrow> rp_data w' = rp_data w"
  using time_Now_data(1) [of w] randomToken_frame(2) [of w] idgen_New_frame(2) [of pre w] password_Hash_frame(2) [of bc p w]
  by simp_all

lemma ok_auth:
  "auth_Authenticate token w = (x, w') \<Longrightarrow> panel_ok (rp_data w) \<Longrightarrow> panel_ok (rp_data w')"
  "auth_Logout token w = (y, w') \<Longrightarrow> panel_ok (rp_data w) \<Longrightarrow> panel_ok (rp_data w')"
  "auth_ChangePassword bc i old new w = (e, w') \<Longrightarrow> panel_ok (rp_data w) \<Longrightarrow> panel_ok (rp_data w')"
  "auth_Login bc ttl n p w = (z, w') \<Longrightarrow> panel_ok (rp_data w) \<Longrightarrow> panel_ok (rp_data w')"
proof -
  have d: "panel_ok (rp_data v) \<Longrightarrow> panel_ok (rp_data (snd (repo_DeleteSessionByTokenHash h v)))" for v :: "'a repo_scheme" and h
    by (rule panel_ok_ops(3))
  assume "auth_Authenticate token w = (x, w')" "panel_ok (rp_data w)"
  then show "panel_ok (rp_data w')"
    by (auto simp: auth_Authenticate_def d dest!: data_same split: if_splits sum.splits prod.splits)
next
  assume "auth_Logout token w = (y, w')" "panel_ok (rp_data w)"
  then show "panel_ok (rp_data w')" by (auto simp: auth_Logout_def dest!: ok_ops split: if_splits)
next
  assume "auth_ChangePassword bc i old new w = (e, w')" "panel_ok (rp_data w)"
  then show "panel_ok (rp_data w')"
    by (auto simp: auth_ChangePassword_def dest!: ok_ops data_same split: if_splits sum.splits prod.splits)
next
  assume "auth_Login bc ttl n p w = (z, w')" "panel_ok (rp_data w)"
  then show "panel_ok (rp_data w')"
    by (auto simp: auth_Login_def dest!: ok_ops data_same split: if_splits sum.splits prod.splits option.splits)
qed

lemma ok_Enqueue:
  "jobs_Enqueue dn pick actor ty p w = (r, w') \<Longrightarrow> panel_ok (rp_data w) \<Longrightarrow> panel_ok (rp_data w')"
  by (auto simp: jobs_Enqueue_def send_or_done_def dest!: ok_ops data_same
      split: if_splits sum.splits prod.splits option.splits)

lemma ok_DeleteSite:
  "sites_DeleteSite dn pick actor i w = (y, w') \<Longrightarrow> panel_ok (rp_data w) \<Longrightarrow> panel_ok (rp_data w')"
  by (auto simp: sites_DeleteSite_def dest!: ok_ops ok_Enqueue intro!: panel_ok_ops
      split: sum.splits prod.splits option.splits)

lemma ok_CreateSite:
  assumes "sites_CreateSite dn pick actor d r rt w = (x, w')" "panel_ok (rp_data w)" "fresh_draw w"
  shows "panel_ok (rp_data w')"
proof (cases "isValidDomain (normalizeDomain d) \<and> isValidRootPath (TrimSpace r) \<and> ToLower (TrimSpace rt) \<in> set allowedRuntime")
  case False
  then show ?thesis using assms(1,2) by (auto simp: sites_CreateSite_def Let_def split: if_splits)
next
  case valid: True
  obtain y v where v: "idgen_New ''site'' w = (y, v)" by fastforce
  have dv: "rp_data v = rp_data w" by (rule data_same(3) [OF v])
  show ?thesis
  proof (cases y)
    case (Inl e)
    then show ?thesis using assms(1,2) valid v dv by (simp add: sites_CreateSite_def Let_def)
  next
    case (Inr i)
    obtain now v1 where v1: "time_Now v = (now, v1)" by fastforce
    then have d1: "rp_data v1 = rp_data w" using data_same(1) [OF v1] dv by simp
    let ?s = "\<lparr>site_ID = i, site_Domain = normalizeDomain d, site_RootPath = TrimSpace r, site_Runtime = ToLower (TrimSpace rt),
                      site_Status = SiteStatusProvisioning, site_CreatedBy = actor, site_CreatedAt = now,
                      site_UpdatedAt = now\<rparr>"
    obtain b m where b: "os_entropy w (os_draws w) 6 = Inr b" "i = ''site'' @ ''_'' @ Itoa m @ ''_'' @ Hex b"
      using v Inr by (auto simp: idgen_New_def rand_Read_def split: sum.splits prod.splits)
    have "HasSuffix i (''_'' @ Hex b)" by (simp add: b(2) HasSuffix_def suffix_def)
    then have "i \<notin> fst ` set (Sites (rp_data w))" using assms(3) b(1) by (auto simp: fresh_draw_def list_all_iff)
    then have "mget (Sites (rp_data v1)) (site_ID ?s) = None" by (simp add: d1 map_of_eq_None_iff)
    moreover have "site_checked ?s" using valid by (auto simp: site_checked_def)
    ultimately have ok: "panel_ok (rp_data (snd (repo_CreateSite ?s v1)))"
      using panel_ok_ops(11) [of v1 ?s] assms(2) d1 by simp
    obtain e v2 where v2: "repo_CreateSite ?s v1 = (e, v2)" by fastforce
    obtain er v3 where v3: "jobs_Enqueue dn pick actor JobTypeProvisionSite (site_payload ?s) v2 = (er, v3)" by fastforce
    have "panel_ok (rp_data v3)" using ok_Enqueue [OF v3] ok v2 by simp
    then show ?thesis
      using assms(1) valid v Inr v1 v2 v3 ok panel_ok_ops(4) [of v3 i SiteStatusFailed]
      by (auto simp: sites_CreateSite_def Let_def site_payload_def split: option.splits sum.splits)
  qed
qed

subsection \<open>What a request does to good data\<close>

text \<open>
  \<open>calm d d'\<close>: good data stays good, and the audit trail is not touched.  \<open>sound_answer w ans\<close>: an answer
  given from state \<open>w\<close> leaves good data.
\<close>

definition calm :: "snapshot \<Rightarrow> snapshot \<Rightarrow> bool" where
  "calm d d' \<longleftrightarrow> AuditLogs d' = AuditLogs d \<and> (panel_ok d \<longrightarrow> panel_ok d')"

lemma calm_refl [simp]: "calm d d"
  by (simp add: calm_def)

definition keeps :: "snapshot \<Rightarrow> snapshot \<Rightarrow> bool" where
  "keeps d d' \<longleftrightarrow> (panel_ok d \<and> room d \<longrightarrow> panel_ok d')"

definition sound_answer :: "'a panel_scheme \<Rightarrow> 'a panel_scheme answer \<Rightarrow> bool" where
  "sound_answer w ans \<longleftrightarrow> keeps (rp_data w) (rp_data (snd ans))"

lemma keeps_calm [simp]: "calm d d' \<Longrightarrow> keeps d d'"
  by (simp add: calm_def keeps_def)

lemma keeps_audit: "calm d (rp_data v) \<Longrightarrow> keeps d (rp_data (audit_Record actor act ty i m v))"
  by (auto simp: keeps_def calm_def room_def intro: panel_ok_audit)

lemma sound_ok: "keeps (rp_data w) (rp_data v) \<Longrightarrow> sound_answer w (ok st body v)"
  by (simp add: sound_answer_def ok_def)

lemma sound_fail: "keeps (rp_data w) (rp_data v) \<Longrightarrow> sound_answer w (fail st m v)"
  by (simp add: sound_answer_def fail_def writeError_def time_Now_def)

lemma sound_fail_with: "keeps (rp_data w) (rp_data v) \<Longrightarrow> sound_answer w (fail_with cs fallback e v)"
  by (simp add: sound_answer_def fail_with_def answer_error_def writeError_def time_Now_def split: prod.split)

lemma sound_plain: "keeps (rp_data w) (rp_data v) \<Longrightarrow> sound_answer w (ans, v)"
  by (simp add: sound_answer_def)

lemma sound_body: "(\<And>m. sound_answer w (h m w)) \<Longrightarrow> sound_answer w (with_body names r h w)"
  by (auto simp: with_body_def intro!: sound_fail keeps_calm split: sum.split)

lemmas sound_intros = sound_body sound_ok sound_fail sound_fail_with sound_plain keeps_audit

lemmas same_data_ops = trail_env data_same
  sites_GetSiteContent_env [THEN env_trail] sites_ListSiteFiles_env [THEN env_trail]
  sites_DownloadSiteFile_env [THEN env_trail] db_ListDatabases_env [THEN env_trail] monitor_List_env [THEN env_trail]
  updater_Check_env [THEN env_trail] updater_Status_env [THEN env_trail]

lemma calm_sites:
  "sites_CreateSite dn pick actor d r rt w = (x, w') \<Longrightarrow> fresh_draw w \<Longrightarrow> calm (rp_data w) (rp_data w')"
  "sites_DeleteSite dn pick actor i w = (y, w') \<Longrightarrow> calm (rp_data w) (rp_data w')"
  using trail_sites ok_CreateSite ok_DeleteSite by (auto simp: calm_def)

lemma Login_trail: "auth_Login bc ttl n p w = (x, w') \<Longrightarrow> AuditLogs (rp_data w') = AuditLogs (rp_data w)"
proof -
  have "repo_CreateSession s v = (e, v') \<Longrightarrow> AuditLogs (rp_data v') = AuditLogs (rp_data v)"
    for s e and v v' :: "'a repo_scheme"
    using repo_CreateSession_data [of s v] by simp
  then show "auth_Login bc ttl n p w = (x, w') \<Longrightarrow> AuditLogs (rp_data w') = AuditLogs (rp_data w)"
    by (auto simp: auth_Login_def dest!: data_same split: if_splits sum.splits prod.splits option.splits)
qed

lemma calm_auth:
  "auth_Logout token w = (y, w') \<Longrightarrow> calm (rp_data w) (rp_data w')"
  "auth_ChangePassword bc i old new w = (e, w') \<Longrightarrow> calm (rp_data w) (rp_data w')"
  "auth_Login bc ttl n p w = (z, w') \<Longrightarrow> calm (rp_data w) (rp_data w')"
  using auth_trail Login_trail ok_auth(2-4) by (auto simp: calm_def)

lemma sound_sessions:
  "sound_answer w (api_handleLogin a r w)"
  "sound_answer w (api_handleLogout u t w)"
  "sound_answer w (api_handleChangePassword a u r w)"
  "sound_answer w (api_handleMe u w)"
  subgoal
    by (auto simp: api_handleLogin_def Let_def intro!: sound_intros dest!: data_same calm_auth(3)
        split: prod.split sum.split)
  subgoal
    by (auto simp: api_handleLogout_def intro!: sound_intros dest!: calm_auth split: prod.splits option.splits)
  subgoal
    by (auto simp: api_handleChangePassword_def intro!: sound_intros dest!: calm_auth split: prod.splits option.splits)
  subgoal by (simp add: api_handleMe_def sound_ok keeps_calm)
  done

lemma sound_site_handlers:
  "fresh_draw w \<Longrightarrow> sound_answer w (api_handleCreateSite u r w)"
  "sound_answer w (api_handleDeleteSite u i r w)"
  "sound_answer w (api_handleListSites r w)"
  "sound_answer w (api_handleGetSite i w)"
  subgoal
    by (auto simp: api_handleCreateSite_def intro!: sound_intros dest!: calm_sites(1)
        split: prod.splits option.splits sum.splits)
  subgoal
    by (auto simp: api_handleDeleteSite_def intro!: sound_intros dest!: calm_sites(2)
        split: prod.splits option.splits sum.splits)
  subgoal by (simp add: api_handleListSites_def sound_ok keeps_calm)
  subgoal by (auto simp: api_handleGetSite_def intro!: sound_intros split: sum.split)
  done

lemma sound_file_handlers:
  "sound_answer w (api_handleGetSiteContent i r w)"
  "sound_answer w (api_handleUpdateSiteContent u i r w)"
  "sound_answer w (api_handleListSiteFiles i r w)"
  "sound_answer w (api_handleDownloadSiteFile a i r w)"
  "sound_answer w (api_handleUploadSiteFile u i r w)"
  "sound_answer w (api_handleDeleteSiteFile u i r w)"
  "sound_answer w (api_handleCreateSiteDir u i r w)"
  "sound_answer w (api_handleDeleteSiteDir u i r w)"
  "sound_answer w (api_handleBackupSiteContent a u i w)"
  subgoal
    by (auto simp: api_handleGetSiteContent_def intro!: sound_intros dest!: same_data_ops
        split: prod.splits option.splits sum.splits)
  subgoal
    by (auto simp: api_handleUpdateSiteContent_def intro!: sound_intros dest!: same_data_ops
        split: prod.splits option.splits sum.splits)
  subgoal
    by (auto simp: api_handleListSiteFiles_def intro!: sound_intros dest!: same_data_ops
        split: prod.splits option.splits sum.splits)
  subgoal
    by (auto simp: api_handleDownloadSiteFile_def Let_def intro!: sound_intros dest!: same_data_ops
        split: prod.splits option.splits sum.splits)
  subgoal
    by (auto simp: api_handleUploadSiteFile_def intro!: sound_intros dest!: same_data_ops
        split: prod.splits option.splits sum.splits)
  subgoal
    by (auto simp: api_handleDeleteSiteFile_def intro!: sound_intros dest!: same_data_ops
        split: prod.splits option.splits sum.splits)
  subgoal
    by (auto simp: api_handleCreateSiteDir_def intro!: sound_intros dest!: same_data_ops
        split: prod.splits option.splits sum.splits)
  subgoal
    by (auto simp: api_handleDeleteSiteDir_def intro!: sound_intros dest!: same_data_ops
        split: prod.splits option.splits sum.splits)
  subgoal
    by (auto simp: api_handleBackupSiteContent_def intro!: sound_intros dest!: same_data_ops
        split: prod.splits option.splits sum.splits)
  done

lemma sound_other_handlers:
  "sound_answer w (api_handleListJobs r w)"
  "sound_answer w (api_handleGetJob i w)"
  "sound_answer w (api_handleListAuditLogs r w)"
  "sound_answer w (api_handleListDatabases a w)"
  "sound_answer w (api_handleCreateDatabase a u r w)"
  "sound_answer w (api_handleCreateDatabaseUser a u r w)"
  "sound_answer w (api_handleRunBackup a u r w)"
  "sound_answer w (api_handleRestoreBackup a u r w)"
  "sound_answer w (api_handleIssueSSL a u r w)"
  "sound_answer w (api_handleRenewSSL a u w)"
  "sound_answer w (api_handleMonitorHost a w)"
  "sound_answer w (api_handleMonitorServices a w)"
  "sound_answer w (api_handlePanelVersion a w)"
  "sound_answer w (api_handlePanelUpdateCheck a w)"
  "sound_answer w (api_handlePanelUpdateStatus a w)"
  "sound_answer w (api_handleStartPanelUpdate a u w)"
  "sound_answer w (handlers_WebUI w)"
  "sound_answer w (handlers_Health w)"
  "sound_answer w (handlers_SystemCompatibility res w)"
  subgoal
    by (auto simp: api_handleListJobs_def intro!: sound_intros dest!: same_data_ops
        split: prod.splits option.splits sum.splits)
  subgoal
    by (auto simp: api_handleGetJob_def intro!: sound_intros dest!: same_data_ops
        split: prod.splits option.splits sum.splits)
  subgoal
    by (auto simp: api_handleListAuditLogs_def intro!: sound_intros dest!: same_data_ops
        split: prod.splits option.splits sum.splits)
  subgoal
    by (auto simp: api_handleListDatabases_def intro!: sound_intros dest!: same_data_ops
        split: prod.splits option.splits sum.splits)
  subgoal
    by (auto simp: api_handleCreateDatabase_def intro!: sound_intros dest!: same_data_ops
        split: prod.splits option.splits sum.splits)
  subgoal
    by (auto simp: api_handleCreateDatabaseUser_def Let_def intro!: sound_intros dest!: same_data_ops
        split: prod.splits option.splits sum.splits)
  subgoal
    by (auto simp: api_handleRunBackup_def intro!: sound_intros dest!: same_data_ops
        split: prod.splits option.splits sum.splits)
  subgoal
    by (auto simp: api_handleRestoreBackup_def intro!: sound_intros dest!: same_data_ops
        split: prod.splits option.splits sum.splits)
  subgoal
    by (auto simp: api_handleIssueSSL_def intro!: sound_intros dest!: same_data_ops
        split: prod.splits option.splits sum.splits)
  subgoal
    by (auto simp: api_handleRenewSSL_def intro!: sound_intros dest!: same_data_ops
        split: prod.splits option.splits sum.splits)
  subgoal
    by (auto simp: api_handleMonitorHost_def intro!: sound_intros dest!: same_data_ops
        split: prod.splits option.splits sum.splits)
  subgoal
    by (auto simp: api_handleMonitorServices_def intro!: sound_intros dest!: same_data_ops
        split: prod.splits option.splits sum.splits)
  subgoal
    by (auto simp: api_handlePanelVersion_def intro!: sound_intros dest!: same_data_ops
        split: prod.splits option.splits sum.splits)
  subgoal
    by (auto simp: api_handlePanelUpdateCheck_def intro!: sound_intros dest!: same_data_ops
        split: prod.splits option.splits sum.splits)
  subgoal
    by (auto simp: api_handlePanelUpdateStatus_def intro!: sound_intros dest!: same_data_ops
        split: prod.splits option.splits sum.splits)
  subgoal
    by (auto simp: api_handleStartPanelUpdate_def mergeErrorPayload_def Let_def simp del: error_answer.simps intro!: sound_intros dest!: same_data_ops
        split: prod.splits option.splits sum.splits)
  subgoal
    by (auto simp: handlers_WebUI_def intro!: sound_intros dest!: same_data_ops
        split: prod.splits option.splits sum.splits)
  subgoal
    by (auto simp: handlers_Health_def intro!: sound_intros dest!: same_data_ops
        split: prod.splits option.splits sum.splits)
  subgoal
    by (auto simp: handlers_SystemCompatibility_def intro!: sound_intros dest!: same_data_ops
        split: prod.splits option.splits sum.splits)
  done

lemma fresh_draw_Authenticate: "auth_Authenticate token w = (x, w') \<Longrightarrow> fresh_draw w \<Longrightarrow> fresh_draw w'"
proof -
  have s: "os_draws (snd (repo_save v)) = os_draws v" for v :: "'a repo_scheme"
  proof -
    have "WriteFile p x v = (e, v') \<Longrightarrow> os_draws v' = os_draws v" "Rename p q v = (e, v') \<Longrightarrow> os_draws v' = os_draws v"
      for p x q e and v v' :: "'a repo_scheme"
      by (auto simp: WriteFile_def Rename_def write_at_def sys_def fs_store_def
          split: option.splits sum.splits if_splits node.splits)
    then show ?thesis by (auto simp: repo_save_def split: sum.splits prod.splits option.splits)
  qed
  have d: "os_draws (snd (repo_DeleteSessionByTokenHash h v)) = os_draws v"
    "os_entropy (snd (repo_DeleteSessionByTokenHash h v)) = os_entropy v"
    "Sites (rp_data (snd (repo_DeleteSessionByTokenHash h v))) = Sites (rp_data v)" for h and v :: "'a repo_scheme"
    using same_envD(6) [OF repo_env(4) [of v h]]
    by (simp_all add: repo_DeleteSessionByTokenHash_def s)
  assume "auth_Authenticate token w = (x, w')" "fresh_draw w"
  then show "fresh_draw w'"
    by (auto simp: auth_Authenticate_def fresh_draw_def time_Now_def d split: if_splits sum.splits)
qed

lemma sound_auth:
  assumes "\<And>u t v. fresh_draw v \<Longrightarrow> sound_answer v (h u t v)" and "fresh_draw w"
  shows "sound_answer w (api_requireAuth h r w)"
proof (cases "bearerToken (rq_Authorization r)")
  case (Inr token)
  obtain x v where a: "auth_Authenticate token w = (x, v)" by fastforce
  have c: "calm (rp_data w) (rp_data v)"
    using Authenticate_unchanged [OF a] ok_auth(1) [OF a] by (auto simp: calm_def unchanged_def)
  then have "sound_answer w (h u token v)" for u
    using assms(1) [OF fresh_draw_Authenticate [OF a assms(2)]] by (auto simp: sound_answer_def keeps_def calm_def room_def)
  then show ?thesis using a Inr c by (auto simp: api_requireAuth_def intro!: sound_fail split: sum.split)
qed (simp add: api_requireAuth_def sound_fail)

lemma sound_role:
  assumes "\<And>u v. fresh_draw v \<Longrightarrow> sound_answer v (h u v)" and "fresh_draw w"
  shows "sound_answer w (api_requireRole role h r w)"
  unfolding api_requireRole_def using assms by (intro sound_auth) (simp_all add: sound_fail)

lemma serve_sound: "fresh_draw w \<Longrightarrow> sound_answer w (serve a res r w)"
proof -
  assume "fresh_draw w"
  then have "sound_answer w (endpoint_handler a res e r w)" for e
    by (cases e) (auto intro!: sound_auth sound_role sound_sessions sound_site_handlers sound_file_handlers sound_other_handlers)
  then show ?thesis by (auto simp: serve_def intro: sound_plain split: option.split)
qed

subsection \<open>The worker and the start\<close>

lemma ok_Close: "panel_ok (rp_data w) \<Longrightarrow> panel_ok (rp_data (snd (repo_Close w)))"
  by (rule panel_ok_ops(9))

context site_provisioner
begin

lemma same_data_acts:
  "provision s w = (e, w') \<Longrightarrow> rp_data w' = rp_data w"
  "deprovision s w = (e, w') \<Longrightarrow> rp_data w' = rp_data w"
  using same_rest_repo(2) [OF provision_rest [of w s]] same_rest_repo(2) [OF deprovision_rest [of w s]] by simp_all

lemma handleJob_ok:
  assumes "panel_ok (rp_data w)"
  shows "panel_ok (rp_data (jobs_handleJob (Some (provision, deprovision)) i w))"
proof -
  have run: "panel_ok (rp_data v')" if "jobs_runByType (Some (provision, deprovision)) job v = (e, v')" "panel_ok (rp_data v)" for job v e v'
    using that
    by (auto simp: jobs_runByType_def jobs_runProvisionSite_def jobs_runDeprovisionSite_def
        dest!: same_data_acts ok_ops intro!: panel_ok_ops split: if_splits sum.splits prod.splits option.splits)
  show ?thesis using assms
    by (auto simp: jobs_handleJob_def dest!: run ok_ops data_same intro!: panel_ok_ops
        split: sum.splits prod.splits option.splits)
qed

end

lemma ok_EnsureBootstrapAdmin:
  "auth_EnsureBootstrapAdmin bc n p w = (e, w') \<Longrightarrow> panel_ok (rp_data w) \<Longrightarrow> panel_ok (rp_data w')"
proof -
  assume a: "auth_EnsureBootstrapAdmin bc n p w = (e, w')" and ok: "panel_ok (rp_data w)"
  have "repo_CreateUser u v = (e, w') \<Longrightarrow> rp_data v = rp_data w \<Longrightarrow> Users (rp_data w) = [] \<Longrightarrow> panel_ok (rp_data w')" for u v
    using panel_ok_ops(10) [of v u] ok by simp
  then show ?thesis using a ok
    by (auto simp: auth_EnsureBootstrapAdmin_def repo_CountUsers_def dest!: data_same
        split: if_splits sum.splits prod.splits)
qed

text \<open>What the state file may hold: data that is good once its indexes are rebuilt.\<close>

definition good_files :: "'a repo_scheme \<Rightarrow> bool" where
  "good_files w \<longleftrightarrow> (\<forall>raw snap. rp_unmarshal w raw = Inr snap \<longrightarrow> panel_ok (rebuildIndexes (nil_default snap)))"

lemma newSnapshot_panel_ok: "panel_ok newSnapshot"
  using newSnapshot_ok by (simp add: panel_ok_def newSnapshot_def)

lemma ok_New: "repo_New p w = (None, w') \<Longrightarrow> good_files w \<Longrightarrow> panel_ok (rp_data w')"
proof -
  assume n: "repo_New p w = (None, w')" and g: "good_files w"
  obtain f v where v: "MkdirAll (Dir_of p) w = (f, v)" by fastforce
  have gv: "rp_unmarshal v = rp_unmarshal w" "rp_data v = rp_data w"
    using same_rest_repo(2,4) [of w v] os_env(10) [OF v] by (simp_all add: same_rest_env_of)
  let ?u = "v\<lparr>rp_path := p, rp_data := newSnapshot\<rparr>"
  obtain x y where y: "ReadFile p ?u = (x, y)" by fastforce
  have gy: "rp_unmarshal y = rp_unmarshal ?u" "rp_data y = newSnapshot"
    using same_rest_repo(2,4) [of ?u y] os_env(3) [OF y] by (simp_all add: same_rest_env_of)
  have sv: "repo_save u = (e, u') \<Longrightarrow> rp_data u' = rp_data u" for e and u u' :: "'a repo_scheme"
    using repo_save_frame(1-5) [of u] by simp
  show ?thesis using n v y gv gy g newSnapshot_panel_ok sv
    by (auto simp: repo_New_def repo_load_def good_files_def split: if_splits option.splits sum.splits)
qed

lemma boot_ok:
  assumes "app_boot h cfg w0 = (Inr (a, res), w)" "good_files w0"
  shows "panel_ok (rp_data w) \<and> a = app_api h cfg"
proof -
  obtain c w1 where w1: "oscheck_Detect (hi_goos h) w0 = (c, w1)" by fastforce
  obtain e w2 where w2: "MkdirAll (cf_DataDir cfg) w1 = (e, w2)" by fastforce
  have "env_of w2 = env_of w0" using oscheck_Detect_env [OF w1] os_env(10) [OF w2] by simp
  then have g: "good_files w2"
    using assms(2) same_rest_repo(4) [of w0 w2] by (simp add: good_files_def same_rest_env_of)
  have "panel_ok (rp_data (jobs_Start v)) = panel_ok (rp_data v)" for v :: "'a panel_scheme"
    by (simp add: jobs_Start_def)
  then show ?thesis using assms(1) w1 w2 ok_New [OF _ g]
    by (auto simp: app_boot_def dest!: ok_ops ok_EnsureBootstrapAdmin split: if_splits option.splits prod.splits)
qed

subsection \<open>Everything the daemon may come to\<close>

text \<open>
  The states of a daemon with host \<open>h\<close> and configuration \<open>cfg\<close>: after the start; after a request has been
  served; after the worker has taken a job from the queue and handled it; after a request that waited
  for room in the queue has put its job there, recorded it and answered.  Before a request, the audit
  trail's counter is short of its end and the random source does not repeat bytes in use.
\<close>

definition app_provisioner :: "Config \<Rightarrow> 'a jobs_scheme site_provisioner option" where
  "app_provisioner cfg = Some (nginx_ProvisionSite (app_nginx cfg), nginx_DeprovisionSite (app_nginx cfg))"

inductive panel_reachable :: "host_info \<Rightarrow> Config \<Rightarrow> OSResult \<Rightarrow> 'a panel_scheme \<Rightarrow> bool" for h cfg where
  Boot: "app_boot h cfg w0 = (Inr (a, res), w) \<Longrightarrow> good_files w0 \<Longrightarrow> panel_reachable h cfg res w"
| Serve: "panel_reachable h cfg res w \<Longrightarrow> room (rp_data w) \<Longrightarrow> fresh_draw w \<Longrightarrow>
    serve (app_api h cfg) res r w = (ans, w') \<Longrightarrow> panel_reachable h cfg res w'"
| Job: "panel_reachable h cfg res w \<Longrightarrow> jq_queue w = i # q \<Longrightarrow>
    panel_reachable h cfg res (jobs_handleJob (app_provisioner cfg) i (w\<lparr>jq_queue := q\<rparr>))"
| Resume: "panel_reachable h cfg res w \<Longrightarrow> room (rp_data w) \<Longrightarrow> length (jq_queue w) < queue_capacity \<Longrightarrow>
    panel_reachable h cfg res (audit_Record actor act ty i m (w\<lparr>jq_queue := jq_queue w @ [j]\<rparr>))"

lemma reachable_ok: "panel_reachable h cfg res w \<Longrightarrow> panel_ok (rp_data w)"
proof (induction rule: panel_reachable.induct)
  case (Boot w0 a res w)
  then show ?case by (simp add: boot_ok)
next
  case (Serve res w r ans w')
  then show ?case using serve_sound [of w "app_api h cfg" res r] by (simp add: sound_answer_def keeps_def)
next
  case (Job res w i q)
  then show ?case using nginx.handleJob_ok [of "w\<lparr>jq_queue := q\<rparr>" "app_nginx cfg" i] by (simp add: app_provisioner_def)
next
  case (Resume res w actor act ty i m j)
  then show ?case by (intro panel_ok_audit) simp_all
qed


lemma site_checked_conf: "site_checked s \<Longrightarrow> conf_name s = site_Domain s @ ''.conf''"
proof -
  assume "site_checked s"
  then obtain x where "site_Domain s = normalizeDomain x" "isValidDomain (site_Domain s)" by (auto simp: site_checked_def)
  then show ?thesis using sanitize_valid [of "site_Domain s" x] by (simp add: conf_name_def)
qed


subsection \<open>A daemon to exercise the properties at\<close>

text \<open>A host whose state file holds a user and two sites.\<close>

definition stored_data :: snapshot where
  "stored_data = newSnapshot\<lparr>Users := [(''usr-1'', sample_auth_user)],
     Sites := [(''site-1'', sample_site), (''site-2'', sample_site\<lparr>site_ID := ''site-2'', site_Domain := ''example.org''\<rparr>)]\<rparr>"

definition stored_panel :: panel where
  "stored_panel = jobs.extend (repo.extend
     (sample_repo\<lparr>os_fs := [([''srv''], Directory), ([''srv'', ''state.json''], File ''state'')],
        rp_unmarshal := (\<lambda>_. Inr (to_decoded stored_data))\<rparr>)
     \<lparr>jq_queue = [], jq_started = False, jq_stopped = False, jq_cancelled = False, jq_json_error = (\<lambda>_. Foreign ''json'')\<rparr>)
     \<lparr>pn_limiter = NewLoginLimiter 5 (5 * time_Minute)\<rparr>"

definition sample_config :: Config where
  "sample_config = (env_base ''linux'' (\<lambda>_. []))\<lparr>cf_DataDir := ''/srv'', cf_DBPath := ''/srv/state.json'', cf_AllowNonUbuntu := True\<rparr>"

definition sample_host_info :: host_info where
  "sample_host_info = \<lparr>hi_bcrypt = sample_bcrypt, hi_zip = (\<lambda>_. ''zip''), hi_uri_ok = (\<lambda>_. True), hi_stamp = (\<lambda>_. None),
     hi_version = ([], [], []), hi_hostname = ''host'', hi_goos = ''darwin'', hi_goarch = ''arm64'', hi_cpus = 1,
     hi_go_version = ''go'', hi_mime = (\<lambda>_. []), hi_quote = (\<lambda>s. s)\<rparr>"

lemma stored_good: "good_files stored_panel"
proof -
  have "isValidDomain ''example.com''" "isValidDomain ''example.org''" "normalizeDomain ''example.com'' = ''example.com''"
    "normalizeDomain ''example.org'' = ''example.org''" "isValidRootPath ''/var/www/example''" by code_simp+
  then have "site_checked sample_site" "site_checked (sample_site\<lparr>site_ID := ''site-2'', site_Domain := ''example.org''\<rparr>)"
    by (auto simp: site_checked_def sample_site_def allowedRuntime_def intro: exI [of _ "''example.com''"] exI [of _ "''example.org''"])
  moreover have "ToLower ''example.com'' = ''example.com''" "ToLower ''example.org'' = ''example.org''" "ToLower ''Admin'' = ''admin''"
    by code_simp+
  ultimately show ?thesis
    by (auto simp: good_files_def stored_panel_def jobs.defs repo.defs sample_repo_def panel_ok_def stored_data_def to_decoded_def nil_default_def
        rebuildIndexes_def newSnapshot_def data_ok_def users_ok_def sites_ok_def jobs_ok_def sessions_ok_def audit_ok_def
        table_ok_def sample_site_def sample_auth_user_def sample_user_def split: if_splits)
qed

lemma stored_boot:
  "\<exists>a res w. app_boot sample_host_info sample_config stored_panel = (Inr (a, res), w)
     \<and> mget (Sites (rp_data w)) ''site-1'' = Some sample_site
     \<and> mget (Sites (rp_data w)) ''site-2'' = Some (sample_site\<lparr>site_ID := ''site-2'', site_Domain := ''example.org''\<rparr>)"
proof -
  have "case app_boot sample_host_info sample_config stored_panel of (Inr (a, res), w) \<Rightarrow>
      mget (Sites (rp_data w)) ''site-1'' = Some sample_site
      \<and> mget (Sites (rp_data w)) ''site-2'' = Some (sample_site\<lparr>site_ID := ''site-2'', site_Domain := ''example.org''\<rparr>) | _ \<Rightarrow> False"
    by code_simp
  then show ?thesis by (auto split: prod.splits sum.splits)
qed

lemma stored_reachable:
  "\<exists>res w. panel_reachable sample_host_info sample_config res (w :: panel)
     \<and> mget (Sites (rp_data w)) ''site-1'' = Some sample_site
     \<and> mget (Sites (rp_data w)) ''site-2'' = Some (sample_site\<lparr>site_ID := ''site-2'', site_Domain := ''example.org''\<rparr>)"
  using stored_boot panel_reachable.Boot [OF _ stored_good] by blast



subsection \<open>The lifetime of a token\<close>

text \<open>
  C33: the lifetime of a token is the configured number of hours up to 2562047 hours; beyond, where the
  configuration is still accepted, the multiplication wraps around, and up to twice that number the
  lifetime is negative: every token is expired when it is issued.
\<close>

theorem token_ttl_bounds:
  assumes "LoadFromEnv q goos env = Inr cfg"
  shows "(api_tokenTTL (app_api h cfg) = cf_TokenTTLHours cfg * 3600000000000 \<longleftrightarrow> cf_TokenTTLHours cfg \<le> 2562047)
    \<and> (2562047 < cf_TokenTTLHours cfg \<and> cf_TokenTTLHours cfg \<le> 5124095 \<longrightarrow> api_tokenTTL (app_api h cfg) < 0)"
proof -
  have h: "1 \<le> cf_TokenTTLHours cfg" "cf_TokenTTLHours cfg < 2 ^ 63" using LoadFromEnv_ok [OF assms] by (simp_all add: Config_ok_def)
  have t: "api_tokenTTL (app_api h cfg) = wrap64 (cf_TokenTTLHours cfg * 3600000000000)"
    by (simp add: app_api_def token_ttl_def time_Minute_def time_Second_def)
  have "wrap64 x \<noteq> x" if "2 ^ 63 \<le> x" for x using wrap64_bounds [of x] that by linarith
  moreover have "wrap64 x = x" if "0 \<le> x" "x < 2 ^ 63" for x using that by (simp add: wrap64_id)
  moreover have "wrap64 x = x - 2 ^ 64" if "2 ^ 63 \<le> x" "x < 2 ^ 64 + 2 ^ 63" for x
  proof -
    have "(x + 2 ^ 63) mod 2 ^ 64 = (x + 2 ^ 63 - 2 ^ 64) mod 2 ^ 64" by (rule minus_mod_self2 [symmetric])
    also have "\<dots> = x + 2 ^ 63 - 2 ^ 64" using that by (intro mod_pos_pos_trivial) simp_all
    finally show ?thesis by (simp add: wrap64_def)
  qed
  ultimately show ?thesis using h unfolding t
    by (cases "cf_TokenTTLHours cfg \<le> 2562047") (auto simp: not_le)
qed

lemma token_ttl_bounds_witness:
  "\<exists>cfg. LoadFromEnv (\<lambda>s. s) ''linux'' ((\<lambda>_. [])(''NUSANTARA_TOKEN_TTL_HOURS'' := ''2562048'')) = Inr cfg
     \<and> cf_TokenTTLHours cfg = 2562048 \<and> api_tokenTTL (app_api sample_host_info cfg) < 0"
proof -
  have "case LoadFromEnv (\<lambda>s. s) ''linux'' ((\<lambda>_. [])(''NUSANTARA_TOKEN_TTL_HOURS'' := ''2562048'')) of
      Inl _ \<Rightarrow> False | Inr cfg \<Rightarrow> cf_TokenTTLHours cfg = 2562048" by code_simp
  then obtain cfg where c: "LoadFromEnv (\<lambda>s. s) ''linux'' ((\<lambda>_. [])(''NUSANTARA_TOKEN_TTL_HOURS'' := ''2562048'')) = Inr cfg"
    "cf_TokenTTLHours cfg = 2562048" by (auto split: sum.splits)
  from token_ttl_bounds [OF c(1), of sample_host_info] c show ?thesis by auto
qed

subsection \<open>The login limiter as requests meet it\<close>

lemma forwarded_ip: "n \<noteq> 0 \<Longrightarrow> client_ip (r\<lparr>rq_ForwardedFor := replicate n CHR ''1''\<rparr>) = replicate n CHR ''1''"
proof -
  assume "n \<noteq> 0"
  have t: "TrimSpace (replicate n CHR ''1'') = replicate n CHR ''1''"
    by (rule TrimSpace_solid) (simp add: solid_def byte_def)
  moreover have "Split (replicate n CHR ''1'') (CHR '','') = [replicate n CHR ''1'']"
    by (rule Split_single) simp
  ultimately show ?thesis using \<open>n \<noteq> 0\<close> by (simp add: client_ip_def)
qed

text \<open>
  C30: a finding.  While the limiter blocks the key of a login request, the request is refused with 429:
  no password is checked, no token drawn, no file touched and nothing stored.  But the key is the
  address the request itself claims in the header \<open>X-Forwarded-For\<close>: whatever the limiter's state, the
  same request with another value of the header is let through, so the limiter does not bound the
  number of guesses of anybody who can reach the panel directly.
\<close>

theorem login_limit_and_bypass:
  assumes "decodeJSON [''username'', ''password''] r = Inr m" and "now = os_clock w (os_ticks w)"
  shows "(\<not> fst (Allow (loginLimitKey r (field m ''username'')) now (pn_limiter w)) \<longrightarrow>
      (\<exists>resp w'. api_handleLogin a r w = (Some resp, w') \<and> rs_Status resp = 429 \<and> rp_data w' = rp_data w
         \<and> os_fs w' = os_fs w \<and> os_draws w' = os_draws w))
    \<and> (\<exists>h. fst (Allow (loginLimitKey (r\<lparr>rq_ForwardedFor := h\<rparr>) (field m ''username'')) now (pn_limiter w)))"
proof (intro conjI impI)
  assume "\<not> fst (Allow (loginLimitKey r (field m ''username'')) now (pn_limiter w))"
  then show "\<exists>resp w'. api_handleLogin a r w = (Some resp, w') \<and> rs_Status resp = 429 \<and> rp_data w' = rp_data w
         \<and> os_fs w' = os_fs w \<and> os_draws w' = os_draws w"
    using assms
    by (auto simp: api_handleLogin_def with_body_def Let_def time_Now_def fail_def writeError_def writeJSON_def split: prod.split)
next
  let ?u = "ToLower (TrimSpace (field m ''username''))"
  define n where "n = Suc (fold max (map length (map fst (entries (pn_limiter w)))) 0)"
  have "length k < n" if "k \<in> fst ` set (entries (pn_limiter w))" for k
  proof -
    have "length k \<in> set (map length (map fst (entries (pn_limiter w))))" using that by auto
    then have "length k \<le> fold max (map length (map fst (entries (pn_limiter w)))) 0"
      by (metis List.finite_set Max.set_eq_fold Max_ge list.set_intros(2))
    then show ?thesis by (simp add: n_def)
  qed
  moreover have "n \<le> length (replicate n CHR ''1'' @ '':'' @ ?u)" by simp
  ultimately have "replicate n CHR ''1'' @ '':'' @ ?u \<notin> fst ` set (entries (pn_limiter w))" by (meson not_le)
  then have "mget (entries (pn_limiter w)) (replicate n CHR ''1'' @ '':'' @ ?u) = None" by (simp add: map_of_eq_None_iff)
  moreover have "loginLimitKey (r\<lparr>rq_ForwardedFor := replicate n CHR ''1''\<rparr>) (field m ''username'') = replicate n CHR ''1'' @ '':'' @ ?u"
    using forwarded_ip [of n r] by (simp add: loginLimitKey_def n_def)
  ultimately show "\<exists>h. fst (Allow (loginLimitKey (r\<lparr>rq_ForwardedFor := h\<rparr>) (field m ''username'')) now (pn_limiter w))"
    by (intro exI [of _ "replicate n CHR ''1''"]) (simp add: Allow_def)
qed

definition blocked_panel :: panel where
  "blocked_panel = sample_panel\<lparr>pn_limiter := (NewLoginLimiter 5 (5 * time_Minute))\<lparr>entries :=
     [(''10.0.0.1:admin'', \<lparr>failCount = 5, blockedUntil = 5 * time_Minute, lastAttempt = 0\<rparr>)]\<rparr>\<rparr>"

lemma login_limit_and_bypass_witness:
  "\<exists>h. fst (Allow (loginLimitKey ((sample_request ''POST'' [''v1'', ''auth'', ''login''] [])\<lparr>rq_ForwardedFor := h\<rparr>) ''admin'')
       0 (pn_limiter blocked_panel))
     \<and> \<not> fst (Allow (loginLimitKey (sample_request ''POST'' [''v1'', ''auth'', ''login''] []) ''admin'') 0 (pn_limiter blocked_panel))"
proof -
  let ?r = "(sample_request ''POST'' [''v1'', ''auth'', ''login''] [])\<lparr>rq_Body := ''{\"username\":\"admin\"}''\<rparr>"
  have "take body_limit (rq_Body ?r) = rq_Body ?r" by (simp add: body_limit_def)
  moreover have "case Parse (rq_Body ?r) of Some (JObj kvs) \<Rightarrow>
      (case read_fields [''username'', ''password''] kvs [] of None \<Rightarrow> False | Some m \<Rightarrow> field m ''username'' = ''admin'') | _ \<Rightarrow> False"
    by code_simp
  ultimately obtain m where m: "decodeJSON [''username'', ''password''] ?r = Inr m" "field m ''username'' = ''admin''"
    by (auto simp: decodeJSON_def split: option.splits json.splits)
  have c: "0 = os_clock blocked_panel (os_ticks blocked_panel)"
    by (simp add: blocked_panel_def sample_panel_defs)
  have k: "loginLimitKey (sample_request ''POST'' [''v1'', ''auth'', ''login''] []) ''admin'' = ''10.0.0.1:admin''" by code_simp
  have "\<not> fst (Allow ''10.0.0.1:admin'' 0 (pn_limiter blocked_panel))"
    by (simp add: Allow_def blocked_panel_def NewLoginLimiter_def time_Minute_def time_Second_def time_Sub_def)
  moreover obtain h where "fst (Allow (loginLimitKey (?r\<lparr>rq_ForwardedFor := h\<rparr>) ''admin'') 0 (pn_limiter blocked_panel))"
    using login_limit_and_bypass [OF m(1) c] m(2) by auto
  moreover have "loginLimitKey (?r\<lparr>rq_ForwardedFor := h\<rparr>) u = loginLimitKey ((sample_request ''POST'' [''v1'', ''auth'', ''login''] [])\<lparr>rq_ForwardedFor := h\<rparr>) u" for h u
    by (simp add: loginLimitKey_def client_ip_def sample_request_def Let_def split: option.split)
  ultimately show ?thesis by (auto simp: k)
qed

end
