(* ===== verification/BackupCycle.thy ===== *)
theory BackupCycle
  imports Daemon
begin

text \<open>
  What becomes of a copy of the state file (\<open>internal/backup\<close>): taking one, restoring it, and the
  restoration seen from the API.
\<close>

subsection \<open>Copying between plain directories, when no system call fails\<close>

lemma OpenRead_entry:
  assumes "quiet w" "plain_dir (os_fs w) ds" "good_seg c" "fsg w (ds @ [c]) = Some (File x)"
  shows "\<exists>w'. OpenRead (abs_path (ds @ [c])) w = (Inr (ds @ [c]), w') \<and> fsg w' = fsg w"
  using assms by (auto simp: OpenRead_def resolve_entry)

lemma OpenTruncate_entry:
  assumes "quiet w" "plain_dir (os_fs w) ds" "good_seg c"
    and "\<And>t. fsg w (ds @ [c]) \<noteq> Some (Symlink t)" "fsg w (ds @ [c]) \<noteq> Some Directory"
  shows "\<exists>w'. OpenTruncate (abs_path (ds @ [c])) w = (Inr (ds @ [c]), w') \<and> fsg w' = (fsg w)(ds @ [c] := Some (File []))"
  using assms by (auto simp: OpenTruncate_def fs_store_def fsg_put resolve_entry)

lemma io_Copy_ok:
  assumes "quiet w" "fsg w q = Some (File x)" "t \<noteq> []"
  shows "\<exists>w'. io_Copy p q tmp t w = (None, w') \<and> fsg w' = (fsg w)(t := Some (File x))"
  using assms by (auto simp: io_Copy_def write_at_def fs_store_def fsg_put)

lemma copyFile_ok:
  assumes "quiet w" "plain_dir (os_fs w) ds" "good_seg c" "plain_dir (os_fs w) es" "es \<noteq> []" "good_seg d"
    and "fsg w (ds @ [c]) = Some (File x)" "fsg w (es @ [d]) \<noteq> Some Directory" "fsg w (es @ [d @ ''.tmp'']) = None"
  shows "\<exists>w'. copyFile (abs_path (ds @ [c])) (abs_path (es @ [d])) w = (None, w') \<and> fsg w' = (fsg w)(es @ [d] := Some (File x))
    \<and> quiet w'"
proof -
  let ?t = "es @ [d @ ''.tmp'']"
  have t: "good_seg (d @ ''.tmp'')" and td: "d @ ''.tmp'' \<noteq> d" using assms(6) by (auto intro: good_seg_append simp: slash_def)
  have tq: "ds @ [c] \<noteq> ?t" using assms(7,9) by (metis option.distinct(1))
  have keep: "plain_dir (os_fs v) xs" if "plain_dir (os_fs w) xs" "fsg v = (fsg w)(?t := y)" for v :: "'a os_scheme" and xs y
    using plain_dir_upd [OF that(1) _ that(2)] assms(9) by simp
  obtain w1 where w1: "OpenRead (abs_path (ds @ [c])) w = (Inr (ds @ [c]), w1)" "fsg w1 = fsg w"
    using OpenRead_entry [OF assms(1,2,3,7)] by blast
  have q1: "quiet w1" "plain_dir (os_fs w1) es"
    using quiet_env [OF OpenRead_env [OF w1(1)] assms(1)] plain_dir_cong [OF assms(4), of "os_fs w1"] w1(2) by simp_all
  have dir: "Dir_of (abs_path (es @ [d])) = abs_path es"
    using Dir_of_abs_path [of es d] plain_dir_good [OF assms(4)] assms(6) by simp
  note mk = MkdirAll_existing [OF q1(2) assms(5)]
  obtain w2 where w2: "OpenTruncate (abs_path ?t) w1 = (Inr ?t, w2)" "fsg w2 = (fsg w)(?t := Some (File []))"
    using OpenTruncate_entry [OF q1 t] w1(2) assms(9) by auto
  have q2: "quiet w2" "fsg w2 (ds @ [c]) = Some (File x)"
    using quiet_env [OF os_env2(3) [OF w2(1)] q1(1)] w2(2) tq assms(7) by auto
  obtain w3 where w3: "io_Copy (abs_path (ds @ [c])) (ds @ [c]) (abs_path ?t) ?t w2 = (None, w3)"
      "fsg w3 = (fsg w2)(?t := Some (File x))"
    using io_Copy_ok [OF q2, of ?t] by blast
  have q3: "quiet w3" using quiet_env [OF io_Copy_env [OF w3(1)] q2(1)] .
  define w4 where "w4 = w3\<lparr>os_calls := Suc (os_calls w3)\<rparr>"
  have s: "sys w3 = (None, w4)" "quiet w4" "fsg w4 = (fsg w)(?t := Some (File x))"
    using q3 w3(2) w2(2) by (simp_all add: w4_def)
  obtain w5 where w5: "Rename (abs_path ?t) (abs_path (es @ [d])) w4 = (None, w5)"
      "fsg w5 = (fsg w4)(?t := None, es @ [d] := Some (File x))"
    using Rename_ok [OF s(2) keep [OF assms(4) s(3)] t assms(6) td, of x] s(3) assms(8) td by auto
  have "fsg w5 = (fsg w)(es @ [d] := Some (File x))" using w5(2) s(3) assms(9) by (auto simp: fun_eq_iff)
  moreover have "quiet w5" using quiet_env [OF os_env(8) [OF w5(1)] s(2)] .
  ultimately show ?thesis
    using w1(1) mk w2(1) w3(1) s(1) w5(1) by (simp add: copyFile_def dir abs_path_append Let_def)
qed

subsection \<open>A backup and its restoration\<close>

lemma set_pad_int: "c \<in> set (pad_int k n) \<Longrightarrow> is_digit c \<or> c = CHR ''-''"
  using set_show_nat by (auto simp: pad_int_def Let_def is_digit_def byte_def split: if_splits)

lemma backup_name_good: "good_seg (backup_name t)" "\<exists>m. backup_name t = m @ [CHR ''n'']"
proof -
  have "slash \<notin> set (pad_int k n)" for k n using set_pad_int [of slash k n] by (auto simp: is_digit_def slash_def byte_def)
  then have "slash \<notin> set (backup_name t)"
    by (auto simp: backup_name_def Format_stamp_def Let_def slash_def split: prod.split)
  then show "good_seg (backup_name t)" by (simp add: good_seg_def backup_name_def)
  show "\<exists>m. backup_name t = m @ [CHR ''n'']" by (simp add: backup_name_def)
qed

lemma Trim_backup_path:
  assumes "bs \<noteq> []"
  shows "TrimSpace (abs_path (bs @ [backup_name t])) = abs_path (bs @ [backup_name t])"
proof -
  obtain m where m: "backup_name t = m @ [CHR ''n'']" using backup_name_good(2) by blast
  have "abs_path (bs @ [backup_name t]) = slash # (Join bs [slash] @ [slash] @ m) @ [CHR ''n'']"
    using Join_append [of bs "[backup_name t]" "[slash]"] assms by (simp add: abs_path_def m)
  then show ?thesis using TrimSpace_ends [of slash "CHR ''n''" "Join bs [slash] @ [slash] @ m"] by (simp add: solid_def slash_def byte_def)
qed

lemma Restore_ok:
  assumes "quiet w" "bk_apply s" "bk_stateFile s = abs_path (ds @ [c])" "bk_backupDir s = abs_path bs"
    and "plain_dir (os_fs w) ds" "ds \<noteq> []" "good_seg c" "plain_dir (os_fs w) bs" "bs \<noteq> []"
    and "fsg w (bs @ [backup_name t]) = Some (File x)" "fsg w (ds @ [c]) \<noteq> Some Directory" "fsg w (ds @ [c @ ''.tmp'']) = None"
  shows "\<exists>w'. backup_Restore s None (abs_path (bs @ [backup_name t])) w = (None, w')
    \<and> fsg w' = (fsg w)(ds @ [c] := Some (File x)) \<and> quiet w'"
proof -
  let ?f = "abs_path (bs @ [backup_name t])"
  have g: "list_all good_seg (bs @ [backup_name t])" "list_all good_seg bs"
    using plain_dir_good [OF assms(8)] backup_name_good by simp_all
  have abs: "Abs (cwd_path w) ?f = ?f" "Abs (cwd_path w) (abs_path bs) = abs_path bs"
    using g by (simp_all add: Abs_def)
  have "prefix (abs_path bs @ [slash]) ?f" using prefix_abs_path_iff [OF g(2,1) assms(9)] by (simp add: strict_prefix_def)
  then have inside: "in_backup_dir (abs_path bs) ?f" by (simp add: in_backup_dir_def HasPrefix_def)
  obtain w1 where w1: "Stat ?f w = (Inr (File x), w1)" "fsg w1 = fsg w"
    using assms(1) resolve_entry [OF assms(8) backup_name_good(1), of True t] assms(10)
    by (auto simp: Stat_def look_def)
  have q1: "quiet w1" "plain_dir (os_fs w1) ds" "plain_dir (os_fs w1) bs"
    using quiet_env [OF os_env(1) [OF w1(1)] assms(1)] plain_dir_cong [OF assms(5)] plain_dir_cong [OF assms(8)] w1(2) by simp_all
  obtain w2 where w2: "copyFile ?f (abs_path (ds @ [c])) w1 = (None, w2)" "fsg w2 = (fsg w1)(ds @ [c] := Some (File x))" "quiet w2"
    using copyFile_ok [OF q1(1,3) backup_name_good(1) q1(2) assms(6,7)] assms(10-12) w1(2) by auto
  have "?f \<noteq> []" by (simp add: abs_path_def)
  then show ?thesis
    using w1 w2 inside assms(2-4)
    by (simp add: backup_Restore_def Trim_backup_path [OF assms(9)] abs Let_def)
qed

text \<open>
  C28: a backup can be restored.  When the operating system does not fail and the directories are plain
  ones, \<open>Run\<close> puts a copy of the state file under the name it returns, and changes nothing else;
  whatever happens to the state file later, as long as that copy is left alone, \<open>Restore\<close> with that
  name brings the state file back to what it was at the time of \<open>Run\<close>, byte by byte, and changes
  nothing else.
\<close>

theorem backup_Run_Restore:
  assumes "quiet w" "bk_apply s" "bk_stateFile s = abs_path (ds @ [c])" "bk_backupDir s = abs_path bs"
    and "TrimSpace (bk_stateFile s) \<noteq> []" "TrimSpace (bk_backupDir s) \<noteq> []"
    and "plain_dir (os_fs w) ds" "ds \<noteq> []" "good_seg c" "plain_dir (os_fs w) bs" "bs \<noteq> []"
    and "fsg w (ds @ [c]) = Some (File x)"
    and "name = backup_name (os_clock w (os_ticks w))" "fsg w (bs @ [name]) \<noteq> Some Directory" "fsg w (bs @ [name @ ''.tmp'']) = None"
  shows "\<exists>res w1. backup_Run s None w = (Inr res, w1) \<and> br_File res = abs_path (bs @ [name])
    \<and> fsg w1 = (fsg w)(bs @ [name] := Some (File x))
    \<and> (\<forall>w2 :: 'a os_scheme. quiet w2 \<and> plain_dir (os_fs w2) ds \<and> plain_dir (os_fs w2) bs \<and> fsg w2 (bs @ [name]) = Some (File x)
         \<and> fsg w2 (ds @ [c]) \<noteq> Some Directory \<and> fsg w2 (ds @ [c @ ''.tmp'']) = None \<longrightarrow>
         (\<exists>w3. backup_Restore s None (br_File res) w2 = (None, w3) \<and> fsg w3 = (fsg w2)(ds @ [c] := Some (File x))))"
proof -
  let ?v = "w\<lparr>os_ticks := Suc (os_ticks w)\<rparr>"
  have v: "quiet ?v" "plain_dir (os_fs ?v) ds" "plain_dir (os_fs ?v) bs" using assms(1,7,10) by (simp_all add: quiet_def)
  obtain w1 where w1: "copyFile (abs_path (ds @ [c])) (abs_path (bs @ [name])) ?v = (None, w1)"
      "fsg w1 = (fsg w)(bs @ [name] := Some (File x))"
    using copyFile_ok [OF v(1,2) assms(9) v(3) assms(11), of name x] assms(12-15) backup_name_good(1) by auto
  have "IsAbs (abs_path bs)" by simp
  then have "PathJoin [abs_path bs, name] = abs_path (bs @ [name])"
    using PathJoin_abs_name [of "abs_path bs" name] backup_name_good(1) assms(13) plain_dir_good [OF assms(10)] by simp
  then have "backup_Run s None w = (Inr \<lparr>br_File = abs_path (bs @ [name]), br_CreatedAt = os_clock w (os_ticks w)\<rparr>, w1)"
    using assms(2-6,13) w1(1) MkdirAll_existing [OF v(3) assms(11)] by (simp add: backup_Run_def time_Now_def Let_def)
  moreover have "\<exists>w3. backup_Restore s None (abs_path (bs @ [name])) w2 = (None, w3) \<and> fsg w3 = (fsg w2)(ds @ [c] := Some (File x))"
    if "quiet w2" "plain_dir (os_fs w2) ds" "plain_dir (os_fs w2) bs" "fsg w2 (bs @ [name]) = Some (File x)"
      "fsg w2 (ds @ [c]) \<noteq> Some Directory" "fsg w2 (ds @ [c @ ''.tmp'']) = None" for w2 :: "'a os_scheme"
    using Restore_ok [OF that(1) assms(2-4) that(2) assms(8,9) that(3) assms(11) that(4) [unfolded assms(13)] that(5,6)]
    unfolding assms(13) by blast
  ultimately show ?thesis using w1(2) by (intro exI [of _ "\<lparr>br_File = abs_path (bs @ [name]), br_CreatedAt = os_clock w (os_ticks w)\<rparr>"] exI [of _ w1]) simp
qed

text \<open>
  C29: a finding.  The restoration does not last.  The daemon keeps its old data in memory, and the
  record of the restoration in the audit trail is saved at once: when the endpoint answers with
  success, the state file again holds the data in memory, whatever was in the backup.
\<close>

theorem api_restore_undone:
  fixes w :: "'a panel_scheme"
  assumes "quiet w" "api_backup a = Some s" "bk_apply s" "bk_stateFile s = abs_path (ds @ [c])" "bk_backupDir s = abs_path bs"
    and "rp_path w = bk_stateFile s" "plain_dir (os_fs w) ds" "ds \<noteq> []" "good_seg c" "plain_dir (os_fs w) bs" "bs \<noteq> []"
    and "fsg w (bs @ [backup_name t]) = Some (File x)" "fsg w (ds @ [c]) \<noteq> Some Directory" "fsg w (ds @ [c @ ''.tmp'']) = None"
    and "decodeJSON [''file''] r = Inr m" "field m ''file'' = abs_path (bs @ [backup_name t])" "rq_done r = None"
    and "\<And>d. \<exists>raw. rp_marshal w d = Inr raw"
  shows "\<exists>resp w'. api_handleRestoreBackup a u r w = (Some resp, w') \<and> rs_Status resp = 200
    \<and> fsg w' (ds @ [c]) = Some (File (projr (rp_marshal w (rp_data w'))))
    \<and> Users (rp_data w') = Users (rp_data w) \<and> Sites (rp_data w') = Sites (rp_data w)"
proof -
  obtain w1 where w1: "backup_Restore s None (field m ''file'') w = (None, w1)" "fsg w1 = (fsg w)(ds @ [c] := Some (File x))" "quiet w1"
    using Restore_ok [OF assms(1,3-5,7-12) assms(13,14)] assms(16) by auto
  have env: "rp_path w1 = rp_path w" "rp_data w1 = rp_data w" "rp_marshal w1 = rp_marshal w"
    using same_rest_repo [of w w1] backup_Restore_env [OF w1(1)] by (simp_all add: same_rest_env_of)
  have dir: "plain_dir (os_fs w1) ds" using plain_dir_upd [OF assms(7,13) w1(2)] .
  define w' where "w' = audit_Record (user_ID u) ''backup.restore'' ''file'' (field m ''file'') None w1"
  define v where "v = (w1\<lparr>os_ticks := Suc (os_ticks w1)\<rparr>)\<lparr>rp_data := rp_data w'\<rparr>"
  have saved: "w' = snd (repo_save v)"
    by (simp add: w'_def v_def audit_Record_def time_Now_def repo_CreateAuditLog_def Let_def audit_Record_data repo_frame)
  have fv: "fsg v = fsg w1" "rp_path v = abs_path (ds @ [c])" "rp_marshal v = rp_marshal w" "rp_data v = rp_data w'" "quiet v"
    using env assms(4,6) w1(3) by (simp_all add: v_def quiet_def)
  obtain raw where raw: "rp_marshal w (rp_data w') = Inr raw" using assms(18) by blast
  have dv: "plain_dir (os_fs v) ds" using dir by (simp add: v_def)
  have enc: "rp_marshal v (rp_data v) = Inr raw" using raw fv by simp
  have tmp: "fsg v (ds @ [c @ ''.tmp'']) = None" using fv(1) w1(2) assms(14) by simp
  have ok: "fst (repo_save v) = None"
    using repo_save_succeeds [OF dv assms(9) fv(2) enc] tmp fv(1) w1(2) fv(5) by (simp add: quiet_def)
  then obtain y where y: "repo_save v = (None, y)" by (metis prod.collapse)
  have "fsg w' (ds @ [c]) = Some (File raw)"
    using repo_save_entry(1) [OF dv assms(9) fv(2) enc _ y] tmp saved y by simp
  moreover have "Users (rp_data w') = Users (rp_data w)" "Sites (rp_data w') = Sites (rp_data w)"
    using env(2) by (simp_all add: w'_def audit_Record_data)
  ultimately show ?thesis
    using w1(1) assms(2,15,17) raw by (simp add: api_handleRestoreBackup_def with_body_def ok_def writeJSON_def w'_def)
qed

subsection \<open>The properties at a concrete panel\<close>

definition backup_dirs :: fs where
  "backup_dirs = [([''srv''], Directory), ([''srv'', ''state.json''], File ''old''), ([''b''], Directory)]"

definition sample_backup :: BackupService where
  "sample_backup = \<lparr>bk_apply = True, bk_stateFile = ''/srv/state.json'', bk_backupDir = ''/b''\<rparr>"

lemma sample_backup_dirs:
  assumes "fs_get m [''srv''] = Some Directory" "fs_get m [''b''] = Some Directory"
  shows "plain_dir m [''srv'']" "plain_dir m [''b'']" "good_seg ''state.json''"
    "bk_stateFile sample_backup = abs_path ([''srv''] @ [''state.json''])" "bk_backupDir sample_backup = abs_path [''b'']"
  using assms by (simp_all add: plain_dir_def good_seg_def slash_def fs_get_def abs_path_def sample_backup_def)

lemma backup_Run_Restore_witness:
  "\<exists>res w1. backup_Run sample_backup None (sample_repo\<lparr>os_fs := backup_dirs\<rparr>) = (Inr res, w1)
     \<and> (\<exists>w3. backup_Restore sample_backup None (br_File res) (w1\<lparr>os_fs := mput [''srv'', ''state.json''] (File ''new'') (os_fs w1)\<rparr>) = (None, w3)
          \<and> fsg w3 [''srv'', ''state.json''] = Some (File ''old''))"
proof -
  let ?w = "sample_repo\<lparr>os_fs := backup_dirs\<rparr>" and ?n = "backup_name 0"
  have dirs: "fsg ?w [''srv''] = Some Directory" "fsg ?w [''b''] = Some Directory" by (simp_all add: fs_get_def backup_dirs_def)
  note d = sample_backup_dirs [OF dirs]
  have q: "quiet ?w" "bk_apply sample_backup" by (simp_all add: quiet_def sample_repo_def sample_backup_def)
  have trim: "TrimSpace (bk_stateFile sample_backup) \<noteq> []" "TrimSpace (bk_backupDir sample_backup) \<noteq> []" by code_simp+
  have x: "fsg ?w ([''srv''] @ [''state.json'']) = Some (File ''old'')" by (simp add: fs_get_def backup_dirs_def)
  have n: "?n = backup_name (os_clock ?w (os_ticks ?w))" by (simp add: sample_repo_def)
  have t: "fsg ?w ([''b''] @ [?n]) \<noteq> Some Directory" "fsg ?w ([''b''] @ [?n @ ''.tmp'']) = None" by (simp_all add: fs_get_def backup_dirs_def)
  from backup_Run_Restore [OF q d(4,5) trim d(1) _ d(3,2) _ x n t] obtain res w1 where r:
    "backup_Run sample_backup None ?w = (Inr res, w1)" "fsg w1 = (fsg ?w)([''b''] @ [?n] := Some (File ''old''))"
    and later: "\<And>w2 :: repo. quiet w2 \<Longrightarrow> plain_dir (os_fs w2) [''srv''] \<Longrightarrow> plain_dir (os_fs w2) [''b''] \<Longrightarrow>
      fsg w2 ([''b''] @ [?n]) = Some (File ''old'') \<Longrightarrow> fsg w2 ([''srv''] @ [''state.json'']) \<noteq> Some Directory \<Longrightarrow>
      fsg w2 ([''srv''] @ [''state.json'' @ ''.tmp'']) = None \<Longrightarrow>
      \<exists>w3. backup_Restore sample_backup None (br_File res) w2 = (None, w3) \<and> fsg w3 = (fsg w2)([''srv''] @ [''state.json''] := Some (File ''old''))"
    by auto
  let ?w2 = "w1\<lparr>os_fs := mput [''srv'', ''state.json''] (File ''new'') (os_fs w1)\<rparr>"
  have f: "fsg ?w2 = (fsg w1)([''srv'', ''state.json''] := Some (File ''new''))" by (simp add: fsg_put)
  have "fsg ?w2 [''srv''] = Some Directory" "fsg ?w2 [''b''] = Some Directory" unfolding f r(2) using dirs by simp_all
  note d2 = sample_backup_dirs [OF this]
  have q2: "quiet ?w2" using quiet_env [OF backup_Run_env [OF r(1)] q(1)] by simp
  have "\<exists>w3. backup_Restore sample_backup None (br_File res) ?w2 = (None, w3) \<and> fsg w3 = (fsg ?w2)([''srv''] @ [''state.json''] := Some (File ''old''))"
    by (rule later [OF q2 d2(1,2)]) (unfold f r(2), simp_all add: fs_get_def backup_dirs_def)
  then show ?thesis using r(1) by auto
qed

definition restore_panel :: panel where
  "restore_panel = sample_panel\<lparr>os_fs := backup_dirs @ [([''b'', backup_name 0], File ''older'')]\<rparr>"

lemma api_restore_undone_witness:
  "\<exists>r resp w'. api_handleRestoreBackup sample_api sample_auth_user r restore_panel = (Some resp, w') \<and> rs_Status resp = 200
     \<and> fsg w' [''srv'', ''state.json''] = Some (File ''state'')"
proof -
  let ?r = "(sample_request ''POST'' [''v1'', ''backup'', ''restore''] ''adm'')
    \<lparr>rq_Body := ''{\"file\":\"/b/nusantara_state_19700101_000000.json\"}''\<rparr>"
  let ?f = "abs_path ([''b''] @ [backup_name 0])"
  have fname: "?f = ''/b/nusantara_state_19700101_000000.json''" by code_simp
  have "take body_limit (rq_Body ?r) = rq_Body ?r" by (simp add: body_limit_def)
  moreover have "case Parse (rq_Body ?r) of Some (JObj kvs) \<Rightarrow>
      (case read_fields [''file''] kvs [] of None \<Rightarrow> False | Some m \<Rightarrow> field m ''file'' = ''/b/nusantara_state_19700101_000000.json'') | _ \<Rightarrow> False"
    by code_simp
  ultimately obtain m where m0: "decodeJSON [''file''] ?r = Inr m" "field m ''file'' = ''/b/nusantara_state_19700101_000000.json''"
    by (auto simp: decodeJSON_def split: option.splits json.splits)
  have m: "decodeJSON [''file''] ?r = Inr m" "field m ''file'' = ?f" by (simp_all only: m0 fname)
  have dirs: "fsg restore_panel [''srv''] = Some Directory" "fsg restore_panel [''b''] = Some Directory"
    by (simp_all add: fs_get_def backup_dirs_def restore_panel_def)
  note d = sample_backup_dirs [OF dirs]
  have q: "quiet restore_panel" "api_backup sample_api = Some sample_backup" "bk_apply sample_backup"
    "rp_path restore_panel = bk_stateFile sample_backup" "rq_done ?r = None"
    by (simp_all add: quiet_def restore_panel_def sample_panel_defs sample_api_def sample_backup_def sample_request_def)
  have x: "fsg restore_panel ([''b''] @ [backup_name 0]) = Some (File ''older'')"
    "fsg restore_panel ([''srv''] @ [''state.json'']) \<noteq> Some Directory" "fsg restore_panel ([''srv''] @ [''state.json'' @ ''.tmp'']) = None"
    by (simp_all add: fs_get_def backup_dirs_def restore_panel_def)
  have marshal: "rp_marshal restore_panel d = Inr ''state''" for d by (simp add: restore_panel_def sample_panel_defs)
  from api_restore_undone [OF q(1,2,3) d(4,5) q(4) d(1) _ d(3,2) _ x m q(5), of sample_auth_user]
  show ?thesis by (simp add: marshal) blast
qed

end
