(* ===== verification/SiteArchive.thy ===== *)
theory SiteArchive
  imports BackupCycle
begin

text \<open>
  The archive of a site's content (\<open>zipDirectory\<close> and \<open>BackupSiteContent\<close> of
  \<open>internal/service/sites/service.go\<close>): the walk over the site's directory ends, and what it stores is the
  tree, all of it.
\<close>

subsection \<open>File systems and paths\<close>

text \<open>
  A file system as a kernel keeps it: every entry is under its own path, has a name that can be one, and
  is in a directory.
\<close>

definition tree_ok :: "fs \<Rightarrow> bool" where
  "tree_ok m \<longleftrightarrow> distinct (map fst m)
     \<and> (\<forall>q n. (q, n) \<in> set m \<longrightarrow> q \<noteq> [] \<and> good_seg (last q) \<and> fs_get m (butlast q) = Some Directory)"

lemma tree_ok_entry:
  assumes "tree_ok m" "fs_get m q = Some n" "q \<noteq> []"
  shows "good_seg (last q)" "fs_get m (butlast q) = Some Directory"
proof -
  have "(q, n) \<in> set m" using assms(2,3) by (simp add: fs_get_def map_of_SomeD)
  then show "good_seg (last q)" "fs_get m (butlast q) = Some Directory" using assms(1) by (auto simp: tree_ok_def)
qed

lemma fs_depth_bound:
  assumes "fs_get m q = Some n" shows "length q < fs_depth m"
proof -
  have "length q \<le> fold (\<lambda>(q, _) n. max (length q) n) m k" if "(q, n) \<in> set m \<or> length q \<le> k" for k
    using that by (induction m arbitrary: k) (auto split: prod.splits, fastforce+)
  moreover have "(q, n) \<in> set m \<or> length q \<le> 0" using assms map_of_SomeD by (cases "q = []") (auto simp: fs_get_def)
  ultimately have "length q \<le> fold (\<lambda>(q, _) n. max (length q) n) m 0" by blast
  then show ?thesis by (simp add: fs_depth_def)
qed

text \<open>A directory's children are the entries one component below it.\<close>

lemma fs_children_names:
  assumes "tree_ok m"
  shows "distinct (map fst (fs_children m q))"
    and "c \<in> fst ` set (fs_children m q) \<longleftrightarrow> fs_get m (q @ [c]) \<noteq> None"
    and "c \<in> fst ` set (fs_children m q) \<Longrightarrow> good_seg c"
proof -
  let ?l = "filter (\<lambda>(p, n). p \<noteq> [] \<and> butlast p = q) m"
  have inj: "inj_on last (set (map fst ?l))"
    by (auto simp: inj_on_def) (metis append_butlast_last_id)
  have "distinct (map fst ?l)" using assms by (simp add: tree_ok_def distinct_map_filter)
  then have "distinct (map last (map fst ?l))" using inj by (simp add: distinct_map del: map_map)
  moreover have "map fst (map (\<lambda>(p, n). (last p, n)) ?l) = map last (map fst ?l)" by auto
  moreover have "distinct (map fst (sort_key fst l)) = distinct (map fst l)" for l :: "(string \<times> node) list"
    by (simp add: distinct_map)
  ultimately show "distinct (map fst (fs_children m q))" by (simp only: fs_children_def)
  have s: "fst ` set (fs_children m q) = {c. \<exists>n. (q @ [c], n) \<in> set m}"
  proof -
    have "(\<exists>p n. (p, n) \<in> set m \<and> p \<noteq> [] \<and> butlast p = q \<and> c = last p) \<longleftrightarrow> (\<exists>n. (q @ [c], n) \<in> set m)" for c
      by (metis append_butlast_last_id append_is_Nil_conv butlast_snoc last_snoc not_Cons_self2)
    then show ?thesis by (force simp: fs_children_def)
  qed
  have d: "distinct (map fst m)" using assms by (simp add: tree_ok_def)
  show mem: "c \<in> fst ` set (fs_children m q) \<longleftrightarrow> fs_get m (q @ [c]) \<noteq> None"
    using map_of_eq_Some_iff [OF d] unfolding s by (auto simp: fs_get_def)
  show "good_seg c" if "c \<in> fst ` set (fs_children m q)"
    using tree_ok_entry(1) [OF assms, of "q @ [c]"] that mem by auto
qed

text \<open>Where an entry of a directory is, however the directory was reached.\<close>

lemma walk_child:
  assumes "walk n m True at cs = Inr q" "fs_get m q = Some Directory" "good_seg c"
    and "\<not> f \<or> (\<forall>t. fs_get m (q @ [c]) \<noteq> Some (Symlink t))"
  shows "walk n m f at (cs @ [c]) = Inr (q @ [c])"
  using assms
proof (induction n m True at cs rule: walk.induct)
  case (1 n m at)
  then show ?case by (auto simp: walk.simps(2) good_seg_def split: option.split node.split)
next
  case (2 n m at x cs)
  consider "x = [] \<or> x = ''.''" | "x = ''..''" | "x \<noteq> []" "x \<noteq> ''.''" "x \<noteq> ''..''" by blast
  then show ?case
  proof cases
    case 3
    show ?thesis
    proof (cases "fs_get m (at @ [x])")
      case None
      with 3 2 show ?thesis by (auto simp: walk.simps(2) split: if_splits)
    next
      case (Some nd)
      show ?thesis
      proof (cases nd)
        case (Symlink t)
        with 3 2 Some show ?thesis by (cases n) (simp_all add: walk.simps(2))
      qed (use 3 2 Some in \<open>auto simp: walk.simps(2) split: if_splits\<close>)
    qed
  qed (use 2 in \<open>auto simp: walk.simps(2)\<close>)
qed

lemma resolve_child:
  assumes "IsAbs p" "Clean p = p" "resolve True p w = Inr q" "fs_get (os_fs w) q = Some Directory" "good_seg c"
    and "\<not> f \<or> (\<forall>t. fs_get (os_fs w) (q @ [c]) \<noteq> Some (Symlink t))"
  shows "resolve f (PathJoin [p, c]) w = Inr (q @ [c])" "IsAbs (PathJoin [p, c])" "Clean (PathJoin [p, c]) = PathJoin [p, c]"
proof -
  have g: "list_all good_seg (segs p)" by (rule segs_good [OF assms(1)])
  have p: "p = abs_path (segs p)" using Clean_abs [OF assms(1)] assms(2) by simp
  have j: "PathJoin [p, c] = abs_path (segs p @ [c])" by (rule PathJoin_abs_name [OF assms(1,5)])
  have res: "resolve h (abs_path ss) w = walk 40 (os_fs w) h [] ss" if "list_all good_seg ss" for h ss
  proof (cases "ss = []")
    case True
    then show ?thesis by (simp add: resolve_def abs_path_def IsAbs_def walk_skip)
  next
    case False
    have "abs_path ss \<noteq> []" by (simp add: abs_path_def)
    then show ?thesis by (simp add: resolve_def Split_abs_path [OF that False] walk_skip)
  qed
  have "walk 40 (os_fs w) True [] (segs p) = Inr q" using assms(3) res [OF g] p by metis
  from walk_child [OF this assms(4,5,6)] show "resolve f (PathJoin [p, c]) w = Inr (q @ [c])"
    using res [of "segs p @ [c]" f] g assms(5) by (simp add: j)
  show "IsAbs (PathJoin [p, c])" "Clean (PathJoin [p, c]) = PathJoin [p, c]" using g assms(5) by (simp_all add: j)
qed

subsection \<open>The walk ends\<close>

lemma walk_final_name:
  "walk n m False at (cs @ [c]) = Inr loc \<Longrightarrow> good_seg c \<Longrightarrow> \<exists>q. loc = q @ [c]"
proof (induction n m False at "cs @ [c]" arbitrary: cs rule: walk.induct)
  case (2 n m at x ys)
  show ?case
  proof (cases cs)
    case Nil
    with 2 show ?thesis by (auto simp: walk.simps(2) good_seg_def split: option.splits node.splits)
  next
    case (Cons y zs)
    with 2 have "x = y" "ys = zs @ [c]" by simp_all
    with 2 Cons show ?thesis
      by (auto simp: walk.simps(2) split: if_splits option.splits node.splits nat.splits)
  qed
qed auto

lemma walk_directory:
  "walk n m False at cs = Inr q \<Longrightarrow> fs_get m q = Some Directory \<Longrightarrow> walk n m True at cs = Inr q"
proof (induction n m False at cs rule: walk.induct)
  case IH: (2 n m at x ys)
  consider "x = [] \<or> x = ''.'' \<or> x = ''..''" | "x \<noteq> []" "x \<noteq> ''.''" "x \<noteq> ''..''" by blast
  then show ?case
  proof cases
    case 2
    show ?thesis
    proof (cases "fs_get m (at @ [x])")
      case None
      with 2 IH show ?thesis by (auto simp: walk.simps(2) split: if_splits)
    next
      case (Some nd)
      with 2 IH show ?thesis
        by (cases nd; cases n; cases "ys = []") (simp_all add: walk.simps(2))
    qed
  qed (use IH in \<open>auto simp: walk.simps(2)\<close>)
qed simp

lemma resolve_directory:
  "resolve False p w = Inr q \<Longrightarrow> fs_get (os_fs w) q = Some Directory \<Longrightarrow> resolve True p w = Inr q"
  by (auto simp: resolve_def walk_directory split: if_splits)

lemma resolve_same_fs: "IsAbs p \<Longrightarrow> os_fs w' = os_fs w \<Longrightarrow> resolve f p w' = resolve f p w"
  by (simp add: resolve_def)

lemma read_fs:
  "ReadDir p w = (r1, w') \<Longrightarrow> os_fs w' = os_fs w"
  "Lstat p w = (r2, w') \<Longrightarrow> os_fs w' = os_fs w"
  "Stat p w = (r2, w') \<Longrightarrow> os_fs w' = os_fs w"
  "ReadFile p w = (r3, w') \<Longrightarrow> os_fs w' = os_fs w"
  by (auto simp: ReadDir_def Lstat_def Stat_def ReadFile_def sys_def split: option.splits)

definition files_of where
  "files_of w = os_fs w"

lemma zip_walk_files:
  "zip_walk n p rel nd w = (r, w') \<Longrightarrow> files_of w' = files_of w"
  "zip_names n p rel ns w = (r, w') \<Longrightarrow> files_of w' = files_of w"
  by (induction n p rel nd w and n p rel ns w arbitrary: r w' and r w' rule: zip_walk_zip_names.induct)
    (auto dest!: read_fs [folded files_of_def] split: prod.splits sum.splits if_splits)

lemmas zip_walk_fs = zip_walk_files [unfolded files_of_def]

lemma ReadDir_Inr:
  "ReadDir p w = (Inr es, w') \<Longrightarrow> resolve True p w = Inr q \<Longrightarrow> es = fs_children (os_fs w) q"
  by (auto simp: ReadDir_def sys_def split: option.splits node.splits)

lemma Lstat_Inr:
  "Lstat p w = (Inr nd, w') \<Longrightarrow> \<exists>q. resolve False p w = Inr q \<and> fs_get (os_fs w) q = Some nd"
  by (auto simp: Lstat_def look_def sys_def split: option.splits sum.splits)

lemma zip_more_fuel:
  "tree_ok (os_fs w) \<Longrightarrow> IsAbs p \<Longrightarrow> Clean p = p \<Longrightarrow>
     (nd = Directory \<Longrightarrow> \<exists>q. resolve True p w = Inr q \<and> fs_get (os_fs w) q = Some Directory \<and> fs_depth (os_fs w) \<le> n + length q) \<Longrightarrow>
     zip_walk (Suc n) p rel nd w = zip_walk n p rel nd w"
  "tree_ok (os_fs w) \<Longrightarrow> IsAbs p \<Longrightarrow> (\<forall>c\<in>set ns. good_seg c) \<Longrightarrow>
     (\<forall>c\<in>set ns. \<forall>loc. resolve False (PathJoin [p, c]) w = Inr loc \<longrightarrow> fs_get (os_fs w) loc = Some Directory \<longrightarrow>
       fs_depth (os_fs w) \<le> n + length loc) \<Longrightarrow>
     zip_names (Suc n) p rel ns w = zip_names n p rel ns w"
proof (induction n p rel nd w and n p rel ns w rule: zip_walk_zip_names.induct)
  case (3 p rel w)
  then obtain q where "fs_get (os_fs w) q = Some Directory" "fs_depth (os_fs w) \<le> length q" by auto
  then show ?case using fs_depth_bound [of "os_fs w" q] by fastforce
next
  case (4 n p rel w)
  then obtain q where q: "resolve True p w = Inr q" "fs_get (os_fs w) q = Some Directory" "fs_depth (os_fs w) \<le> Suc n + length q"
    by auto
  show ?case
  proof (cases "ReadDir p w")
    case (Pair r v)
    show ?thesis
    proof (cases r)
      case (Inr es)
      have v: "os_fs v = os_fs w" by (rule read_fs(1) [OF Pair])
      have es: "es = fs_children (os_fs w) q" using ReadDir_Inr [OF Pair [unfolded Inr] q(1)] .
      have good: "\<forall>c\<in>set (map fst es). good_seg c" using fs_children_names(3) [OF 4(2)] es by auto
      have "resolve False (PathJoin [p, c]) v = Inr (q @ [c])" if "good_seg c" for c
        using resolve_child(1,2) [OF 4(3,4) q(1,2) that, of False] resolve_same_fs [of "PathJoin [p, c]" v w False] v by simp
      then have "zip_names (Suc n) p rel (map fst es) v = zip_names n p rel (map fst es) v"
        using 4(1) [OF Pair [symmetric] Inr] 4(2,3) good q(3) v by auto
      then show ?thesis by (simp add: Pair Inr)
    qed (simp add: Pair)
  qed
next
  case (6 n p rel c cs w)
  show ?case
  proof (cases "Lstat (PathJoin [p, c]) w")
    case (Pair r v)
    show ?thesis
    proof (cases r)
      case (Inr nd)
      let ?p = "PathJoin [p, c]" and ?rel = "if rel = [] then c else rel @ slash # c"
      have c: "good_seg c" using 6 by simp
      have j: "IsAbs ?p" "Clean ?p = ?p" using PathJoin_abs_name [OF 6(4) c] segs_good [OF 6(4)] c by simp_all
      have v: "os_fs v = os_fs w" by (rule read_fs(2) [OF Pair])
      obtain loc where loc: "resolve False ?p w = Inr loc" "fs_get (os_fs w) loc = Some nd"
        using Lstat_Inr [OF Pair [unfolded Inr]] by blast
      have "zip_walk (Suc n) ?p ?rel nd v = zip_walk n ?p ?rel nd v"
      proof (rule 6(1) [OF Pair [symmetric] Inr _ j])
        show "\<exists>q. resolve True ?p v = Inr q \<and> fs_get (os_fs v) q = Some Directory \<and> fs_depth (os_fs v) \<le> n + length q"
          if "nd = Directory"
          using that loc 6(6) resolve_directory [OF loc(1)] resolve_same_fs [OF j(1) v] v by auto
      qed (use 6(3) v in simp)
      moreover have "zip_names (Suc n) p rel cs u = zip_names n p rel cs u" if z: "zip_walk n ?p ?rel nd v = (Inr ms, u)" for ms u
      proof -
        have u: "os_fs u = os_fs w" using zip_walk_fs(1) [OF z] v by simp
        have "resolve False (PathJoin [p, d]) u = resolve False (PathJoin [p, d]) w" if "good_seg d" for d
          using resolve_same_fs [OF _ u] PathJoin_abs_name [OF 6(4) that] segs_good [OF 6(4)] by simp
        then show ?thesis using 6(2) [OF Pair [symmetric] Inr z [symmetric]] 6(3-6) u by simp
      qed
      moreover obtain z u where zu: "zip_walk n ?p ?rel nd v = (z, u)" by fastforce
      ultimately show ?thesis by (cases z) (simp_all add: Pair Inr)
    qed (simp add: Pair)
  qed
qed auto


subsection \<open>The archive is the tree\<close>

text \<open>
  What an archive of the tree at \<open>q\<close> holds, for names that begin with the components \<open>rs\<close>: every file with
  its content and every directory with a slash after its name.
\<close>

definition member_name :: "string list \<Rightarrow> string" where
  "member_name us = Join us [slash]"

definition tree_members :: "fs \<Rightarrow> string list \<Rightarrow> string list \<Rightarrow> (string \<times> string option) set" where
  "tree_members m q rs =
     {(member_name (rs @ us), Some c) | us c. rs @ us \<noteq> [] \<and> fs_get m (q @ us) = Some (File c)} \<union>
     {(member_name (rs @ us) @ [slash], None) | us. rs @ us \<noteq> [] \<and> fs_get m (q @ us) = Some Directory}"

lemma tree_ok_above:
  "tree_ok m \<Longrightarrow> fs_get m (q @ us) = Some n \<Longrightarrow> us \<noteq> [] \<Longrightarrow> fs_get m q = Some Directory \<and> list_all good_seg us"
proof (induction us arbitrary: n rule: rev_induct)
  case (snoc u us)
  have "fs_get m (q @ us) = Some Directory" "good_seg u"
    using tree_ok_entry [OF snoc.prems(1,2)] by (simp_all add: butlast_append)
  then show ?case using snoc.IH [of Directory] snoc.prems(1) by (cases "us = []") auto
qed simp

lemma tree_members_leaf:
  assumes "tree_ok m" "rs \<noteq> []"
  shows "fs_get m q = Some (File c) \<Longrightarrow> tree_members m q rs = {(member_name rs, Some c)}"
    and "fs_get m q = Some (Symlink t) \<Longrightarrow> tree_members m q rs = {}"
proof -
  have leaf: "fs_get m (q @ us) = Some n \<longleftrightarrow> us = [] \<and> fs_get m q = Some n" if "fs_get m q \<noteq> Some Directory" for us n
    using tree_ok_above [OF assms(1), of q us n] that by (cases "us = []") auto
  show "tree_members m q rs = {(member_name rs, Some c)}" if "fs_get m q = Some (File c)"
    using that assms(2) leaf by (auto simp: tree_members_def)
  show "tree_members m q rs = {}" if "fs_get m q = Some (Symlink t)"
    using that leaf by (auto simp: tree_members_def)
qed

lemma tree_members_dir:
  assumes "tree_ok m" "fs_get m q = Some Directory" "set cs = {c. fs_get m (q @ [c]) \<noteq> None}"
  shows "tree_members m q rs =
    (if rs = [] then {} else {(member_name rs @ [slash], None)}) \<union> (\<Union>c\<in>set cs. tree_members m (q @ [c]) (rs @ [c]))"
proof (intro equalityI subsetI)
  fix x assume x: "x \<in> tree_members m q rs"
  then obtain us n where us: "fs_get m (q @ us) = Some n" "rs @ us \<noteq> []"
      "(\<exists>c. n = File c \<and> x = (member_name (rs @ us), Some c)) \<or> n = Directory \<and> x = (member_name (rs @ us) @ [slash], None)"
    by (auto simp: tree_members_def)
  show "x \<in> (if rs = [] then {} else {(member_name rs @ [slash], None)}) \<union> (\<Union>c\<in>set cs. tree_members m (q @ [c]) (rs @ [c]))"
  proof (cases us)
    case Nil
    with us assms(2) show ?thesis by auto
  next
    case (Cons c vs)
    have "fs_get m (q @ [c]) \<noteq> None"
      using us(1) Cons tree_ok_above [OF assms(1), of "q @ [c]" vs n] by (cases "vs = []") auto
    then have "c \<in> set cs" using assms(3) by simp
    moreover have "x \<in> tree_members m (q @ [c]) (rs @ [c])"
      using us Cons by (auto simp: tree_members_def intro: exI [of _ vs])
    ultimately show ?thesis by auto
  qed
next
  fix x assume "x \<in> (if rs = [] then {} else {(member_name rs @ [slash], None)}) \<union> (\<Union>c\<in>set cs. tree_members m (q @ [c]) (rs @ [c]))"
  then consider "rs \<noteq> []" "x = (member_name rs @ [slash], None)" | c where "x \<in> tree_members m (q @ [c]) (rs @ [c])"
    by (auto split: if_splits)
  then show "x \<in> tree_members m q rs"
  proof cases
    case 1
    with assms(2) show ?thesis by (auto simp: tree_members_def intro: exI [of _ "[]"])
  next
    case (2 c)
    then show ?thesis by (fastforce simp: tree_members_def)
  qed
qed

text \<open>A member's name tells which child of the directory it is from.\<close>

lemma member_component:
  assumes "list_all good_seg rs" "good_seg c" "tree_ok m" "x \<in> fst ` tree_members m q (rs @ [c])"
  shows "length rs < length (Split x slash) \<and> Split x slash ! length rs = c"
proof -
  obtain us n where us: "fs_get m (q @ us) = Some n" "x = member_name (rs @ c # us) \<or> x = member_name (rs @ c # us) @ [slash]"
    using assms(4) by (auto simp: tree_members_def)
  have "list_all good_seg us" using tree_ok_above [OF assms(3) us(1)] by (cases "us = []") auto
  then have "list_all good_seg (rs @ c # us)" using assms(1,2) by simp
  then have "Split (member_name (rs @ c # us)) slash = rs @ c # us"
    unfolding member_name_def by (intro Split_Join) (auto simp: good_seg_def dest: good_segs_no_slash)
  then show ?thesis using us(2) Split_append_split [of "member_name (rs @ c # us)" slash "[]"] by (auto simp: nth_append)
qed

lemma ReadDir_quiet:
  "quiet w \<Longrightarrow> resolve True p w = Inr q \<Longrightarrow> fs_get (os_fs w) q = Some Directory \<Longrightarrow>
    \<exists>v. ReadDir p w = (Inr (fs_children (os_fs w) q), v) \<and> os_fs v = os_fs w \<and> quiet v"
  by (simp add: ReadDir_def)

lemma Lstat_quiet:
  "quiet w \<Longrightarrow> resolve False p w = Inr q \<Longrightarrow> fs_get (os_fs w) q = Some n \<Longrightarrow>
    \<exists>v. Lstat p w = (Inr n, v) \<and> os_fs v = os_fs w \<and> quiet v"
  by (simp add: Lstat_def look_def)

lemma ReadFile_quiet:
  "quiet w \<Longrightarrow> resolve True p w = Inr q \<Longrightarrow> fs_get (os_fs w) q = Some (File c) \<Longrightarrow>
    \<exists>v. ReadFile p w = (Inr c, v) \<and> os_fs v = os_fs w \<and> quiet v"
  by (simp add: ReadFile_def look_def)

definition archived :: "(error + zip_members) \<times> 'a os_scheme \<Rightarrow> (string \<times> string option) set \<Rightarrow> 'a os_scheme \<Rightarrow> bool" where
  "archived r S w \<longleftrightarrow> (\<exists>ms w'. r = (Inr ms, w') \<and> distinct (map fst ms) \<and> set ms = S \<and> os_fs w' = os_fs w \<and> quiet w')"

lemma zip_exact:
  "quiet w \<Longrightarrow> tree_ok (os_fs w) \<Longrightarrow> IsAbs p \<Longrightarrow> Clean p = p \<Longrightarrow> list_all good_seg rs \<Longrightarrow> rel = member_name rs \<Longrightarrow>
     fs_get (os_fs w) q = Some nd \<Longrightarrow> ((\<forall>t. nd \<noteq> Symlink t) \<longrightarrow> resolve True p w = Inr q) \<Longrightarrow>
     (rs = [] \<longrightarrow> nd = Directory) \<Longrightarrow> (nd = Directory \<longrightarrow> fs_depth (os_fs w) \<le> n + length q) \<Longrightarrow>
     archived (zip_walk n p rel nd w) (tree_members (os_fs w) q rs) w"
  "quiet w \<Longrightarrow> tree_ok (os_fs w) \<Longrightarrow> IsAbs p \<Longrightarrow> Clean p = p \<Longrightarrow> list_all good_seg rs \<Longrightarrow> rel = member_name rs \<Longrightarrow>
     resolve True p w = Inr q \<Longrightarrow> fs_get (os_fs w) q = Some Directory \<Longrightarrow> fs_depth (os_fs w) \<le> n + Suc (length q) \<Longrightarrow>
     distinct ns \<Longrightarrow> (\<forall>c\<in>set ns. good_seg c \<and> fs_get (os_fs w) (q @ [c]) \<noteq> None) \<Longrightarrow>
     archived (zip_names n p rel ns w) (\<Union>c\<in>set ns. tree_members (os_fs w) (q @ [c]) (rs @ [c])) w"
proof (induction n p rel nd w and n p rel ns w arbitrary: q rs and q rs rule: zip_walk_zip_names.induct)
  case (1 n p rel t w)
  then have "rs \<noteq> []" by auto
  then show ?case using 1 tree_members_leaf(2) [of "os_fs w" rs q t] by (simp add: archived_def)
next
  case (2 n p rel c w)
  then have rs: "rs \<noteq> []" by auto
  moreover from rs have "member_name rs \<noteq> []" using 2(5) by (cases rs; cases "tl rs") (auto simp: member_name_def good_seg_def)
  moreover obtain v where "ReadFile p w = (Inr c, v)" "os_fs v = os_fs w" "quiet v"
    using ReadFile_quiet [OF 2(1), of p q c] 2 by auto
  ultimately show ?case using 2 tree_members_leaf(1) [of "os_fs w" rs q c] by (simp add: archived_def)
next
  case (3 p rel w)
  then show ?case using fs_depth_bound [of "os_fs w" q] by fastforce
next
  case (4 n p rel w)
  let ?m = "os_fs w"
  have q: "resolve True p w = Inr q" "fs_get ?m q = Some Directory" using 4 by simp_all
  obtain v where v: "ReadDir p w = (Inr (fs_children ?m q), v)" "os_fs v = ?m" "quiet v"
    using ReadDir_quiet [OF 4(2) q] by blast
  let ?ns = "map fst (fs_children ?m q)"
  note names = fs_children_names [OF 4(3)]
  have "archived (zip_names n p rel ?ns v) (\<Union>c\<in>set ?ns. tree_members (os_fs v) (q @ [c]) (rs @ [c])) v"
  proof (rule 4(1) [OF v(1) [symmetric] refl v(3)])
    show "resolve True p v = Inr q" using resolve_same_fs [OF 4(4) v(2)] q by simp
  qed (use 4(2-11) v(2) q names in \<open>auto\<close>)
  then obtain ms u where ms: "zip_names n p rel ?ns v = (Inr ms, u)" "distinct (map fst ms)"
      "set ms = (\<Union>c\<in>set ?ns. tree_members ?m (q @ [c]) (rs @ [c]))" "os_fs u = ?m" "quiet u"
    using v(2) by (auto simp: archived_def)
  have rel: "rel = [] \<longleftrightarrow> rs = []"
    using 4(6,7) by (cases rs; cases "tl rs") (auto simp: member_name_def good_seg_def)
  have "set ?ns = {c. fs_get ?m (q @ [c]) \<noteq> None}" using names(2) by auto
  note all = tree_members_dir [OF 4(3) q(2) this, of rs]
  have new: "rel @ [slash] \<notin> fst ` set ms" if "rs \<noteq> []"
  proof
    assume "rel @ [slash] \<in> fst ` set ms"
    then obtain c where c: "c \<in> set ?ns" "rel @ [slash] \<in> fst ` tree_members ?m (q @ [c]) (rs @ [c])" by (auto simp: ms(3))
    then have gc: "good_seg c" using names(3) by auto
    have "Split (rel @ [slash]) slash = rs @ [[]]"
      using Split_append_split [of rel slash "[]"] Split_Join [OF that, of slash] good_segs_no_slash [OF 4(6)] 4(7) by (simp add: member_name_def)
    then show False using member_component [OF 4(6) gc 4(3) c(2)] gc by (simp add: good_seg_def)
  qed
  show ?case using v ms all rel new 4(7) by (auto simp: archived_def)
next
  case (5 n p rel w)
  then show ?case by (simp add: archived_def)
next
  case (6 n p rel c cs w)
  let ?m = "os_fs w" and ?p = "PathJoin [p, c]" and ?rel = "if rel = [] then c else rel @ slash # c"
  have c: "good_seg c" using 6 by simp
  obtain nd where nd: "fs_get ?m (q @ [c]) = Some nd" using 6 by auto
  note child = resolve_child [OF 6(5,6,9,10) c]
  obtain v where v: "Lstat ?p w = (Inr nd, v)" "os_fs v = ?m" "quiet v"
    using Lstat_quiet [OF 6(3) child(1) [of False] nd] by auto
  have rel: "?rel = member_name (rs @ [c])"
    using 6(7,8) Join_append [of rs "[c]" "[slash]"]
    by (cases rs; cases "tl rs") (auto simp: member_name_def good_seg_def)
  have "archived (zip_walk n ?p ?rel nd v) (tree_members (os_fs v) (q @ [c]) (rs @ [c])) v"
  proof (rule 6(1) [OF v(1) [symmetric] refl v(3)])
    show "(\<forall>t. nd \<noteq> Symlink t) \<longrightarrow> resolve True ?p v = Inr (q @ [c])"
      using child(1) [of True] child(2) resolve_same_fs [OF child(2) v(2)] nd by auto
  qed (use 6(3-13) v(2) child(2,3) c nd rel in auto)
  then obtain ms u where ms: "zip_walk n ?p ?rel nd v = (Inr ms, u)" "distinct (map fst ms)"
      "set ms = tree_members ?m (q @ [c]) (rs @ [c])" "os_fs u = ?m" "quiet u"
    using v(2) by (auto simp: archived_def)
  have "archived (zip_names n p rel cs u) (\<Union>c\<in>set cs. tree_members (os_fs u) (q @ [c]) (rs @ [c])) u"
  proof (rule 6(2) [OF v(1) [symmetric] refl ms(1) [symmetric] refl ms(5)])
    show "resolve True p u = Inr q" using resolve_same_fs [OF 6(5) ms(4)] 6(9) by simp
  qed (use 6(3-13) ms(4) in auto)
  then obtain ms' u' where ms': "zip_names n p rel cs u = (Inr ms', u')" "distinct (map fst ms')"
      "set ms' = (\<Union>c\<in>set cs. tree_members ?m (q @ [c]) (rs @ [c]))" "os_fs u' = ?m" "quiet u'"
    using ms(4) by (auto simp: archived_def)
  have "x \<notin> fst ` set ms'" if "x \<in> fst ` set ms" for x
  proof
    assume "x \<in> fst ` set ms'"
    then obtain d where d: "d \<in> set cs" "x \<in> fst ` tree_members ?m (q @ [d]) (rs @ [d])" by (auto simp: ms'(3))
    have "d = c"
      using member_component [OF 6(7) c 6(4), of x "q @ [c]"] member_component [OF 6(7) _ 6(4) d(2)] that d(1) 6(13) by (auto simp: ms(3))
    then show False using d(1) 6(12) by simp
  qed
  then have "distinct (map fst (ms @ ms'))" using ms(2) ms'(2) by auto
  then show ?case using v(1) ms ms' by (simp add: archived_def)
qed

subsection \<open>Writing the archive\<close>

lemma tree_ok_put:
  assumes "tree_ok m" "plain_dir m ds" "good_seg c" "fs_get m (ds @ [c]) = None"
  shows "tree_ok (mput (ds @ [c]) (File x) m)"
proof -
  have new: "ds @ [c] \<notin> fst ` set m" using assms(4) by (simp add: fs_get_def map_of_eq_None_iff)
  have put: "mput (ds @ [c]) (File x) m = m @ [(ds @ [c], File x)]"
    using new by (induction m) auto
  have p: "p \<noteq> [] \<and> good_seg (last p) \<and> fs_get m (butlast p) = Some Directory" if "(p, n) \<in> set (mput (ds @ [c]) (File x) m)" for p n
  proof (cases "(p, n) \<in> set m")
    case True
    with assms(1) show ?thesis by (auto simp: tree_ok_def)
  next
    case False
    with that have "p = ds @ [c]" by (auto simp: put)
    moreover have "fs_get m ds = Some Directory" using assms(2) by (rule plain_dirD) simp
    ultimately show ?thesis using assms(3) by simp
  qed
  have "fs_get (mput (ds @ [c]) (File x) m) (butlast p) = Some Directory" if "fs_get m (butlast p) = Some Directory" for p
    using that assms(4) by (auto simp: fs_get_put)
  then show ?thesis using assms(1) p by (auto simp: tree_ok_def distinct_update)
qed

text \<open>Adding entries does not change where a path to something leads.\<close>

lemma walk_more_files:
  "walk k m f at cs = Inr q \<Longrightarrow> fs_get m q \<noteq> None \<Longrightarrow> (\<forall>p n. fs_get m p = Some n \<longrightarrow> fs_get m' p = Some n)
    \<Longrightarrow> walk k m' f at cs = Inr q"
proof (induction k m f at cs rule: walk.induct)
  case IH: (2 n m f at x ys)
  consider "x = [] \<or> x = ''.'' \<or> x = ''..''" | "x \<noteq> []" "x \<noteq> ''.''" "x \<noteq> ''..''" by blast
  then show ?case
  proof cases
    case 2
    show ?thesis
    proof (cases "fs_get m (at @ [x])")
      case None
      with 2 IH.prems show ?thesis by (auto simp: walk.simps(2) split: if_splits)
    next
      case (Some nd)
      then have "fs_get m' (at @ [x]) = Some nd" using IH.prems(3) by blast
      with 2 IH Some show ?thesis
        by (cases nd; cases n; cases "ys = []"; cases f) (simp_all add: walk.simps(2) split del: if_split)
    qed
  qed (use IH in \<open>auto simp: walk.simps(2)\<close>)
qed simp

lemma zipDirectory_ok:
  assumes "quiet w" "tree_ok (os_fs w)" "IsAbs root" "Clean root = root"
    and "resolve False root w = Inr q" "fs_get (os_fs w) q = Some Directory"
    and "plain_dir (os_fs w) ds" "good_seg c" "fsg w (ds @ [c]) = None" "\<not> prefix q ds"
  shows "\<exists>ms w'. zipDirectory z root (abs_path (ds @ [c])) w = (None, w') \<and> quiet w'
    \<and> distinct (map fst ms) \<and> set ms = tree_members (os_fs w) q [] \<and> fsg w' = (fsg w)(ds @ [c] := Some (File (z ms)))"
proof -
  let ?t = "ds @ [c]" and ?m = "mput (ds @ [c]) (File []) (os_fs w)"
  obtain w1 where w1: "Stat root w = (Inr Directory, w1)" "os_fs w1 = os_fs w" "quiet w1"
    using assms(1) resolve_directory [OF assms(5,6)] assms(6) by (simp add: Stat_def look_def)
  obtain w2 where w2: "OpenTruncate (abs_path ?t) w1 = (Inr ?t, w2)" "os_fs w2 = ?m" "quiet w2"
    using assms(7-9) w1(2,3) by (auto simp: OpenTruncate_def fs_store_def resolve_entry)
  have below: "\<not> prefix q ?t"
  proof
    assume "prefix q ?t"
    with assms(10) have "q = ?t" by simp
    with assms(6,9) show False by simp
  qed
  have get: "fs_get ?m (q @ us) = fs_get (os_fs w) (q @ us)" for us
  proof -
    have "q @ us \<noteq> ds @ [c]" using below by (metis prefixI)
    then show ?thesis by (simp add: fs_get_put)
  qed
  have ok: "tree_ok ?m" using tree_ok_put [OF assms(2,7,8,9)] .
  have "fs_get ?m p = Some n" if "fs_get (os_fs w) p = Some n" for p n using that assms(9) by (auto simp: fs_get_put)
  then have "resolve False root w2 = Inr q"
    using walk_more_files [of 40 "os_fs w" False "[]" "Split root slash" q ?m] assms(3,5,6) w2(2) by (simp add: resolve_def split: if_splits)
  then have res: "resolve f root w2 = Inr q" for f
    using resolve_directory [of root w2 q] get [of "[]"] assms(6) w2(2) by (cases f) auto
  obtain w3 where w3: "Lstat root w2 = (Inr Directory, w3)" "os_fs w3 = ?m" "quiet w3"
    using Lstat_quiet [OF w2(3) res, of Directory] get [of "[]"] assms(6) w2(2) by auto
  have "archived (zip_walk (fs_depth (os_fs w3)) root [] Directory w3) (tree_members (os_fs w3) q []) w3"
    by (rule zip_exact(1)) (use w3 ok assms(3,4,6) res resolve_same_fs [OF assms(3), of w3 w2] w2(2) get [of "[]"] in \<open>auto simp: member_name_def\<close>)
  then obtain ms w4 where ms: "zip_walk (fs_depth ?m) root [] Directory w3 = (Inr ms, w4)" "distinct (map fst ms)"
      "set ms = tree_members ?m q []" "os_fs w4 = ?m" "quiet w4"
    using w3(2) by (auto simp: archived_def)
  obtain w5 where w5: "write_at (abs_path ?t) ?t (z ms) w4 = (None, w5)" "fsg w5 = (fsg w)(?t := Some (File (z ms)))" "quiet w5"
    using ms(4,5) by (auto simp: write_at_def fs_store_def fsg_put fs_get_put fun_eq_iff)
  have "zipDirectory z root (abs_path ?t) w = (None, w5)"
    using w1(1) w2(1) w3(1,2) ms(1) w5(1) by (simp add: zipDirectory_def is_dir_def)
  moreover have "set ms = tree_members (os_fs w) q []" using ms(3) by (simp add: tree_members_def get)
  ultimately show ?thesis using ms(2) w5(2,3) by blast
qed

definition site_backup_name :: "string \<Rightarrow> int \<Rightarrow> string" where
  "site_backup_name dm now = ''site_content_'' @ dm @ ''_'' @ Format_stamp now @ ''.zip''"

lemma site_backup_name_good: "slash \<notin> set dm \<Longrightarrow> good_seg (site_backup_name dm now)"
proof -
  assume d: "slash \<notin> set dm"
  have "slash \<notin> set (pad_int k n)" for k n using set_pad_int [of slash k n] by (auto simp: is_digit_def slash_def byte_def)
  then have "slash \<notin> set (site_backup_name dm now)"
    using d by (auto simp: site_backup_name_def Format_stamp_def Let_def slash_def split: prod.split)
  then show ?thesis by (simp add: good_seg_def site_backup_name_def)
qed


subsection \<open>A host to exercise the properties at\<close>

definition archive_fs :: fs where
  "archive_fs = [([''var''], Directory), ([''var'', ''www''], Directory), ([''var'', ''www'', ''example''], Directory),
     ([''var'', ''www'', ''example'', ''css''], Directory), ([''var'', ''www'', ''example'', ''css'', ''a.css''], File ''x''),
     ([''var'', ''www'', ''example'', ''up''], Symlink ''/var''),
     ([''b''], Directory), ([''b'', ''sites''], Directory), ([''b'', ''sites'', ''example.com''], Directory)]"

definition archive_host :: jobs where
  "archive_host = sample_queue []\<lparr>os_fs := archive_fs\<rparr>"

lemma archive_host_facts:
  "tree_ok (os_fs archive_host)" "resolve f ''/var/www/example'' archive_host = Inr [''var'', ''www'', ''example'']"
  "fsg archive_host [''var'', ''www'', ''example''] = Some Directory" "quiet archive_host"
  "IsAbs ''/var/www/example''" "Clean ''/var/www/example'' = ''/var/www/example''"
proof -
  show "tree_ok (os_fs archive_host)"
    by (simp add: tree_ok_def archive_host_def archive_fs_def fs_get_def good_seg_def slash_def)
  show "resolve f ''/var/www/example'' archive_host = Inr [''var'', ''www'', ''example'']"
    by (cases f) code_simp+
  show "fsg archive_host [''var'', ''www'', ''example''] = Some Directory"
    by (simp add: archive_host_def archive_fs_def fs_get_def)
  show "quiet archive_host" by (simp add: quiet_def archive_host_def sample_queue_def sample_repo_def repo.defs)
  show "IsAbs ''/var/www/example''" "Clean ''/var/www/example'' = ''/var/www/example''" by code_simp+
qed



end
