(* ===== verification/WorkingHost.thy ===== *)
theory WorkingHost
  imports SiteArchive
begin

text \<open>
  A host on which nothing fails: no system call, no command, no draw of random bytes.  On it the
  operations of the repository, \<open>Enqueue\<close>, \<open>CreateSite\<close>, \<open>DeleteSite\<close> and the provisioner succeed; what they
  then do to the files and to the data is stated operation by operation, for the theorems that
  follow a request to its end.
\<close>

subsection \<open>A host that works\<close>

definition healthy :: "string list \<Rightarrow> string \<Rightarrow> 'a repo_scheme \<Rightarrow> bool" where
  "healthy ds c w \<longleftrightarrow> quiet w \<and> rp_path w = abs_path (ds @ [c]) \<and> plain_dir (os_fs w) ds \<and> good_seg c
     \<and> fsg w (ds @ [c]) \<noteq> Some Directory \<and> fsg w (ds @ [c @ ''.tmp'']) = None
     \<and> (\<forall>d. \<exists>raw. rp_marshal w d = Inr raw) \<and> (\<forall>n k. \<exists>b. os_entropy w n k = Inr b)
     \<and> (\<forall>n argv m. fst (snd (os_exec w n argv m)) = None)"

text \<open>
  From \<open>w\<close> to \<open>w'\<close> the host still works and no file but the state file has changed.  \<open>on_disk\<close>: the state
  file holds the data.
\<close>

definition moved :: "string list \<Rightarrow> string \<Rightarrow> 'a repo_scheme \<Rightarrow> 'a repo_scheme \<Rightarrow> bool" where
  "moved ds c w w' \<longleftrightarrow> same_env w w' \<and> healthy ds c w' \<and> (\<forall>q. q \<noteq> ds @ [c] \<longrightarrow> fsg w' q = fsg w q)"

definition on_disk :: "string list \<Rightarrow> string \<Rightarrow> 'a repo_scheme \<Rightarrow> bool" where
  "on_disk ds c w \<longleftrightarrow> fsg w (ds @ [c]) = Some (File (projr (rp_marshal w (rp_data w))))"

lemma healthy_upd [simp]:
  "healthy ds c (w\<lparr>rp_data := d\<rparr>) = healthy ds c w" "healthy ds c (w\<lparr>os_ticks := n\<rparr>) = healthy ds c w"
  "healthy ds c (w\<lparr>os_draws := n\<rparr>) = healthy ds c w" "healthy ds c (w\<lparr>os_calls := n\<rparr>) = healthy ds c w"
  by (simp_all add: healthy_def quiet_def)

lemma healthy_queue [simp]: "healthy ds c (w\<lparr>jq_queue := q\<rparr>) = healthy ds c w"
  by (simp add: healthy_def quiet_def)

lemma on_disk_upd [simp]:
  "on_disk ds c (w\<lparr>os_ticks := n\<rparr>) = on_disk ds c w" "on_disk ds c (w\<lparr>os_draws := n\<rparr>) = on_disk ds c w"
  by (simp_all add: on_disk_def)

lemma on_disk_queue [simp]: "on_disk ds c (w\<lparr>jq_queue := q\<rparr>) = on_disk ds c w"
  by (simp add: on_disk_def)

lemma moved_refl: "healthy ds c w \<Longrightarrow> moved ds c w w"
  by (simp add: moved_def)

lemma moved_trans: "moved ds c w w1 \<Longrightarrow> moved ds c w1 w2 \<Longrightarrow> moved ds c w w2"
  by (auto simp: moved_def intro: same_env_trans)

lemma same_env_from [simp]:
  "same_env (w\<lparr>rp_data := d\<rparr>) w' = same_env w w'" "same_env (w\<lparr>os_ticks := n\<rparr>) w' = same_env w w'"
  "same_env (w\<lparr>os_draws := n\<rparr>) w' = same_env w w'"
  "same_env w (w'\<lparr>os_ticks := n\<rparr>) = same_env w w'" "same_env w (w'\<lparr>os_draws := n\<rparr>) = same_env w w'"
  by (cases w; cases w'; simp add: same_env_def same_rest_def)+

lemma moved_upd [simp]:
  "moved ds c (w\<lparr>rp_data := d\<rparr>) w' = moved ds c w w'" "moved ds c (w\<lparr>os_ticks := n\<rparr>) w' = moved ds c w w'"
  "moved ds c (w\<lparr>os_draws := n\<rparr>) w' = moved ds c w w'"
  "moved ds c w (w'\<lparr>rp_data := d\<rparr>) = moved ds c w w'" "moved ds c w (w'\<lparr>os_ticks := n\<rparr>) = moved ds c w w'"
  "moved ds c w (w'\<lparr>os_draws := n\<rparr>) = moved ds c w w'"
  by (simp_all add: moved_def)

lemma save_healthy:
  assumes "healthy ds c w"
  shows "\<exists>w'. repo_save w = (None, w') \<and> moved ds c w w' \<and> on_disk ds c w' \<and> rp_data w' = rp_data w"
proof -
  have h: "quiet w" "plain_dir (os_fs w) ds" "good_seg c" "fsg w (ds @ [c]) \<noteq> Some Directory" "fsg w (ds @ [c @ ''.tmp'']) = None"
    "rp_path w = abs_path (ds @ [c])" using assms by (simp_all add: healthy_def)
  obtain raw where raw: "rp_marshal w (rp_data w) = Inr raw" using assms unfolding healthy_def by blast
  obtain w' where w': "writeAtomic (abs_path (ds @ [c])) raw w = (None, w')" "fsg w' = (fsg w)(ds @ [c] := Some (File raw))"
    using writeAtomic_ok [OF h(1-5)] by blast
  note env = writeAtomic_env [OF w'(1)]
  then have rest: "same_rest w w'" by (simp add: same_rest_env_of)
  note keep = same_rest_repo [OF rest]
  have "repo_save w = (None, w')"
    using w'(1) raw h(6) same_rest_repo [OF WriteFile_rest [of w "tmp_path w" raw]]
    by (auto simp: repo_save_def writeAtomic_def tmp_path_def Let_def split: prod.splits option.splits)
  moreover have "healthy ds c w'"
    using assms quiet_env [OF env h(1)] keep rest plain_dir_upd [OF h(2,4) w'(2)] w'(2)
    by (simp add: healthy_def same_rest_def)
  ultimately show ?thesis
    using w'(2) raw keep same_rest_env [OF rest] by (auto simp: moved_def on_disk_def)
qed

text \<open>The operations of the repository and the draws that a request or a job makes.\<close>

lemma ops_healthy:
  assumes h: "healthy ds c w"
  shows "mget (DomainIndex (rp_data w)) (ToLower (site_Domain s)) = None \<Longrightarrow>
      \<exists>w'. repo_CreateSite s w = (None, w') \<and> moved ds c w w' \<and> on_disk ds c w' \<and> rp_data w' = (rp_data w)\<lparr>Sites := mput (site_ID s) s (Sites (rp_data w)),
         DomainIndex := mput (ToLower (site_Domain s)) (site_ID s) (DomainIndex (rp_data w))\<rparr>"
    and "\<exists>w'. repo_CreateJob j w = (None, w') \<and> moved ds c w w' \<and> on_disk ds c w'
      \<and> rp_data w' = (rp_data w)\<lparr>Jobs := mput (job_ID j) j (Jobs (rp_data w))\<rparr>"
    and "mget (Sites (rp_data w)) i = Some s \<Longrightarrow> \<exists>w' t. repo_UpdateSiteStatus i st w = (None, w') \<and> moved ds c w w' \<and> on_disk ds c w'
      \<and> rp_data w' = (rp_data w)\<lparr>Sites := mput i (set_status (st, t) s) (Sites (rp_data w))\<rparr>"
    and "mget (Jobs (rp_data w)) k = Some j \<Longrightarrow> \<exists>w'. repo_UpdateJob k js er sa fa w = (None, w') \<and> moved ds c w w' \<and> on_disk ds c w'
      \<and> Sites (rp_data w') = Sites (rp_data w) \<and> DomainIndex (rp_data w') = DomainIndex (rp_data w)"
    and "moved ds c w (audit_Record actor act ty ti m w) \<and> on_disk ds c (audit_Record actor act ty ti m w)"
    and "\<exists>i w'. idgen_New pre w = (Inr i, w') \<and> moved ds c w w' \<and> rp_data w' = rp_data w \<and> i \<noteq> [] \<and> (ascii pre \<longrightarrow> ascii i)"
    and "\<exists>t w'. time_Now w = (t, w') \<and> moved ds c w w' \<and> rp_data w' = rp_data w"
proof -
  note m = moved_refl [OF h]
  have s: "\<exists>w'. repo_save v = (None, w') \<and> moved ds c w w' \<and> on_disk ds c w' \<and> rp_data w' = d"
    if "v = w\<lparr>rp_data := d\<rparr> \<or> v = w\<lparr>os_ticks := n, rp_data := d\<rparr>" for v d n
    using save_healthy [of ds c v] that h by auto
  show "\<exists>w'. repo_CreateSite s w = (None, w') \<and> moved ds c w w' \<and> on_disk ds c w' \<and> rp_data w' = (rp_data w)\<lparr>Sites := mput (site_ID s) s (Sites (rp_data w)),
         DomainIndex := mput (ToLower (site_Domain s)) (site_ID s) (DomainIndex (rp_data w))\<rparr>"
    if "mget (DomainIndex (rp_data w)) (ToLower (site_Domain s)) = None"
    using that s by (simp add: repo_CreateSite_def Let_def)
  show "\<exists>w'. repo_CreateJob j w = (None, w') \<and> moved ds c w w' \<and> on_disk ds c w'
      \<and> rp_data w' = (rp_data w)\<lparr>Jobs := mput (job_ID j) j (Jobs (rp_data w))\<rparr>"
    using s by (simp add: repo_CreateJob_def)
  show "\<exists>w' t. repo_UpdateSiteStatus i st w = (None, w') \<and> moved ds c w w' \<and> on_disk ds c w'
      \<and> rp_data w' = (rp_data w)\<lparr>Sites := mput i (set_status (st, t) s) (Sites (rp_data w))\<rparr>"
    if "mget (Sites (rp_data w)) i = Some s"
    using that s by (fastforce simp: repo_UpdateSiteStatus_def time_Now_def)
  show "\<exists>w'. repo_UpdateJob k js er sa fa w = (None, w') \<and> moved ds c w w' \<and> on_disk ds c w'
      \<and> Sites (rp_data w') = Sites (rp_data w) \<and> DomainIndex (rp_data w') = DomainIndex (rp_data w)"
    if j: "mget (Jobs (rp_data w)) k = Some j"
    using j s by (fastforce simp: repo_UpdateJob_def)
  have "\<exists>w'. repo_CreateAuditLog e (w\<lparr>os_ticks := n\<rparr>) = (None, w') \<and> moved ds c w w' \<and> on_disk ds c w'" for e n
    using s by (fastforce simp: repo_CreateAuditLog_def Let_def)
  then show "moved ds c w (audit_Record actor act ty ti m w) \<and> on_disk ds c (audit_Record actor act ty ti m w)"
    by (simp add: audit_Record_def time_Now_def) (metis snd_conv)
  show "\<exists>t w'. time_Now w = (t, w') \<and> moved ds c w w' \<and> rp_data w' = rp_data w" using m by (simp add: time_Now_def)
  obtain b where b: "os_entropy w (os_draws w) 6 = Inr b" using h unfolding healthy_def by blast
  obtain i w' where i: "idgen_New pre w = (Inr i, w')" "moved ds c w w'" "rp_data w' = rp_data w"
    using b m by (simp add: idgen_New_def rand_Read_def time_Now_def)
  then show "\<exists>i w'. idgen_New pre w = (Inr i, w') \<and> moved ds c w w' \<and> rp_data w' = rp_data w \<and> i \<noteq> [] \<and> (ascii pre \<longrightarrow> ascii i)"
    using idgen_New_not_Nil [of pre w i] idgen_New_ascii [of pre w i] by auto
qed

subsection \<open>The site's place on the disk\<close>

lemma mkdir_each_append:
  "mkdir_each p (xs @ ys) w = (case mkdir_each p xs w of (Some e, w) \<Rightarrow> (Some e, w) | (None, w) \<Rightarrow> mkdir_each p ys w)"
proof (induction xs arbitrary: w)
  case (Cons x xs)
  then show ?case by (simp split: sum.split option.split node.split prod.split)
qed simp

text \<open>\<open>MkdirAll\<close> makes the directories that are missing on the way, and nothing else.\<close>

lemma mkdir_each_makes:
  "quiet w \<Longrightarrow> list_all good_seg qs \<Longrightarrow> \<forall>q. prefix q qs \<longrightarrow> fsg w q = None \<or> fsg w q = Some Directory \<Longrightarrow>
    \<exists>w'. mkdir_each p (prefixes ([] # qs)) w = (None, w') \<and> quiet w' \<and> plain_dir (os_fs w') qs
      \<and> fsg w' = (\<lambda>q. if prefix q qs then Some Directory else fsg w q)"
proof (induction qs rule: rev_induct)
  case Nil
  then show ?case by (auto simp: plain_dir_def walk_skip fs_get_def fun_eq_iff)
next
  case (snoc x qs)
  have g: "list_all good_seg qs" "good_seg x" using snoc.prems(2) by simp_all
  have all: "\<forall>q. prefix q qs \<longrightarrow> fsg w q = None \<or> fsg w q = Some Directory" using snoc.prems(3) by auto
  from snoc.IH [OF snoc.prems(1) g(1) all] obtain w1 where w1: "mkdir_each p (prefixes ([] # qs)) w = (None, w1)"
    "quiet w1" "plain_dir (os_fs w1) qs" "fsg w1 = (\<lambda>q. if prefix q qs then Some Directory else fsg w q)" by blast
  have "walk 40 (os_fs w1) True [] ([] # qs @ [x]) = walk 40 (os_fs w1) True qs [x]"
    using walk_dirs [OF g(1), of "os_fs w1" "[]" 40 True "[x]"] plain_dirD [OF w1(3)] by (simp add: walk_skip)
  moreover have "fsg w1 (qs @ [x]) = fsg w (qs @ [x])" by (simp add: w1(4))
  moreover have x: "fsg w (qs @ [x]) = None \<or> fsg w (qs @ [x]) = Some Directory" using snoc.prems(3) by auto
  ultimately have walk: "walk 40 (os_fs w1) True [] ([] # qs @ [x]) = Inr (qs @ [x])"
    using g(2) by (auto simp: walk.simps(2) good_seg_def)
  have run: "mkdir_each p (prefixes ([] # qs @ [x])) w = mkdir_each p [[] # qs @ [x]] w1"
    using prefixes_snoc [of "[] # qs" x] w1(1) by (simp only: append.simps mkdir_each_append prod.case option.case)
  have plain: "plain_dir m (qs @ [x])" if "fs_get m = (\<lambda>q. if prefix q (qs @ [x]) then Some Directory else fsg w q)" for m
    using snoc.prems(2) that by (auto simp: plain_dir_def list_all_iff)
  have goal: "(\<lambda>q. if prefix q (qs @ [x]) then Some Directory else fsg w q) = (fsg w1)(qs @ [x] := Some Directory)"
    by (auto simp: w1(4) fun_eq_iff)
  show ?case
  proof (cases "fsg w (qs @ [x])")
    case None
    let ?v = "fs_store (qs @ [x]) Directory (w1\<lparr>os_calls := Suc (os_calls w1)\<rparr>)"
    have "mkdir_each p [[] # qs @ [x]] w1 = (None, ?v)"
      using walk None w1(2) by (simp add: w1(4))
    moreover have v: "quiet ?v" "fsg ?v = (\<lambda>q. if prefix q (qs @ [x]) then Some Directory else fsg w q)"
      using w1(2) by (simp add: fs_store_def, unfold goal) (simp add: fs_store_def fsg_put)
    ultimately show ?thesis using plain [OF v(2)] run by auto
  next
    case (Some n)
    then have d: "fsg w1 (qs @ [x]) = Some Directory" using x by (simp add: w1(4))
    then have "mkdir_each p [[] # qs @ [x]] w1 = (None, w1)" using walk by simp
    moreover have v: "fsg w1 = (\<lambda>q. if prefix q (qs @ [x]) then Some Directory else fsg w q)"
      unfolding goal using d by (simp add: fun_upd_idem)
    ultimately show ?thesis using plain [OF v] w1(2) run by auto
  qed
qed

lemma MkdirAll_makes:
  assumes "quiet w" "list_all good_seg qs" "qs \<noteq> []" "\<forall>q. prefix q qs \<longrightarrow> fsg w q = None \<or> fsg w q = Some Directory"
  shows "\<exists>w'. MkdirAll (abs_path qs) w = (None, w') \<and> plain_dir (os_fs w') qs
    \<and> fsg w' = (\<lambda>q. if prefix q qs then Some Directory else fsg w q)"
proof -
  have "abs_path qs \<noteq> []" by (simp add: abs_path_def)
  then have "MkdirAll (abs_path qs) w = mkdir_each (abs_path qs) (prefixes ([] # qs)) w"
    using Split_abs_path [OF assms(2,3)] by (simp add: MkdirAll_def del: prefixes.simps)
  with mkdir_each_makes [OF assms(1,2,4), of "abs_path qs"] show ?thesis by metis
qed

text \<open>Directories stay directories.\<close>

definition grows :: "'a os_scheme \<Rightarrow> 'a os_scheme \<Rightarrow> bool" where
  "grows w w' \<longleftrightarrow> (\<forall>q. fsg w q = Some Directory \<longrightarrow> fsg w' q = Some Directory)"

lemma grows_refl [simp]: "grows w w"
  by (simp add: grows_def)

lemma grows_trans: "grows w w1 \<Longrightarrow> grows w1 w2 \<Longrightarrow> grows w w2"
  by (simp add: grows_def)

lemma plain_dir_grows: "plain_dir (os_fs w) ds \<Longrightarrow> grows w w' \<Longrightarrow> plain_dir (os_fs w') ds"
  by (simp add: plain_dir_def grows_def list_all_iff)

text \<open>The first page of a site.\<close>

definition index_names :: "string list" where
  "index_names = [''index.php'', ''index.html'', ''index.htm'']"

lemma index_names_good: "n \<in> set index_names \<Longrightarrow> good_seg n"
  by (auto simp: index_names_def good_seg_def slash_def)

lemma Stat_entry:
  assumes "quiet w" "plain_dir (os_fs w) ds" "good_seg c" "\<And>t. fsg w (ds @ [c]) \<noteq> Some (Symlink t)"
  shows "\<exists>w'. Stat (abs_path (ds @ [c])) w = (case fsg w (ds @ [c]) of None \<Rightarrow> Inl (PathError ''stat'' (abs_path (ds @ [c])) ENOENT) | Some n \<Rightarrow> Inr n, w')
    \<and> fsg w' = fsg w"
  using assms by (auto simp: Stat_def look_def resolve_entry split: option.split)

lemma WriteNewFile_missing:
  assumes "quiet w" "plain_dir (os_fs w) ds" "good_seg c" "fsg w (ds @ [c]) = None"
  shows "\<exists>w'. WriteNewFile (abs_path (ds @ [c])) x w = (None, w') \<and> fsg w' = (fsg w)(ds @ [c] := Some (File x))"
  using assms by (auto simp: WriteNewFile_def write_at_def fs_store_def fsg_put resolve_entry)

lemma hasAnyIndex_in_ok:
  assumes "quiet w" "plain_dir (os_fs w) rs" "rs \<noteq> []" "\<And>n. n \<in> set ns \<Longrightarrow> good_seg n"
    "\<And>n t. n \<in> set ns \<Longrightarrow> fsg w (rs @ [n]) \<noteq> Some (Symlink t)"
  shows "\<exists>w'. hasAnyIndex_in (abs_path rs) ns w = (Inr (\<exists>n\<in>set ns. fsg w (rs @ [n]) \<noteq> None), w') \<and> fsg w' = fsg w \<and> quiet w'"
  using assms
proof (induction ns arbitrary: w)
  case (Cons n ns)
  have g: "list_all good_seg rs" "good_seg n" using plain_dir_good [OF Cons.prems(2)] Cons.prems(4) by simp_all
  then have p: "PathJoin [abs_path rs, n] = abs_path (rs @ [n])" using PathJoin_abs_name [of "abs_path rs" n] by simp
  obtain w1 where w1: "Stat (abs_path (rs @ [n])) w = (case fsg w (rs @ [n]) of None \<Rightarrow> Inl (PathError ''stat'' (abs_path (rs @ [n])) ENOENT) | Some n \<Rightarrow> Inr n, w1)"
      "fsg w1 = fsg w"
    using Stat_entry [OF Cons.prems(1,2) g(2)] Cons.prems(5) by auto
  have q: "quiet w1" "plain_dir (os_fs w1) rs"
    using quiet_env [OF os_env(1) [OF w1(1)] Cons.prems(1)] plain_dir_cong [OF Cons.prems(2)] w1(2) by simp_all
  show ?case
  proof (cases "fsg w (rs @ [n])")
    case None
    then show ?thesis using w1 Cons.IH [OF q Cons.prems(3)] Cons.prems(4,5) by (auto simp: p Is_NotExist_def)
  qed (use w1 q in \<open>auto simp: p\<close>)
qed simp

lemma ensureRuntimeBootstrap_ok:
  assumes "quiet w" "plain_dir (os_fs w) rs" "rs \<noteq> []" "site_RootPath site = abs_path rs" "TrimSpace (abs_path rs) = abs_path rs"
    and "\<And>n t. n \<in> set index_names \<Longrightarrow> fsg w (rs @ [n]) \<noteq> Some (Symlink t)"
  shows "\<exists>w'. ensureRuntimeBootstrap site w = (None, w') \<and> (\<forall>q. q \<notin> (\<lambda>n. rs @ [n]) ` set index_names \<longrightarrow> fsg w' q = fsg w q)
    \<and> grows w w'"
proof -
  let ?any = "\<exists>n\<in>set index_names. fsg w (rs @ [n]) \<noteq> None"
  obtain w1 where w1: "hasAnyIndex (abs_path rs) w = (Inr ?any, w1)" "fsg w1 = fsg w" "quiet w1"
    using hasAnyIndex_in_ok [OF assms(1-3), of index_names] assms(6) index_names_good by (auto simp: hasAnyIndex_def index_names_def)
  have d1: "plain_dir (os_fs w1) rs" using plain_dir_cong [OF assms(2)] w1(2) by simp
  have p: "PathJoin [abs_path rs, n] = abs_path (rs @ [n])" if "n \<in> set index_names" for n
    using PathJoin_abs_name [of "abs_path rs" n] index_names_good [OF that] plain_dir_good [OF assms(2)] by simp
  have new: "\<exists>w'. writeFileIfNotExists (PathJoin [abs_path rs, n]) x w1 = (None, w')
      \<and> (\<forall>q. q \<notin> (\<lambda>n. rs @ [n]) ` set index_names \<longrightarrow> fsg w' q = fsg w q) \<and> grows w w'"
    if "n \<in> set index_names" "\<not> ?any" for n x
  proof -
    have "fsg w1 (rs @ [n]) = None" using that w1(2) by auto
    from WriteNewFile_missing [OF w1(3) d1 index_names_good [OF that(1)] this, of x] obtain w'
      where w': "WriteNewFile (abs_path (rs @ [n])) x w1 = (None, w')" "fsg w' = (fsg w1)(rs @ [n] := Some (File x))" by blast
    then have "\<forall>q. q \<notin> (\<lambda>n. rs @ [n]) ` set index_names \<longrightarrow> fsg w' q = fsg w q" "grows w w'"
      using that w1(2) by (auto simp: grows_def)
    then show ?thesis using w'(1) p [OF that(1)] by (simp add: writeFileIfNotExists_def)
  qed
  have same: "(\<forall>q. q \<notin> (\<lambda>n. rs @ [n]) ` set index_names \<longrightarrow> fsg w1 q = fsg w q) \<and> grows w w1" using w1(2) by (simp add: grows_def)
  have ne: "abs_path rs \<noteq> []" by (simp add: abs_path_def)
  have i: "''index.php'' \<in> set index_names" "''index.html'' \<in> set index_names" by (simp_all add: index_names_def)
  show ?thesis
  proof (cases ?any)
    case True
    then have "hasAnyIndex (abs_path rs) w = (Inr True, w1)" using w1(1) by simp
    then show ?thesis using same by (auto simp: ensureRuntimeBootstrap_def assms(4,5) ne Let_def)
  next
    case False
    then have "hasAnyIndex (abs_path rs) w = (Inr False, w1)" using w1(1) by simp
    then show ?thesis using new [OF i(1) False] new [OF i(2) False] by (simp add: ensureRuntimeBootstrap_def assms(4,5) ne Let_def)
  qed
qed

text \<open>
  Where a site with configuration \<open>n\<close> and root \<open>rs\<close> can be put: the directories of nginx are there; of the
  root, what is there is real directories; what is there under the names of the configuration and the
  link is a file and a link; and the root is not below any of these.
\<close>

definition placeable :: "fs \<Rightarrow> string list \<Rightarrow> string list \<Rightarrow> string list \<Rightarrow> string \<Rightarrow> bool" where
  "placeable m da de rs n \<longleftrightarrow> plain_dir m da \<and> plain_dir m de \<and> da \<noteq> [] \<and> de \<noteq> [] \<and> da \<noteq> de
     \<and> list_all good_seg rs \<and> rs \<noteq> [] \<and> (\<forall>q. prefix q rs \<longrightarrow> fs_get m q = None \<or> fs_get m q = Some Directory)
     \<and> (\<forall>i t. fs_get m (rs @ [i]) \<noteq> Some (Symlink t))
     \<and> (fs_get m (da @ [n]) = None \<or> (\<exists>x. fs_get m (da @ [n]) = Some (File x)))
     \<and> (fs_get m (de @ [n]) = None \<or> (\<exists>t. t \<noteq> [] \<and> fs_get m (de @ [n]) = Some (Symlink t)))
     \<and> fs_get m (da @ [n @ ''.tmp'']) = None
     \<and> \<not> prefix (da @ [n]) rs \<and> \<not> prefix (da @ [n @ ''.tmp'']) rs \<and> \<not> prefix (de @ [n]) rs"

lemma placeable_moved:
  assumes "placeable (os_fs w) da de rs n" "\<And>q. q \<noteq> st \<Longrightarrow> fsg w' q = fsg w q" "fsg w st \<noteq> Some Directory"
    and "\<not> prefix st rs" "st \<noteq> da @ [n]" "st \<noteq> de @ [n]" "st \<noteq> da @ [n @ ''.tmp'']" "\<And>x. st \<noteq> rs @ [x]"
  shows "placeable (os_fs w') da de rs n"
proof -
  have plain: "plain_dir (os_fs w') x" if "plain_dir (os_fs w) x" for x
  proof (rule plain_dir_cong [OF that])
    fix q assume "prefix q x"
    then have "q \<noteq> st" using plain_dirD [OF that] assms(3) by auto
    then show "fsg w' q = fsg w q" by (rule assms(2))
  qed
  have root: "fsg w' q = fsg w q" if "prefix q rs" for q using that assms(4) by (intro assms(2)) auto
  have below: "fsg w' (rs @ [x]) = fsg w (rs @ [x])" for x using assms(8) [of x] by (intro assms(2)) auto
  have at: "fsg w' (da @ [n]) = fsg w (da @ [n])" "fsg w' (de @ [n]) = fsg w (de @ [n])"
      "fsg w' (da @ [n @ ''.tmp'']) = fsg w (da @ [n @ ''.tmp''])"
    using assms(5-7) by (auto intro!: assms(2))
  show ?thesis using assms(1) plain root by (simp add: placeable_def below at)
qed

text \<open>What provisioning may touch.\<close>

definition site_touches :: "string list \<Rightarrow> string list \<Rightarrow> string list \<Rightarrow> string \<Rightarrow> string list \<Rightarrow> bool" where
  "site_touches da de rs n q \<longleftrightarrow> q = da @ [n] \<or> q = de @ [n] \<or> prefix q rs \<or> q \<in> (\<lambda>i. rs @ [i]) ` set index_names"

lemma conf_name_not_index: "conf_name site \<notin> set index_names" "conf_name site @ ''.tmp'' \<notin> set index_names"
proof -
  have "conf_name site \<noteq> y" "conf_name site @ ''.tmp'' \<noteq> y" if "y \<in> set index_names" for y
    using that arg_cong [of "conf_name site" y rev] arg_cong [of "conf_name site @ ''.tmp''" y rev]
    by (auto simp: index_names_def conf_name_def)
  then show "conf_name site \<notin> set index_names" "conf_name site @ ''.tmp'' \<notin> set index_names" by blast+
qed

lemma nginx_prepare_ok:
  assumes "quiet w" "placeable (os_fs w) da de rs (conf_name site)"
    and "ng_AvailableDir cfg = abs_path da" "ng_EnabledDir cfg = abs_path de"
    and "site_Domain site \<noteq> []" "site_RootPath site = abs_path rs" "TrimSpace (abs_path rs) = abs_path rs"
  shows "\<exists>w'. nginx_prepare cfg site w = (None, w') \<and> grows w w' \<and> plain_dir (os_fs w') rs
    \<and> (\<forall>q. \<not> prefix q rs \<and> q \<notin> (\<lambda>i. rs @ [i]) ` set index_names \<longrightarrow> fsg w' q = fsg w q)"
proof -
  have p: "plain_dir (os_fs w) da" "plain_dir (os_fs w) de" "da \<noteq> []" "de \<noteq> []" "list_all good_seg rs" "rs \<noteq> []"
    "\<forall>q. prefix q rs \<longrightarrow> fsg w q = None \<or> fsg w q = Some Directory" "\<And>i t. fsg w (rs @ [i]) \<noteq> Some (Symlink t)"
    using assms(2) by (simp_all add: placeable_def)
  obtain w1 where w1: "MkdirAll (abs_path rs) w = (None, w1)" "plain_dir (os_fs w1) rs"
      "fsg w1 = (\<lambda>q. if prefix q rs then Some Directory else fsg w q)"
    using MkdirAll_makes [OF assms(1) p(5-7)] by blast
  have q1: "quiet w1" using quiet_env [OF os_env(10) [OF w1(1)] assms(1)] .
  have "\<And>i t. fsg w1 (rs @ [i]) \<noteq> Some (Symlink t)" using p(8) by (simp add: w1(3))
  from ensureRuntimeBootstrap_ok [OF q1 w1(2) p(6) assms(6,7) this] obtain w2 where w2:
      "ensureRuntimeBootstrap site w1 = (None, w2)" "grows w1 w2"
      "\<And>q. q \<notin> (\<lambda>n. rs @ [n]) ` set index_names \<Longrightarrow> fsg w2 q = fsg w1 q" by blast
  have "abs_path rs \<noteq> []" by (simp add: abs_path_def)
  then have "nginx_prepare cfg site w = (None, w2)"
    using MkdirAll_existing [OF p(1,3)] MkdirAll_existing [OF p(2,4)] w1(1) w2(1) assms(3-6)
    by (simp add: nginx_prepare_def)
  moreover have "grows w w2" using w2(2) p(7) by (auto simp: grows_def w1(3))
  ultimately show ?thesis using w2 plain_dir_grows [OF w1(2) w2(2)] by (auto simp: w1(3))
qed

text \<open>With commands that succeed, the activation succeeds.\<close>

lemma runCommand_succeeds:
  assumes "\<forall>n argv m. fst (snd (os_exec w n argv m)) = None" "Fields (TrimSpace raw) \<noteq> []"
  shows "fst (runCommand raw w) = None"
  using assms by (auto simp: runCommand_def CombinedOutput_def split: list.split prod.split option.split) (metis fst_conv option.distinct(1) snd_conv)

lemma nginx_activate_succeeds:
  fixes w :: "'a os_scheme"
  assumes w: "quiet w" "plain_dir (os_fs w) da" "plain_dir (os_fs w) de" "da \<noteq> de"
    and cfg: "ng_AvailableDir cfg = abs_path da" "ng_EnabledDir cfg = abs_path de"
    and no_tmp: "fsg w (da @ [conf_name site @ ''.tmp'']) = None"
    and nd: "fsg w (da @ [conf_name site]) \<noteq> Some Directory" "fsg w (de @ [conf_name site]) \<noteq> Some Directory"
    and cmds: "\<forall>n argv m. fst (snd (os_exec w n argv m)) = None" "Fields (TrimSpace (ng_TestCommand cfg)) \<noteq> []"
      "Fields (TrimSpace (ng_ReloadCommand cfg)) \<noteq> []"
  shows "fst (nginx_activate cfg site pc pl w) = None"
proof -
  let ?conf = "da @ [conf_name site]" and ?link = "de @ [conf_name site]"
  note good = conf_name_good [of site]
  note paths = conf_paths [OF cfg plain_dir_good [OF w(2)] plain_dir_good [OF w(3)], of site]
  obtain w1 where w1: "writeAtomic (abs_path ?conf) (renderNginxServer site) w = (None, w1)"
      "fsg w1 = (fsg w)(?conf := Some (File (renderNginxServer site)))"
    using writeAtomic_ok [OF w(1,2) good nd(1) no_tmp] by blast
  note e1 = writeAtomic_env [OF w1(1)]
  have s1: "quiet w1" "plain_dir (os_fs w1) de" "fsg w1 ?link \<noteq> Some Directory"
    using quiet_env [OF e1 w(1)] plain_dir_upd [OF w(3) nd(1) w1(2)] nd(2) w(4) by (simp_all add: w1(2))
  obtain w2 where w2: "upsertSymlink (abs_path ?conf) (abs_path ?link) w1 = (None, w2)"
    using upsertSymlink_ok [OF s1(1,2) good s1(3)] by blast
  have x2: "\<forall>n argv m. fst (snd (os_exec w2 n argv m)) = None"
    using upsertSymlink_env [OF w2] e1 cmds(1) by (simp add: env_of_def)
  obtain w3 where w3: "runCommand (ng_TestCommand cfg) w2 = (None, w3)" using runCommand_succeeds [OF x2 cmds(2)] by (metis prod.collapse)
  have "\<forall>n argv m. fst (snd (os_exec w3 n argv m)) = None" using runCommand_env [OF w3] x2 by (simp add: env_of_def)
  then obtain w4 where "runCommand (ng_ReloadCommand cfg) w3 = (None, w4)" using runCommand_succeeds [OF _ cmds(3)] by (metis prod.collapse)
  then show ?thesis using w1(1) w2 w3 by (simp add: nginx_activate_def Let_def paths)
qed

lemma ProvisionSite_succeeds:
  assumes "quiet w" "\<forall>n argv m. fst (snd (os_exec w n argv m)) = None" "ng_Apply cfg"
    and cfg: "ng_AvailableDir cfg = abs_path da" "ng_EnabledDir cfg = abs_path de"
    and cmds: "Fields (TrimSpace (ng_TestCommand cfg)) \<noteq> []" "Fields (TrimSpace (ng_ReloadCommand cfg)) \<noteq> []"
    and "placeable (os_fs w) da de rs (conf_name site)"
    and "site_Domain site \<noteq> []" "site_RootPath site = abs_path rs" "TrimSpace (abs_path rs) = abs_path rs"
  shows "\<exists>w'. nginx_ProvisionSite cfg site w = (None, w') \<and> grows w w'
    \<and> fsg w' (da @ [conf_name site]) = Some (File (renderNginxServer site))
    \<and> fsg w' (de @ [conf_name site]) = Some (Symlink (confPath_of cfg site)) \<and> fsg w' rs = Some Directory
    \<and> (\<forall>q. \<not> site_touches da de rs (conf_name site) q \<longrightarrow> fsg w' q = fsg w q)"
proof -
  let ?n = "conf_name site"
  note good = conf_name_good [of site]
  have p: "plain_dir (os_fs w) da" "plain_dir (os_fs w) de" "da \<noteq> de" "rs \<noteq> []"
      "fsg w (da @ [?n]) = None \<or> (\<exists>x. fsg w (da @ [?n]) = Some (File x))"
      "fsg w (de @ [?n]) = None \<or> (\<exists>t. t \<noteq> [] \<and> fsg w (de @ [?n]) = Some (Symlink t))" "fsg w (da @ [?n @ ''.tmp'']) = None"
      "\<not> prefix (da @ [?n]) rs" "\<not> prefix (da @ [?n @ ''.tmp'']) rs" "\<not> prefix (de @ [?n]) rs"
    using assms(8) by (simp_all add: placeable_def)
  note paths = conf_paths [OF cfg plain_dir_good [OF p(1)] plain_dir_good [OF p(2)], of site]
  obtain w1 where w1: "nginx_prepare cfg site w = (None, w1)" "grows w w1" "plain_dir (os_fs w1) rs"
      "\<And>q. \<not> prefix q rs \<Longrightarrow> q \<notin> (\<lambda>i. rs @ [i]) ` set index_names \<Longrightarrow> fsg w1 q = fsg w q"
    using nginx_prepare_ok [OF assms(1,8) cfg assms(9-11)] by blast
  have at: "fsg w1 (da @ [?n]) = fsg w (da @ [?n])" "fsg w1 (de @ [?n]) = fsg w (de @ [?n])"
      "fsg w1 (da @ [?n @ ''.tmp'']) = None"
    using w1(4) [of "da @ [?n]"] w1(4) [of "de @ [?n]"] w1(4) [of "da @ [?n @ ''.tmp'']"] p(7-10) conf_name_not_index [of site] by auto
  note e1 = nginx_prepare_env [OF w1(1)]
  have s1: "quiet w1" "plain_dir (os_fs w1) da" "plain_dir (os_fs w1) de"
    using quiet_env [OF e1 assms(1)] plain_dir_grows [OF p(1) w1(2)] plain_dir_grows [OF p(2) w1(2)] .
  obtain pc w3 where w3: "readIfExists (confPath_of cfg site) w1 = (Inr pc, w3)" "fsg w3 = fsg w1" "before_conf (fsg w1 (da @ [?n])) pc"
    using readIfExists_ok [OF s1(1,2) good] p(5) unfolding paths at(1) by metis
  note e3 = readIfExists_env [OF w3(1)]
  have s3: "quiet w3" "plain_dir (os_fs w3) da" "plain_dir (os_fs w3) de"
    using quiet_env [OF e3 s1(1)] plain_dir_cong [OF s1(2)] plain_dir_cong [OF s1(3)] by (simp_all add: w3(2))
  obtain pl w4 where w4: "readLinkIfExists (linkPath_of cfg site) w3 = (Inr pl, w4)" "fsg w4 = fsg w3" "before_link (fsg w3 (de @ [?n])) pl"
    using readLinkIfExists_ok [OF s3(1,3) good] p(6) unfolding paths at(2) [folded w3(2)] by metis
  note e4 = readLinkIfExists_env [OF w4(1)]
  have s4: "quiet w4" "plain_dir (os_fs w4) da" "plain_dir (os_fs w4) de"
    using quiet_env [OF e4 s3(1)] plain_dir_cong [OF s3(2)] plain_dir_cong [OF s3(3)] by (simp_all add: w4(2))
  have f4: "fsg w4 = fsg w1" using w4(2) w3(2) by simp
  have x4: "\<forall>n argv m. fst (snd (os_exec w4 n argv m)) = None" using e1 e3 e4 assms(2) by (simp add: env_of_def)
  have nd: "fsg w4 (da @ [?n @ ''.tmp'']) = None" "fsg w4 (da @ [?n]) \<noteq> Some Directory" "fsg w4 (de @ [?n]) \<noteq> Some Directory"
    using p(5,6) at by (auto simp: f4)
  obtain w5 where w5: "nginx_activate cfg site pc pl w4 = (None, w5)"
    using nginx_activate_succeeds [OF s4 p(3) cfg nd x4 cmds] by (metis prod.collapse)
  have b: "before_conf (fsg w4 (da @ [?n])) pc" "before_link (fsg w4 (de @ [?n])) pl" using w3(3) w4(3) by (simp_all add: f4 w3(2))
  have f5: "fsg w5 = (fsg w1)(da @ [?n] := Some (File (renderNginxServer site)), de @ [?n] := Some (Symlink (confPath_of cfg site)))"
    using nginx_activate_ok [OF s4 p(3) cfg nd(1) b w5] by (simp add: f4)
  have "nginx_ProvisionSite cfg site w = (None, w5)"
    using assms(3) w1(1) w3(1) w4(1) w5 by (simp add: nginx_ProvisionSite_def)
  moreover have "grows w1 w5" using p(5,6) at by (auto simp: grows_def f5)
  then have "grows w w5" by (rule grows_trans [OF w1(2)])
  moreover have "fsg w5 rs = Some Directory" using p(8,10) plain_dirD [OF w1(3)] by (auto simp: f5)
  moreover have "\<forall>q. \<not> site_touches da de rs ?n q \<longrightarrow> fsg w5 q = fsg w q" using w1(4) by (auto simp: f5 site_touches_def)
  moreover have "da @ [?n] \<noteq> de @ [?n]" using p(3) by simp
  ultimately show ?thesis by (simp add: f5)
qed

end
