(* ===== verification/SiteLife.thy ===== *)
theory SiteLife
  imports WorkingHost
begin

text \<open>
  The life of a site from end to end: the request to create it, its job, the worker, nginx; and the
  request to delete it, its job, the worker, nginx (\<open>internal/httpserver\<close>, \<open>internal/service/sites\<close>,
  \<open>internal/jobs\<close>, \<open>internal/provision\<close>, \<open>internal/store/filedb\<close> together).
\<close>

subsection \<open>From the request to the queued job\<close>

definition new_site :: "string \<Rightarrow> string \<Rightarrow> string \<Rightarrow> string \<Rightarrow> string \<Rightarrow> int \<Rightarrow> Site" where
  "new_site actor d r rt i now = \<lparr>site_ID = i, site_Domain = normalizeDomain d, site_RootPath = TrimSpace r,
     site_Runtime = ToLower (TrimSpace rt), site_Status = SiteStatusProvisioning, site_CreatedBy = actor,
     site_CreatedAt = now, site_UpdatedAt = now\<rparr>"

lemma Enqueue_healthy:
  assumes "healthy ds c w" "jq_started w" "\<not> jq_stopped w" "length (jq_queue w) < queue_capacity"
  shows "\<exists>i now v. jobs_Enqueue None pick actor ty payload w = (Some (Inr (new_job actor ty payload i now)), v\<lparr>jq_queue := jq_queue w @ [i]\<rparr>)
    \<and> moved ds c w v \<and> on_disk ds c v \<and> rp_data v = (rp_data w)\<lparr>Jobs := mput i (new_job actor ty payload i now) (Jobs (rp_data w))\<rparr>"
proof -
  obtain i w1 where w1: "idgen_New ''job'' w = (Inr i, w1)" "moved ds c w w1" "rp_data w1 = rp_data w"
    using ops_healthy(6) [OF assms(1), of "''job''"] by blast
  have h1: "healthy ds c w1" using w1(2) by (simp add: moved_def)
  obtain now w2 where w2: "time_Now w1 = (now, w2)" "moved ds c w1 w2" "rp_data w2 = rp_data w1"
    using ops_healthy(7) [OF h1] by blast
  have h2: "healthy ds c w2" using w2(2) by (simp add: moved_def)
  let ?j = "new_job actor ty payload i now"
  obtain w3 where w3: "repo_CreateJob ?j w2 = (None, w3)" "moved ds c w2 w3" "on_disk ds c w3"
      "rp_data w3 = (rp_data w2)\<lparr>Jobs := mput (job_ID ?j) ?j (Jobs (rp_data w2))\<rparr>"
    using ops_healthy(2) [OF h2, of ?j] by blast
  have m: "moved ds c w w3" using moved_trans [OF moved_trans [OF w1(2) w2(2)] w3(2)] .
  then have q: "jq_queue w3 = jq_queue w" using same_env_queue by (auto simp: moved_def)
  have "jobs_Enqueue None pick actor ty payload w = (Some (Inr ?j), w3\<lparr>jq_queue := jq_queue w @ [i]\<rparr>)"
    using assms(2-4) w1(1) w2(1) w3(1) q by (simp add: jobs_Enqueue_def send_or_done_def new_job_def)
  moreover have "rp_data w3 = (rp_data w)\<lparr>Jobs := mput i ?j (Jobs (rp_data w))\<rparr>"
    using w3(4) w2(3) w1(3) by (simp add: new_job_def)
  ultimately show ?thesis using m w3(3) by blast
qed

lemma CreateSite_healthy:
  assumes "healthy ds c w" "jq_started w" "\<not> jq_stopped w" "length (jq_queue w) < queue_capacity"
    and "isValidDomain (normalizeDomain d)" "isValidRootPath (TrimSpace r)" "ToLower (TrimSpace rt) \<in> set allowedRuntime"
    and "mget (DomainIndex (rp_data w)) (ToLower (normalizeDomain d)) = None"
  shows "\<exists>sid t i now v site job. site = new_site actor d r rt sid t \<and> job = new_job actor JobTypeProvisionSite (site_payload site) i now
    \<and> sites_CreateSite None pick actor d r rt w = (Some (Inr (site, job)), v\<lparr>jq_queue := jq_queue w @ [i]\<rparr>)
    \<and> ascii sid \<and> sid \<noteq> [] \<and> moved ds c w v \<and> Sites (rp_data v) = mput sid site (Sites (rp_data w))
    \<and> DomainIndex (rp_data v) = mput (ToLower (normalizeDomain d)) sid (DomainIndex (rp_data w))
    \<and> Jobs (rp_data v) = mput i job (Jobs (rp_data w))"
proof -
  have "ascii ''site''" by (simp add: ascii_def byte_def)
  then obtain sid w1 where w1: "idgen_New ''site'' w = (Inr sid, w1)" "moved ds c w w1" "rp_data w1 = rp_data w" "ascii sid" "sid \<noteq> []"
    using ops_healthy(6) [OF assms(1), of "''site''"] by blast
  have h1: "healthy ds c w1" using w1(2) by (simp add: moved_def)
  obtain t w2 where w2: "time_Now w1 = (t, w2)" "moved ds c w1 w2" "rp_data w2 = rp_data w1"
    using ops_healthy(7) [OF h1] by blast
  have h2: "healthy ds c w2" using w2(2) by (simp add: moved_def)
  define site where "site = new_site actor d r rt sid t"
  have free: "mget (DomainIndex (rp_data w2)) (ToLower (site_Domain site)) = None"
    using assms(8) w1(3) w2(3) by (simp add: site_def new_site_def)
  obtain w3 where w3: "repo_CreateSite site w2 = (None, w3)" "moved ds c w2 w3"
      "rp_data w3 = (rp_data w2)\<lparr>Sites := mput (site_ID site) site (Sites (rp_data w2)),
         DomainIndex := mput (ToLower (site_Domain site)) (site_ID site) (DomainIndex (rp_data w2))\<rparr>"
    using ops_healthy(1) [OF h2 free] by blast
  have m3: "moved ds c w w3" using moved_trans [OF moved_trans [OF w1(2) w2(2)] w3(2)] .
  then have h3: "healthy ds c w3" "same_env w w3" by (simp_all add: moved_def)
  then have run: "jq_started w3" "\<not> jq_stopped w3" "length (jq_queue w3) < queue_capacity" "jq_queue w3 = jq_queue w"
    using assms(2-4) same_env_queue [OF h3(2)] same_env_flags [OF h3(2)] by auto
  obtain i now v where v: "jobs_Enqueue None pick actor JobTypeProvisionSite (site_payload site) w3
        = (Some (Inr (new_job actor JobTypeProvisionSite (site_payload site) i now)), v\<lparr>jq_queue := jq_queue w @ [i]\<rparr>)"
      "moved ds c w3 v" "rp_data v = (rp_data w3)\<lparr>Jobs := mput i (new_job actor JobTypeProvisionSite (site_payload site) i now) (Jobs (rp_data w3))\<rparr>"
    using Enqueue_healthy [OF h3(1) run(1-3), of pick actor JobTypeProvisionSite "site_payload site"] run(4) by auto
  have "sites_CreateSite None pick actor d r rt w
      = (Some (Inr (site, new_job actor JobTypeProvisionSite (site_payload site) i now)), v\<lparr>jq_queue := jq_queue w @ [i]\<rparr>)"
    using assms(5-7) w1(1) w2(1) w3(1) v(1)
    by (simp add: sites_CreateSite_def Let_def site_payload_def site_def new_site_def)
  moreover have "site_ID site = sid" "site_Domain site = normalizeDomain d" by (simp_all add: site_def new_site_def)
  ultimately show ?thesis
    using w1(3-5) w2(3) w3(3) v(3) moved_trans [OF m3 v(2)]
    by (intro exI [of _ sid] exI [of _ t] exI [of _ i] exI [of _ now] exI [of _ v] exI [of _ site]) (auto simp: site_def)
qed

subsection \<open>The worker handles it\<close>

lemma moved_env_of:
  assumes "env_of w' = env_of w" "healthy ds c w" "grows w w'" "\<forall>q \<in> {ds @ [c], ds @ [c @ ''.tmp'']}. fsg w' q = fsg w q"
  shows "healthy ds c w'"
  using assms quiet_env [OF assms(1)] same_rest_repo [of w w'] plain_dir_grows [OF _ assms(3), of ds]
  by (auto simp: healthy_def same_rest_env_of) (auto simp: env_of_def)

lemma handle_provision_healthy:
  assumes h: "healthy ds c w" "\<not> site_touches da de rs (conf_name site) (ds @ [c])" "\<not> site_touches da de rs (conf_name site) (ds @ [c @ ''.tmp''])"
    and j: "mget (Jobs (rp_data w)) i = Some job" "job_ID job = i" "job_Type job = JobTypeProvisionSite"
      "job_Payload job = Marshal (JMap (map (\<lambda>(k, v). (k, JStr v)) (site_payload site)))"
    and s: "mget (Sites (rp_data w)) (site_ID site) = Some site" "ascii (site_ID site)" "site_ID site \<noteq> []"
    and cfg: "ng_Apply cfg" "ng_AvailableDir cfg = abs_path da" "ng_EnabledDir cfg = abs_path de"
      "Fields (TrimSpace (ng_TestCommand cfg)) \<noteq> []" "Fields (TrimSpace (ng_ReloadCommand cfg)) \<noteq> []"
    and p: "placeable (os_fs w) da de rs (conf_name site)" "ds @ [c] \<noteq> da @ [conf_name site @ ''.tmp'']"
      "site_Domain site \<noteq> []" "site_RootPath site = abs_path rs" "TrimSpace (abs_path rs) = abs_path rs"
      "\<And>x. ds @ [c] \<noteq> rs @ [x]"
  defines "w' \<equiv> jobs_handleJob (Some (nginx_ProvisionSite cfg, nginx_DeprovisionSite cfg)) i w"
  shows "healthy ds c w' \<and> on_disk ds c w' \<and> jq_queue w' = jq_queue w
    \<and> (\<exists>t. Sites (rp_data w') = mput (site_ID site) (set_status (SiteStatusActive, t) site) (Sites (rp_data w)))
    \<and> DomainIndex (rp_data w') = DomainIndex (rp_data w)
    \<and> fsg w' (da @ [conf_name site]) = Some (File (renderNginxServer site))
    \<and> fsg w' (de @ [conf_name site]) = Some (Symlink (confPath_of cfg site)) \<and> fsg w' rs = Some Directory"
proof -
  let ?n = "conf_name site" and ?st = "ds @ [c]"
  have pre: "\<not> prefix ?st rs" "?st \<noteq> da @ [?n]" "?st \<noteq> de @ [?n]" using h(2) by (auto simp: site_touches_def)
  obtain t w1 where w1: "time_Now w = (t, w1)" "moved ds c w w1" "rp_data w1 = rp_data w" using ops_healthy(7) [OF h(1)] by blast
  have h1: "healthy ds c w1" using w1(2) by (simp add: moved_def)
  have j1: "mget (Jobs (rp_data w1)) i = Some job" using j(1) w1(3) by simp
  obtain w2 where w2: "repo_UpdateJob i JobStatusRunning [] (Some t) None w1 = (None, w2)" "moved ds c w1 w2"
      "Sites (rp_data w2) = Sites (rp_data w1)" "DomainIndex (rp_data w2) = DomainIndex (rp_data w1)"
    using ops_healthy(4) [OF h1 j1, of JobStatusRunning "[]" "Some t" None] by blast
  have m2: "moved ds c w w2" by (rule moved_trans [OF w1(2) w2(2)])
  then have h2: "healthy ds c w2" and f2: "\<And>q. q \<noteq> ?st \<Longrightarrow> fsg w2 q = fsg w q" by (simp_all add: moved_def)
  have s2: "mget (Sites (rp_data w2)) (site_ID site) = Some site" using s(1) w1(3) w2(3) by simp
  note payload = payload_site_of [OF j(4) s(2,3) s2]
  have pl: "placeable (os_fs w2) da de rs ?n"
    by (rule placeable_moved [OF p(1) f2 _ pre p(2,6)]) (use h(1) in \<open>simp_all add: healthy_def\<close>)
  have x2: "quiet w2" "\<forall>n argv m. fst (snd (os_exec w2 n argv m)) = None" using h2 by (simp_all add: healthy_def)
  obtain w3 where w3: "nginx_ProvisionSite cfg site w2 = (None, w3)" "grows w2 w3"
      "fsg w3 (da @ [?n]) = Some (File (renderNginxServer site))" "fsg w3 (de @ [?n]) = Some (Symlink (confPath_of cfg site))"
      "fsg w3 rs = Some Directory" "\<And>q. \<not> site_touches da de rs ?n q \<Longrightarrow> fsg w3 q = fsg w2 q"
    using ProvisionSite_succeeds [OF x2 cfg pl p(3-5)] by blast
  note e3 = nginx_ProvisionSite_env [OF w3(1)]
  have h3: "healthy ds c w3" using moved_env_of [OF e3 h2 w3(2)] w3(6) h(2,3) by simp
  have d3: "rp_data w3 = rp_data w2" "same_env w2 w3"
    using same_rest_repo [of w2 w3] same_rest_env [of w2 w3] e3 by (simp_all add: same_rest_env_of)
  have s3: "mget (Sites (rp_data w3)) (site_ID site) = Some site" using s2 d3 by simp
  obtain t' w4 where w4: "repo_UpdateSiteStatus (site_ID site) SiteStatusActive w3 = (None, w4)" "moved ds c w3 w4"
      "rp_data w4 = (rp_data w3)\<lparr>Sites := mput (site_ID site) (set_status (SiteStatusActive, t') site) (Sites (rp_data w3))\<rparr>"
    using ops_healthy(3) [OF h3 s3] by blast
  obtain t'' w5 where w5: "time_Now w4 = (t'', w5)" "moved ds c w4 w5" "rp_data w5 = rp_data w4"
    using ops_healthy(7) [of ds c w4] w4(2) by (auto simp: moved_def)
  have h5: "healthy ds c w5" using w5(2) by (simp add: moved_def)
  have "Jobs (rp_data w5) = Jobs (rp_data w2)" using w5(3) w4(3) d3 by simp
  moreover have "mget (Jobs (rp_data w2)) i \<noteq> None"
    using repo_UpdateJob_data [of i JobStatusRunning "[]" "Some t" None w1] w2(1) j1 by simp
  ultimately obtain j5 where j5: "mget (Jobs (rp_data w5)) i = Some j5" by auto
  obtain w6 where w6: "repo_UpdateJob i JobStatusSuccess [] (Some t) (Some t'') w5 = (None, w6)" "moved ds c w5 w6" "on_disk ds c w6"
      "Sites (rp_data w6) = Sites (rp_data w5)" "DomainIndex (rp_data w6) = DomainIndex (rp_data w5)"
    using ops_healthy(4) [OF h5 j5, of JobStatusSuccess "[]" "Some t" "Some t''"] by blast
  have m: "moved ds c w3 w6" by (rule moved_trans [OF moved_trans [OF w4(2) w5(2)] w6(2)])
  have "w' = w6" using j w1(1) w2(1) payload w3(1) w4(1) w5(1) w6(1)
    by (simp add: w'_def jobs_handleJob_def repo_GetJobByID_def jobs_runByType_def jobs_runProvisionSite_def)
  moreover have "same_env w w6" using same_env_trans [OF same_env_trans [OF _ d3(2)]] m2 m by (auto simp: moved_def)
  then have "jq_queue w6 = jq_queue w" by (rule same_env_queue)
  moreover have f6: "fsg w6 q = fsg w3 q" if "q \<noteq> ?st" for q using m that by (simp add: moved_def)
  have "rs \<noteq> ?st" using pre(1) by auto
  then have "fsg w6 (da @ [?n]) = fsg w3 (da @ [?n])" "fsg w6 (de @ [?n]) = fsg w3 (de @ [?n])" "fsg w6 rs = fsg w3 rs"
    using pre(2,3) by (auto intro!: f6)
  ultimately show ?thesis
    using w3(3-5) w6(3-5) w5(3) w4(3) d3(1) w2(3,4) w1(3) m by (auto simp: moved_def)
qed

subsection \<open>The site goes live\<close>

lemma Authenticate_accepts:
  "auth_Authenticate token w = (Inr user, w') \<Longrightarrow> w' = w\<lparr>os_ticks := Suc (os_ticks w)\<rparr>"
  by (auto simp: auth_Authenticate_def time_Now_def split: if_splits sum.splits)

lemma new_site_conf: "isValidDomain (normalizeDomain d) \<Longrightarrow> conf_name (new_site actor d r rt i t) = normalizeDomain d @ ''.conf''"
  using sanitize_valid [of "normalizeDomain d" d] by (simp add: conf_name_def new_site_def)

lemma render_status: "renderNginxServer (set_status p s) = renderNginxServer s" "confPath_of cfg (set_status p s) = confPath_of cfg s"
  by (simp_all add: renderNginxServer_def confPath_of_def set_status_def)

lemma app_nginx_settings:
  assumes "cf_ProvisionApply cfg" "cf_NginxAvailableDir cfg = da" "cf_NginxEnabledDir cfg = de"
    "Fields (TrimSpace (cf_NginxTestCommand cfg)) \<noteq> []" "Fields (TrimSpace (cf_NginxReloadCommand cfg)) \<noteq> []"
  shows "ng_Apply (app_nginx cfg)" "ng_AvailableDir (app_nginx cfg) = da" "ng_EnabledDir (app_nginx cfg) = de"
    "Fields (TrimSpace (ng_TestCommand (app_nginx cfg))) \<noteq> []" "Fields (TrimSpace (ng_ReloadCommand (app_nginx cfg))) \<noteq> []"
  using assms by (simp_all add: app_nginx_def)

text \<open>The request to create a site, up to its answer: the site is stored and its job queued.\<close>

lemma create_served:
  fixes w :: "'a panel_scheme"
  assumes request: "route r = Some CreateSite" "bearerToken (rq_Authorization r) = Inr token" "rq_done r = None"
      "decodeJSON [''domain'', ''root_path'', ''runtime''] r = Inr m"
    and admin: "auth_Authenticate token w = (Inr user, w0)" "user_Role user = RoleAdmin"
    and input: "isValidDomain (normalizeDomain (field m ''domain''))" "isValidRootPath (TrimSpace (field m ''root_path''))"
      "ToLower (TrimSpace (field m ''runtime'')) \<in> set allowedRuntime"
      "mget (DomainIndex (rp_data w)) (ToLower (normalizeDomain (field m ''domain''))) = None"
    and host: "healthy ds c w" "jq_started w" "\<not> jq_stopped w" "jq_queue w = []"
  obtains resp w1 sid t i now site job where "serve a res r w = (Some resp, w1)" "rs_Status resp = 201" "jq_queue w1 = [i]" "healthy ds c w1"
    "site = new_site (user_ID user) (field m ''domain'') (field m ''root_path'') (field m ''runtime'') sid t"
    "job = new_job (user_ID user) JobTypeProvisionSite (site_payload site) i now" "ascii sid" "sid \<noteq> []"
    "Sites (rp_data w1) = mput sid site (Sites (rp_data w))" "mget (Jobs (rp_data w1)) i = Some job"
    "DomainIndex (rp_data w1) = mput (ToLower (normalizeDomain (field m ''domain''))) sid (DomainIndex (rp_data w))"
    "\<forall>q. q \<noteq> ds @ [c] \<longrightarrow> fsg w1 q = fsg w q"
proof -
  have w0: "w0 = w\<lparr>os_ticks := Suc (os_ticks w)\<rparr>" by (rule Authenticate_accepts [OF admin(1)])
  have h0: "healthy ds c w0" "jq_started w0" "\<not> jq_stopped w0" "length (jq_queue w0) < queue_capacity" "jq_queue w0 = []"
      "mget (DomainIndex (rp_data w0)) (ToLower (normalizeDomain (field m ''domain''))) = None"
    using host input(4) by (simp_all add: w0 queue_capacity_def)
  from CreateSite_healthy [OF h0(1-4) input(1-3) h0(6), where pick = "rq_pick r" and actor = "user_ID user"]
  obtain sid t i now v site job where c:
    "site = new_site (user_ID user) (field m ''domain'') (field m ''root_path'') (field m ''runtime'') sid t"
    "job = new_job (user_ID user) JobTypeProvisionSite (site_payload site) i now"
    "sites_CreateSite None (rq_pick r) (user_ID user) (field m ''domain'') (field m ''root_path'') (field m ''runtime'') w0
      = (Some (Inr (site, job)), v\<lparr>jq_queue := [i]\<rparr>)"
    "ascii sid" "sid \<noteq> []" "moved ds c w0 v" "Sites (rp_data v) = mput sid site (Sites (rp_data w0))"
    "DomainIndex (rp_data v) = mput (ToLower (normalizeDomain (field m ''domain''))) sid (DomainIndex (rp_data w0))"
    "Jobs (rp_data v) = mput i job (Jobs (rp_data w0))"
    using h0(5) by auto
  let ?v = "v\<lparr>jq_queue := [i]\<rparr>"
  have hv: "healthy ds c ?v" using c(6) by (simp add: moved_def)
  define w1 where "w1 = audit_Record (user_ID user) ''site.create'' ''site'' sid
      (Some [(''domain'', JStr (site_Domain site)), (''job_id'', JStr (job_ID job))]) ?v"
  have m1: "moved ds c ?v w1" using ops_healthy(5) [OF hv] unfolding w1_def by blast
  then have h1: "healthy ds c w1" "jq_queue w1 = [i]" using same_env_queue [of ?v w1] by (simp_all add: moved_def)
  have "site_ID site = sid" using c(1) by (simp add: new_site_def)
  then obtain resp where serve: "serve a res r w = (Some resp, w1)" "rs_Status resp = 201"
    using request admin c(3)
    by (simp add: serve_def api_requireRole_def api_requireAuth_def api_handleCreateSite_def with_body_def ok_def writeJSON_def w1_def)
  have d1: "Sites (rp_data w1) = mput sid site (Sites (rp_data w))" "mget (Jobs (rp_data w1)) i = Some job"
      "DomainIndex (rp_data w1) = mput (ToLower (normalizeDomain (field m ''domain''))) sid (DomainIndex (rp_data w))"
    using c(7-9) by (simp_all add: w1_def audit_Record_data w0)
  have f1: "\<forall>q. q \<noteq> ds @ [c] \<longrightarrow> fsg w1 q = fsg w q"
    using m1 c(6) by (simp add: moved_def w0)
  show thesis by (rule that [OF serve h1(2,1) c(1,2,4,5) d1 f1])
qed

text \<open>
  C6: a created site goes live.  On a host on which nothing fails, a request of an administrator for a
  new site, with a valid domain that is free, a valid root path and a supported runtime, is answered
  with 201 and puts one job into the queue; the worker, given time for that one job, leaves the site
  active, its domain in the index, its server block under the directory of available sites, the link
  to it under the enabled ones, its root directory made, and the state file holding exactly the data
  in memory.
\<close>

theorem site_goes_live:
  fixes w :: "'a panel_scheme"
  assumes request: "route r = Some CreateSite" "bearerToken (rq_Authorization r) = Inr token" "rq_done r = None"
      "decodeJSON [''domain'', ''root_path'', ''runtime''] r = Inr m"
    and admin: "auth_Authenticate token w = (Inr user, w0)" "user_Role user = RoleAdmin"
    and input: "isValidDomain d" "d = normalizeDomain (field m ''domain'')" "isValidRootPath (abs_path rs)"
      "abs_path rs = TrimSpace (field m ''root_path'')" "ToLower (TrimSpace (field m ''runtime'')) \<in> set allowedRuntime"
      "mget (DomainIndex (rp_data w)) (ToLower d) = None"
    and host: "healthy ds c w" "jq_started w" "\<not> jq_stopped w" "jq_queue w = []"
    and nginx: "cf_ProvisionApply cfg" "cf_NginxAvailableDir cfg = abs_path da" "cf_NginxEnabledDir cfg = abs_path de"
      "Fields (TrimSpace (cf_NginxTestCommand cfg)) \<noteq> []" "Fields (TrimSpace (cf_NginxReloadCommand cfg)) \<noteq> []"
    and place: "placeable (os_fs w) da de rs (d @ ''.conf'')" "ds \<notin> {da, de, rs}" "\<not> prefix (ds @ [c]) rs" "\<not> prefix (ds @ [c @ ''.tmp'']) rs"
  shows "\<exists>resp w1 i. serve a res r w = (Some resp, w1) \<and> rs_Status resp = 201 \<and> jq_queue w1 = [i]
    \<and> (\<exists>w2 site. worker_loop (app_provisioner cfg) 1 w1 = w2 \<and> mget (Sites (rp_data w2)) (site_ID site) = Some site
      \<and> site_Domain site = d \<and> site_RootPath site = abs_path rs \<and> site_Status site = SiteStatusActive
      \<and> mget (DomainIndex (rp_data w2)) (ToLower d) = Some (site_ID site)
      \<and> fsg w2 (da @ [d @ ''.conf'']) = Some (File (renderNginxServer site))
      \<and> fsg w2 (de @ [d @ ''.conf'']) = Some (Symlink (confPath_of (app_nginx cfg) site))
      \<and> fsg w2 rs = Some Directory \<and> on_disk ds c w2)"
proof -
  have valid: "isValidDomain (normalizeDomain (field m ''domain''))" "isValidRootPath (TrimSpace (field m ''root_path''))"
    "mget (DomainIndex (rp_data w)) (ToLower (normalizeDomain (field m ''domain''))) = None"
    using input by simp_all
  obtain resp w1 sid t i now site job where c: "serve a res r w = (Some resp, w1)" "rs_Status resp = 201" "jq_queue w1 = [i]" "healthy ds c w1"
    "site = new_site (user_ID user) (field m ''domain'') (field m ''root_path'') (field m ''runtime'') sid t"
    "job = new_job (user_ID user) JobTypeProvisionSite (site_payload site) i now" "ascii sid" "sid \<noteq> []"
    "Sites (rp_data w1) = mput sid site (Sites (rp_data w))" "mget (Jobs (rp_data w1)) i = Some job"
    "DomainIndex (rp_data w1) = mput (ToLower (normalizeDomain (field m ''domain''))) sid (DomainIndex (rp_data w))"
    and f1: "\<forall>q. q \<noteq> ds @ [c] \<longrightarrow> fsg w1 q = fsg w q"
    by (rule create_served [OF request admin valid(1,2) input(5) valid(3) host, of a res]) (rule that)
  have site: "site_ID site = sid" "site_Domain site = d" "site_RootPath site = abs_path rs" using c(5) input(2,4) by (simp_all add: new_site_def)
  have n: "conf_name site = d @ ''.conf''" using new_site_conf [OF valid(1)] c(5) input(2) by simp
  have hp: "healthy ds c (w1\<lparr>jq_queue := []\<rparr>)" using c(4) by simp
  have st: "ds @ [c] \<noteq> da @ [x]" "ds @ [c] \<noteq> de @ [x]" "ds @ [c] \<noteq> rs @ [x]" "ds @ [c @ ''.tmp''] \<noteq> da @ [x]"
      "ds @ [c @ ''.tmp''] \<noteq> de @ [x]" "ds @ [c @ ''.tmp''] \<noteq> rs @ [x]" for x using place(2) by auto
  have clear: "\<not> site_touches da de rs (conf_name site) (ds @ [c])" "\<not> site_touches da de rs (conf_name site) (ds @ [c @ ''.tmp''])"
    using place(3,4) st by (auto simp: site_touches_def)
  have p1: "placeable (os_fs (w1\<lparr>jq_queue := []\<rparr>)) da de rs (conf_name site)"
    using placeable_moved [of w da de rs "d @ ''.conf''" "ds @ [c]" w1] place(1,3) f1 st(1-3) host(1)
    by (simp add: n healthy_def)
  have j: "mget (Jobs (rp_data (w1\<lparr>jq_queue := []\<rparr>))) i = Some job" "job_ID job = i" "job_Type job = JobTypeProvisionSite"
      "job_Payload job = Marshal (JMap (map (\<lambda>(k, v). (k, JStr v)) (site_payload site)))"
    using c(6,10) by (simp_all add: new_job_def)
  have s: "mget (Sites (rp_data (w1\<lparr>jq_queue := []\<rparr>))) (site_ID site) = Some site" "ascii (site_ID site)" "site_ID site \<noteq> []"
    using c(7-9) site(1) by simp_all
  note ng = app_nginx_settings [OF nginx]
  have trim: "TrimSpace (abs_path rs) = abs_path rs" using input(4) by (simp add: TrimSpace_idem)
  have "d \<noteq> []" using input(1) by (auto simp: isValidDomain_def)
  then have dom: "site_Domain site \<noteq> []" using site(2) by simp
  let ?w2 = "jobs_handleJob (app_provisioner cfg) i (w1\<lparr>jq_queue := []\<rparr>)"
  note live = handle_provision_healthy [OF hp clear j s ng p1 st(1) dom site(3) trim st(3), folded app_provisioner_def]
  have loop: "worker_loop (app_provisioner cfg) 1 w1 = ?w2" using c(3) by simp
  obtain t' where t': "Sites (rp_data ?w2) = mput sid (set_status (SiteStatusActive, t') site) (Sites (rp_data w1))"
    using live site(1) by auto
  let ?s = "set_status (SiteStatusActive, t') site"
  have s': "mget (Sites (rp_data ?w2)) (site_ID ?s) = Some ?s" "site_Domain ?s = d" "site_RootPath ?s = abs_path rs"
      "site_Status ?s = SiteStatusActive" "mget (DomainIndex (rp_data ?w2)) (ToLower d) = Some (site_ID ?s)"
    using t' live c(11) input(2) site by (simp_all add: set_status_def)
  have files: "fsg ?w2 (da @ [d @ ''.conf'']) = Some (File (renderNginxServer ?s))"
      "fsg ?w2 (de @ [d @ ''.conf'']) = Some (Symlink (confPath_of (app_nginx cfg) ?s))" "fsg ?w2 rs = Some Directory" "on_disk ds c ?w2"
    using live by (simp_all add: n render_status)
  show ?thesis
    by (intro exI conjI) (rule c(1-3) loop s' files)+
qed

definition live_panel :: panel where
  "live_panel = sample_panel\<lparr>os_fs := [([''srv''], Directory), ([''a''], Directory), ([''e''], Directory), ([''var''], Directory)]\<rparr>"

definition live_config :: Config where
  "live_config = sample_config\<lparr>cf_ProvisionApply := True, cf_NginxAvailableDir := ''/a'', cf_NginxEnabledDir := ''/e'',
     cf_NginxTestCommand := ''nginx -t'', cf_NginxReloadCommand := ''systemctl reload nginx''\<rparr>"

definition live_request :: request where
  "live_request = (sample_request ''POST'' [''v1'', ''sites''] ''adm'')
     \<lparr>rq_Body := ''{\"domain\":\"New.Example\",\"root_path\":\"/var/www/new\",\"runtime\":\"php\"}''\<rparr>"

lemma live_fs: "fsg live_panel q = (if q = [] \<or> q \<in> {[''srv''], [''a''], [''e''], [''var'']} then Some Directory else None)"
  by (auto simp: live_panel_def fs_get_def)

lemma live_decode:
  "\<exists>m. decodeJSON [''domain'', ''root_path'', ''runtime''] live_request = Inr m \<and> field m ''domain'' = ''New.Example''
     \<and> field m ''root_path'' = ''/var/www/new'' \<and> field m ''runtime'' = ''php''"
proof -
  have "take body_limit (rq_Body live_request) = rq_Body live_request" by (simp add: body_limit_def live_request_def)
  moreover have "case Parse (rq_Body live_request) of Some (JObj kvs) \<Rightarrow>
      (case read_fields [''domain'', ''root_path'', ''runtime''] kvs [] of None \<Rightarrow> False
       | Some m \<Rightarrow> field m ''domain'' = ''New.Example'' \<and> field m ''root_path'' = ''/var/www/new'' \<and> field m ''runtime'' = ''php'') | _ \<Rightarrow> False"
    by code_simp
  ultimately show ?thesis by (auto simp: decodeJSON_def split: option.splits json.splits)
qed

lemma live_host: "healthy [''srv''] ''state.json'' live_panel"
proof -
  have "plain_dir (os_fs live_panel) [''srv'']" by (simp add: plain_dir_def live_fs good_seg_def slash_def)
  then show ?thesis
    unfolding healthy_def live_fs
    by (simp add: live_panel_def sample_panel_defs quiet_def good_seg_def slash_def abs_path_def)
qed

lemma Fields_Nil: "Fields s = [] \<longleftrightarrow> drop_any spaces s = []"
  by (subst Fields.simps) (simp split: list.split)

lemma live_commands:
  "Fields (TrimSpace (cf_NginxTestCommand live_config)) \<noteq> []" "Fields (TrimSpace (cf_NginxReloadCommand live_config)) \<noteq> []"
proof -
  have c: "cf_NginxTestCommand live_config = ''nginx -t''" "cf_NginxReloadCommand live_config = ''systemctl reload nginx''"
    by (simp_all add: live_config_def)
  show "Fields (TrimSpace (cf_NginxTestCommand live_config)) \<noteq> []" "Fields (TrimSpace (cf_NginxReloadCommand live_config)) \<noteq> []"
    unfolding c Fields_Nil by code_simp+
qed

lemma live_place: "placeable (os_fs live_panel) [''a''] [''e''] [''var'', ''www'', ''new''] n"
proof -
  have "plain_dir (os_fs live_panel) [''a'']" "plain_dir (os_fs live_panel) [''e'']"
    by (simp_all add: plain_dir_def live_fs good_seg_def slash_def)
  then show ?thesis by (auto simp: placeable_def live_fs good_seg_def slash_def)
qed

lemma site_goes_live_witness:
  "\<exists>resp w1 w2 site. serve sample_api sample_host_check live_request live_panel = (Some resp, w1) \<and> rs_Status resp = 201
    \<and> worker_loop (app_provisioner live_config) 1 w1 = w2 \<and> mget (Sites (rp_data w2)) (site_ID site) = Some site
    \<and> site_Status site = SiteStatusActive \<and> fsg w2 [''a'', ''new.example.conf''] = Some (File (renderNginxServer site))"
proof -
  obtain m where m: "decodeJSON [''domain'', ''root_path'', ''runtime''] live_request = Inr m" "field m ''domain'' = ''New.Example''"
    "field m ''root_path'' = ''/var/www/new''" "field m ''runtime'' = ''php''" using live_decode by blast
  have r: "route live_request = Some CreateSite" "bearerToken (rq_Authorization live_request) = Inr ''adm''" "rq_done live_request = None"
    using sample_bearer(1) by (simp_all add: live_request_def route_def sample_request_def routes_def route_method_def)
  have admin: "auth_Authenticate ''adm'' live_panel = (Inr (sample_auth_user\<lparr>user_PasswordHash := []\<rparr>), live_panel\<lparr>os_ticks := 1\<rparr>)"
    by (simp add: auth_Authenticate_def repo_GetSessionByTokenHash_def repo_GetUserByID_def time_Now_def live_panel_def sample_panel_defs)
  have role: "user_Role (sample_auth_user\<lparr>user_PasswordHash := []\<rparr>) = RoleAdmin"
    by (simp add: sample_auth_user_def sample_user_def RoleAdmin_def)
  have root: "abs_path [''var'', ''www'', ''new''] = ''/var/www/new''" by (simp add: abs_path_def slash_def)
  have strs: "isValidDomain ''new.example''" "normalizeDomain ''New.Example'' = ''new.example''" "isValidRootPath ''/var/www/new''"
    "TrimSpace ''/var/www/new'' = ''/var/www/new''" "ToLower (TrimSpace ''php'') = ''php''" by code_simp+
  then have input: "isValidDomain ''new.example''" "''new.example'' = normalizeDomain (field m ''domain'')"
    "isValidRootPath (abs_path [''var'', ''www'', ''new''])" "abs_path [''var'', ''www'', ''new''] = TrimSpace (field m ''root_path'')"
    "ToLower (TrimSpace (field m ''runtime'')) \<in> set allowedRuntime"
    unfolding m root by (simp_all add: allowedRuntime_def)
  have free: "mget (DomainIndex (rp_data live_panel)) (ToLower ''new.example'') = None" "jq_started live_panel" "\<not> jq_stopped live_panel"
    "jq_queue live_panel = []"
    by (simp_all add: live_panel_def sample_panel_defs)
  have ng: "cf_ProvisionApply live_config" "cf_NginxAvailableDir live_config = abs_path [''a'']"
    "cf_NginxEnabledDir live_config = abs_path [''e'']" by (simp_all add: live_config_def abs_path_def slash_def)
  have apart: "[''srv''] \<notin> {[''a''], [''e''], [''var'', ''www'', ''new'']}"
    "\<not> prefix ([''srv''] @ [''state.json'']) [''var'', ''www'', ''new'']" "\<not> prefix ([''srv''] @ [''state.json'' @ ''.tmp'']) [''var'', ''www'', ''new'']"
    by simp_all
  from site_goes_live [OF r m(1) admin role input free(1) live_host free(2-4) ng live_commands live_place apart, of sample_api sample_host_check]
  obtain resp w1 w2 site where g: "serve sample_api sample_host_check live_request live_panel = (Some resp, w1)" "rs_Status resp = 201"
    "worker_loop (app_provisioner live_config) 1 w1 = w2" "mget (Sites (rp_data w2)) (site_ID site) = Some site"
    "site_Status site = SiteStatusActive" "fsg w2 ([''a''] @ [''new.example'' @ ''.conf'']) = Some (File (renderNginxServer site))"
    by (elim exE conjE) (rule that)
  have "[''a''] @ [''new.example'' @ ''.conf''] = [''a'', ''new.example.conf'']" by simp
  from g(6) [unfolded this] show ?thesis by (intro exI conjI) (rule g(1-5), assumption?)+
qed

subsection \<open>And goes away\<close>

lemma DeleteSite_op_healthy:
  assumes h: "healthy ds c w" and s: "mget (Sites (rp_data w)) i = Some s"
  shows "\<exists>w'. repo_DeleteSite i w = (None, w') \<and> moved ds c w w' \<and> on_disk ds c w'
    \<and> rp_data w' = (rp_data w)\<lparr>DomainIndex := mdel (ToLower (site_Domain s)) (DomainIndex (rp_data w)), Sites := mdel i (Sites (rp_data w))\<rparr>"
  using s save_healthy [of ds c "w\<lparr>rp_data := (rp_data w)\<lparr>DomainIndex := mdel (ToLower (site_Domain s)) (DomainIndex (rp_data w)),
      Sites := mdel i (Sites (rp_data w))\<rparr>\<rparr>"] h
  by (auto simp: repo_DeleteSite_def)

lemma DeleteSite_healthy:
  assumes "healthy ds c w" "jq_started w" "\<not> jq_stopped w" "length (jq_queue w) < queue_capacity"
    and "mget (Sites (rp_data w)) sid = Some site" "site_ID site = sid"
  shows "\<exists>i t now v job. job = new_job actor JobTypeDeprovisionSite [(''site_id'', sid)] i now
    \<and> sites_DeleteSite None pick actor sid w = (Some (Inr job), v\<lparr>jq_queue := jq_queue w @ [i]\<rparr>)
    \<and> moved ds c w v \<and> Sites (rp_data v) = mput sid (set_status (SiteStatusDeleting, t) site) (Sites (rp_data w))
    \<and> DomainIndex (rp_data v) = DomainIndex (rp_data w) \<and> Jobs (rp_data v) = mput i job (Jobs (rp_data w))"
proof -
  obtain t w1 where w1: "repo_UpdateSiteStatus sid SiteStatusDeleting w = (None, w1)" "moved ds c w w1"
      "rp_data w1 = (rp_data w)\<lparr>Sites := mput sid (set_status (SiteStatusDeleting, t) site) (Sites (rp_data w))\<rparr>"
    using ops_healthy(3) [OF assms(1,5)] by blast
  have h1: "healthy ds c w1" "same_env w w1" using w1(2) by (simp_all add: moved_def)
  have run: "jq_started w1" "\<not> jq_stopped w1" "length (jq_queue w1) < queue_capacity" "jq_queue w1 = jq_queue w"
    using assms(2-4) same_env_queue [OF h1(2)] same_env_flags [OF h1(2)] by auto
  let ?job = "new_job actor JobTypeDeprovisionSite [(''site_id'', sid)]"
  obtain i now v where v: "jobs_Enqueue None pick actor JobTypeDeprovisionSite [(''site_id'', sid)] w1
        = (Some (Inr (?job i now)), v\<lparr>jq_queue := jq_queue w @ [i]\<rparr>)"
      "moved ds c w1 v" "rp_data v = (rp_data w1)\<lparr>Jobs := mput i (?job i now) (Jobs (rp_data w1))\<rparr>"
    using Enqueue_healthy [OF h1(1) run(1-3), of pick actor JobTypeDeprovisionSite "[(''site_id'', sid)]"] run(4) by auto
  have "sites_DeleteSite None pick actor sid w = (Some (Inr (?job i now)), v\<lparr>jq_queue := jq_queue w @ [i]\<rparr>)"
    using assms(5,6) w1(1) v(1) by (simp add: sites_DeleteSite_def repo_GetSiteByID_def)
  then show ?thesis using w1(3) v(3) moved_trans [OF w1(2) v(2)]
    by (intro exI [of _ i] exI [of _ t] exI [of _ now] exI [of _ v] exI [of _ "?job i now"]) simp
qed

lemma DeprovisionSite_succeeds:
  assumes "quiet w" "\<forall>n argv m. fst (snd (os_exec w n argv m)) = None" "ng_Apply cfg"
    and cfg: "ng_AvailableDir cfg = abs_path da" "ng_EnabledDir cfg = abs_path de"
    and cmds: "Fields (TrimSpace (ng_TestCommand cfg)) \<noteq> []" "Fields (TrimSpace (ng_ReloadCommand cfg)) \<noteq> []"
    and p: "plain_dir (os_fs w) da" "plain_dir (os_fs w) de" "fsg w (da @ [conf_name site]) \<noteq> Some Directory"
      "fsg w (de @ [conf_name site]) \<noteq> Some Directory"
    and "site_Domain site \<noteq> []"
  shows "\<exists>w'. nginx_DeprovisionSite cfg site w = (None, w')
    \<and> fsg w' = (fsg w)(da @ [conf_name site] := None, de @ [conf_name site] := None)"
proof -
  let ?n = "conf_name site"
  note good = conf_name_good [of site]
  note paths = conf_paths [OF cfg plain_dir_good [OF p(1)] plain_dir_good [OF p(2)], of site]
  obtain w1 where w1: "remove_if_there (abs_path (de @ [?n])) w = (None, w1)" "fsg w1 = (fsg w)(de @ [?n] := None)"
    using remove_if_there_ok [OF assms(1) p(2) good p(4)] by blast
  note e1 = remove_if_there_env [OF w1(1)]
  have s1: "quiet w1" "plain_dir (os_fs w1) da" "fsg w1 (da @ [?n]) \<noteq> Some Directory"
    using quiet_env [OF e1 assms(1)] plain_dir_upd [OF p(1,4) w1(2)] p(3) by (simp_all add: w1(2))
  obtain w2 where w2: "remove_if_there (abs_path (da @ [?n])) w1 = (None, w2)" "fsg w2 = (fsg w1)(da @ [?n] := None)"
    using remove_if_there_ok [OF s1(1,2) good s1(3)] by blast
  note e2 = remove_if_there_env [OF w2(1)]
  have x2: "quiet w2" "\<forall>n argv m. fst (snd (os_exec w2 n argv m)) = None"
    using quiet_env [OF e2 s1(1)] e1 e2 assms(2) by (simp_all add: env_of_def)
  obtain w3 where w3: "runCommand (ng_TestCommand cfg) w2 = (None, w3)" using runCommand_succeeds [OF x2(2) cmds(1)] by (metis prod.collapse)
  have x3: "quiet w3" "\<forall>n argv m. fst (snd (os_exec w3 n argv m)) = None" "os_fs w3 = os_fs w2"
    using quiet_env [OF runCommand_env [OF w3] x2(1)] runCommand_env [OF w3] x2(2) runCommand_quiet [OF x2(1) w3] by (simp_all add: env_of_def)
  obtain w4 where w4: "runCommand (ng_ReloadCommand cfg) w3 = (None, w4)" using runCommand_succeeds [OF x3(2) cmds(2)] by (metis prod.collapse)
  have "os_fs w4 = os_fs w2" using runCommand_quiet [OF x3(1) w4] x3(3) by simp
  moreover have "nginx_DeprovisionSite cfg site w = (None, w4)"
    using assms(3,12) w1(1) w2(1) w3 w4 by (simp add: nginx_DeprovisionSite_def paths)
  ultimately show ?thesis using w1(2) w2(2) by (auto simp: fun_eq_iff)
qed

lemma handle_deprovision_healthy:
  assumes h: "healthy ds c w" "ds \<notin> {da, de}"
    and j: "mget (Jobs (rp_data w)) i = Some job" "job_ID job = i" "job_Type job = JobTypeDeprovisionSite"
      "job_Payload job = Marshal (JMap [(''site_id'', JStr (site_ID site))])"
    and s: "mget (Sites (rp_data w)) (site_ID site) = Some site" "ascii (site_ID site)" "site_ID site \<noteq> []" "site_Domain site \<noteq> []"
    and cfg: "ng_Apply cfg" "ng_AvailableDir cfg = abs_path da" "ng_EnabledDir cfg = abs_path de"
      "Fields (TrimSpace (ng_TestCommand cfg)) \<noteq> []" "Fields (TrimSpace (ng_ReloadCommand cfg)) \<noteq> []"
    and p: "plain_dir (os_fs w) da" "plain_dir (os_fs w) de" "fsg w (da @ [conf_name site]) \<noteq> Some Directory"
      "fsg w (de @ [conf_name site]) \<noteq> Some Directory"
  defines "w' \<equiv> jobs_handleJob (Some (nginx_ProvisionSite cfg, nginx_DeprovisionSite cfg)) i w"
  shows "healthy ds c w' \<and> on_disk ds c w' \<and> jq_queue w' = jq_queue w \<and> Sites (rp_data w') = mdel (site_ID site) (Sites (rp_data w))
    \<and> DomainIndex (rp_data w') = mdel (ToLower (site_Domain site)) (DomainIndex (rp_data w))
    \<and> (\<forall>q. q \<noteq> ds @ [c] \<longrightarrow> fsg w' q = (if q \<in> {da @ [conf_name site], de @ [conf_name site]} then None else fsg w q))"
proof -
  let ?n = "conf_name site" and ?st = "ds @ [c]"
  have apart: "?st \<noteq> da @ [x]" "?st \<noteq> de @ [x]" "ds @ [c @ ''.tmp''] \<noteq> da @ [x]" "ds @ [c @ ''.tmp''] \<noteq> de @ [x]" for x using h(2) by auto
  obtain t w1 where w1: "time_Now w = (t, w1)" "moved ds c w w1" "rp_data w1 = rp_data w" using ops_healthy(7) [OF h(1)] by blast
  have h1: "healthy ds c w1" using w1(2) by (simp add: moved_def)
  have j1: "mget (Jobs (rp_data w1)) i = Some job" using j(1) w1(3) by simp
  obtain w2 where w2: "repo_UpdateJob i JobStatusRunning [] (Some t) None w1 = (None, w2)" "moved ds c w1 w2"
      "Sites (rp_data w2) = Sites (rp_data w1)" "DomainIndex (rp_data w2) = DomainIndex (rp_data w1)"
    using ops_healthy(4) [OF h1 j1, of JobStatusRunning "[]" "Some t" None] by blast
  have m2: "moved ds c w w2" by (rule moved_trans [OF w1(2) w2(2)])
  then have h2: "healthy ds c w2" and f2: "\<And>q. q \<noteq> ?st \<Longrightarrow> fsg w2 q = fsg w q" by (simp_all add: moved_def)
  have s2: "mget (Sites (rp_data w2)) (site_ID site) = Some site" using s(1) w1(3) w2(3) by simp
  have "Unmarshal_strings (job_Payload job) = Some [(''site_id'', site_ID site)]"
    using Unmarshal_single [of "''site_id''" "site_ID site"] s(2) by (simp add: j(4) ascii_def byte_def)
  then have payload: "payload_site job w2 = Inr site" using s2 s(3) by (simp add: payload_site_def repo_GetSiteByID_def)
  have plain: "plain_dir (os_fs w2) x" if "plain_dir (os_fs w) x" for x
    using that h(1) plain_dirD [OF that] by (auto simp: healthy_def intro!: plain_dir_cong [OF that] f2)
  have nd: "fsg w2 (da @ [?n]) \<noteq> Some Directory" "fsg w2 (de @ [?n]) \<noteq> Some Directory"
    using p(3,4) f2 [OF apart(1) [symmetric]] f2 [OF apart(2) [symmetric]] by simp_all
  have x2: "quiet w2" "\<forall>n argv m. fst (snd (os_exec w2 n argv m)) = None" using h2 by (simp_all add: healthy_def)
  obtain w3 where w3: "nginx_DeprovisionSite cfg site w2 = (None, w3)" "fsg w3 = (fsg w2)(da @ [?n] := None, de @ [?n] := None)"
    using DeprovisionSite_succeeds [OF x2 cfg plain [OF p(1)] plain [OF p(2)] nd s(4)] by blast
  note e3 = nginx_DeprovisionSite_env [OF w3(1)]
  have d3: "rp_data w3 = rp_data w2" "same_env w2 w3" "rp_path w3 = rp_path w2" "rp_marshal w3 = rp_marshal w2"
    using same_rest_repo [of w2 w3] same_rest_env [of w2 w3] e3 by (simp_all add: same_rest_env_of)
  have e3': "os_exec w3 = os_exec w2" "os_entropy w3 = os_entropy w2" using e3 by (simp_all add: env_of_def)
  have "plain_dir (os_fs w3) ds"
    using h2 plain_dirD [of "os_fs w2" ds] nd by (auto simp: healthy_def w3(2) intro!: plain_dir_cong [of "os_fs w2"])
  then have h3: "healthy ds c w3"
    using h2 d3(3,4) quiet_env [OF e3 x2(1)] apart e3' by (auto simp: healthy_def w3(2))
  have s3: "mget (Sites (rp_data w3)) (site_ID site) = Some site" using s2 d3(1) by simp
  obtain w4 where w4: "repo_DeleteSite (site_ID site) w3 = (None, w4)" "moved ds c w3 w4"
      "rp_data w4 = (rp_data w3)\<lparr>DomainIndex := mdel (ToLower (site_Domain site)) (DomainIndex (rp_data w3)), Sites := mdel (site_ID site) (Sites (rp_data w3))\<rparr>"
    using DeleteSite_op_healthy [OF h3 s3] by blast
  obtain t'' w5 where w5: "time_Now w4 = (t'', w5)" "moved ds c w4 w5" "rp_data w5 = rp_data w4"
    using ops_healthy(7) [of ds c w4] w4(2) by (auto simp: moved_def)
  have h5: "healthy ds c w5" using w5(2) by (simp add: moved_def)
  have "Jobs (rp_data w5) = Jobs (rp_data w2)" using w5(3) w4(3) d3(1) by simp
  moreover have "mget (Jobs (rp_data w2)) i \<noteq> None"
    using repo_UpdateJob_data [of i JobStatusRunning "[]" "Some t" None w1] w2(1) j1 by simp
  ultimately obtain j5 where j5: "mget (Jobs (rp_data w5)) i = Some j5" by auto
  obtain w6 where w6: "repo_UpdateJob i JobStatusSuccess [] (Some t) (Some t'') w5 = (None, w6)" "moved ds c w5 w6" "on_disk ds c w6"
      "Sites (rp_data w6) = Sites (rp_data w5)" "DomainIndex (rp_data w6) = DomainIndex (rp_data w5)"
    using ops_healthy(4) [OF h5 j5, of JobStatusSuccess "[]" "Some t" "Some t''"] by blast
  have m: "moved ds c w3 w6" by (rule moved_trans [OF moved_trans [OF w4(2) w5(2)] w6(2)])
  have types: "JobTypeDeprovisionSite \<noteq> JobTypeProvisionSite" by (simp add: job_type_defs)
  have "w' = w6" using j w1(1) w2(1) payload w3(1) w4(1) w5(1) w6(1) types
    by (simp add: w'_def jobs_handleJob_def repo_GetJobByID_def jobs_runByType_def jobs_runDeprovisionSite_def)
  moreover have "same_env w w6" using same_env_trans [OF same_env_trans [OF _ d3(2)]] m2 m by (auto simp: moved_def)
  then have "jq_queue w6 = jq_queue w" by (rule same_env_queue)
  moreover have "\<forall>q. q \<noteq> ?st \<longrightarrow> fsg w6 q = (if q \<in> {da @ [?n], de @ [?n]} then None else fsg w q)"
    using m f2 by (auto simp: moved_def w3(2))
  ultimately show ?thesis
    using w6(3-5) w5(3) w4(3) d3(1) w2(3,4) w1(3) m by (simp add: moved_def)
qed

lemma conf_name_status [simp]: "conf_name (set_status p s) = conf_name s" "site_ID (set_status p s) = site_ID s"
    "site_Domain (set_status p s) = site_Domain s"
  by (simp_all add: conf_name_def set_status_def)

text \<open>The request to delete a site, up to its answer.\<close>

lemma delete_served:
  fixes w :: "'a panel_scheme"
  assumes request: "route r = Some DeleteSite" "bearerToken (rq_Authorization r) = Inr token" "rq_done r = None" "path_value r = sid"
    and admin: "auth_Authenticate token w = (Inr user, w0)" "user_Role user = RoleAdmin"
    and stored: "mget (Sites (rp_data w)) sid = Some site" "site_ID site = sid"
    and host: "healthy ds c w" "jq_started w" "\<not> jq_stopped w" "jq_queue w = []"
  obtains resp w1 i t now job where "serve a res r w = (Some resp, w1)" "rs_Status resp = 202" "jq_queue w1 = [i]" "healthy ds c w1"
    "job = new_job (user_ID user) JobTypeDeprovisionSite [(''site_id'', sid)] i now" "mget (Jobs (rp_data w1)) i = Some job"
    "Sites (rp_data w1) = mput sid (set_status (SiteStatusDeleting, t) site) (Sites (rp_data w))"
    "\<forall>q. q \<noteq> ds @ [c] \<longrightarrow> fsg w1 q = fsg w q"
proof -
  have w0: "w0 = w\<lparr>os_ticks := Suc (os_ticks w)\<rparr>" by (rule Authenticate_accepts [OF admin(1)])
  have h0: "healthy ds c w0" "jq_started w0" "\<not> jq_stopped w0" "length (jq_queue w0) < queue_capacity" "jq_queue w0 = []"
      "mget (Sites (rp_data w0)) sid = Some site"
    using host stored(1) by (simp_all add: w0 queue_capacity_def)
  from DeleteSite_healthy [OF h0(1-4,6) stored(2), where pick = "rq_pick r" and actor = "user_ID user"]
  obtain i t now v job where c:
    "job = new_job (user_ID user) JobTypeDeprovisionSite [(''site_id'', sid)] i now"
    "sites_DeleteSite None (rq_pick r) (user_ID user) sid w0 = (Some (Inr job), v\<lparr>jq_queue := [i]\<rparr>)"
    "moved ds c w0 v" "Sites (rp_data v) = mput sid (set_status (SiteStatusDeleting, t) site) (Sites (rp_data w0))"
    "Jobs (rp_data v) = mput i job (Jobs (rp_data w0))"
    using h0(5) by auto
  let ?v = "v\<lparr>jq_queue := [i]\<rparr>"
  have hv: "healthy ds c ?v" using c(3) by (simp add: moved_def)
  define w1 where "w1 = audit_Record (user_ID user) ''site.delete.requested'' ''site'' sid (Some [(''job_id'', JStr (job_ID job))]) ?v"
  have m1: "moved ds c ?v w1" using ops_healthy(5) [OF hv] unfolding w1_def by blast
  then have h1: "healthy ds c w1" "jq_queue w1 = [i]" using same_env_queue [of ?v w1] by (simp_all add: moved_def)
  obtain resp where serve: "serve a res r w = (Some resp, w1)" "rs_Status resp = 202"
    using request admin c(2)
    by (simp add: serve_def api_requireRole_def api_requireAuth_def api_handleDeleteSite_def ok_def writeJSON_def w1_def)
  have d1: "mget (Jobs (rp_data w1)) i = Some job"
      "Sites (rp_data w1) = mput sid (set_status (SiteStatusDeleting, t) site) (Sites (rp_data w))"
    using c(4,5) by (simp_all add: w1_def audit_Record_data w0)
  have f1: "\<forall>q. q \<noteq> ds @ [c] \<longrightarrow> fsg w1 q = fsg w q"
    using m1 c(3) by (simp add: moved_def w0)
  show thesis by (rule that [OF serve h1(2,1) c(1) d1 f1])
qed

text \<open>
  C10: a deleted site goes away.  On such a host, in a panel with consistent data, an administrator's
  request to delete a stored site is answered with 202 and puts one job into the queue; the worker,
  given time for it, leaves every other site as it was and this one gone, its domain free, its server
  block and link removed, the state file holding the data in memory, and every other file of the host
  as it was: what is under the site's root stays.
\<close>

theorem site_goes_away:
  fixes w :: "'a panel_scheme"
  assumes request: "route r = Some DeleteSite" "bearerToken (rq_Authorization r) = Inr token" "rq_done r = None" "path_value r = sid"
    and admin: "auth_Authenticate token w = (Inr user, w0)" "user_Role user = RoleAdmin"
    and stored: "panel_ok (rp_data w)" "mget (Sites (rp_data w)) sid = Some site" "ascii sid" "sid \<noteq> []"
    and host: "healthy ds c w" "jq_started w" "\<not> jq_stopped w" "jq_queue w = []"
    and nginx: "cf_ProvisionApply cfg" "cf_NginxAvailableDir cfg = abs_path da" "cf_NginxEnabledDir cfg = abs_path de"
      "Fields (TrimSpace (cf_NginxTestCommand cfg)) \<noteq> []" "Fields (TrimSpace (cf_NginxReloadCommand cfg)) \<noteq> []"
    and place: "plain_dir (os_fs w) da" "plain_dir (os_fs w) de" "ds \<notin> {da, de}"
      "fsg w (da @ [site_Domain site @ ''.conf'']) \<noteq> Some Directory" "fsg w (de @ [site_Domain site @ ''.conf'']) \<noteq> Some Directory"
  shows "\<exists>resp w1 i. serve a res r w = (Some resp, w1) \<and> rs_Status resp = 202 \<and> jq_queue w1 = [i]
    \<and> (\<exists>w2. worker_loop (app_provisioner cfg) 1 w1 = w2
      \<and> (\<forall>j. mget (Sites (rp_data w2)) j = (if j = sid then None else mget (Sites (rp_data w)) j))
      \<and> mget (DomainIndex (rp_data w2)) (ToLower (site_Domain site)) = None
      \<and> (\<forall>q. q \<noteq> ds @ [c] \<longrightarrow> fsg w2 q =
           (if q \<in> {da @ [site_Domain site @ ''.conf''], de @ [site_Domain site @ ''.conf'']} then None else fsg w q))
      \<and> on_disk ds c w2)"
proof -
  have id: "site_ID site = sid" using stored(1,2) by (auto simp: panel_ok_def data_ok_def sites_ok_def table_ok_def)
  have chk: "site_checked site" using stored(1,2) by (auto simp: panel_ok_def)
  note n = site_checked_conf [OF chk]
  have dom: "site_Domain site \<noteq> []" using chk by (auto simp: site_checked_def isValidDomain_def)
  obtain resp w1 i t now job where c: "serve a res r w = (Some resp, w1)" "rs_Status resp = 202" "jq_queue w1 = [i]" "healthy ds c w1"
    "job = new_job (user_ID user) JobTypeDeprovisionSite [(''site_id'', sid)] i now" "mget (Jobs (rp_data w1)) i = Some job"
    "Sites (rp_data w1) = mput sid (set_status (SiteStatusDeleting, t) site) (Sites (rp_data w))"
    and f1: "\<forall>q. q \<noteq> ds @ [c] \<longrightarrow> fsg w1 q = fsg w q"
    by (rule delete_served [OF request admin stored(2) id host, of a res]) (rule that)
  let ?s = "set_status (SiteStatusDeleting, t) site"
  let ?u = "w1\<lparr>jq_queue := []\<rparr>"
  have hp: "healthy ds c ?u" using c(4) by simp
  have plain: "plain_dir (os_fs ?u) x" if "plain_dir (os_fs w) x" for x
    using that host(1) plain_dirD [OF that] by (auto simp: healthy_def intro!: plain_dir_cong [OF that] f1 [rule_format])
  have st: "ds @ [c] \<noteq> da @ [x]" "ds @ [c] \<noteq> de @ [x]" for x using place(3) by auto
  have nd: "fsg ?u (da @ [conf_name ?s]) \<noteq> Some Directory" "fsg ?u (de @ [conf_name ?s]) \<noteq> Some Directory"
    using place(4,5) f1 [rule_format, OF st(1) [symmetric]] f1 [rule_format, OF st(2) [symmetric]] by (simp_all add: n)
  have j: "mget (Jobs (rp_data ?u)) i = Some job" "job_ID job = i" "job_Type job = JobTypeDeprovisionSite"
      "job_Payload job = Marshal (JMap [(''site_id'', JStr (site_ID ?s))])"
    using c(5,6) by (simp_all add: new_job_def id)
  have s: "mget (Sites (rp_data ?u)) (site_ID ?s) = Some ?s" "ascii (site_ID ?s)" "site_ID ?s \<noteq> []" "site_Domain ?s \<noteq> []"
    using c(7) stored(3,4) dom by (simp_all add: id)
  note ng = app_nginx_settings [OF nginx]
  let ?w2 = "jobs_handleJob (app_provisioner cfg) i ?u"
  note gone = handle_deprovision_healthy [OF hp place(3) j s ng plain [OF place(1)] plain [OF place(2)] nd, folded app_provisioner_def]
  have loop: "worker_loop (app_provisioner cfg) 1 w1 = ?w2" using c(3) by simp
  have sites: "\<forall>j. mget (Sites (rp_data ?w2)) j = (if j = sid then None else mget (Sites (rp_data w)) j)"
      "mget (DomainIndex (rp_data ?w2)) (ToLower (site_Domain site)) = None" "on_disk ds c ?w2"
    using gone c(7) by (simp_all add: id)
  have files: "\<forall>q. q \<noteq> ds @ [c] \<longrightarrow> fsg ?w2 q =
      (if q \<in> {da @ [site_Domain site @ ''.conf''], de @ [site_Domain site @ ''.conf'']} then None else fsg w q)"
    using gone f1 by (simp add: n)
  show ?thesis
    by (intro exI conjI) (rule c(1-3) loop sites files)+
qed

definition leaving_panel :: panel where
  "leaving_panel = live_panel\<lparr>rp_data := (rp_data live_panel)\<lparr>Sites := [(''site-1'', sample_site)], DomainIndex := [(''example.com'', ''site-1'')]\<rparr>,
     os_fs := os_fs live_panel @ [([''a'', ''example.com.conf''], File ''server''), ([''e'', ''example.com.conf''], Symlink ''/a/example.com.conf'')]\<rparr>"

lemma leaving_fs: "fsg leaving_panel q =
    (if q = [''a'', ''example.com.conf''] then Some (File ''server'')
     else if q = [''e'', ''example.com.conf''] then Some (Symlink ''/a/example.com.conf'') else fsg live_panel q)"
  by (auto simp: leaving_panel_def fs_get_def live_panel_def map_add_def)

lemma leaving_data: "panel_ok (rp_data leaving_panel)"
proof -
  have "isValidDomain ''example.com''" "normalizeDomain ''example.com'' = ''example.com''" "isValidRootPath ''/var/www/example''" by code_simp+
  then have "site_checked sample_site"
    by (auto simp: site_checked_def sample_site_def allowedRuntime_def intro: exI [of _ "''example.com''"])
  moreover have "ToLower ''example.com'' = ''example.com''" "ToLower ''admin'' = ''admin''" "ToLower ''Admin'' = ''admin''"
    "ToLower ''operator'' = ''operator''" by code_simp+
  ultimately show ?thesis
    by (auto simp: leaving_panel_def live_panel_def sample_panel_def jobs.defs repo.defs sample_auth_def sample_repo_def panel_ok_def
        newSnapshot_def data_ok_def users_ok_def sites_ok_def jobs_ok_def sessions_ok_def audit_ok_def sample_session_def
        table_ok_def sample_site_def sample_auth_user_def sample_operator_def sample_user_def split: if_splits)
qed

lemma site_goes_away_witness:
  "\<exists>resp w1 w2. serve sample_api sample_host_check (sample_request ''DELETE'' [''v1'', ''sites'', ''site-1''] ''adm'') leaving_panel = (Some resp, w1)
    \<and> worker_loop (app_provisioner live_config) 1 w1 = w2 \<and> mget (Sites (rp_data w2)) ''site-1'' = None
    \<and> fsg w2 [''a'', ''example.com.conf''] = None"
proof -
  let ?r = "sample_request ''DELETE'' [''v1'', ''sites'', ''site-1''] ''adm''"
  have r: "route ?r = Some DeleteSite" "bearerToken (rq_Authorization ?r) = Inr ''adm''" "rq_done ?r = None" "path_value ?r = ''site-1''"
    using sample_bearer(1) sample_routes(1) by (simp_all add: sample_request_def path_value_def)
  have admin: "auth_Authenticate ''adm'' leaving_panel = (Inr (sample_auth_user\<lparr>user_PasswordHash := []\<rparr>), leaving_panel\<lparr>os_ticks := 1\<rparr>)"
    by (simp add: auth_Authenticate_def repo_GetSessionByTokenHash_def repo_GetUserByID_def time_Now_def leaving_panel_def live_panel_def sample_panel_defs)
  have role: "user_Role (sample_auth_user\<lparr>user_PasswordHash := []\<rparr>) = RoleAdmin"
    by (simp add: sample_auth_user_def sample_user_def RoleAdmin_def)
  have s: "mget (Sites (rp_data leaving_panel)) ''site-1'' = Some sample_site" "ascii ''site-1''" "''site-1'' \<noteq> []"
    by (simp_all add: leaving_panel_def ascii_def byte_def)
  have fs: "fsg leaving_panel q = Some Directory" if "q \<in> {[], [''srv''], [''a''], [''e'']}" for q
    using that by (auto simp: leaving_fs live_fs)
  have plain: "plain_dir (os_fs leaving_panel) [''srv'']" "plain_dir (os_fs leaving_panel) [''a'']" "plain_dir (os_fs leaving_panel) [''e'']"
    by (simp_all add: plain_dir_def fs good_seg_def slash_def)
  then have host: "healthy [''srv''] ''state.json'' leaving_panel"
    unfolding healthy_def leaving_fs live_fs
    by (simp add: leaving_panel_def live_panel_def sample_panel_defs quiet_def good_seg_def slash_def abs_path_def)
  have run: "jq_started leaving_panel" "\<not> jq_stopped leaving_panel" "jq_queue leaving_panel = []"
    by (simp_all add: leaving_panel_def live_panel_def sample_panel_defs)
  have ng: "cf_ProvisionApply live_config" "cf_NginxAvailableDir live_config = abs_path [''a'']"
    "cf_NginxEnabledDir live_config = abs_path [''e'']" by (simp_all add: live_config_def abs_path_def slash_def)
  have place: "[''srv''] \<notin> {[''a''], [''e'']}" "fsg leaving_panel ([''a''] @ [site_Domain sample_site @ ''.conf'']) \<noteq> Some Directory"
    "fsg leaving_panel ([''e''] @ [site_Domain sample_site @ ''.conf'']) \<noteq> Some Directory"
    by (simp_all add: leaving_fs sample_site_def)
  from site_goes_away [OF r admin role leaving_data s host run ng live_commands plain(2,3) place, of sample_api sample_host_check]
  obtain resp w1 w2 where g: "serve sample_api sample_host_check ?r leaving_panel = (Some resp, w1)"
    "worker_loop (app_provisioner live_config) 1 w1 = w2"
    "\<forall>j. mget (Sites (rp_data w2)) j = (if j = ''site-1'' then None else mget (Sites (rp_data leaving_panel)) j)"
    "\<forall>q. q \<noteq> [''srv''] @ [''state.json''] \<longrightarrow> fsg w2 q =
      (if q \<in> {[''a''] @ [site_Domain sample_site @ ''.conf''], [''e''] @ [site_Domain sample_site @ ''.conf'']} then None else fsg leaving_panel q)"
    by (elim exE conjE) (rule that)
  have "mget (Sites (rp_data w2)) ''site-1'' = None" using g(3) by simp
  moreover have "fsg w2 [''a'', ''example.com.conf''] = None" using g(4) by (simp add: sample_site_def)
  ultimately show ?thesis using g(1,2) by blast
qed

end
