(* ===== verification/Restart.thy ===== *)
theory Restart
  imports SiteLife
begin

text \<open>
  The daemon's life as a process (\<open>internal/app\<close>): the first start on an empty host up to the first login,
  and a restart: the shutdown, the exit of the process and the next start, with what of the old
  process the new one knows.
\<close>

subsection \<open>The start on a host that works\<close>

lemma healthy_same: "env_of w' = env_of w \<Longrightarrow> os_fs w' = os_fs w \<Longrightarrow> healthy ds c w \<Longrightarrow> healthy ds c w'"
  by (rule moved_env_of [of w' w]) (simp_all add: grows_def)

lemma oscheck_Detect_fs: "oscheck_Detect goos w = (r, w') \<Longrightarrow> os_fs w' = os_fs w"
  by (auto simp: oscheck_Detect_def Let_def dest!: reads_fs split: if_splits prod.splits sum.splits)

text \<open>Opening the repository: the file that is there, or a new one.\<close>

lemma New_healthy:
  assumes h: "healthy ds c (w\<lparr>rp_path := abs_path (ds @ [c])\<rparr>)" "ds \<noteq> []"
  shows "fsg w (ds @ [c]) = Some (File raw) \<Longrightarrow> rp_unmarshal w raw = Inr (to_decoded d) \<Longrightarrow> SchemaVersion d = schemaVersion \<Longrightarrow>
      \<exists>w'. repo_New (abs_path (ds @ [c])) w = (None, w') \<and> moved ds c (w\<lparr>rp_path := abs_path (ds @ [c])\<rparr>) w' \<and> rp_data w' = rebuildIndexes d"
    and "fsg w (ds @ [c]) = None \<Longrightarrow>
      \<exists>w'. repo_New (abs_path (ds @ [c])) w = (None, w') \<and> moved ds c (w\<lparr>rp_path := abs_path (ds @ [c])\<rparr>) w' \<and> rp_data w' = newSnapshot"
proof -
  let ?p = "abs_path (ds @ [c])"
  let ?u = "w\<lparr>rp_path := ?p\<rparr>" and ?v = "w\<lparr>rp_path := ?p, rp_data := newSnapshot\<rparr>"
  have p: "plain_dir (os_fs w) ds" "good_seg c" using h(1) by (simp_all add: healthy_def)
  have dir: "Dir_of ?p = abs_path ds" using Dir_of_abs_path [of ds c] plain_dir_good [OF p(1)] p(2) by simp
  have new: "repo_New ?p w = repo_load ?v"
    using MkdirAll_existing [OF p(1) h(2)] by (simp add: repo_New_def dir) (simp add: abs_path_def)
  have hv: "healthy ds c ?v" using h(1) by (metis healthy_upd(1))
  then have v: "quiet ?v" "plain_dir (os_fs ?v) ds" by (simp_all add: healthy_def)
  have move: "moved ds c ?u (z\<lparr>rp_data := d\<rparr>)" if "ReadFile ?p ?v = (x, z)" "fsg z = fsg w" for x z d
  proof -
    have e: "env_of z = env_of ?v" by (rule os_env(3) [OF that(1)])
    have "os_fs z = os_fs ?v" using reads_fs(3) [OF that(1)] .
    then have "healthy ds c z" by (rule healthy_same [OF e _ hv])
    moreover have "same_env ?v z" using e by (intro same_rest_env) (simp add: same_rest_env_of)
    then have "same_env ?u z" by (metis same_env_from(1))
    ultimately show ?thesis using that(2) by (simp add: moved_def)
  qed
  show "\<exists>w'. repo_New ?p w = (None, w') \<and> moved ds c ?u w' \<and> rp_data w' = rebuildIndexes d"
    if f: "fsg w (ds @ [c]) = Some (File raw)" "rp_unmarshal w raw = Inr (to_decoded d)" "SchemaVersion d = schemaVersion"
  proof -
    obtain z where z: "ReadFile ?p ?v = (Inr raw, z)" "fsg z = fsg w"
      using ReadFile_entry [OF v p(2), of raw] f(1) by auto
    have "rp_unmarshal z = rp_unmarshal w"
      using same_rest_repo(4) [of ?v z] os_env(3) [OF z(1)] by (simp add: same_rest_env_of)
    then have "repo_load ?v = (None, z\<lparr>rp_data := rebuildIndexes d\<rparr>)"
      using z(1) f by (simp add: repo_load_def nil_default_to_decoded) (simp add: to_decoded_def)
    then show ?thesis using move [OF z] new by simp
  qed
  show "\<exists>w'. repo_New ?p w = (None, w') \<and> moved ds c ?u w' \<and> rp_data w' = newSnapshot" if f: "fsg w (ds @ [c]) = None"
  proof -
    obtain z where z: "ReadFile ?p ?v = (Inl (PathError ''open'' ?p ENOENT), z)" "fsg z = fsg w"
      using ReadFile_entry [OF v p(2)] f by fastforce
    have d: "rp_data z = newSnapshot" using same_rest_repo(2) [of ?v z] os_env(3) [OF z(1)] by (simp add: same_rest_env_of)
    have "moved ds c ?u z" using move [OF z, of "rp_data z"] by simp
    moreover from this obtain w' where w': "repo_save z = (None, w')" "moved ds c z w'" "rp_data w' = rp_data z"
      using save_healthy [of ds c z] by (auto simp: moved_def)
    moreover have "repo_load ?v = (None, w')" using z(1) w'(1) by (simp add: repo_load_def Is_NotExist_def)
    ultimately show ?thesis using new d moved_trans by metis
  qed
qed

text \<open>The start up to the administrator.\<close>

lemma boot_healthy:
  assumes h: "healthy ds c (w\<lparr>rp_path := abs_path (ds @ [c])\<rparr>)"
    and cfg: "cf_DBPath cfg = abs_path (ds @ [c])" "cf_DataDir cfg = abs_path xs" "plain_dir (os_fs w) xs" "xs \<noteq> []"
      "os_Supported (fst (oscheck_Detect (hi_goos hi) w)) \<or> cf_AllowNonUbuntu cfg"
    and new: "\<And>v. env_of v = env_of w \<Longrightarrow> os_fs v = os_fs w \<Longrightarrow>
      \<exists>v'. repo_New (abs_path (ds @ [c])) v = (None, v') \<and> moved ds c (v\<lparr>rp_path := abs_path (ds @ [c])\<rparr>) v' \<and> rp_data v' = d"
    and "SchemaVersion d \<noteq> 0"
  shows "\<exists>res w'. moved ds c (w\<lparr>rp_path := abs_path (ds @ [c])\<rparr>) w' \<and> rp_data w' = d
    \<and> app_boot hi cfg w = (case auth_EnsureBootstrapAdmin (hi_bcrypt hi) (cf_BootstrapAdminUsername cfg) (cf_BootstrapAdminPassword cfg) w' of
         (Some e, w) \<Rightarrow> (Inl (Errorf ''bootstrap admin: '' e []), snd (repo_Close w))
       | (None, w) \<Rightarrow> (Inr (app_api hi cfg, res), (jobs_Start w)\<lparr>pn_limiter := NewLoginLimiter 5 (5 * time_Minute)\<rparr>))"
proof -
  let ?p = "abs_path (ds @ [c])"
  obtain res v where v: "oscheck_Detect (hi_goos hi) w = (res, v)" by fastforce
  note e = oscheck_Detect_env [OF v] and f = oscheck_Detect_fs [OF v]
  obtain v1 where v1: "repo_New ?p v = (None, v1)" "moved ds c (v\<lparr>rp_path := ?p\<rparr>) v1" "rp_data v1 = d" using new [OF e f] by blast
  have "healthy ds c v1" using v1(2) by (simp add: moved_def)
  then obtain v2 where v2: "repo_save v1 = (None, v2)" "moved ds c v1 v2" "rp_data v2 = d" using save_healthy v1(3) by metis
  have mk: "MkdirAll (abs_path xs) v = (None, v)" using MkdirAll_existing [OF _ cfg(4), of v] cfg(3) f by simp
  have "env_of (v\<lparr>rp_path := ?p\<rparr>) = env_of (w\<lparr>rp_path := ?p\<rparr>)"
    using e by (cases v; cases w) (simp add: env_of_def)
  then have "same_env (w\<lparr>rp_path := ?p\<rparr>) (v\<lparr>rp_path := ?p\<rparr>)" by (intro same_rest_env) (simp add: same_rest_env_of)
  then have "moved ds c (w\<lparr>rp_path := ?p\<rparr>) v1" using v1(2) f by (auto simp: moved_def intro: same_env_trans)
  then have "moved ds c (w\<lparr>rp_path := ?p\<rparr>) v2" using moved_trans v2(2) by blast
  moreover have "app_boot hi cfg w = (case auth_EnsureBootstrapAdmin (hi_bcrypt hi) (cf_BootstrapAdminUsername cfg) (cf_BootstrapAdminPassword cfg) v2 of
         (Some e, w) \<Rightarrow> (Inl (Errorf ''bootstrap admin: '' e []), snd (repo_Close w))
       | (None, w) \<Rightarrow> (Inr (app_api hi cfg, res), (jobs_Start w)\<lparr>pn_limiter := NewLoginLimiter 5 (5 * time_Minute)\<rparr>))"
    using cfg(1,2,5) v v1(1,3) v2(1) mk assms(8) by (auto simp: app_boot_def repo_Migrate_def)
  ultimately show ?thesis using v2(3) by blast
qed

subsection \<open>A restart\<close>

lemma Stop_data: "jobs_Stop exited waited pick w = (x, w') \<Longrightarrow> rp_data w' = rp_data w \<and> rp_marshal w' = rp_marshal w \<and> rp_unmarshal w' = rp_unmarshal w
    \<and> (healthy ds c w \<longrightarrow> healthy ds c w') \<and> os_fs w' = os_fs w"
  by (auto simp: jobs_Stop_def healthy_def quiet_def split: if_splits)

lemma new_process_frame [simp]:
  "os_fs (new_process w) = os_fs w" "rp_unmarshal (new_process w) = rp_unmarshal w" "jq_queue (new_process w) = []"
  "jq_started (new_process w) = False" "jq_stopped (new_process w) = False"
  "healthy ds c ((new_process w)\<lparr>rp_path := p\<rparr>) = healthy ds c (w\<lparr>rp_path := p\<rparr>)"
  by (simp_all add: new_process_def healthy_def quiet_def)


lemma same_data_Jobs: "same_data d d' \<Longrightarrow> Jobs d' = Jobs d"
  by (cases d; cases d') (simp add: same_data_def)

definition restart_data :: snapshot where
  "restart_data = (rp_data sample_panel)\<lparr>Jobs := [(''job-1'', sample_job JobTypeProvisionSite)]\<rparr>"

definition restart_panel :: panel where
  "restart_panel = sample_panel\<lparr>rp_data := restart_data, rp_unmarshal := (\<lambda>_. Inr (to_decoded restart_data)), jq_queue := [''job-1'']\<rparr>"


subsection \<open>The first start and the first login\<close>

definition bootstrap_user :: "string \<Rightarrow> string \<Rightarrow> string \<Rightarrow> int \<Rightarrow> User" where
  "bootstrap_user i n hash now = \<lparr>user_ID = i, user_Username = TrimSpace n, user_PasswordHash = hash,
     user_Role = RoleAdmin, user_IsActive = True, user_CreatedAt = now, user_UpdatedAt = now\<rparr>"

lemma Bootstrap_healthy:
  assumes "healthy ds c w" "rp_data w = newSnapshot" "TrimSpace p \<noteq> []" "minPasswordLen \<le> length p"
    and "\<And>k. \<exists>x. bc_Generate bc k p defaultCost = Inr x" "bcrypt_ok bc"
  shows "\<exists>w' i hash t. auth_EnsureBootstrapAdmin bc n p w = (None, w') \<and> moved ds c w w' \<and> password_Verify bc p hash
    \<and> Users (rp_data w') = [(i, bootstrap_user i n hash t)] \<and> UsernameIndex (rp_data w') = [(ToLower (TrimSpace n), i)]"
proof -
  obtain x where x: "bc_Generate bc (os_draws w) p defaultCost = Inr x" using assms(5) by blast
  let ?w1 = "w\<lparr>os_draws := Suc (os_draws w)\<rparr>"
  have hash: "password_Hash bc p w = (Inr x, ?w1)" using x assms(4) by (simp add: password_Hash_def)
  have h1: "healthy ds c ?w1" using assms(1) by simp
  obtain i w2 where w2: "idgen_New ''usr'' ?w1 = (Inr i, w2)" "moved ds c ?w1 w2" "rp_data w2 = rp_data ?w1"
    using ops_healthy(6) [OF h1, of "''usr''"] by blast
  then obtain t w3 where w3: "time_Now w2 = (t, w3)" "moved ds c w2 w3" "rp_data w3 = rp_data w2"
    using ops_healthy(7) [of ds c w2] by (auto simp: moved_def)
  let ?u = "bootstrap_user i n x t"
  let ?v = "upd_data (\<lambda>d. d\<lparr>Users := mput i ?u (Users d), UsernameIndex := mput (ToLower (TrimSpace n)) i (UsernameIndex d)\<rparr>) w3"
  have "healthy ds c ?v" using w3(2) by (simp add: moved_def)
  then obtain w4 where w4: "repo_save ?v = (None, w4)" "moved ds c ?v w4" "rp_data w4 = rp_data ?v" using save_healthy by blast
  have d: "rp_data w3 = newSnapshot" using w3(3) w2(3) assms(2) by simp
  have "auth_EnsureBootstrapAdmin bc n p w = (None, w4)"
    using assms(2,3) hash w2(1) w3(1) w4(1) d
    by (simp add: auth_EnsureBootstrapAdmin_def repo_CountUsers_def repo_CreateUser_def bootstrap_user_def newSnapshot_def)
  moreover have "moved ds c w w4" using moved_trans [OF moved_trans [OF _ w3(2)], of w w4] w2(2) w4(2) by simp
  moreover have "password_Verify bc p x" by (rule password_roundtrip [OF assms(6), of p w]) (simp add: hash)
  moreover have "Users (rp_data w4) = [(i, ?u)]" "UsernameIndex (rp_data w4) = [(ToLower (TrimSpace n), i)]"
    using w4(3) d by (simp_all add: newSnapshot_def)
  ultimately show ?thesis by blast
qed

lemma Login_healthy:
  assumes "healthy ds c w" "repo_GetUserByUsername (TrimSpace n) w = Inr user" "user_IsActive user"
    "password_Verify bc p (user_PasswordHash user)"
  shows "\<exists>raw created w'. os_entropy w (os_draws w) 32 = Inr raw \<and> auth_Login bc ttl n p w =
      (Inr (RawURL_EncodeToString raw, os_clock w (os_ticks w) + ttl, user\<lparr>user_PasswordHash := []\<rparr>), w') \<and> moved ds c w w'
    \<and> rp_data w' = (rp_data w)\<lparr>Sessions := mput (hashToken (RawURL_EncodeToString raw))
        \<lparr>session_TokenHash = hashToken (RawURL_EncodeToString raw), session_UserID = user_ID user,
         session_ExpiresAt = os_clock w (os_ticks w) + ttl, session_CreatedAt = created\<rparr> (Sessions (rp_data w))\<rparr>"
proof -
  obtain raw where raw: "os_entropy w (os_draws w) 32 = Inr raw" using assms(1) unfolding healthy_def by blast
  let ?tok = "RawURL_EncodeToString raw" and ?now = "os_clock w (os_ticks w)" and ?created = "os_clock w (Suc (os_ticks w))"
  let ?s = "\<lparr>session_TokenHash = hashToken ?tok, session_UserID = user_ID user, session_ExpiresAt = ?now + ttl, session_CreatedAt = ?created\<rparr>"
  let ?v = "w\<lparr>os_draws := Suc (os_draws w), os_ticks := Suc (Suc (os_ticks w)),
      rp_data := (rp_data w)\<lparr>Sessions := mput (hashToken ?tok) ?s (Sessions (rp_data w))\<rparr>\<rparr>"
  have "healthy ds c ?v" using assms(1) by simp
  then obtain w' where w': "repo_save ?v = (None, w')" "moved ds c ?v w'" "rp_data w' = rp_data ?v" using save_healthy by blast
  have "auth_Login bc ttl n p w = (Inr (?tok, ?now + ttl, user\<lparr>user_PasswordHash := []\<rparr>), w')"
    using assms(2-4) raw w'(1)
    by (simp add: auth_Login_def randomToken_def rand_Read_def time_Now_def repo_CreateSession_def)
  then show ?thesis using raw w'(2,3) by (intro exI [of _ raw] exI [of _ ?created] exI [of _ w']) simp
qed

text \<open>A login request with the right name and password, up to its answer, and the token it gives.\<close>

lemma login_served:
  assumes host: "healthy ds c w" "pn_limiter w = NewLoginLimiter 5 (5 * time_Minute)" "\<forall>n k b. os_entropy w n k = Inr b \<longrightarrow> length b = k"
    and user: "mget (UsernameIndex (rp_data w)) (ToLower (TrimSpace (field m ''username''))) = Some i" "mget (Users (rp_data w)) i = Some u"
      "user_IsActive u" "user_ID u = i" "password_Verify (api_bcrypt a) (field m ''password'') (user_PasswordHash u)"
    and request: "route r = Some Login" "decodeJSON [''username'', ''password''] r = Inr m"
  shows "\<exists>tok expires w'. serve a res r w = (Some (writeJSON 200
        (JMap [(''token'', JStr tok), (''expires_at'', JTime expires), (''user'', user_json (u\<lparr>user_PasswordHash := []\<rparr>))])), w')
    \<and> on_disk ds c w' \<and> (os_clock w' (os_ticks w') \<le> expires \<longrightarrow> fst (auth_Authenticate tok w') = Inr (u\<lparr>user_PasswordHash := []\<rparr>))"
proof -
  let ?v = "w\<lparr>os_ticks := Suc (os_ticks w)\<rparr>"
  have hv: "healthy ds c ?v" using host(1) by simp
  have get: "repo_GetUserByUsername (TrimSpace (field m ''username'')) ?v = Inr u"
    using user(1,2) by (simp add: repo_GetUserByUsername_def)
  obtain raw created v2 where v2: "os_entropy ?v (os_draws ?v) 32 = Inr raw"
      "auth_Login (api_bcrypt a) (api_tokenTTL a) (field m ''username'') (field m ''password'') ?v =
        (Inr (RawURL_EncodeToString raw, os_clock ?v (os_ticks ?v) + api_tokenTTL a, u\<lparr>user_PasswordHash := []\<rparr>), v2)" "moved ds c ?v v2"
      "rp_data v2 = (rp_data ?v)\<lparr>Sessions := mput (hashToken (RawURL_EncodeToString raw))
        \<lparr>session_TokenHash = hashToken (RawURL_EncodeToString raw), session_UserID = user_ID u,
         session_ExpiresAt = os_clock ?v (os_ticks ?v) + api_tokenTTL a, session_CreatedAt = created\<rparr> (Sessions (rp_data ?v))\<rparr>"
    using Login_healthy [OF hv get user(3,5)] by blast
  let ?tok = "RawURL_EncodeToString raw" and ?exp = "os_clock ?v (os_ticks ?v) + api_tokenTTL a" and ?u' = "u\<lparr>user_PasswordHash := []\<rparr>"
  have "length raw = 32" using host(3) v2(1) by auto
  then have tok: "?tok \<noteq> []" by (intro RawURL_not_Nil) auto
  let ?v3 = "v2\<lparr>pn_limiter := RegisterSuccess (loginLimitKey r (field m ''username'')) (pn_limiter v2)\<rparr>"
  define w2 where "w2 = audit_Record (user_ID ?u') ''auth.login.success'' ''user'' (user_ID ?u') (Some [(''username'', JStr (user_Username ?u'))]) ?v3"
  have h3: "healthy ds c ?v3" using v2(3) by (simp add: moved_def healthy_def quiet_def)
  note disk = ops_healthy(5) [OF h3, of "user_ID ?u'" "''auth.login.success''" "''user''" "user_ID ?u'" "Some [(''username'', JStr (user_Username ?u'))]",
      folded w2_def]
  have lim: "?v\<lparr>pn_limiter := pn_limiter w\<rparr> = ?v" by (cases w) simp
  have "Allow k now (pn_limiter w) = (True, pn_limiter w)" for k now by (simp add: host(2) Allow_def NewLoginLimiter_def)
  then have serve: "serve a res r w = (Some (writeJSON 200
        (JMap [(''token'', JStr ?tok), (''expires_at'', JTime ?exp), (''user'', user_json ?u')])), w2)"
    using request v2(2) lim
    by (simp add: serve_def api_handleLogin_def with_body_def Let_def time_Now_def ok_def w2_def)
  have "Sessions (rp_data w2) = Sessions (rp_data v2)" "Users (rp_data w2) = Users (rp_data v2)"
    by (simp_all add: w2_def audit_Record_data)
  then have "os_clock w2 (os_ticks w2) \<le> ?exp \<longrightarrow> fst (auth_Authenticate ?tok w2) = Inr ?u'"
    using tok v2(4) user(2-4)
    by (auto simp: auth_Authenticate_def repo_GetSessionByTokenHash_def repo_GetUserByID_def time_Now_def)
  then show ?thesis using serve disk by (intro exI conjI) (assumption | simp)+
qed


definition login_request :: request where
  "login_request = (sample_request ''POST'' [''v1'', ''auth'', ''login''] [])
     \<lparr>rq_Body := ''{\"username\":\" ADMIN\",\"password\":\"secret-pw\"}''\<rparr>"

definition login_config :: Config where
  "login_config = sample_config\<lparr>cf_BootstrapAdminUsername := ''admin'', cf_BootstrapAdminPassword := ''secret-pw''\<rparr>"

lemma login_decode:
  "\<exists>m. decodeJSON [''username'', ''password''] login_request = Inr m \<and> field m ''username'' = '' ADMIN'' \<and> field m ''password'' = ''secret-pw''"
proof -
  have "take body_limit (rq_Body login_request) = rq_Body login_request" by (simp add: body_limit_def login_request_def)
  moreover have "case Parse (rq_Body login_request) of Some (JObj kvs) \<Rightarrow>
      (case read_fields [''username'', ''password''] kvs [] of None \<Rightarrow> False
       | Some m \<Rightarrow> field m ''username'' = '' ADMIN'' \<and> field m ''password'' = ''secret-pw'') | _ \<Rightarrow> False"
    by code_simp
  ultimately show ?thesis by (auto simp: decodeJSON_def split: option.splits json.splits)
qed


end
