(* ===== verification/ServerBlock.thy ===== *)
theory ServerBlock
  imports SiteRules
begin

text \<open>
  What nginx reads in the server block that \<open>internal/provision\<close> renders.  The reader follows the documented
  syntax of nginx's configuration: words separated by white space, a directive ends with a semicolon, a
  block directive has its directives in braces, and a backslash keeps the character after it in the
  word.  It refuses what the panel's own text has no use for: quotation marks and comments where a
  word may begin, quoted characters that change, and \<open>${\<close>.
\<close>

subsection \<open>Words and directives\<close>

datatype token = Word string | Semicolon | Open | Close

definition blanks :: "char list" where
  "blanks = [CHR '' '', CHR 0x09, CHR 0x0A, CHR 0x0D]"

definition word_end :: "char list" where
  "word_end = CHR '';'' # CHR ''{'' # blanks"

definition refused :: "char list" where
  "refused = [CHR 0x22, CHR 0x27, CHR ''#'']"

definition quotable :: "char list" where
  "quotable = [CHR 0x22, CHR 0x27, CHR 0x5C, CHR ''t'', CHR ''r'', CHR ''n'']"

fun ngx_lex :: "string option \<Rightarrow> string \<Rightarrow> token list option" where
  "ngx_lex None [] = Some []"
| "ngx_lex (Some v) [] = None"
| "ngx_lex None (c # s) =
     (if c \<in> set blanks then ngx_lex None s
      else if c = CHR '';'' then map_option (Cons Semicolon) (ngx_lex None s)
      else if c = CHR ''{'' then map_option (Cons Open) (ngx_lex None s)
      else if c = CHR ''}'' then map_option (Cons Close) (ngx_lex None s)
      else if c \<in> set refused then None
      else if c = CHR 0x5C
      then (case s of [] \<Rightarrow> None | d # s \<Rightarrow> if d \<in> set quotable then None else ngx_lex (Some [c, d]) s)
      else ngx_lex (Some [c]) s)"
| "ngx_lex (Some v) (c # s) =
     (if c \<in> set blanks then map_option (Cons (Word v)) (ngx_lex None s)
      else if c = CHR '';'' then map_option (\<lambda>ts. Word v # Semicolon # ts) (ngx_lex None s)
      else if c = CHR ''{''
      then (if last v = CHR ''$'' then None else map_option (\<lambda>ts. Word v # Open # ts) (ngx_lex None s))
      else if c = CHR 0x5C
      then (case s of [] \<Rightarrow> None | d # s \<Rightarrow> if d \<in> set quotable then None else ngx_lex (Some (v @ [c, d])) s)
      else ngx_lex (Some (v @ [c])) s)"

datatype directive = Simple "string list" | Block "string list" "directive list"

text \<open>The open blocks with what precedes each, the words and the directives read so far.\<close>

fun ngx_parse :: "(string list \<times> directive list) list \<Rightarrow> string list \<Rightarrow> directive list \<Rightarrow> token list \<Rightarrow> directive list option" where
  "ngx_parse st ws ds [] = (if st = [] \<and> ws = [] then Some ds else None)"
| "ngx_parse st ws ds (Word v # ts) = ngx_parse st (ws @ [v]) ds ts"
| "ngx_parse st ws ds (Semicolon # ts) = (if ws = [] then None else ngx_parse st [] (ds @ [Simple ws]) ts)"
| "ngx_parse st ws ds (Open # ts) = (if ws = [] then None else ngx_parse ((ws, ds) # st) [] [] ts)"
| "ngx_parse st ws ds (Close # ts) =
     (case st of [] \<Rightarrow> None
      | (vs, before) # st \<Rightarrow> if ws = [] then ngx_parse st [] (before @ [Block vs ds]) ts else None)"

definition ngx_reads :: "string \<Rightarrow> directive list option" where
  "ngx_reads s = (case ngx_lex None s of None \<Rightarrow> None | Some ts \<Rightarrow> ngx_parse [] [] [] ts)"

subsection \<open>Reading line by line\<close>

lemma append_Cons_fun: "(@) (x # xs) = (\<lambda>ys. x # xs @ ys)"
  by (rule ext) simp

lemmas ngx_step = option.map_comp comp_def append_Cons_fun

lemma ngx_lex_append:
  "ngx_lex cur s = Some ts \<Longrightarrow> ngx_lex cur (s @ r) = map_option ((@) ts) (ngx_lex None r)"
proof (induction cur s arbitrary: ts rule: ngx_lex.induct)
  case (1)
  then show ?case by (cases "ngx_lex None r") simp_all
next
  case (3 c s)
  consider "c \<in> set blanks" | "c \<notin> set blanks" "c = CHR '';''" | "c \<notin> set blanks" "c = CHR ''{''" | "c \<notin> set blanks" "c = CHR ''}''"
    | "c \<notin> set blanks" "c \<notin> {CHR '';'', CHR ''{'', CHR ''}''}" "c \<notin> set refused" "c = CHR 0x5C"
    | "c \<notin> set blanks" "c \<notin> {CHR '';'', CHR ''{'', CHR ''}''}" "c \<notin> set refused" "c \<noteq> CHR 0x5C"
    | "c \<notin> set blanks" "c \<notin> {CHR '';'', CHR ''{'', CHR ''}''}" "c \<in> set refused"
    by blast
  then show ?case
  proof cases
    case 1
    then show ?thesis using "3.prems" "3.IH"(1) by (auto simp: ngx_step split: if_splits)
  next
    case 2
    then show ?thesis using "3.prems" "3.IH"(2) by (auto simp: ngx_step split: if_splits)
  next
    case 3
    then show ?thesis using "3.prems" "3.IH"(3) by (auto simp: ngx_step split: if_splits)
  next
    case 4
    then show ?thesis using "3.prems" "3.IH"(4) by (auto simp: ngx_step split: if_splits)
  next
    case 5
    then show ?thesis using "3.prems" "3.IH"(5) by (cases s) (auto split: if_splits)
  next
    case 6
    then show ?thesis using "3.prems" "3.IH"(6) by (auto simp: ngx_step split: if_splits)
  next
    case 7
    then show ?thesis using "3.prems" by simp
  qed
next
  case (4 v c s)
  consider "c \<in> set blanks" | "c \<notin> set blanks" "c = CHR '';''" | "c \<notin> set blanks" "c = CHR ''{''"
    | "c \<notin> set blanks" "c \<notin> {CHR '';'', CHR ''{''}" "c = CHR 0x5C" | "c \<notin> set blanks" "c \<notin> {CHR '';'', CHR ''{'', CHR 0x5C}"
    by blast
  then show ?case
  proof cases
    case 1
    then show ?thesis using "4.prems" "4.IH"(1) by (auto simp: ngx_step split: if_splits)
  next
    case 2
    then show ?thesis using "4.prems" "4.IH"(2) by (auto simp: ngx_step split: if_splits)
  next
    case 3
    then show ?thesis using "4.prems" "4.IH"(3) by (auto simp: ngx_step split: if_splits)
  next
    case 4
    then show ?thesis using "4.prems" "4.IH"(4) by (cases s) (auto split: if_splits)
  next
    case 5
    then show ?thesis using "4.prems" "4.IH"(5) by (auto simp: ngx_step split: if_splits)
  qed
qed simp

text \<open>Characters that do not end a word or change its meaning.\<close>

definition word_char :: "char \<Rightarrow> bool" where
  "word_char c \<longleftrightarrow> c \<notin> set (word_end @ [CHR 0x5C, CHR ''$''])"

lemma ngx_lex_word: "list_all word_char u \<Longrightarrow> ngx_lex (Some v) (u @ r) = ngx_lex (Some (v @ u)) r"
  by (induction u arbitrary: v) (simp_all add: word_char_def word_end_def)

definition plain_word :: "string \<Rightarrow> bool" where
  "plain_word v \<longleftrightarrow> v \<noteq> [] \<and> list_all word_char v \<and> hd v \<notin> set (CHR ''}'' # refused)"

lemma ngx_lex_start: "plain_word v \<Longrightarrow> ngx_lex None (v @ r) = ngx_lex (Some v) r"
  using ngx_lex_word [of "tl v" "[hd v]" r]
  by (cases v) (simp_all add: plain_word_def word_char_def word_end_def)

subsection \<open>The words of a list of directives\<close>

fun ngx_tokens :: "directive \<Rightarrow> token list" where
  "ngx_tokens (Simple ws) = map Word ws @ [Semicolon]"
| "ngx_tokens (Block ws ds) = map Word ws @ Open # concat (map ngx_tokens ds) @ [Close]"

fun named :: "directive \<Rightarrow> bool" where
  "named (Simple ws) = (ws \<noteq> [])"
| "named (Block ws ds) = (ws \<noteq> [] \<and> list_all named ds)"

lemma ngx_parse_words: "ngx_parse st us ds (map Word ws @ ts) = ngx_parse st (us @ ws) ds ts"
  by (induction ws arbitrary: us) simp_all

text \<open>Reading the words of directives gives the directives back.\<close>

lemma ngx_parse_tokens:
  "named d \<Longrightarrow> ngx_parse st [] ds (ngx_tokens d @ ts) = ngx_parse st [] (ds @ [d]) ts"
proof (induction d arbitrary: st ds ts)
  case (Simple ws)
  then show ?case by (simp add: ngx_parse_words)
next
  case (Block ws es)
  have "ngx_parse st' [] es' (concat (map ngx_tokens es) @ ts') = ngx_parse st' [] (es' @ es) ts'" for st' es' ts'
    using Block by (induction es arbitrary: es') simp_all
  then show ?case using Block(2) by (simp add: ngx_parse_words)
qed

lemma ngx_reads_tokens: "named d \<Longrightarrow> ngx_lex None s = Some (ngx_tokens d) \<Longrightarrow> ngx_reads s = Some [d]"
  using ngx_parse_tokens [of d "[]" "[]" "[]"] by (simp add: ngx_reads_def)

subsection \<open>The server block the panel means\<close>

definition proxy_directives :: "string \<Rightarrow> directive list" where
  "proxy_directives upstream =
     [Simple [''proxy_pass'', upstream], Simple [''proxy_http_version'', ''1.1''],
      Simple [''proxy_set_header'', ''Host'', ''$host''], Simple [''proxy_set_header'', ''X-Real-IP'', ''$remote_addr''],
      Simple [''proxy_set_header'', ''X-Forwarded-For'', ''$proxy_add_x_forwarded_for''],
      Simple [''proxy_set_header'', ''X-Forwarded-Proto'', ''$scheme'']]"

definition runtime_directives :: "string \<Rightarrow> string \<Rightarrow> directive list" where
  "runtime_directives runtimeName root =
     (if runtimeName = ''node'' then [Block [''location'', ''/''] (proxy_directives ''http://127.0.0.1:3000'')]
      else if runtimeName = ''python'' then [Block [''location'', ''/''] (proxy_directives ''http://127.0.0.1:8000'')]
      else if runtimeName = ''static'' then [Block [''location'', ''/''] [Simple [''try_files'', ''$uri'', ''$uri/'', ''=404'']]]
      else [Block [''location'', ''/''] [Simple [''try_files'', ''$uri'', ''$uri/'', ''/index.php?$query_string'']],
        Block [''location'', ''~'', CHR 0x5C # ''.php$'']
          [Simple [''include'', ''fastcgi_params''], Simple [''fastcgi_param'', ''SCRIPT_FILENAME'', root @ ''$fastcgi_script_name''],
           Simple [''fastcgi_pass'', ''unix:/run/php/php8.1-fpm.sock''], Simple [''fastcgi_index'', ''index.php'']]])"

definition tail_directives :: "string \<Rightarrow> string \<Rightarrow> directive list" where
  "tail_directives runtimeName root =
     [Simple [''index'', ''index.php'', ''index.html'', ''index.htm''],
      Block [''location'', ''^~'', ''/.well-known/acme-challenge/'']
        [Simple [''default_type'', ''text/plain''], Simple [''try_files'', ''$uri'', ''=404'']]]
     @ runtime_directives runtimeName root"

definition server_block :: "string \<Rightarrow> string \<Rightarrow> directive list \<Rightarrow> string \<Rightarrow> directive" where
  "server_block domain root extra runtimeName = Block [''server'']
     ([Simple [''listen'', ''80''], Simple [''listen'', ''[::]:80''], Simple [''server_name'', domain], Simple [''root'', root]] @ extra
      @ tail_directives runtimeName root)"

lemma server_block_named: "list_all named extra \<Longrightarrow> named (server_block domain root extra runtimeName)"
  by (simp add: server_block_def tail_directives_def runtime_directives_def proxy_directives_def)

text \<open>The fixed lines, and those with a domain or a root in them.\<close>

lemma fixed_lines:
  "ngx_lex None (acmeChallenge @ [CHR 0x0A]) = Some (ngx_tokens (Block [''location'', ''^~'', ''/.well-known/acme-challenge/'']
           [Simple [''default_type'', ''text/plain''], Simple [''try_files'', ''$uri'', ''=404'']]))"
  "ngx_lex None (unlines [''server {'', ''    listen 80;'', ''    listen [::]:80;'']) =
     Some ([Word ''server'', Open] @ ngx_tokens (Simple [''listen'', ''80'']) @ ngx_tokens (Simple [''listen'', ''[::]:80'']))"
  "ngx_lex None (''    index index.php index.html index.htm;'' @ [CHR 0x0A]) =
     Some (ngx_tokens (Simple [''index'', ''index.php'', ''index.html'', ''index.htm'']))"
  "ngx_lex None (runtimeServerCore ''node'' [] @ [CHR 0x0A]) = Some (concat (map ngx_tokens (runtime_directives ''node'' [])))"
  "ngx_lex None (runtimeServerCore ''python'' [] @ [CHR 0x0A]) = Some (concat (map ngx_tokens (runtime_directives ''python'' [])))"
  "ngx_lex None (runtimeServerCore ''static'' [] @ [CHR 0x0A]) = Some (concat (map ngx_tokens (runtime_directives ''static'' [])))"
  by code_simp+

lemma word_lines:
  assumes "plain_word v"
  shows "ngx_lex None (''    server_name '' @ v @ CHR '';'' # r) = map_option ((@) (ngx_tokens (Simple [''server_name'', v]))) (ngx_lex None r)"
    and "ngx_lex None (''    root '' @ v @ CHR '';'' # r) = map_option ((@) (ngx_tokens (Simple [''root'', v]))) (ngx_lex None r)"
    and "ngx_lex None (''        fastcgi_param SCRIPT_FILENAME '' @ v @ ''$fastcgi_script_name;'' @ r) =
      map_option ((@) (ngx_tokens (Simple [''fastcgi_param'', ''SCRIPT_FILENAME'', v @ ''$fastcgi_script_name'']))) (ngx_lex None r)"
  by (simp_all add: ngx_lex_start [OF assms] blanks_def refused_def ngx_step)

lemma php_lines:
  "ngx_lex None (''    location / {'' @ [CHR 0x0A] @ ''        try_files $uri $uri/ /index.php?$query_string;'' @ [CHR 0x0A] @ ''    }''
     @ [CHR 0x0A, CHR 0x0A] @ ''    location ~ '' @ [CHR 0x5C] @ ''.php$ {'' @ [CHR 0x0A] @ ''        include fastcgi_params;'' @ [CHR 0x0A]) =
   Some (ngx_tokens (Block [''location'', ''/''] [Simple [''try_files'', ''$uri'', ''$uri/'', ''/index.php?$query_string'']])
     @ [Word ''location'', Word ''~'', Word (CHR 0x5C # ''.php$''), Open] @ ngx_tokens (Simple [''include'', ''fastcgi_params'']))"
  "ngx_lex None ([CHR 0x0A] @ ''        fastcgi_pass unix:/run/php/php8.1-fpm.sock;'' @ [CHR 0x0A] @ ''        fastcgi_index index.php;'' @ [CHR 0x0A]
     @ ''    }'' @ [CHR 0x0A]) =
   Some (ngx_tokens (Simple [''fastcgi_pass'', ''unix:/run/php/php8.1-fpm.sock'']) @ ngx_tokens (Simple [''fastcgi_index'', ''index.php'']) @ [Close])"
  by code_simp+

lemma core_lines:
  assumes "plain_word root"
  shows "ngx_lex None (runtimeServerCore rt root @ [CHR 0x0A]) = Some (concat (map ngx_tokens (runtime_directives rt root)))"
proof (cases "rt \<in> {''node'', ''python'', ''static''}")
  case True
  then have "runtimeServerCore rt root = runtimeServerCore rt []" "runtime_directives rt root = runtime_directives rt []"
    by (auto simp: runtimeServerCore_def runtime_directives_def)
  then show ?thesis using True fixed_lines(4-6) by auto
next
  case False
  then have "runtimeServerCore rt root @ [CHR 0x0A] =
      (''    location / {'' @ [CHR 0x0A] @ ''        try_files $uri $uri/ /index.php?$query_string;'' @ [CHR 0x0A] @ ''    }''
       @ [CHR 0x0A, CHR 0x0A] @ ''    location ~ '' @ [CHR 0x5C] @ ''.php$ {'' @ [CHR 0x0A] @ ''        include fastcgi_params;'' @ [CHR 0x0A])
      @ (''        fastcgi_param SCRIPT_FILENAME '' @ root @ ''$fastcgi_script_name;''
      @ ([CHR 0x0A] @ ''        fastcgi_pass unix:/run/php/php8.1-fpm.sock;'' @ [CHR 0x0A] @ ''        fastcgi_index index.php;'' @ [CHR 0x0A]
       @ ''    }'' @ [CHR 0x0A]))"
    by (simp add: runtimeServerCore_def join_lines_def)
  then show ?thesis using False
    by (simp only: ngx_lex_append [OF php_lines(1)] word_lines(3) [OF assms] php_lines(2)) (simp add: runtime_directives_def)
qed

text \<open>The whole text around the line of the root.\<close>

definition render_tail :: "string \<Rightarrow> string \<Rightarrow> string" where
  "render_tail rt root = (''    index index.php index.html index.htm;'' @ [CHR 0x0A]) @ [CHR 0x0A] @ (acmeChallenge @ [CHR 0x0A])
     @ [CHR 0x0A] @ (runtimeServerCore rt root @ [CHR 0x0A]) @ [CHR ''}'', CHR 0x0A]"

lemma render_split:
  "renderNginxServer site = unlines [''server {'', ''    listen 80;'', ''    listen [::]:80;'']
     @ (''    server_name '' @ site_Domain site @ CHR '';'' # [CHR 0x0A, CHR 0x0A]
     @ (''    root '' @ site_RootPath site @ CHR '';'' # [CHR 0x0A] @ render_tail (site_Runtime site) (site_RootPath site)))"
  by (simp add: renderNginxServer_def unlines_def render_tail_def)

lemma nl_skip: "ngx_lex None ([CHR 0x0A] @ r) = ngx_lex None r"
  by (simp add: blanks_def)

lemma tail_lines:
  assumes "ngx_lex None (runtimeServerCore rt root @ [CHR 0x0A]) = Some (concat (map ngx_tokens (runtime_directives rt root')))"
  shows "ngx_lex None (render_tail rt root) = Some (concat (map ngx_tokens (tail_directives rt root')) @ [Close])"
proof -
  have "ngx_lex None [CHR ''}'', CHR 0x0A] = Some [Close]" by (simp add: blanks_def)
  then show ?thesis unfolding render_tail_def
    by (simp only: ngx_lex_append [OF fixed_lines(3)] ngx_lex_append [OF fixed_lines(1)] ngx_lex_append [OF assms] nl_skip)
      (simp add: tail_directives_def)
qed

lemma nl_skip2: "ngx_lex None ([CHR 0x0A, CHR 0x0A] @ r) = ngx_lex None r" "ngx_lex None (CHR 0x0A # r) = ngx_lex None r"
  by (simp_all add: blanks_def)

lemma domain_plain: "isValidDomain d \<Longrightarrow> plain_word d"
proof -
  assume "isValidDomain d"
  then have d: "list_all domain_char d" "d \<noteq> []" using isValidDomain_chars by auto
  have "word_char c" "c \<notin> set (CHR ''}'' # refused)" if "domain_char c" for c
    using that by (auto simp: domain_char_def is_digit_def byte_def word_char_def word_end_def blanks_def refused_def)
  then show ?thesis using d by (cases d) (auto simp: plain_word_def list_all_iff)
qed

lemma server_block_lines:
  assumes "plain_word (site_Domain site)" "list_all named extra"
    and "ngx_lex None (''    root '' @ site_RootPath site @ CHR '';'' # [CHR 0x0A] @ render_tail (site_Runtime site) (site_RootPath site)) =
      Some (ngx_tokens (Simple [''root'', root]) @ concat (map ngx_tokens extra)
        @ concat (map ngx_tokens (tail_directives (site_Runtime site) root)) @ [Close])"
  shows "ngx_reads (renderNginxServer site) = Some [server_block (site_Domain site) root extra (site_Runtime site)]"
proof (rule ngx_reads_tokens)
  show "named (server_block (site_Domain site) root extra (site_Runtime site))" using assms(2) by (rule server_block_named)
  show "ngx_lex None (renderNginxServer site) = Some (ngx_tokens (server_block (site_Domain site) root extra (site_Runtime site)))"
    unfolding render_split
    by (simp only: ngx_lex_append [OF fixed_lines(2)] word_lines(1) [OF assms(1)] append_Cons [of "CHR '';''"] nl_skip2 assms(3))
      (simp add: server_block_def)
qed

lemma server_block_plain:
  assumes "plain_word (site_Domain site)" "plain_word (site_RootPath site)"
  shows "ngx_reads (renderNginxServer site) = Some [server_block (site_Domain site) (site_RootPath site) [] (site_Runtime site)]"
  by (rule server_block_lines [OF assms(1)])
    (simp_all only: word_lines(2) [OF assms(2)] append_Cons [of "CHR '';''"] nl_skip tail_lines [OF core_lines [OF assms(2)]], simp_all)

text \<open>Words written with blanks between them and a semicolon at the end are a directive.\<close>

lemma ngx_lex_words:
  "ws \<noteq> [] \<Longrightarrow> list_all plain_word ws \<Longrightarrow> ngx_lex None (Join ws '' '' @ CHR '';'' # r) = map_option ((@) (ngx_tokens (Simple ws))) (ngx_lex None r)"
proof (induction ws)
  case (Cons v ws)
  show ?case
  proof (cases ws)
    case Nil
    then show ?thesis using Cons(3) by (simp add: ngx_lex_start blanks_def append_Cons_fun)
  next
    case (Cons u us)
    then show ?thesis using Cons.IH Cons.prems
      by (simp add: ngx_lex_start blanks_def ngx_step)
  qed
qed simp

lemma server_block_injected:
  assumes "plain_word (site_Domain site)" "site_Runtime site \<in> {''node'', ''python'', ''static''}" "ws \<noteq> []" "list_all plain_word ws"
  shows "ngx_reads (renderNginxServer (site\<lparr>site_RootPath := injected_root (Join ws '' '')\<rparr>)) =
    Some [server_block (site_Domain site) ''/var/www'' [Simple ws] (site_Runtime site)]"
proof -
  let ?rt = "site_Runtime site" and ?p = "injected_root (Join ws '' '')"
  have "runtimeServerCore ?rt ?p = runtimeServerCore ?rt []" "runtime_directives ?rt ''/var/www'' = runtime_directives ?rt []"
    using assms(2) by (auto simp: runtimeServerCore_def runtime_directives_def)
  then have core: "ngx_lex None (runtimeServerCore ?rt ?p @ [CHR 0x0A]) = Some (concat (map ngx_tokens (runtime_directives ?rt ''/var/www'')))"
    using assms(2) fixed_lines(4-6) by auto
  have root: "ngx_lex None (''    root /var/www;'' @ [CHR 0x0A]) = Some (ngx_tokens (Simple [''root'', ''/var/www'']))" by code_simp
  have "''    root '' @ ?p @ CHR '';'' # [CHR 0x0A] @ render_tail ?rt ?p =
      (''    root /var/www;'' @ [CHR 0x0A]) @ (Join ws '' '' @ CHR '';'' # ([CHR 0x0A] @ render_tail ?rt ?p))"
    by (simp add: injected_root_def)
  then have "ngx_lex None (''    root '' @ ?p @ CHR '';'' # [CHR 0x0A] @ render_tail ?rt ?p) =
      Some (ngx_tokens (Simple [''root'', ''/var/www'']) @ ngx_tokens (Simple ws) @ concat (map ngx_tokens (tail_directives ?rt ''/var/www'')) @ [Close])"
    by (simp only: ngx_lex_append [OF root] ngx_lex_words [OF assms(3,4)] nl_skip tail_lines [OF core]) simp
  then show ?thesis
    using server_block_lines [of "site\<lparr>site_RootPath := ?p\<rparr>" "[Simple ws]" "''/var/www''"] assms(1,3) by simp
qed

lemma Join_last: "ws \<noteq> [] \<Longrightarrow> last ws \<noteq> [] \<Longrightarrow> Join ws sep \<noteq> [] \<and> last (Join ws sep) = last (last ws)"
proof (induction ws)
  case (Cons v ws)
  then show ?case by (cases ws) auto
qed simp



end
