(* ===== verification/Commands.thy ===== *)
theory Commands
  imports Daemon
begin

text \<open>
  The external commands the daemon runs.  Every operation only adds to the list of commands run; most add
  nothing.  The theorem at the end names, for every state the daemon comes to, all commands that were
  run since its start, with the parts of them that requests choose.
\<close>

subsection \<open>Operations that run nothing\<close>

lemma sys_cmds: "os_cmds (snd (sys w)) = os_cmds w"
  by (simp add: sys_def)

lemma fs_store_cmds [simp]: "os_cmds (fs_store q n w) = os_cmds w"
  by (simp add: fs_store_def)

lemma mkdir_each_cmds: "os_cmds (snd (mkdir_each p css w)) = os_cmds w"
  by (induction css arbitrary: w) (simp_all add: sys_def split: sum.split option.split node.split prod.split)

named_theorems no_cmds

lemma os_no_cmds [no_cmds]:
  "Stat p w = (r1, w') \<Longrightarrow> os_cmds w' = os_cmds w"
  "Lstat p w = (r1, w') \<Longrightarrow> os_cmds w' = os_cmds w"
  "ReadFile p w = (r2, w') \<Longrightarrow> os_cmds w' = os_cmds w"
  "Readlink p w = (r2, w') \<Longrightarrow> os_cmds w' = os_cmds w"
  "ReadDir p w = (r3, w') \<Longrightarrow> os_cmds w' = os_cmds w"
  "time_Now w = (t, w') \<Longrightarrow> os_cmds w' = os_cmds w"
  "rand_Read n w = (r2, w') \<Longrightarrow> os_cmds w' = os_cmds w"
  by (auto simp: Stat_def Lstat_def ReadFile_def Readlink_def ReadDir_def time_Now_def rand_Read_def sys_def
      split: option.splits if_splits)

lemma MkdirAll_no_cmds [no_cmds]: "MkdirAll p w = (e, w') \<Longrightarrow> os_cmds w' = os_cmds w"
  by (drule arg_cong [where f = "\<lambda>x. os_cmds (snd x)"]) (simp add: MkdirAll_def mkdir_each_cmds split: if_splits)

lemma write_at_no_cmds [no_cmds]: "write_at p q x w = (e, w') \<Longrightarrow> os_cmds w' = os_cmds w"
  by (auto simp: write_at_def sys_def split: option.splits)

lemma write_no_cmds [no_cmds]:
  "WriteFile p x w = (e, w') \<Longrightarrow> os_cmds w' = os_cmds w"
  "WriteNewFile p x w = (e, w') \<Longrightarrow> os_cmds w' = os_cmds w"
  "OpenTruncate p w = (r, w') \<Longrightarrow> os_cmds w' = os_cmds w"
  "Remove p w = (e, w') \<Longrightarrow> os_cmds w' = os_cmds w"
  "RemoveAll p w = (e, w') \<Longrightarrow> os_cmds w' = os_cmds w"
  "Rename p p' w = (e, w') \<Longrightarrow> os_cmds w' = os_cmds w"
  "SymlinkAt p p' w = (e, w') \<Longrightarrow> os_cmds w' = os_cmds w"
  by (auto simp: WriteFile_def WriteNewFile_def OpenTruncate_def Remove_def RemoveAll_def Rename_def SymlinkAt_def sys_def
      dest!: write_at_no_cmds split: option.splits sum.splits if_splits)

text \<open>The repository, identifiers and sessions.\<close>

lemma repo_no_cmds [simp]:
  "os_cmds (snd (repo_save w)) = os_cmds w"
  "os_cmds (snd (repo_CreateUser u w)) = os_cmds w"
  "os_cmds (snd (repo_UpdateUserPassword i h t w)) = os_cmds w"
  "os_cmds (snd (repo_CreateSession s w)) = os_cmds w"
  "os_cmds (snd (repo_DeleteSessionByTokenHash h w)) = os_cmds w"
  "os_cmds (snd (repo_CreateSite site w)) = os_cmds w"
  "os_cmds (snd (repo_UpdateSiteStatus i st w)) = os_cmds w"
  "os_cmds (snd (repo_DeleteSite i w)) = os_cmds w"
  "os_cmds (snd (repo_CreateJob j w)) = os_cmds w"
  "os_cmds (snd (repo_UpdateJob i st er sa fa w)) = os_cmds w"
  "os_cmds (snd (repo_CreateAuditLog l w)) = os_cmds w"
  "os_cmds (snd (repo_Migrate w)) = os_cmds w"
  "os_cmds (snd (repo_Close w)) = os_cmds w"
  by (simp_all add: repo_save_cmds repo_CreateUser_def repo_UpdateUserPassword_def repo_CreateSession_def
      repo_DeleteSessionByTokenHash_def repo_CreateSite_def repo_UpdateSiteStatus_def repo_DeleteSite_def repo_CreateJob_def
      repo_UpdateJob_def repo_CreateAuditLog_def repo_Migrate_def repo_Close_def Let_def time_Now_def split: option.split prod.split)

lemma repo_pairs_no_cmds [no_cmds]:
  "repo_save w = (e, w') \<Longrightarrow> os_cmds w' = os_cmds w"
  "repo_CreateUser u w = (e, w') \<Longrightarrow> os_cmds w' = os_cmds w"
  "repo_UpdateUserPassword i h t w = (e, w') \<Longrightarrow> os_cmds w' = os_cmds w"
  "repo_CreateSession s w = (e, w') \<Longrightarrow> os_cmds w' = os_cmds w"
  "repo_DeleteSessionByTokenHash h w = (e, w') \<Longrightarrow> os_cmds w' = os_cmds w"
  "repo_CreateSite site w = (e, w') \<Longrightarrow> os_cmds w' = os_cmds w"
  "repo_UpdateSiteStatus i st w = (e, w') \<Longrightarrow> os_cmds w' = os_cmds w"
  "repo_DeleteSite i w = (e, w') \<Longrightarrow> os_cmds w' = os_cmds w"
  "repo_CreateJob j w = (e, w') \<Longrightarrow> os_cmds w' = os_cmds w"
  "repo_UpdateJob i st er sa fa w = (e, w') \<Longrightarrow> os_cmds w' = os_cmds w"
  "repo_CreateAuditLog l w = (e, w') \<Longrightarrow> os_cmds w' = os_cmds w"
  "repo_Migrate w = (e, w') \<Longrightarrow> os_cmds w' = os_cmds w"
  by (drule arg_cong [where f = "\<lambda>x. os_cmds (snd x)"], simp)+

lemma audit_no_cmds [simp]: "os_cmds (audit_Record actor act ty i m w) = os_cmds w"
  by (simp add: audit_Record_def time_Now_def)

lemma ids_no_cmds [no_cmds]:
  "idgen_New pre w = (r, w') \<Longrightarrow> os_cmds w' = os_cmds w"
  "randomToken w = (r, w') \<Longrightarrow> os_cmds w' = os_cmds w"
  "password_Hash bc p w = (r, w') \<Longrightarrow> os_cmds w' = os_cmds w"
  by (auto simp: idgen_New_def randomToken_def password_Hash_def dest!: no_cmds split: sum.splits prod.splits if_splits)

lemma auth_no_cmds [no_cmds]:
  "auth_Login bc ttl n p w = (r, w') \<Longrightarrow> os_cmds w' = os_cmds w"
  "auth_Authenticate token w = (x, w') \<Longrightarrow> os_cmds w' = os_cmds w"
  "auth_Logout token w = (e, w') \<Longrightarrow> os_cmds w' = os_cmds w"
  "auth_ChangePassword bc i old new w = (e, w') \<Longrightarrow> os_cmds w' = os_cmds w"
  "auth_EnsureBootstrapAdmin bc n p w = (e, w') \<Longrightarrow> os_cmds w' = os_cmds w"
  by (auto simp: auth_Login_def auth_Authenticate_def auth_Logout_def auth_ChangePassword_def auth_EnsureBootstrapAdmin_def Let_def
      dest!: no_cmds split: sum.splits prod.splits option.splits if_splits)

text \<open>The queue, the sites and their files, backups.\<close>

lemma Enqueue_no_cmds [no_cmds]: "jobs_Enqueue done pick actor ty payload w = (r, w') \<Longrightarrow> os_cmds w' = os_cmds w"
  by (auto simp: jobs_Enqueue_def send_or_done_def Let_def dest!: no_cmds split: sum.splits prod.splits option.splits if_splits)

lemma sites_no_cmds [no_cmds]:
  "sites_CreateSite done pick actor d root rt w = (r, w') \<Longrightarrow> os_cmds w' = os_cmds w"
  "sites_DeleteSite done pick actor i w = (r2, w') \<Longrightarrow> os_cmds w' = os_cmds w"
  by (auto simp: sites_CreateSite_def sites_DeleteSite_def Let_def dest!: no_cmds split: sum.splits prod.splits option.splits if_splits)

lemma first_existing_no_cmds [no_cmds]: "first_existing root cs w = (r, w') \<Longrightarrow> os_cmds w' = os_cmds w"
  by (induction root cs w arbitrary: r w' rule: first_existing.induct) (auto dest!: no_cmds split: sum.splits prod.splits)

lemma resolveEditableFile_no_cmds [no_cmds]: "resolveEditableFile site f b w = (r, w') \<Longrightarrow> os_cmds w' = os_cmds w"
  by (auto simp: resolveEditableFile_def Let_def dest!: no_cmds split: prod.splits option.splits if_splits)

lemma walk_reads_cmds:
  "os_cmds (snd (Lstat p w)) = os_cmds w" "os_cmds (snd (ReadFile p w)) = os_cmds w" "os_cmds (snd (ReadDir p w)) = os_cmds w"
  using os_no_cmds(2,3,5) prod.collapse by metis+

lemma file_items_cmds: "os_cmds (snd (file_items d rel es w)) = os_cmds w"
proof (induction es arbitrary: w rel)
  case (Cons e es)
  then show ?case by (cases e) (simp add: walk_reads_cmds case_prod_beta split: sum.split)
qed simp

lemma zip_walk_cmds: "os_cmds (snd (zip_walk n p rel nd w)) = os_cmds w"
proof (induction n arbitrary: p rel nd w)
  case 0
  then show ?case by (cases nd) (simp_all add: walk_reads_cmds case_prod_beta split: sum.split)
next
  case (Suc n)
  have "os_cmds (snd (zip_names n p rel ns w)) = os_cmds w" for p rel ns and w :: "'a os_scheme"
    by (induction ns arbitrary: w rel) (simp_all add: Suc walk_reads_cmds case_prod_beta split: sum.split)
  then show ?case by (cases nd) (simp_all add: walk_reads_cmds case_prod_beta split: sum.split)
qed

lemma walks_no_cmds [no_cmds]:
  "file_items d rel es w = (r, w') \<Longrightarrow> os_cmds w' = os_cmds w"
  "zip_walk n p rel nd w = (r2, w') \<Longrightarrow> os_cmds w' = os_cmds w"
  using file_items_cmds [of d rel es w] zip_walk_cmds [of n p rel nd w] by auto

lemma zipDirectory_no_cmds [no_cmds]: "zipDirectory z root target w = (e, w') \<Longrightarrow> os_cmds w' = os_cmds w"
  by (auto simp: zipDirectory_def dest!: no_cmds split: sum.splits prod.splits option.splits if_splits)

lemma Remove_snd_cmds [simp]: "os_cmds (snd (Remove p w)) = os_cmds w"
  by (metis write_no_cmds(4) prod.collapse)

lemma site_files_no_cmds [no_cmds]:
  "sites_GetSiteContent i f w = (r1, w') \<Longrightarrow> os_cmds w' = os_cmds w"
  "sites_UpdateSiteContent i f c w = (r2, w') \<Longrightarrow> os_cmds w' = os_cmds w"
  "sites_ListSiteFiles i f n w = (r3, w') \<Longrightarrow> os_cmds w' = os_cmds w"
  "sites_UploadSiteFile i f c w = (r2, w') \<Longrightarrow> os_cmds w' = os_cmds w"
  "sites_DeleteSiteFile i f w = (r4, w') \<Longrightarrow> os_cmds w' = os_cmds w"
  "sites_DownloadSiteFile i f w = (r1, w') \<Longrightarrow> os_cmds w' = os_cmds w"
  "sites_CreateSiteDirectory i f w = (r4, w') \<Longrightarrow> os_cmds w' = os_cmds w"
  "sites_DeleteSiteDirectory i f b w = (r4, w') \<Longrightarrow> os_cmds w' = os_cmds w"
  "sites_BackupSiteContent z dir b i w = (r5, w') \<Longrightarrow> os_cmds w' = os_cmds w"
  subgoal by (auto simp: sites_GetSiteContent_def dest!: no_cmds split: sum.splits prod.splits)
  subgoal by (auto simp: sites_UpdateSiteContent_def dest!: no_cmds split: sum.splits prod.splits option.splits if_splits)
  subgoal by (auto simp: sites_ListSiteFiles_def Let_def dest!: no_cmds split: sum.splits prod.splits)
  subgoal by (auto simp: sites_UploadSiteFile_def dest!: no_cmds split: sum.splits prod.splits option.splits if_splits)
  subgoal by (auto simp: sites_DeleteSiteFile_def dest!: no_cmds split: sum.splits prod.splits option.splits if_splits)
  subgoal by (auto simp: sites_DownloadSiteFile_def dest!: no_cmds split: sum.splits prod.splits option.splits if_splits)
  subgoal by (auto simp: sites_CreateSiteDirectory_def dest!: no_cmds split: sum.splits prod.splits option.splits if_splits)
  subgoal by (auto simp: sites_DeleteSiteDirectory_def dest!: no_cmds split: sum.splits prod.splits option.splits if_splits)
  subgoal by (auto simp: sites_BackupSiteContent_def Let_def dest!: no_cmds split: sum.splits prod.splits option.splits if_splits)
  done

lemma copyFile_no_cmds [no_cmds]: "copyFile src dst w = (e, w') \<Longrightarrow> os_cmds w' = os_cmds w"
  by (auto simp: copyFile_def OpenRead_def io_Copy_def sys_def Let_def dest!: no_cmds
      split: sum.splits prod.splits option.splits if_splits node.splits)

lemma backup_no_cmds [no_cmds]:
  "backup_Run s done w = (r, w') \<Longrightarrow> os_cmds w' = os_cmds w"
  "backup_Restore s done f w = (e, w') \<Longrightarrow> os_cmds w' = os_cmds w"
  by (auto simp: backup_Run_def backup_Restore_def Let_def dest!: no_cmds split: sum.splits prod.splits option.splits if_splits)

subsection \<open>Operations that run commands\<close>

abbreviation runs :: "(string list \<Rightarrow> bool) \<Rightarrow> 'a os_scheme \<Rightarrow> 'a os_scheme \<Rightarrow> bool" where
  "runs P w w' \<equiv> \<exists>cs. os_cmds w' = os_cmds w @ cs \<and> list_all P cs"

lemma CombinedOutput_cmds: "CombinedOutput argv w = (r, w') \<Longrightarrow> os_cmds w' = os_cmds w @ [argv]"
  by (auto simp: CombinedOutput_def split: prod.splits)

text \<open>The MySQL client gets one of three statements, whose names and host passed their checks.\<close>

definition sql_permitted :: "string \<Rightarrow> bool" where
  "sql_permitted sql \<longleftrightarrow> sql = ''SHOW DATABASES;'' \<or> (\<exists>n. isValidIdentifier n \<and> sql = create_database_sql n)
     \<or> (\<exists>d u p h. isValidIdentifier d \<and> isValidIdentifier u \<and> 8 \<le> length (TrimSpace p) \<and> hostPattern h \<and> sql = create_user_sql d u p h)"

lemma sql_permittedI:
  "isValidIdentifier n \<Longrightarrow> sql_permitted (create_database_sql n)"
  "isValidIdentifier d \<Longrightarrow> isValidIdentifier u \<Longrightarrow> 8 \<le> length (TrimSpace p) \<Longrightarrow> hostPattern h \<Longrightarrow> sql_permitted (create_user_sql d u p h)"
  unfolding sql_permitted_def by blast+

definition db_command :: "DBService \<Rightarrow> string list \<Rightarrow> bool" where
  "db_command s argv \<longleftrightarrow> db_apply s \<and> (\<exists>sql. sql_permitted sql \<and> argv = [db_mysqlCommand s, ''-Nse'', sql])"

lemma db_execSQL_cmds: "db_execSQL s sql w = (e, w') \<Longrightarrow> sql_permitted sql \<Longrightarrow> runs (db_command s) w w'"
  by (auto simp: db_execSQL_def db_run_def db_command_def dest!: CombinedOutput_cmds split: prod.splits option.splits sum.splits if_splits)

lemma db_cmds:
  "db_ListDatabases s w = (r, w') \<Longrightarrow> runs (db_command s) w w'"
  "db_CreateDatabase s n w = (e, w') \<Longrightarrow> runs (db_command s) w w'"
  "db_CreateUser s input w = (e, w') \<Longrightarrow> runs (db_command s) w w'"
proof -
  show "db_ListDatabases s w = (r, w') \<Longrightarrow> runs (db_command s) w w'"
    by (auto simp: db_ListDatabases_def db_query_def db_run_def db_command_def sql_permitted_def Let_def dest!: CombinedOutput_cmds
        split: prod.splits option.splits sum.splits if_splits)
  show "db_CreateDatabase s n w = (e, w') \<Longrightarrow> runs (db_command s) w w'"
    by (cases "isValidIdentifier (TrimSpace n)") (auto simp: db_CreateDatabase_def sql_permitted_def Let_def dest!: db_execSQL_cmds)
  show "db_CreateUser s input w = (e, w') \<Longrightarrow> runs (db_command s) w w'"
  proof -
    let ?h = "if TrimSpace (cu_Host input) = [] then ''localhost'' else TrimSpace (cu_Host input)"
    let ?sql = "create_user_sql (TrimSpace (cu_Database input)) (TrimSpace (cu_Username input)) (cu_Password input) ?h"
    assume "db_CreateUser s input w = (e, w')"
    then have "w' = w \<or> sql_permitted ?sql \<and> db_execSQL s ?sql w = (e, w')"
      using sql_permittedI(2) [of "TrimSpace (cu_Database input)" "TrimSpace (cu_Username input)" "cu_Password input" ?h]
      by (auto simp: db_CreateUser_def Let_def not_less simp del: length_greater_0_conv split: if_splits)
    then show ?thesis using db_execSQL_cmds [of s ?sql w e w'] by auto
  qed
qed

text \<open>Certbot gets a valid domain and e-mail address, or renews.\<close>

definition ssl_command :: "SSLService \<Rightarrow> string list \<Rightarrow> bool" where
  "ssl_command s argv \<longleftrightarrow> ssl_apply s \<and> (argv = [ssl_certbotCommand s, ''renew'', ''--non-interactive'']
     \<or> (\<exists>domain email. ssl_isValidDomain domain \<and> emailPattern email \<and>
          (argv = [ssl_certbotCommand s, ''install'', ''--cert-name'', domain, ''--nginx'', ''--redirect'', ''--non-interactive'']
           \<or> (\<exists>how. how \<in> {[''--nginx''], [''--webroot'', ''-w'', PathJoin [''/var/www'', domain, ''public'']]}
               \<and> argv = [ssl_certbotCommand s, ''certonly'', ''-d'', domain, ''--non-interactive'', ''--agree-tos'', ''-m'', email] @ how))))"

lemma ssl_commandI:
  "ssl_apply s \<Longrightarrow> ssl_command s [ssl_certbotCommand s, ''renew'', ''--non-interactive'']"
  "ssl_apply s \<Longrightarrow> ssl_isValidDomain d \<Longrightarrow> emailPattern m \<Longrightarrow>
     ssl_command s [ssl_certbotCommand s, ''install'', ''--cert-name'', d, ''--nginx'', ''--redirect'', ''--non-interactive'']"
  "ssl_apply s \<Longrightarrow> ssl_isValidDomain d \<Longrightarrow> emailPattern m \<Longrightarrow> how \<in> {[''--nginx''], [''--webroot'', ''-w'', PathJoin [''/var/www'', d, ''public'']]} \<Longrightarrow>
     ssl_command s (ssl_certbotCommand s # [''certonly'', ''-d'', d, ''--non-interactive'', ''--agree-tos'', ''-m'', m] @ how)"
  by (auto simp: ssl_command_def)

lemma ssl_runCommand_cmds: "ssl_runCommand c args w = (e, w') \<Longrightarrow> os_cmds w' = os_cmds w @ [c # args]"
  by (auto simp: ssl_runCommand_def dest!: CombinedOutput_cmds split: prod.splits option.splits)

lemma issueCommandArgs_cmds:
  "issueCommandArgs domain email w = (args, w') \<Longrightarrow> os_cmds w' = os_cmds w \<and>
     (\<exists>how. how \<in> {[''--nginx''], [''--webroot'', ''-w'', PathJoin [''/var/www'', domain, ''public'']]}
       \<and> args = [''certonly'', ''-d'', domain, ''--non-interactive'', ''--agree-tos'', ''-m'', email] @ how)"
  by (auto simp: issueCommandArgs_def defaultWebrootForDomain_def Let_def dest!: no_cmds split: prod.splits sum.splits node.splits if_splits)

lemma certificateExists_no_cmds [no_cmds]: "certificateExists domain w = (b, w') \<Longrightarrow> os_cmds w' = os_cmds w"
  by (auto simp: certificateExists_def dest!: no_cmds split: prod.splits sum.splits)

lemma ssl_cmds:
  "ssl_Renew s w = (e, w') \<Longrightarrow> runs (ssl_command s) w w'"
  "ssl_Issue s d m w = (e, w') \<Longrightarrow> runs (ssl_command s) w w'"
proof -
  show "ssl_Renew s w = (e, w') \<Longrightarrow> runs (ssl_command s) w w'"
    by (auto simp: ssl_Renew_def ssl_commandI dest!: ssl_runCommand_cmds split: prod.splits option.splits if_splits)
  let ?d = "ToLower (TrimSpace d)" and ?m = "TrimSpace m"
  assume i: "ssl_Issue s d m w = (e, w')"
  show "runs (ssl_command s) w w'"
  proof (cases "ssl_isValidDomain ?d \<and> emailPattern ?m \<and> ssl_apply s")
    case True
    obtain y1 w1 where w1: "RemoveAll ''/var/lib/letsencrypt/temp_checkpoint'' w = (y1, w1)" by fastforce
    obtain args w2 where w2: "issueCommandArgs ?d ?m w1 = (args, w2)" by fastforce
    obtain e3 w3 where w3: "ssl_runCommand (ssl_certbotCommand s) args w2 = (e3, w3)" by fastforce
    have "ssl_command s (ssl_certbotCommand s # args)" using issueCommandArgs_cmds [OF w2] True ssl_commandI(3) by blast
    then have c: "ssl_command s (ssl_certbotCommand s # args)"
      "os_cmds w3 = os_cmds w @ [ssl_certbotCommand s # args]"
      using ssl_runCommand_cmds [OF w3] issueCommandArgs_cmds [OF w2] write_no_cmds(5) [OF w1] by simp_all
    note install = ssl_commandI(2) [of s ?d ?m]
    show ?thesis
      using i True w1 w2 w3 c install
      by (auto simp: ssl_Issue_def Let_def dest!: ssl_runCommand_cmds certificateExists_no_cmds split: prod.splits option.splits if_splits)
  next
    case False
    then show ?thesis using i by (auto simp: ssl_Issue_def Let_def split: if_splits)
  qed
qed

text \<open>The monitor asks systemd about the services it is given.\<close>

definition monitor_command :: "string \<Rightarrow> string list \<Rightarrow> string list \<Rightarrow> bool" where
  "monitor_command goos names argv \<longleftrightarrow> goos = ''linux'' \<and> (\<exists>n\<in>set names. argv = [''systemctl'', ''is-active'', n])"

lemma probe_all_cmds: "runs (monitor_command goos names) w (snd (probe_all goos now ns w))" if "set ns \<subseteq> set names"
  using that
proof (induction ns arbitrary: w)
  case (Cons n ns)
  obtain st v where v: "probe goos n w = (st, v)" by fastforce
  then have "runs (monitor_command goos names) w v"
    using Cons.prems by (auto simp: probe_def monitor_command_def dest!: CombinedOutput_cmds split: prod.splits if_splits)
  moreover have "runs (monitor_command goos names) v (snd (probe_all goos now ns v))" using Cons by simp
  ultimately show ?case using v by (auto split: prod.splits)
qed simp

lemma monitor_List_cmds: "monitor_List goos names w = (r, w') \<Longrightarrow> runs (monitor_command goos names) w w'"
  using probe_all_cmds [of names names goos "fst (time_Now w)" "snd (time_Now w)"]
  by (auto simp: monitor_List_def time_Now_def)

text \<open>The updater, when it is enabled and its configuration valid, runs commands that do not depend on requests at all.\<close>

definition updater_commands :: "Updater \<Rightarrow> string list list" where
  "updater_commands s =
     [[''systemctl'', ''show'', unitServiceName s, ''--property=LoadState'', ''--property=ActiveState'', ''--property=SubState'',
        ''--property=Result'', ''--property=ExecMainStatus'', ''--property=StateChangeTimestamp'', ''--no-pager''],
      [''journalctl'', ''-u'', unitServiceName s, ''-n'', Itoa (log_lines (uc_LogLines (up_cfg s))), ''--no-pager'', ''--output=short-iso''],
      [''git'', ''ls-remote'', ''--heads'', uc_RepoURL (up_cfg s), ''refs/heads/'' @ uc_Branch (up_cfg s)],
      [''systemctl'', ''reset-failed'', unitServiceName s], [''systemctl'', ''stop'', unitServiceName s], systemd_run s]"

definition updater_command :: "Updater \<Rightarrow> string list \<Rightarrow> bool" where
  "updater_command s argv \<longleftrightarrow> up_enabled s \<and> validateConfig s = None \<and> argv \<in> set (updater_commands s)"

lemma updater_asks_cmds:
  "updater_showUnit s w = (r1, w') \<Longrightarrow> runs (\<lambda>c. c \<in> set (updater_commands s)) w w'"
  "updater_logs s w = (r2, w') \<Longrightarrow> runs (\<lambda>c. c \<in> set (updater_commands s)) w w'"
  "updater_readRemoteCommit s w = (r3, w') \<Longrightarrow> runs (\<lambda>c. c \<in> set (updater_commands s)) w w'"
  by (auto simp: updater_showUnit_def updater_logs_def updater_readRemoteCommit_def updater_commands_def Let_def
      dest!: CombinedOutput_cmds split: prod.splits option.splits list.splits if_splits)

lemma updater_Status_cmds_in: "updater_Status s w = (r, w') \<Longrightarrow> runs (\<lambda>c. c \<in> set (updater_commands s)) w w'"
  by (auto simp: updater_Status_def Let_def dest!: updater_asks_cmds no_cmds split: prod.splits option.splits sum.splits if_splits)

lemma cleanup_cmds:
  "os_cmds (updater_cleanupUnit s w) = os_cmds w @ [[''systemctl'', ''stop'', unitServiceName s], [''systemctl'', ''reset-failed'', unitServiceName s]]"
  by (simp add: updater_cleanupUnit_def CombinedOutput_def case_prod_beta)

text \<open>Starting and looking for an update.\<close>

lemma start_cmds:
  "start_error s e d w = (r, w') \<Longrightarrow> runs (\<lambda>c. c \<in> set (updater_commands s)) w w'"
  "start_result s w = (r2, w') \<Longrightarrow> os_cmds w' = os_cmds w"
  by (auto simp: start_error_def start_result_def dest!: updater_Status_cmds_in no_cmds split: prod.splits)

lemma updater_commands_in [simp]:
  "systemd_run s \<in> set (updater_commands s)" "[''systemctl'', ''stop'', unitServiceName s] \<in> set (updater_commands s)"
  "[''systemctl'', ''reset-failed'', unitServiceName s] \<in> set (updater_commands s)"
  by (simp_all add: updater_commands_def)

lemma launch_cmds: "launch s w = (r, w') \<Longrightarrow> runs (\<lambda>c. c \<in> set (updater_commands s)) w w'"
  by (auto simp: launch_def Let_def cleanup_cmds dest!: CombinedOutput_cmds start_cmds split: prod.splits option.splits if_splits)

lemma updater_cmds:
  "updater_Status s w = (r1, w') \<Longrightarrow> runs (updater_command s) w w'"
  "updater_Check s w = (r2, w') \<Longrightarrow> runs (updater_command s) w w'"
  "updater_Start s w = (r3, w') \<Longrightarrow> runs (updater_command s) w w'"
proof -
  have on: "runs (updater_command s) w w'" if "up_enabled s \<and> validateConfig s = None \<longrightarrow> runs (\<lambda>c. c \<in> set (updater_commands s)) w w'"
      "\<not> (up_enabled s \<and> validateConfig s = None) \<longrightarrow> os_cmds w' = os_cmds w"
    using that by (cases "up_enabled s \<and> validateConfig s = None") (auto simp: updater_command_def list_all_iff)
  show "runs (updater_command s) w w'" if "updater_Status s w = (r1, w')"
    by (rule on) (use that updater_Status_cmds_in [OF that] in \<open>auto simp: updater_Status_def split: option.splits if_splits\<close>)
  show "runs (updater_command s) w w'" if "updater_Check s w = (r2, w')"
    by (rule on) (use that in \<open>auto simp: updater_Check_def Let_def dest!: updater_asks_cmds(3) no_cmds split: option.splits sum.splits prod.splits if_splits\<close>)
  have "runs (\<lambda>c. c \<in> set (updater_commands s)) w w'" if "updater_Start s w = (r3, w')"
    using that
    by (auto simp: updater_Start_def Let_def dest!: updater_Status_cmds_in launch_cmds no_cmds split: option.splits sum.splits prod.splits if_splits)
  then show "runs (updater_command s) w w'" if "updater_Start s w = (r3, w')"
    by (intro on) (use that in \<open>auto simp: updater_Start_def split: option.splits if_splits\<close>)
qed

text \<open>The provisioner runs the configured test and reload.\<close>

definition nginx_command :: "NginxConfig \<Rightarrow> string list \<Rightarrow> bool" where
  "nginx_command cfg argv \<longleftrightarrow> ng_Apply cfg \<and> argv \<in> {Fields (TrimSpace (ng_TestCommand cfg)), Fields (TrimSpace (ng_ReloadCommand cfg))}"

lemma runCommand_cmds: "runCommand raw w = (r, w') \<Longrightarrow> runs (\<lambda>c. c = Fields (TrimSpace raw)) w w'"
  by (auto simp: runCommand_def dest!: CombinedOutput_cmds split: list.splits prod.splits option.splits)

lemma provision_files_no_cmds [no_cmds]:
  "writeAtomic p c w = (e, w') \<Longrightarrow> os_cmds w' = os_cmds w"
  "upsertSymlink t l w = (e, w') \<Longrightarrow> os_cmds w' = os_cmds w"
  "readIfExists p w = (r, w') \<Longrightarrow> os_cmds w' = os_cmds w"
  "readLinkIfExists p w = (r, w') \<Longrightarrow> os_cmds w' = os_cmds w"
  "remove_if_there p w = (e, w') \<Longrightarrow> os_cmds w' = os_cmds w"
  "writeFileIfNotExists p c w = (e, w') \<Longrightarrow> os_cmds w' = os_cmds w"
  by (auto simp: writeAtomic_def upsertSymlink_def readIfExists_def readLinkIfExists_def remove_if_there_def writeFileIfNotExists_def Let_def
      dest!: no_cmds split: prod.splits option.splits sum.splits node.splits if_splits)

lemma rollback_no_cmds [no_cmds]: "rollback c l pc pl w = (e, w') \<Longrightarrow> os_cmds w' = os_cmds w"
  by (auto simp: rollback_def dest!: no_cmds split: prod.splits option.splits if_splits)

lemma rollback_snd_cmds [simp]: "os_cmds (snd (rollback c l pc pl w)) = os_cmds w"
  using rollback_no_cmds by (metis prod.collapse)

lemma Stat_snd_cmds: "os_cmds (snd (Stat p w)) = os_cmds w"
  using os_no_cmds(1) by (metis prod.collapse)

lemma hasAnyIndex_no_cmds [no_cmds]: "hasAnyIndex root w = (r, w') \<Longrightarrow> os_cmds w' = os_cmds w"
proof -
  have "os_cmds (snd (hasAnyIndex_in root ns w)) = os_cmds w" for ns
    by (induction ns arbitrary: w) (simp_all add: Stat_snd_cmds case_prod_beta split: sum.split)
  then show "hasAnyIndex root w = (r, w') \<Longrightarrow> os_cmds w' = os_cmds w" by (metis hasAnyIndex_def snd_conv)
qed

lemma prepare_no_cmds [no_cmds]:
  "ensureRuntimeBootstrap site w = (e, w') \<Longrightarrow> os_cmds w' = os_cmds w"
  by (auto simp: ensureRuntimeBootstrap_def Let_def dest!: no_cmds split: prod.splits sum.splits if_splits bool.splits)

lemma nginx_prepare_no_cmds [no_cmds]: "nginx_prepare cfg site w = (e, w') \<Longrightarrow> os_cmds w' = os_cmds w"
  by (auto simp: nginx_prepare_def dest!: no_cmds split: prod.splits option.splits if_splits)

lemma nginx_activate_cmds: "ng_Apply cfg \<Longrightarrow> nginx_activate cfg site pc pl w = (r, w') \<Longrightarrow> runs (nginx_command cfg) w w'"
  by (auto simp: nginx_activate_def nginx_command_def Let_def list_all_iff dest!: no_cmds runCommand_cmds split: prod.splits option.splits)

lemma nginx_cmds:
  "nginx_ProvisionSite cfg site w = (r, w') \<Longrightarrow> runs (nginx_command cfg) w w'"
  "nginx_DeprovisionSite cfg site w = (r, w') \<Longrightarrow> runs (nginx_command cfg) w w'"
  subgoal
    by (auto simp: nginx_ProvisionSite_def dest!: no_cmds nginx_activate_cmds split: prod.splits option.splits sum.splits if_splits)
  subgoal
    by (auto simp: nginx_DeprovisionSite_def nginx_command_def list_all_iff dest!: no_cmds runCommand_cmds
        split: prod.splits option.splits if_splits)
  done

lemma run_job_cmds:
  "jobs_runByType (Some (nginx_ProvisionSite cfg, nginx_DeprovisionSite cfg)) job w = (r, w') \<Longrightarrow> runs (nginx_command cfg) w w'"
  by (auto simp: jobs_runByType_def jobs_runProvisionSite_def jobs_runDeprovisionSite_def dest!: no_cmds nginx_cmds
      split: prod.splits option.splits sum.splits if_splits)

lemma handleJob_cmds: "runs (nginx_command cfg) w (jobs_handleJob (Some (nginx_ProvisionSite cfg, nginx_DeprovisionSite cfg)) i w)"
  by (auto simp: jobs_handleJob_def dest!: no_cmds run_job_cmds split: prod.splits option.splits sum.splits)

subsection \<open>What a request runs\<close>

definition request_command :: "API \<Rightarrow> string list \<Rightarrow> bool" where
  "request_command a argv \<longleftrightarrow> (\<exists>s. api_db a = Some s \<and> db_command s argv) \<or> (\<exists>s. api_ssl a = Some s \<and> ssl_command s argv)
     \<or> (\<exists>names. api_monitor a = Some names \<and> monitor_command (api_goos a) names argv)
     \<or> (\<exists>s. api_updater a = Some s \<and> updater_command s argv)"

lemma request_commandI:
  "api_db a = Some s1 \<Longrightarrow> list_all (db_command s1) cs \<Longrightarrow> list_all (request_command a) cs"
  "api_ssl a = Some s2 \<Longrightarrow> list_all (ssl_command s2) cs \<Longrightarrow> list_all (request_command a) cs"
  "api_monitor a = Some names \<Longrightarrow> list_all (monitor_command (api_goos a) names) cs \<Longrightarrow> list_all (request_command a) cs"
  "api_updater a = Some s3 \<Longrightarrow> list_all (updater_command s3) cs \<Longrightarrow> list_all (request_command a) cs"
  by (auto simp: request_command_def list_all_iff)

definition answer_runs :: "API \<Rightarrow> 'a panel_scheme \<Rightarrow> 'a panel_scheme answer \<Rightarrow> bool" where
  "answer_runs a w ans \<longleftrightarrow> runs (request_command a) w (snd ans)"

lemma answer_runs_intros:
  "runs (request_command a) w v \<Longrightarrow> answer_runs a w (ok st body v)"
  "runs (request_command a) w v \<Longrightarrow> answer_runs a w (fail st m v)"
  "runs (request_command a) w v \<Longrightarrow> answer_runs a w (fail_with cases fallback e v)"
  "runs (request_command a) w v \<Longrightarrow> answer_runs a w (x, v)"
  by (auto simp: answer_runs_def ok_def fail_def fail_with_def answer_error_def writeError_def time_Now_def split: prod.split)

lemma answer_runs_body: "(\<And>m. answer_runs a w (h m w)) \<Longrightarrow> answer_runs a w (with_body names r h w)"
  by (auto simp: with_body_def intro: answer_runs_intros split: sum.split)

lemmas run_intros = answer_runs_body answer_runs_intros

lemma session_handlers_run:
  "answer_runs a w (api_handleLogin b r w)"
  "answer_runs a w (api_handleLogout u t w)"
  "answer_runs a w (api_handleChangePassword b u r w)"
  "answer_runs a w (api_handleMe u w)"
  subgoal by (auto simp: api_handleLogin_def Let_def intro!: run_intros dest!: no_cmds split: prod.split sum.split)
  subgoal by (auto simp: api_handleLogout_def intro!: run_intros dest!: no_cmds split: prod.splits option.splits)
  subgoal by (auto simp: api_handleChangePassword_def intro!: run_intros dest!: no_cmds split: prod.splits option.splits)
  subgoal by (auto simp: api_handleMe_def intro!: run_intros)
  done

lemma site_handlers_run:
  "answer_runs a w (api_handleCreateSite u r w)"
  "answer_runs a w (api_handleDeleteSite u i r w)"
  "answer_runs a w (api_handleListSites r w)"
  "answer_runs a w (api_handleGetSite i w)"
  "answer_runs a w (api_handleGetSiteContent i r w)"
  "answer_runs a w (api_handleUpdateSiteContent u i r w)"
  "answer_runs a w (api_handleListSiteFiles i r w)"
  "answer_runs a w (api_handleDownloadSiteFile b i r w)"
  "answer_runs a w (api_handleUploadSiteFile u i r w)"
  "answer_runs a w (api_handleDeleteSiteFile u i r w)"
  "answer_runs a w (api_handleCreateSiteDir u i r w)"
  "answer_runs a w (api_handleDeleteSiteDir u i r w)"
  "answer_runs a w (api_handleBackupSiteContent b u i w)"
  subgoal by (auto simp: api_handleCreateSite_def intro!: run_intros dest!: no_cmds split: prod.splits option.splits sum.splits)
  subgoal by (auto simp: api_handleDeleteSite_def intro!: run_intros dest!: no_cmds split: prod.splits option.splits sum.splits)
  subgoal by (simp add: api_handleListSites_def run_intros)
  subgoal by (auto simp: api_handleGetSite_def intro!: run_intros split: sum.split)
  subgoal by (auto simp: api_handleGetSiteContent_def intro!: run_intros dest!: no_cmds split: prod.splits sum.splits)
  subgoal by (auto simp: api_handleUpdateSiteContent_def intro!: run_intros dest!: no_cmds split: prod.splits sum.splits)
  subgoal by (auto simp: api_handleListSiteFiles_def intro!: run_intros dest!: no_cmds split: prod.splits sum.splits)
  subgoal by (auto simp: api_handleDownloadSiteFile_def Let_def intro!: run_intros dest!: no_cmds split: prod.splits sum.splits)
  subgoal by (auto simp: api_handleUploadSiteFile_def intro!: run_intros dest!: no_cmds split: prod.splits sum.splits)
  subgoal by (auto simp: api_handleDeleteSiteFile_def intro!: run_intros dest!: no_cmds split: prod.splits sum.splits)
  subgoal by (auto simp: api_handleCreateSiteDir_def intro!: run_intros dest!: no_cmds split: prod.splits sum.splits)
  subgoal by (auto simp: api_handleDeleteSiteDir_def intro!: run_intros dest!: no_cmds split: prod.splits option.splits sum.splits)
  subgoal by (auto simp: api_handleBackupSiteContent_def intro!: run_intros dest!: no_cmds split: prod.splits sum.splits)
  done

lemma service_handlers_run:
  "answer_runs a w (api_handleListDatabases a w)"
  "answer_runs a w (api_handleCreateDatabase a u r w)"
  "answer_runs a w (api_handleCreateDatabaseUser a u r w)"
  "answer_runs a w (api_handleRunBackup b u r w)"
  "answer_runs a w (api_handleRestoreBackup b u r w)"
  "answer_runs a w (api_handleIssueSSL a u r w)"
  "answer_runs a w (api_handleRenewSSL a u w)"
  "answer_runs a w (api_handleMonitorServices a w)"
  "answer_runs a w (api_handlePanelUpdateCheck a w)"
  "answer_runs a w (api_handlePanelUpdateStatus a w)"
  "answer_runs a w (api_handleStartPanelUpdate a u w)"
  subgoal
    by (auto simp: api_handleListDatabases_def intro!: run_intros intro: request_commandI dest!: db_cmds split: prod.splits option.splits sum.splits)
  subgoal
    by (auto simp: api_handleCreateDatabase_def intro!: run_intros intro: request_commandI dest!: db_cmds split: prod.splits option.splits)
      (blast intro: request_commandI)+
  subgoal
    by (auto simp: api_handleCreateDatabaseUser_def Let_def intro!: run_intros intro: request_commandI dest!: db_cmds split: prod.splits option.splits)
      (blast intro: request_commandI)+
  subgoal by (auto simp: api_handleRunBackup_def intro!: run_intros dest!: no_cmds split: prod.splits option.splits sum.splits)
  subgoal by (auto simp: api_handleRestoreBackup_def intro!: run_intros dest!: no_cmds split: prod.splits option.splits sum.splits)
  subgoal
    by (auto simp: api_handleIssueSSL_def intro!: run_intros intro: request_commandI dest!: ssl_cmds split: prod.splits option.splits)
      (blast intro: request_commandI)+
  subgoal
    by (auto simp: api_handleRenewSSL_def intro!: run_intros intro: request_commandI dest!: ssl_cmds split: prod.splits option.splits)
  subgoal
    by (auto simp: api_handleMonitorServices_def intro!: run_intros intro: request_commandI dest!: monitor_List_cmds split: prod.splits option.splits)
  subgoal
    by (auto simp: api_handlePanelUpdateCheck_def intro!: run_intros intro: request_commandI dest!: updater_cmds split: prod.splits option.splits sum.splits)
  subgoal
    by (auto simp: api_handlePanelUpdateStatus_def intro!: run_intros intro: request_commandI dest!: updater_cmds split: prod.splits option.splits sum.splits)
  subgoal
    by (auto simp: api_handleStartPanelUpdate_def mergeErrorPayload_def Let_def simp del: error_answer.simps
        intro!: run_intros intro: request_commandI dest!: updater_cmds no_cmds split: prod.splits option.splits sum.splits)
  done

lemma other_handlers_run:
  "answer_runs a w (api_handleListJobs r w)"
  "answer_runs a w (api_handleGetJob i w)"
  "answer_runs a w (api_handleListAuditLogs r w)"
  "answer_runs a w (api_handleMonitorHost b w)"
  "answer_runs a w (api_handlePanelVersion b w)"
  "answer_runs a w (handlers_WebUI w)"
  "answer_runs a w (handlers_Health w)"
  "answer_runs a w (handlers_SystemCompatibility res w)"
  by (auto simp: api_handleListJobs_def api_handleGetJob_def api_handleListAuditLogs_def api_handleMonitorHost_def api_handlePanelVersion_def
      handlers_WebUI_def handlers_Health_def handlers_SystemCompatibility_def intro!: run_intros dest!: no_cmds
      split: prod.splits option.splits sum.splits)

lemma requireAuth_runs:
  assumes "\<And>u t v. answer_runs a v (h u t v)" shows "answer_runs a w (api_requireAuth h r w)"
proof (cases "bearerToken (rq_Authorization r)")
  case (Inr token)
  obtain x v where v: "auth_Authenticate token w = (x, v)" by fastforce
  have "os_cmds v = os_cmds w" by (rule auth_no_cmds(2) [OF v])
  then have "answer_runs a w (h u token v)" for u using assms [of v u token] by (simp add: answer_runs_def)
  then show ?thesis using v Inr \<open>os_cmds v = os_cmds w\<close>
    by (auto simp: api_requireAuth_def intro!: answer_runs_intros split: sum.split)
qed (auto simp: api_requireAuth_def intro!: answer_runs_intros)

lemma requireRole_runs: "(\<And>u v. answer_runs a v (h u v)) \<Longrightarrow> answer_runs a w (api_requireRole role h r w)"
  unfolding api_requireRole_def by (intro requireAuth_runs) (auto intro!: answer_runs_intros)

lemma serve_runs: "answer_runs a w (serve a res r w)"
proof -
  have "answer_runs a w (endpoint_handler a res e r w)" for e
    by (cases e) (auto intro!: requireAuth_runs requireRole_runs session_handlers_run site_handlers_run service_handlers_run other_handlers_run)
  then show ?thesis by (auto simp: serve_def intro!: answer_runs_intros split: option.split)
qed

subsection \<open>Everything that is ever run\<close>

lemma boot_reads_no_cmds [no_cmds]:
  "oscheck_Detect goos w = (r, w') \<Longrightarrow> os_cmds w' = os_cmds w"
  "repo_load v = (e, v') \<Longrightarrow> os_cmds v' = os_cmds v"
  "repo_New p v = (e, v') \<Longrightarrow> os_cmds v' = os_cmds v"
proof -
  show "oscheck_Detect goos w = (r, w') \<Longrightarrow> os_cmds w' = os_cmds w"
    by (auto simp: oscheck_Detect_def Let_def dest!: no_cmds split: prod.splits sum.splits if_splits)
  have load: "os_cmds v' = os_cmds v" if "repo_load v = (e, v')" for e and v v' :: "'x repo_scheme"
    using that by (auto simp: repo_load_def Let_def dest!: no_cmds split: prod.splits sum.splits option.splits if_splits)
  then show "repo_load v = (e, v') \<Longrightarrow> os_cmds v' = os_cmds v" .
  show "repo_New p v = (e, v') \<Longrightarrow> os_cmds v' = os_cmds v"
    by (auto simp: repo_New_def dest!: load no_cmds split: prod.splits option.splits if_splits)
qed

lemma boot_no_cmds: "app_boot h cfg w0 = (Inr (a, res), w) \<Longrightarrow> os_cmds w = os_cmds w0"
  by (auto simp: app_boot_def jobs_Start_def dest!: no_cmds split: prod.splits option.splits if_splits)

definition panel_command :: "host_info \<Rightarrow> Config \<Rightarrow> string list \<Rightarrow> bool" where
  "panel_command h cfg argv \<longleftrightarrow> request_command (app_api h cfg) argv \<or> nginx_command (app_nginx cfg) argv"

text \<open>
  One step of the daemon: a request served, a job handled, or a waiting request's job put into the queue.
\<close>

inductive panel_step :: "host_info \<Rightarrow> Config \<Rightarrow> OSResult \<Rightarrow> 'a panel_scheme \<Rightarrow> 'a panel_scheme \<Rightarrow> bool" for h cfg res where
  Request: "serve (app_api h cfg) res r w = (ans, w') \<Longrightarrow> panel_step h cfg res w w'"
| Worker: "jq_queue w = i # q \<Longrightarrow> panel_step h cfg res w (jobs_handleJob (app_provisioner cfg) i (w\<lparr>jq_queue := q\<rparr>))"
| Resumed: "panel_step h cfg res w (audit_Record actor act ty i m (w\<lparr>jq_queue := jq_queue w @ [j]\<rparr>))"

lemma panel_step_runs: "panel_step h cfg res w w' \<Longrightarrow> runs (panel_command h cfg) w w'"
proof (induction rule: panel_step.induct)
  case (Request r w ans w')
  then show ?case using serve_runs [of "app_api h cfg" w res r] by (auto simp: answer_runs_def panel_command_def list_all_iff)
next
  case (Worker w i q)
  show ?case using handleJob_cmds [of "app_nginx cfg" i "w\<lparr>jq_queue := q\<rparr>"]
    by (auto simp: app_provisioner_def panel_command_def list_all_iff)
qed simp

lemma panel_steps_run: "(panel_step h cfg res)\<^sup>*\<^sup>* w w' \<Longrightarrow> runs (panel_command h cfg) w w'"
proof (induction rule: rtranclp_induct)
  case (step v v')
  then show ?case using panel_step_runs [OF step(2)] by auto
qed simp

lemma dry_command: "panel_command h cfg c \<Longrightarrow> \<not> cf_ProvisionApply cfg \<Longrightarrow> monitor_command (hi_goos h) (NewServicesMonitor []) c"
  by (auto simp: panel_command_def request_command_def nginx_command_def db_command_def ssl_command_def updater_command_def
      app_api_def app_nginx_def db_NewService_def ssl_NewService_def updater_NewService_def)

text \<open>
  C4: which programs the daemon ever runs.  The start runs none.  After it, whatever requests come, from
  whomever and with whatever content, and whatever jobs are handled between them, every command is one
  of these: the MySQL client with one of its three statements, whose identifiers and host have passed
  their checks; certbot with a domain and an e-mail address that have passed theirs; a question to
  systemd about a fixed list of services; the updater's six commands, which no request influences; the
  configured test and reload of nginx.  With provisioning switched off only the questions about the services are left.
\<close>

theorem daemon_commands:
  assumes "(panel_step h cfg res)\<^sup>*\<^sup>* w w'"
  shows "(\<forall>w0 a check. app_boot h cfg w0 = (Inr (a, check), w) \<longrightarrow> os_cmds w = os_cmds w0)
    \<and> (\<exists>cs. os_cmds w' = os_cmds w @ cs \<and> list_all (panel_command h cfg) cs
      \<and> (\<not> cf_ProvisionApply cfg \<longrightarrow> list_all (monitor_command (hi_goos h) (NewServicesMonitor [])) cs))"
proof (intro conjI allI impI)
  show "os_cmds w = os_cmds w0" if "app_boot h cfg w0 = (Inr (a, check), w)" for w0 a check
    by (rule boot_no_cmds [OF that])
  from panel_steps_run [OF assms] obtain cs where cs: "os_cmds w' = os_cmds w @ cs" "list_all (panel_command h cfg) cs" by blast
  then have "list_all (monitor_command (hi_goos h) (NewServicesMonitor [])) cs" if "\<not> cf_ProvisionApply cfg"
    using dry_command [OF _ that] by (auto simp: list_all_iff)
  with cs show "\<exists>cs. os_cmds w' = os_cmds w @ cs \<and> list_all (panel_command h cfg) cs
      \<and> (\<not> cf_ProvisionApply cfg \<longrightarrow> list_all (monitor_command (hi_goos h) (NewServicesMonitor [])) cs)" by blast
qed

text \<open>An administrator's request to renew the certificates.\<close>

lemma daemon_commands_witness:
  "\<exists>w'. (panel_step sample_host_info sample_config sample_host_check)\<^sup>*\<^sup>* sample_panel w'
     \<and> os_cmds w' = [[''certbot'', ''renew'', ''--non-interactive'']]
     \<and> panel_command sample_host_info sample_config [''certbot'', ''renew'', ''--non-interactive'']"
proof -
  let ?r = "sample_request ''POST'' [''v1'', ''ssl'', ''renew''] ''adm''"
  obtain ans w' where s: "serve (app_api sample_host_info sample_config) sample_host_check ?r sample_panel = (ans, w')" by fastforce
  have host: "os_cmds sample_panel = []" "os_exec sample_panel = (\<lambda>_ _ m. ([], None, m))" by (simp_all add: sample_panel_defs)
  have "TrimSpace ''certbot'' = ''certbot''" by code_simp
  moreover have "cf_CertbotCommand sample_config = ''certbot''" "cf_ProvisionApply sample_config"
    by (simp_all add: sample_config_def env_base_def getenv_def)
  ultimately have ssl: "api_ssl (app_api sample_host_info sample_config) = Some \<lparr>ssl_apply = True, ssl_certbotCommand = ''certbot''\<rparr>"
    by (simp add: app_api_def ssl_NewService_def)
  have "os_cmds w' = [[''certbot'', ''renew'', ''--non-interactive'']]"
    using s
    by (auto simp: serve_def sample_routes api_requireRole_def api_requireAuth_def sample_bearer sample_admin
        api_handleRenewSSL_def ssl ssl_Renew_def ssl_runCommand_def CombinedOutput_def ok_def
        sample_auth_user_def sample_user_def RoleAdmin_def host)
  moreover have steps: "(panel_step sample_host_info sample_config sample_host_check)\<^sup>*\<^sup>* sample_panel w'"
    using Request [OF s] by blast
  ultimately show ?thesis using daemon_commands [OF steps] host(1) by auto
qed

end
