(* ===== verification/Headers.thy ===== *)
theory Headers
  imports Routes
begin

text \<open>
  The content type of an answer (\<open>withJSONContentType\<close> in \<open>internal/httpserver/router.go\<close>): the router sets it
  to JSON for the paths of the API and the health check before the handler runs; the page and the
  downloads set their own, and the handlers that answer in JSON rely on the router.
\<close>

definition url_path :: "request \<Rightarrow> string" where
  "url_path r = slash # Join (rq_Segments r) [slash]"

definition withJSONContentType :: "request \<Rightarrow> string option" where
  "withJSONContentType r =
     (if HasPrefix (url_path r) ''/v1/'' \<or> url_path r = ''/healthz'' then Some ''application/json; charset=utf-8'' else None)"

text \<open>The header a client sees, if the panel sets one; else Go's server guesses from the body.\<close>

definition content_type :: "request \<Rightarrow> response \<Rightarrow> string option" where
  "content_type r resp =
     (case rs_Payload resp of
        Body _ \<Rightarrow> withJSONContentType r
      | Attachment ct _ _ \<Rightarrow> Some ct
      | Page \<Rightarrow> Some ''text/html; charset=utf-8'')"

lemma routes_typed:
  "list_all (\<lambda>(m, ps, e). e = WebUI \<or> ps = [''healthz''] \<or> (case ps of v # s # _ \<Rightarrow> v = ''v1'' | _ \<Rightarrow> False)) routes"
  by (simp add: routes_def)

lemma match_path_healthz: "match_path [''healthz''] ss \<Longrightarrow> ss = [''healthz'']"
  by (cases ss; cases "tl ss") simp_all

lemma match_path_v1: "match_path (''v1'' # p # ps) ss \<Longrightarrow> \<exists>s ss'. ss = ''v1'' # s # ss'"
  by (cases ss; cases "tl ss") simp_all

lemma route_typed:
  assumes "route r = Some e" "e \<noteq> WebUI"
  shows "withJSONContentType r = Some ''application/json; charset=utf-8''"
proof -
  obtain m ps where f: "find (\<lambda>(m, ps, e). m = route_method (rq_Method r) \<and> match_path ps (rq_Segments r)) routes = Some (m, ps, e)"
    using assms by (auto simp: route_def split: option.splits if_splits)
  then have "(m, ps, e) \<in> set routes" "match_path ps (rq_Segments r)" by (auto simp: find_Some_iff) (metis nth_mem)
  then consider "ps = [''healthz'']" | p qs where "ps = ''v1'' # p # qs"
    using routes_typed assms(2) by (fastforce simp: list_all_iff split: list.splits)
  then show ?thesis
  proof cases
    case 1
    then have "rq_Segments r = [''healthz'']" using \<open>match_path ps (rq_Segments r)\<close> match_path_healthz by simp
    then show ?thesis by (simp add: withJSONContentType_def url_path_def slash_def)
  next
    case 2
    then obtain s ss where "rq_Segments r = ''v1'' # s # ss" using \<open>match_path ps (rq_Segments r)\<close> match_path_v1 by blast
    then show ?thesis by (simp add: withJSONContentType_def url_path_def slash_def HasPrefix_def)
  qed
qed

text \<open>Every JSON answer is labelled as JSON: no browser takes user data in it for a page.\<close>

lemma json_answers_labelled:
  assumes "serve a res r w = (Some resp, w')" "rs_Payload resp = Body j"
  shows "content_type r resp = Some ''application/json; charset=utf-8''"
proof -
  obtain e where e: "route r = Some e" using assms by (auto simp: serve_def split: option.splits)
  have "e \<noteq> WebUI" using assms e by (auto simp: serve_def handlers_WebUI_def)
  from route_typed [OF e this] show ?thesis using assms(2) by (simp add: content_type_def)
qed

end
