(* ===== verification/BuildInfo.thy ===== *)
theory BuildInfo
  imports Updater
begin

text \<open>
  \<open>internal/buildinfo\<close>: the values the build leaves in the binary when the linker is not told others, and what
  the updater makes of them.
\<close>

definition buildinfo_Version :: string where "buildinfo_Version = ''dev''"
definition buildinfo_Commit :: string where "buildinfo_Commit = ''unknown''"
definition buildinfo_BuildTime :: string where "buildinfo_BuildTime = ''unknown''"

text \<open>A binary built without its commit never claims to be up to date, nor that an update is due.\<close>

lemma unknown_build_Check:
  assumes "updater_Check (updater_NewService enabled cfg buildinfo_Version buildinfo_Commit uri_ok stamp) w = (Inr result, w')"
  shows "ck_Status result = ''unknown'' \<and> \<not> ck_UpToDate result \<and> \<not> ck_UpdateAvailable result
    \<and> ck_CurrentVersion result = buildinfo_Version"
proof -
  have "ToLower (TrimSpace buildinfo_Commit) = ''unknown''" "\<not> looksLikeCommit ''unknown''"
    "TrimSpace buildinfo_Version = buildinfo_Version" by code_simp+
  then show ?thesis using assms
    by (auto simp: updater_Check_def updater_NewService_def Let_def split: if_splits option.splits sum.splits prod.splits)
qed

end
