(* ===== verification/MemoryStore.thy ===== *)
theory MemoryStore
  imports Store
begin

text \<open>
  \<open>internal/store/memory\<close>: a store of sites in memory, which nothing of the program uses any more.  Its
  state is the slice of sites; the lock around each operation makes it one step.  Unlike the file
  repository it refuses nothing, so it gives none of the guarantees of an \<open>indexed_table\<close>.
\<close>

type_synonym SiteStore = "Site list"

definition memory_NewSiteStore :: SiteStore where
  "memory_NewSiteStore = []"

definition memory_CreateSite :: "Site \<Rightarrow> SiteStore \<Rightarrow> 'e option \<times> SiteStore" where
  "memory_CreateSite site s = (None, s @ [site])"

definition memory_ListSites :: "SiteStore \<Rightarrow> 'e + Site list" where
  "memory_ListSites s = Inr s"

lemmas memory_defs = memory_NewSiteStore_def memory_CreateSite_def memory_ListSites_def

text \<open>Sites are listed in the order of their creation, all of them, equal identifiers included.\<close>

lemma memory_lists_history:
  "memory_ListSites (fold (\<lambda>site s. snd (memory_CreateSite site s)) sites memory_NewSiteStore) = Inr sites"
proof -
  have "fold (\<lambda>site s. snd (memory_CreateSite site s)) sites s = s @ sites" for s
    by (induction sites arbitrary: s) (simp_all add: memory_defs)
  then show ?thesis by (simp add: memory_defs)
qed

end
